(* ===== verification/Capi_Prelude.thy ===== *)
theory Capi_Prelude
  imports Complex_Main "HOL-Library.AList" "HOL-Library.Sublist"
begin

section \<open>Shared vocabulary: Go errors, strings, maps and the error-state monad\<close>

text \<open>
  What every component of the model shares.  Strings are byte strings, as in Go.  A Go
  \<open>map[string]string\<close> is an association list with distinct keys whose order is the iteration
  order, which Go leaves open: a theorem about every list is a theorem about every order.  A nil
  map and an empty map are the same list; the code never tells them apart other than by making a
  nil map before it writes to it.

  An error is a value that keeps the format string and the arguments of the \<open>fmt.Errorf\<close> call
  that made it, so that an error of the model reads as its call in the source, and
  \<open>errors.Is\<close> looks through the \<open>%w\<close> arguments only.  A Go function that talks to the
  outside and returns \<open>(value, error)\<close> is a function of the state to a sum and a new state.
\<close>

named_theorems go_simps \<open>unfolding of the error-state monad on a concrete state\<close>

subsection \<open>Errors\<close>

text \<open>The sentinel errors of the packages capi and handlers.\<close>

datatype sentinel =
    ErrReadOnly
  | ErrManagedResource
  | ErrDeletionPrevented
  | ErrCredentialExport
  | ErrNoBearerToken
  | ErrNoCallerIdentity

text \<open>
  The classes of API errors the code asks about (\<open>apierrors.IsNotFound\<close>,
  \<open>IsAlreadyExists\<close>, \<open>IsTooManyRequests\<close>); every other error of a call is \<open>OtherReason\<close>.
\<close>

datatype reason = NotFound | AlreadyExists | TooManyRequests | OtherReason

text \<open>
  Arguments of a format, by the verb they appear under: \<open>%s\<close>, \<open>%q\<close>, \<open>%d\<close>, \<open>%v\<close> of a
  string list, of a map and of an error, and \<open>%w\<close> of a wrapped error.
\<close>

datatype goerr =
    Sentinel sentinel
  | ApiErr reason string
  | Errorf string "goarg list"
and goarg = Fs string | Fq string | Fd int | Fv "string list"
  | Fm "(string \<times> string) list" | Fe goerr | Fw goerr

text \<open>The chain of errors that unwrapping visits, outermost first.\<close>

fun unwrap_chain :: "goerr \<Rightarrow> goerr list" and unwrap_args :: "goarg list \<Rightarrow> goerr list" where
  "unwrap_chain (Errorf f as) = Errorf f as # unwrap_args as"
| "unwrap_chain e = [e]"
| "unwrap_args [] = []"
| "unwrap_args (Fw e # as) = unwrap_chain e @ unwrap_args as"
| "unwrap_args (_ # as) = unwrap_args as"

text \<open>\<open>errors.Is\<close> against a sentinel, and the three questions about API errors.\<close>

definition errorsIs :: "goerr \<Rightarrow> sentinel \<Rightarrow> bool" where
  "errorsIs e t \<longleftrightarrow> List.member (unwrap_chain e) (Sentinel t)"

fun hasReason :: "reason \<Rightarrow> goerr \<Rightarrow> bool" where
  "hasReason r (ApiErr r' _) = (r = r')"
| "hasReason r _ = False"

lemma errorsIs_simps [simp]:
  "errorsIs (Sentinel t') t = (t = t')"
  "errorsIs (ApiErr r m) t = False"
  "errorsIs (Errorf f []) t = False"
  "errorsIs (Errorf f (Fs x # as)) t = errorsIs (Errorf f as) t"
  "errorsIs (Errorf f (Fq x # as)) t = errorsIs (Errorf f as) t"
  "errorsIs (Errorf f (Fd i # as)) t = errorsIs (Errorf f as) t"
  "errorsIs (Errorf f (Fv xs # as)) t = errorsIs (Errorf f as) t"
  "errorsIs (Errorf f (Fm kv # as)) t = errorsIs (Errorf f as) t"
  "errorsIs (Errorf f (Fe e # as)) t = errorsIs (Errorf f as) t"
  "errorsIs (Errorf f (Fw e # as)) t = (errorsIs e t \<or> errorsIs (Errorf f as) t)"
  by (auto simp: errorsIs_def)

subsection \<open>Strings\<close>

text \<open>\<open>strings.ToLower\<close> and \<open>strings.EqualFold\<close> on ASCII bytes; \<open>strings.Join\<close>.\<close>

definition lower_char :: "char \<Rightarrow> char" where
  "lower_char c = (if 65 \<le> (of_char c :: nat) \<and> (of_char c :: nat) \<le> 90
     then char_of ((of_char c :: nat) + 32) else c)"

definition ToLower :: "string \<Rightarrow> string" where
  "ToLower s = map lower_char s"

definition EqualFold :: "string \<Rightarrow> string \<Rightarrow> bool" where
  "EqualFold a b \<longleftrightarrow> ToLower a = ToLower b"

fun Join :: "string list \<Rightarrow> string \<Rightarrow> string" where
  "Join [] sep = ''''"
| "Join [x] sep = x"
| "Join (x # xs) sep = x @ sep @ Join xs sep"

text \<open>\<open>%d\<close> of a number.\<close>

fun nat_string :: "nat \<Rightarrow> string" where
  "nat_string n = (if n < 10 then [char_of (48 + n)]
     else nat_string (n div 10) @ [char_of (48 + n mod 10)])"

declare nat_string.simps [simp del]

definition int_string :: "int \<Rightarrow> string" where
  "int_string i = (if i < 0 then ''-'' @ nat_string (nat (- i)) else nat_string (nat i))"

text \<open>\<open>\n\<close>.\<close>

definition nl :: string where
  "nl = [char_of (10 :: nat)]"

text \<open>
  A value decoded from JSON, Go's \<open>interface{}\<close> after \<open>json.Unmarshal\<close>.  A number is the
  rational its float64 denotes.
\<close>

datatype json =
    JNull
  | JBool bool
  | JNum rat
  | JStr string
  | JArr "json list"
  | JObj "(string \<times> json) list"

subsection \<open>Maps from strings\<close>

type_synonym 'v gomap = "(string \<times> 'v) list"
type_synonym smap = "string gomap"

text \<open>\<open>m[k]\<close> with the zero value for a missing key, and the comma-ok form.\<close>

definition mget :: "smap \<Rightarrow> string \<Rightarrow> string" where
  "mget m k = (case map_of m k of None \<Rightarrow> '''' | Some v \<Rightarrow> v)"

definition mhas :: "'v gomap \<Rightarrow> string \<Rightarrow> bool" where
  "mhas m k = (case map_of m k of None \<Rightarrow> False | Some _ \<Rightarrow> True)"

lemma mhas_iff [simp]: "mhas m k \<longleftrightarrow> k \<in> dom (map_of m)"
  by (auto simp: mhas_def split: option.splits)

lemma mget_update [simp]:
  "mget (AList.update k v m) k' = (if k' = k then v else mget m k')"
  by (simp add: mget_def update_conv')

lemma mget_delete [simp]:
  "mget (AList.delete k m) k' = (if k' = k then '''' else mget m k')"
  by (simp add: mget_def delete_conv')

subsection \<open>The error-state monad\<close>

type_synonym ('s, 'a) go = "'s \<Rightarrow> (goerr + 'a) \<times> 's"

definition retE :: "'a \<Rightarrow> ('s, 'a) go" where
  "retE x = (\<lambda>s. (Inr x, s))"

definition failE :: "goerr \<Rightarrow> ('s, 'a) go" where
  "failE e = (\<lambda>s. (Inl e, s))"

definition bindE :: "('s, 'a) go \<Rightarrow> ('a \<Rightarrow> ('s, 'b) go) \<Rightarrow> ('s, 'b) go" where
  "bindE m f = (\<lambda>s. case m s of (Inl e, t) \<Rightarrow> (Inl e, t) | (Inr x, t) \<Rightarrow> f x t)"

text \<open>\<open>if err != nil { return ..., wrap(err) }\<close>.\<close>

definition wrapE :: "(goerr \<Rightarrow> goerr) \<Rightarrow> ('s, 'a) go \<Rightarrow> ('s, 'a) go" where
  "wrapE w m = (\<lambda>s. case m s of (Inl e, t) \<Rightarrow> (Inl (w e), t) | (Inr x, t) \<Rightarrow> (Inr x, t))"

text \<open>A pure check that returns an error or nil.\<close>

definition checkE :: "goerr option \<Rightarrow> ('s, unit) go" where
  "checkE r = (case r of None \<Rightarrow> retE () | Some e \<Rightarrow> failE e)"

text \<open>\<open>x, err := m\<close> where the code goes on with both.\<close>

definition tryE :: "('s, 'a) go \<Rightarrow> ('s, goerr + 'a) go" where
  "tryE m = (\<lambda>s. case m s of (r, t) \<Rightarrow> (Inr r, t))"

text \<open>A loop over a list whose body may return an error out of it.\<close>

primrec forE :: "'x list \<Rightarrow> ('x \<Rightarrow> ('s, unit) go) \<Rightarrow> ('s, unit) go" where
  "forE [] f = retE ()"
| "forE (x # xs) f = bindE (f x) (\<lambda>_. forE xs f)"

lemma monad_simps [simp]:
  "bindE (retE x) f = f x"
  "bindE (failE e) f = failE e"
  "wrapE w (retE x) = retE x"
  "wrapE w (failE e) = failE (w e)"
  "checkE None = retE ()"
  "checkE (Some e) = failE e"
  "tryE (retE x) = retE (Inr x)"
  "tryE (failE e) = retE (Inl e)"
  by (simp_all add: bindE_def retE_def failE_def wrapE_def checkE_def tryE_def fun_eq_iff)

lemma bindE_assoc: "bindE (bindE m f) g = bindE m (\<lambda>x. bindE (f x) g)"
  by (auto simp: bindE_def fun_eq_iff split: prod.splits sum.splits)

lemmas monad_unfold [go_simps] =
  bindE_def retE_def failE_def wrapE_def checkE_def tryE_def

lemma bindE_Inl [go_simps]: "m s = (Inl e, t) \<Longrightarrow> bindE m f s = (Inl e, t)"
  by (simp add: bindE_def)

lemma bindE_Inr [go_simps]: "m s = (Inr x, t) \<Longrightarrow> bindE m f s = f x t"
  by (simp add: bindE_def)

lemma bindE_InrD:
  assumes "bindE m f s = (Inr y, u)"
  obtains x t where "m s = (Inr x, t)" and "f x t = (Inr y, u)"
  using assms by (auto simp: bindE_def split: prod.splits sum.splits)

lemma bindE_cases:
  assumes "bindE m f s = (r, t)"
  obtains (err) e where "m s = (Inl e, t)" and "r = Inl e"
    | (ok) x u where "m s = (Inr x, u)" and "f x u = (r, t)"
  using assms by (auto simp: bindE_def split: prod.splits sum.splits)

lemma wrapE_cases:
  assumes "wrapE w m s = (r, t)"
  obtains (err) e where "m s = (Inl e, t)" and "r = Inl (w e)"
    | (ok) x where "m s = (Inr x, t)" and "r = Inr x"
  using assms by (auto simp: wrapE_def split: prod.splits sum.splits)

lemma tryE_cases:
  assumes "tryE m s = (r, t)"
  obtains x where "m s = (x, t)" and "r = Inr x"
  using assms by (auto simp: tryE_def split: prod.splits)

lemma run_simps [simp]:
  "retE x s = (r, t) \<longleftrightarrow> r = Inr x \<and> t = s"
  "failE e s = (r', t) \<longleftrightarrow> r' = Inl e \<and> t = s"
  by (auto simp: retE_def failE_def)

end
