(* ===== verification/Capi_Policy.thy ===== *)
theory Capi_Policy
  imports Capi_Prelude
begin

section \<open>The write policy (pkg/capi/policy.go)\<close>

text \<open>
  Which mutating call may reach the API server, and whether a workload cluster's credentials may
  leave it.  \<open>ManagedBy\<close> reads the ownership markers of an object; \<open>CheckCreate\<close>,
  \<open>CheckUpdate\<close>, \<open>CheckDelete\<close> and \<open>CheckCredentialExport\<close> return the error of a refusal,
  or \<open>None\<close> for Go's nil.  The locale \<open>write_gate\<close> is what the client operations rely on.
\<close>

named_theorems policy_simps \<open>the decisions of the write policy\<close>

subsection \<open>Data\<close>

text \<open>The metadata the code reads through \<open>metav1.Object\<close> and \<open>metav1.ObjectMeta\<close>.\<close>

record owner_ref =
  RefKind :: string
  RefName :: string
  RefController :: bool

record objmeta =
  Name :: string
  Namespace :: string
  UID :: string
  CreationTimestamp :: string
  Labels :: smap
  Annotations :: smap
  OwnerReferences :: "owner_ref list"

record WritePolicy =
  ReadOnly :: bool
  GitOpsGuard :: bool
  ExposeKubeconfig :: bool

record Owner =
  OwnerKind :: string
  OwnerName :: string
  Marker :: string
  Advice :: string

definition fluxKustomizationNameLabel :: string where
  "fluxKustomizationNameLabel = ''kustomize.toolkit.fluxcd.io/name''"
definition fluxKustomizationNamespaceLabel :: string where
  "fluxKustomizationNamespaceLabel = ''kustomize.toolkit.fluxcd.io/namespace''"
definition fluxHelmReleaseNameLabel :: string where
  "fluxHelmReleaseNameLabel = ''helm.toolkit.fluxcd.io/name''"
definition fluxHelmReleaseNamespaceLabel :: string where
  "fluxHelmReleaseNamespaceLabel = ''helm.toolkit.fluxcd.io/namespace''"
definition argoInstanceLabel :: string where
  "argoInstanceLabel = ''argocd.argoproj.io/instance''"
definition argoTrackingAnnotation :: string where
  "argoTrackingAnnotation = ''argocd.argoproj.io/tracking-id''"
definition helmReleaseNameAnnotation :: string where
  "helmReleaseNameAnnotation = ''meta.helm.sh/release-name''"
definition helmReleaseNamespaceAnnotation :: string where
  "helmReleaseNamespaceAnnotation = ''meta.helm.sh/release-namespace''"
definition managedByLabel :: string where
  "managedByLabel = ''app.kubernetes.io/managed-by''"
definition managedByHelm :: string where
  "managedByHelm = ''Helm''"
definition PreventDeletionLabel :: string where
  "PreventDeletionLabel = ''giantswarm.io/prevent-deletion''"

lemmas marker_defs =
  fluxKustomizationNameLabel_def fluxKustomizationNamespaceLabel_def
  fluxHelmReleaseNameLabel_def fluxHelmReleaseNamespaceLabel_def
  argoInstanceLabel_def argoTrackingAnnotation_def
  helmReleaseNameAnnotation_def helmReleaseNamespaceAnnotation_def
  managedByLabel_def managedByHelm_def PreventDeletionLabel_def

subsection \<open>Ownership\<close>

definition qualified_name :: "string \<Rightarrow> string \<Rightarrow> string" where
  "qualified_name namespace name = (if namespace = '''' then name else namespace @ ''/'' @ name)"

text \<open>\<open>func (o Owner) String()\<close>.\<close>

definition owner_string :: "Owner \<Rightarrow> string" where
  "owner_string ow =
     (if OwnerName ow = '''' then OwnerKind ow @ '' ('' @ Marker ow @ '')''
      else OwnerKind ow @ '' '' @ OwnerName ow @ '' ('' @ Marker ow @ '')'')"

definition ManagedBy :: "objmeta \<Rightarrow> Owner option" where
  "ManagedBy obj = (let labels = Labels obj; annotations = Annotations obj in
     if mget labels fluxKustomizationNameLabel \<noteq> '''' then
       Some \<lparr>OwnerKind = ''Flux Kustomization'',
         OwnerName = qualified_name (mget labels fluxKustomizationNamespaceLabel)
                       (mget labels fluxKustomizationNameLabel),
         Marker = ''label '' @ fluxKustomizationNameLabel,
         Advice = ''change the manifests in the Kustomization's Git source''\<rparr>
     else if mget labels fluxHelmReleaseNameLabel \<noteq> '''' then
       Some \<lparr>OwnerKind = ''Flux HelmRelease'',
         OwnerName = qualified_name (mget labels fluxHelmReleaseNamespaceLabel)
                       (mget labels fluxHelmReleaseNameLabel),
         Marker = ''label '' @ fluxHelmReleaseNameLabel,
         Advice = ''change the HelmRelease values in Git''\<rparr>
     else if mget labels argoInstanceLabel \<noteq> '''' then
       Some \<lparr>OwnerKind = ''Argo CD Application'',
         OwnerName = mget labels argoInstanceLabel,
         Marker = ''label '' @ argoInstanceLabel,
         Advice = ''change the manifests in the Application's Git source''\<rparr>
     else if mget annotations argoTrackingAnnotation \<noteq> '''' then
       Some \<lparr>OwnerKind = ''Argo CD Application'',
         OwnerName = mget annotations argoTrackingAnnotation,
         Marker = ''annotation '' @ argoTrackingAnnotation,
         Advice = ''change the manifests in the Application's Git source''\<rparr>
     else if mget annotations helmReleaseNameAnnotation \<noteq> '''' then
       Some \<lparr>OwnerKind = ''Helm release'',
         OwnerName = qualified_name (mget annotations helmReleaseNamespaceAnnotation)
                       (mget annotations helmReleaseNameAnnotation),
         Marker = ''annotation '' @ helmReleaseNameAnnotation,
         Advice = ''change the release values (the App or HelmRelease in Git)''\<rparr>
     else if mget labels managedByLabel = managedByHelm then
       Some \<lparr>OwnerKind = ''Helm release'', OwnerName = '''',
         Marker = ''label '' @ managedByLabel @ ''='' @ managedByHelm,
         Advice = ''change the release values (the App or HelmRelease in Git)''\<rparr>
     else None)"

subsection \<open>The checks\<close>

definition CheckCredentialExport ::
  "WritePolicy \<Rightarrow> string \<Rightarrow> string \<Rightarrow> string \<Rightarrow> goerr option" where
  "CheckCredentialExport p what namespace name =
     (if ExposeKubeconfig p then None
      else Some (Errorf ''refusing to export %s of Cluster %s: %w (start the server with --expose-kubeconfig to allow it)''
        [Fs what, Fs (qualified_name namespace name), Fw (Sentinel ErrCredentialExport)]))"

definition CheckCreate :: "WritePolicy \<Rightarrow> string \<Rightarrow> string \<Rightarrow> string \<Rightarrow> goerr option" where
  "CheckCreate p kind namespace name =
     (if ReadOnly p then
        Some (Errorf ''refusing to create %s %s: %w (start the server with --read-only=false to allow mutating tools)''
          [Fs kind, Fs (qualified_name namespace name), Fw (Sentinel ErrReadOnly)])
      else None)"

definition policy_check :: "WritePolicy \<Rightarrow> string \<Rightarrow> string \<Rightarrow> objmeta \<Rightarrow> goerr option" where
  "policy_check p verb kind obj =
     (let target = kind @ '' '' @ qualified_name (Namespace obj) (Name obj) in
      if ReadOnly p then
        Some (Errorf ''refusing to %s %s: %w (start the server with --read-only=false to allow mutating tools)''
          [Fs verb, Fs target, Fw (Sentinel ErrReadOnly)])
      else if \<not> GitOpsGuard p then None
      else (case ManagedBy obj of
          None \<Rightarrow> None
        | Some ow \<Rightarrow>
            Some (Errorf ''refusing to %s %s: %w: it is owned by %s and a direct change would be reverted on the next reconciliation; %s''
              [Fs verb, Fs target, Fw (Sentinel ErrManagedResource), Fs (owner_string ow),
               Fs (Advice ow)])))"

definition CheckUpdate :: "WritePolicy \<Rightarrow> string \<Rightarrow> objmeta \<Rightarrow> goerr option" where
  "CheckUpdate p kind obj = policy_check p ''update'' kind obj"

definition CheckDelete :: "WritePolicy \<Rightarrow> string \<Rightarrow> objmeta \<Rightarrow> goerr option" where
  "CheckDelete p kind obj =
     (case policy_check p ''delete'' kind obj of
        Some e \<Rightarrow> Some e
      | None \<Rightarrow>
          if mhas (Labels obj) PreventDeletionLabel then
            Some (Errorf ''refusing to delete %s %s: %w (label %s is set; remove it first if the deletion is intended)''
              [Fs kind, Fs (qualified_name (Namespace obj) (Name obj)), Fw (Sentinel ErrDeletionPrevented),
               Fs PreventDeletionLabel])
          else None)"

subsection \<open>An ordered table of markers as the reference for ManagedBy\<close>

text \<open>
  The comment of \<open>ManagedBy\<close> promises that the first marker found wins, most specific first.
  The table below is that order; a marker is found when its label or annotation has a non-empty
  value (for the last one, the value \<open>Helm\<close>).
\<close>

datatype marker = KustomizationMarker | HelmReleaseMarker | ArgoLabelMarker
  | ArgoAnnotationMarker | HelmAnnotationMarker | HelmLabelMarker

definition marker_order :: "marker list" where
  "marker_order = [KustomizationMarker, HelmReleaseMarker, ArgoLabelMarker,
     ArgoAnnotationMarker, HelmAnnotationMarker, HelmLabelMarker]"

text \<open>The place of a marker in the order; a more specific marker is smaller.\<close>

fun marker_rank :: "marker \<Rightarrow> nat" where
  "marker_rank KustomizationMarker = 0"
| "marker_rank HelmReleaseMarker = 1"
| "marker_rank ArgoLabelMarker = 2"
| "marker_rank ArgoAnnotationMarker = 3"
| "marker_rank HelmAnnotationMarker = 4"
| "marker_rank HelmLabelMarker = 5"

lemma marker_rank_inj: "marker_rank m = marker_rank m' \<Longrightarrow> m = m'"
  by (cases m; cases m') simp_all

instantiation marker :: linorder
begin

definition less_eq_marker :: "marker \<Rightarrow> marker \<Rightarrow> bool" where
  "less_eq_marker m m' \<longleftrightarrow> marker_rank m \<le> marker_rank m'"

definition less_marker :: "marker \<Rightarrow> marker \<Rightarrow> bool" where
  "less_marker m m' \<longleftrightarrow> marker_rank m < marker_rank m'"

instance
  by standard (auto simp: less_eq_marker_def less_marker_def dest: marker_rank_inj)

end

lemma marker_order_sorted: "sorted marker_order" "set marker_order = UNIV"
proof -
  show "sorted marker_order" by (simp add: marker_order_def less_eq_marker_def)
  show "set marker_order = UNIV"
    using marker.exhaust by (auto simp: marker_order_def)
qed

fun marker_value :: "objmeta \<Rightarrow> marker \<Rightarrow> string" where
  "marker_value obj KustomizationMarker = mget (Labels obj) fluxKustomizationNameLabel"
| "marker_value obj HelmReleaseMarker = mget (Labels obj) fluxHelmReleaseNameLabel"
| "marker_value obj ArgoLabelMarker = mget (Labels obj) argoInstanceLabel"
| "marker_value obj ArgoAnnotationMarker = mget (Annotations obj) argoTrackingAnnotation"
| "marker_value obj HelmAnnotationMarker = mget (Annotations obj) helmReleaseNameAnnotation"
| "marker_value obj HelmLabelMarker =
     (if mget (Labels obj) managedByLabel = managedByHelm then managedByHelm else '''')"

fun marker_kind :: "marker \<Rightarrow> string" where
  "marker_kind KustomizationMarker = ''Flux Kustomization''"
| "marker_kind HelmReleaseMarker = ''Flux HelmRelease''"
| "marker_kind ArgoLabelMarker = ''Argo CD Application''"
| "marker_kind ArgoAnnotationMarker = ''Argo CD Application''"
| "marker_kind HelmAnnotationMarker = ''Helm release''"
| "marker_kind HelmLabelMarker = ''Helm release''"

fun marker_name :: "objmeta \<Rightarrow> marker \<Rightarrow> string" where
  "marker_name obj KustomizationMarker =
     qualified_name (mget (Labels obj) fluxKustomizationNamespaceLabel) (marker_value obj KustomizationMarker)"
| "marker_name obj HelmReleaseMarker =
     qualified_name (mget (Labels obj) fluxHelmReleaseNamespaceLabel) (marker_value obj HelmReleaseMarker)"
| "marker_name obj HelmAnnotationMarker =
     qualified_name (mget (Annotations obj) helmReleaseNamespaceAnnotation) (marker_value obj HelmAnnotationMarker)"
| "marker_name obj HelmLabelMarker = ''''"
| "marker_name obj m = marker_value obj m"

definition first_marker :: "objmeta \<Rightarrow> marker option" where
  "first_marker obj = find (\<lambda>m. marker_value obj m \<noteq> '''') marker_order"

lemma find_least:
  assumes "sorted xs"
  shows "find P xs = (if {x \<in> set xs. P x} = {} then None else Some (Min {x \<in> set xs. P x}))"
  using assms
proof (induction xs)
  case (Cons x xs)
  show ?case
  proof (cases "P x")
    case True
    with Cons.prems have "Min {y \<in> set (x # xs). P y} = x"
      by (intro Min_eqI) auto
    with True show ?thesis by auto
  next
    case False
    then have "{y \<in> set (x # xs). P y} = {y \<in> set xs. P y}" by auto
    with False Cons show ?thesis by simp
  qed
qed simp

lemma managed_by_markers:
  "map_option (\<lambda>ow. (OwnerKind ow, OwnerName ow)) (ManagedBy obj)
     = map_option (\<lambda>m. (marker_kind m, marker_name obj m)) (first_marker obj)"
  by (simp add: ManagedBy_def first_marker_def marker_order_def Let_def managedByHelm_def)

lemma managed_iff_marker:
  "ManagedBy obj = None \<longleftrightarrow> (\<forall>m. marker_value obj m = '''')"
proof -
  have "ManagedBy obj = None \<longleftrightarrow> first_marker obj = None"
    using managed_by_markers [of obj] by (cases "ManagedBy obj"; cases "first_marker obj") auto
  also have "\<dots> \<longleftrightarrow> (\<forall>m \<in> set marker_order. marker_value obj m = '''')"
    by (auto simp: first_marker_def find_None_iff)
  finally show ?thesis by (simp add: marker_order_sorted)
qed

text \<open>The advice and the marker of an owner are never empty.\<close>

lemma owner_text_nonempty:
  "ManagedBy obj = Some ow \<Longrightarrow> Marker ow \<noteq> '''' \<and> Advice ow \<noteq> ''''"
  by (auto simp: ManagedBy_def Let_def split: if_splits)

subsection \<open>The abstract policy\<close>

text \<open>
  What a refusal is about, without its text: the sentinel \<open>errors.Is\<close> finds.  The abstract
  decisions say which class of refusal each request gets, in the order the checks apply.
\<close>

definition all_sentinels :: "sentinel list" where
  "all_sentinels = [ErrReadOnly, ErrManagedResource, ErrDeletionPrevented, ErrCredentialExport,
     ErrNoBearerToken, ErrNoCallerIdentity]"

definition refusal :: "goerr option \<Rightarrow> sentinel option" where
  "refusal r = (case r of None \<Rightarrow> None | Some e \<Rightarrow> find (errorsIs e) all_sentinels)"

definition managed :: "objmeta \<Rightarrow> bool" where
  "managed obj \<longleftrightarrow> first_marker obj \<noteq> None"

definition protected :: "objmeta \<Rightarrow> bool" where
  "protected obj \<longleftrightarrow> mhas (Labels obj) PreventDeletionLabel"

definition spec_update :: "WritePolicy \<Rightarrow> objmeta \<Rightarrow> sentinel option" where
  "spec_update p obj =
     (if ReadOnly p then Some ErrReadOnly
      else if GitOpsGuard p \<and> managed obj then Some ErrManagedResource
      else None)"

definition spec_delete :: "WritePolicy \<Rightarrow> objmeta \<Rightarrow> sentinel option" where
  "spec_delete p obj =
     (case spec_update p obj of Some t \<Rightarrow> Some t
      | None \<Rightarrow> if protected obj then Some ErrDeletionPrevented else None)"

definition spec_create :: "WritePolicy \<Rightarrow> sentinel option" where
  "spec_create p = (if ReadOnly p then Some ErrReadOnly else None)"

definition spec_export :: "WritePolicy \<Rightarrow> sentinel option" where
  "spec_export p = (if ExposeKubeconfig p then None else Some ErrCredentialExport)"

lemma managed_iff: "managed obj \<longleftrightarrow> ManagedBy obj \<noteq> None"
  using managed_by_markers [of obj] unfolding managed_def
  by (cases "ManagedBy obj"; cases "first_marker obj") auto

lemma policy_check_None_iff [policy_simps]:
  "policy_check p v k obj = None \<longleftrightarrow> \<not> ReadOnly p \<and> \<not> (GitOpsGuard p \<and> managed obj)"
  by (auto simp: policy_check_def Let_def managed_iff split: option.splits)

lemma refusal_policy_check: "refusal (policy_check p v k obj) = spec_update p obj"
  by (auto simp: policy_check_def Let_def refusal_def spec_update_def managed_iff all_sentinels_def
      split: option.splits)

lemma CheckUpdate_None_iff [policy_simps]:
  "CheckUpdate p k obj = None \<longleftrightarrow> \<not> ReadOnly p \<and> \<not> (GitOpsGuard p \<and> managed obj)"
  by (simp add: CheckUpdate_def policy_check_None_iff)

lemma CheckDelete_None_iff [policy_simps]:
  "CheckDelete p k obj = None \<longleftrightarrow>
     \<not> ReadOnly p \<and> \<not> (GitOpsGuard p \<and> managed obj) \<and> \<not> protected obj"
  using policy_check_None_iff [of p "''delete''" k obj]
  by (auto simp: CheckDelete_def protected_def split: option.splits)

lemma CheckCreate_None_iff [policy_simps]: "CheckCreate p k ns n = None \<longleftrightarrow> \<not> ReadOnly p"
  by (simp add: CheckCreate_def)

lemma refusal_update: "refusal (CheckUpdate p k obj) = spec_update p obj"
  by (simp add: CheckUpdate_def refusal_policy_check)

lemma refusal_delete: "refusal (CheckDelete p k obj) = spec_delete p obj"
proof (cases "policy_check p ''delete'' k obj")
  case None
  with refusal_policy_check [of p "''delete''" k obj] have "spec_update p obj = None"
    by (simp add: refusal_def)
  with None show ?thesis
    by (simp add: CheckDelete_def spec_delete_def protected_def refusal_def all_sentinels_def)
next
  case (Some e)
  then have "spec_update p obj \<noteq> None"
    using policy_check_None_iff [of p "''delete''" k obj] by (auto simp: spec_update_def)
  with Some refusal_policy_check [of p "''delete''" k obj] show ?thesis
    by (auto simp: CheckDelete_def spec_delete_def)
qed

lemma refusal_create: "refusal (CheckCreate p k ns n) = spec_create p"
  by (simp add: CheckCreate_def spec_create_def refusal_def all_sentinels_def)

lemma refusal_export: "refusal (CheckCredentialExport p w ns n) = spec_export p"
  by (simp add: CheckCredentialExport_def spec_export_def refusal_def all_sentinels_def)

subsection \<open>The interface the client operations rely on\<close>

text \<open>
  A gate decides on the kind and the metadata of an existing object.  A gated operation needs to
  know two things: a read-only policy refuses everything, and under the GitOps guard an object
  with an owner is refused.  A delete gate also refuses a protected object, whatever the policy.
\<close>

locale write_gate =
  fixes gate :: "WritePolicy \<Rightarrow> string \<Rightarrow> objmeta \<Rightarrow> goerr option"
  assumes gate_read_only: "ReadOnly p \<Longrightarrow> refusal (gate p k obj) = Some ErrReadOnly"
    and gate_managed: "\<not> ReadOnly p \<Longrightarrow> GitOpsGuard p \<Longrightarrow> managed obj \<Longrightarrow>
      refusal (gate p k obj) = Some ErrManagedResource"
begin

lemma gate_refuses:
  assumes "ReadOnly p \<or> GitOpsGuard p \<and> managed obj"
  shows "\<exists>e. gate p k obj = Some e"
  using assms gate_read_only [of p k obj] gate_managed [of p obj k]
  by (cases "gate p k obj") (auto simp: refusal_def)

lemma gate_passes:
  "gate p k obj = None \<Longrightarrow> \<not> ReadOnly p \<and> \<not> (GitOpsGuard p \<and> managed obj)"
  using gate_refuses [of p obj k] by auto

end

locale delete_gate = write_gate +
  assumes gate_protected: "protected obj \<Longrightarrow> gate p k obj \<noteq> None"
begin

lemma delete_gate_passes: "gate p k obj = None \<Longrightarrow> \<not> protected obj"
  using gate_protected by blast

end

interpretation update_gate: write_gate CheckUpdate
  by unfold_locales (auto simp: refusal_update spec_update_def)

interpretation remove_gate: delete_gate CheckDelete
  by unfold_locales (auto simp: refusal_delete spec_delete_def spec_update_def policy_simps)

subsection \<open>Properties\<close>

text \<open>
  The owner an object is reported to have is the one of the most specific marker it carries,
  in the order Flux Kustomization, Flux HelmRelease, Argo CD label, Argo CD annotation, Helm
  annotation, Helm label; an object with none of the markers has no owner.
\<close>

theorem managed_by_most_specific_marker:
  "map_option (\<lambda>ow. (OwnerKind ow, OwnerName ow)) (ManagedBy obj) =
     (let present = {m. marker_value obj m \<noteq> ''''} in
      if present = {} then None else Some (marker_kind (Min present), marker_name obj (Min present)))"
  unfolding managed_by_markers first_marker_def find_least [OF marker_order_sorted(1)]
  by (simp add: marker_order_sorted Let_def)


end
