(* ===== verification/Capi_Kube.thy ===== *)
theory Capi_Kube
  imports Capi_Policy "HOL-Library.Word"
begin

section \<open>The API server as a parameter, the client and its traced calls\<close>

text \<open>
  The Kubernetes API server and the libraries that talk to it are not part of the repository: they
  are the record \<open>kube\<close>, a parameter of every client operation, with one record of operations
  per resource kind.  Nothing is assumed of them here.  Each operation may change an environment
  of any type (the server's state, other clients' writes, the passing of time).

  The objects carry the fields the code reads or writes.  Every request of a client is appended to
  a trace, so that a statement about what reaches the API server is one about the trace, whatever
  the server answers.  \<open>emits P m\<close> says that the requests \<open>m\<close> makes all satisfy \<open>P\<close>; its
  rules are the collection \<open>emits\<close>.
\<close>

named_theorems emits \<open>introduction rules for the requests an operation makes\<close>

subsection \<open>Objects\<close>

type_synonym int32 = "32 word"

record ObjectReference =
  Ref_Kind :: string
  Ref_Namespace :: string
  Ref_Name :: string
  Ref_APIVersion :: string
  Ref_UID :: string

record Condition =
  Cond_Type :: string
  Cond_Status :: string
  Cond_Severity :: string
  Cond_Reason :: string
  Cond_Message :: string

type_synonym Conditions = "Condition list"

text \<open>A topology variable: its name and the raw JSON of its value.\<close>

type_synonym ClusterVariable = "string \<times> string"

record MachineDeploymentTopology =
  MDT_Class :: string
  MDT_Name :: string
  MDT_Replicas :: "int32 option"
  MDT_Overrides :: "ClusterVariable list option"

record Topology =
  T_Class :: string
  T_Version :: string
  T_ControlPlaneReplicas :: "int32 option"
  T_Workers :: "MachineDeploymentTopology list option"
  T_Variables :: "ClusterVariable list"

record ClusterNetwork =
  CN_Pods :: "string list option"
  CN_Services :: "string list option"
  CN_ServiceDomain :: string

record Cluster =
  C_Meta :: objmeta
  C_Paused :: bool
  C_InfrastructureRef :: "ObjectReference option"
  C_ControlPlaneRef :: "ObjectReference option"
  C_ClusterNetwork :: "ClusterNetwork option"
  C_Topology :: "Topology option"
  C_Phase :: string
  C_ControlPlaneReady :: bool
  C_InfrastructureReady :: bool
  C_Conditions :: Conditions

record Machine =
  M_Meta :: objmeta
  M_ClusterName :: string
  M_Version :: "string option"
  M_ProviderID :: "string option"
  M_InfrastructureRef :: ObjectReference
  M_BootstrapRef :: "ObjectReference option"
  M_Phase :: string
  M_NodeRef :: "ObjectReference option"
  M_Conditions :: Conditions
  M_Addresses :: "(string \<times> string) list"

record MachineDeployment =
  MD_Meta :: objmeta
  MD_ClusterName :: string
  MD_Replicas :: "int32 option"
  MD_Selector :: smap
  MD_TemplateLabels :: smap
  MD_TemplateClusterName :: string
  MD_Version :: "string option"
  MD_InfrastructureRef :: ObjectReference
  MD_BootstrapRef :: "ObjectReference option"
  MD_NodeDrainTimeout :: "int option"
  MD_MinReadySeconds :: "int32 option"
  MD_RolloutAfter :: "int option"
  MD_Phase :: string
  MD_ReadyReplicas :: int32
  MD_UpdatedReplicas :: int32
  MD_AvailableReplicas :: int32

record MachineSet =
  MS_Meta :: objmeta
  MS_ClusterName :: string
  MS_Replicas :: "int32 option"
  MS_Version :: "string option"
  MS_InfrastructureRef :: ObjectReference
  MS_BootstrapRef :: "ObjectReference option"
  MS_CurrentReplicas :: int32
  MS_ReadyReplicas :: int32
  MS_AvailableReplicas :: int32
  MS_FailureReason :: "string option"
  MS_FailureMessage :: "string option"
  MS_Conditions :: Conditions

record KubeadmControlPlane =
  KCP_Meta :: objmeta
  KCP_Replicas :: "int32 option"
  KCP_Version :: string
  KCP_Ready :: bool
  KCP_StatusReplicas :: int32
  KCP_UnavailableReplicas :: int32

record ClusterClass =
  CC_Meta :: objmeta

text \<open>A resource quantity is kept as whether it is zero and how it prints.\<close>

record Quantity =
  Q_IsZero :: bool
  Q_String :: string

record NodeSystemInfo =
  NI_OperatingSystem :: string
  NI_OSImage :: string
  NI_KernelVersion :: string
  NI_ContainerRuntimeVersion :: string
  NI_KubeletVersion :: string
  NI_Architecture :: string

record NodeCondition =
  NC_Type :: string
  NC_Status :: string
  NC_Reason :: string
  NC_Message :: string

record Taint =
  Taint_Key :: string
  Taint_Value :: string
  Taint_Effect :: string

record Node =
  N_Meta :: objmeta
  N_Unschedulable :: bool
  N_ProviderID :: string
  N_NodeInfo :: NodeSystemInfo
  N_Capacity :: "Quantity gomap"
  N_Allocatable :: "Quantity gomap"
  N_Conditions :: "NodeCondition list"
  N_Addresses :: "(string \<times> string) list"
  N_Taints :: "Taint list"

text \<open>A volume of a pod is kept as whether it is an emptyDir.\<close>

record Pod =
  P_Meta :: objmeta
  P_NodeName :: string
  P_Phase :: string
  P_EmptyDirs :: "bool list"

record Secret =
  Sec_Meta :: objmeta
  Sec_Data :: smap
  Sec_StringData :: smap
  Sec_Type :: string

record ConfigMap =
  CM_Meta :: objmeta
  CM_Data :: smap

record ClusterResourceSet =
  CRS_Meta :: objmeta
  CRS_ClusterSelector :: smap
  CRS_Resources :: "(string \<times> string) list"
  CRS_Strategy :: string
  CRS_ObservedGeneration :: int
  CRS_Conditions :: Conditions

subsection \<open>The API server\<close>

record list_opts =
  InNamespace :: "string option"
  MatchingLabels :: smap
  OnNode :: "string option"

record ('w, 'o) resource =
  RGet :: "string \<Rightarrow> string \<Rightarrow> 'w \<Rightarrow> (goerr + 'o) \<times> 'w"
  RList :: "list_opts \<Rightarrow> 'w \<Rightarrow> (goerr + 'o list) \<times> 'w"
  RCreate :: "'o \<Rightarrow> 'w \<Rightarrow> (goerr + 'o) \<times> 'w"
  RUpdate :: "'o \<Rightarrow> 'w \<Rightarrow> (goerr + 'o) \<times> 'w"
  RDelete :: "'o \<Rightarrow> 'w \<Rightarrow> (goerr + unit) \<times> 'w"

text \<open>
  \<open>k_evict\<close> is the Eviction API (namespace, name, grace period), \<open>k_now\<close> is \<open>time.Now\<close> in
  seconds, \<open>k_timer\<close> starts a context that ends after the given nanoseconds, and \<open>k_poll\<close> is the
  \<open>select\<close> between that end and the poll interval: \<open>True\<close> when the interval passed first.
\<close>

record 'w kube =
  k_clusters :: "('w, Cluster) resource"
  k_machines :: "('w, Machine) resource"
  k_machinedeployments :: "('w, MachineDeployment) resource"
  k_machinesets :: "('w, MachineSet) resource"
  k_controlplanes :: "('w, KubeadmControlPlane) resource"
  k_clusterclasses :: "('w, ClusterClass) resource"
  k_nodes :: "('w, Node) resource"
  k_pods :: "('w, Pod) resource"
  k_secrets :: "('w, Secret) resource"
  k_configmaps :: "('w, ConfigMap) resource"
  k_resourcesets :: "('w, ClusterResourceSet) resource"
  k_evict :: "string \<Rightarrow> string \<Rightarrow> int option \<Rightarrow> 'w \<Rightarrow> (goerr + unit) \<times> 'w"
  k_now :: "'w \<Rightarrow> int \<times> 'w"
  k_timer :: "int \<Rightarrow> 'w \<Rightarrow> unit \<times> 'w"
  k_poll :: "'w \<Rightarrow> bool \<times> 'w"

text \<open>
  The client: the API server it talks to, its write policy, and the host of its REST configuration
  (\<open>None\<close> for a nil configuration).
\<close>

record 'w Client =
  Kube :: "'w kube"
  policy :: WritePolicy
  config_host :: "string option"

text \<open>\<open>WithWritePolicy\<close> and \<open>func (c *Client) WritePolicy()\<close>.\<close>

definition WithWritePolicy :: "WritePolicy \<Rightarrow> 'w Client \<Rightarrow> 'w Client" where
  "WithWritePolicy p c = c\<lparr>policy := p\<rparr>"

subsection \<open>Requests and their trace\<close>

datatype verb = VGet | VList | VCreate | VUpdate | VDelete | VEvict

datatype request = Request (rq_verb: verb) (rq_kind: string) (rq_namespace: string) (rq_name: string)

text \<open>What the process does on its own host: temporary files and subprocesses.\<close>

datatype local_event =
    CreateTemp string
  | WriteFile string string
  | CloseFile string
  | RemoveFile string
  | RunProcess string "string list" string

record 'w session =
  env :: 'w
  requests :: "request list"
  local_events :: "local_event list"

type_synonym ('w, 'a) io = "('w session, 'a) go"

fun verb_writes :: "verb \<Rightarrow> bool" where
  "verb_writes VGet = False"
| "verb_writes VList = False"
| "verb_writes _ = True"

definition is_write :: "request \<Rightarrow> bool" where
  "is_write r = verb_writes (rq_verb r)"

definition is_read :: "request \<Rightarrow> bool" where
  "is_read r = (\<not> verb_writes (rq_verb r))"

definition api :: "request \<Rightarrow> ('w \<Rightarrow> (goerr + 'a) \<times> 'w) \<Rightarrow> ('w, 'a) io" where
  "api rq f = (\<lambda>s. case f (env s) of
     (r, w) \<Rightarrow> (r, s\<lparr>env := w, requests := requests s @ [rq]\<rparr>))"

definition outside :: "('w \<Rightarrow> 'a \<times> 'w) \<Rightarrow> ('w, 'a) io" where
  "outside f = (\<lambda>s. case f (env s) of (x, w) \<Rightarrow> (Inr x, s\<lparr>env := w\<rparr>))"

definition on_host :: "('a \<Rightarrow> local_event list) \<Rightarrow> ('w \<Rightarrow> 'a \<times> 'w) \<Rightarrow> ('w, 'a) io" where
  "on_host ev f = (\<lambda>s. case f (env s) of
     (x, w) \<Rightarrow> (Inr x, s\<lparr>env := w, local_events := local_events s @ ev x\<rparr>))"

definition rget :: "('w, 'o) resource \<Rightarrow> string \<Rightarrow> string \<Rightarrow> string \<Rightarrow> ('w, 'o) io" where
  "rget r kind ns n = api (Request VGet kind ns n) (RGet r ns n)"

definition rlist :: "('w, 'o) resource \<Rightarrow> string \<Rightarrow> list_opts \<Rightarrow> ('w, 'o list) io" where
  "rlist r kind opts = api (Request VList kind
     (case InNamespace opts of None \<Rightarrow> '''' | Some ns \<Rightarrow> ns) '''') (RList r opts)"

definition rcreate ::
  "('w, 'o) resource \<Rightarrow> string \<Rightarrow> ('o \<Rightarrow> objmeta) \<Rightarrow> 'o \<Rightarrow> ('w, 'o) io" where
  "rcreate r kind meta x = api (Request VCreate kind (Namespace (meta x)) (Name (meta x))) (RCreate r x)"

definition rupdate ::
  "('w, 'o) resource \<Rightarrow> string \<Rightarrow> ('o \<Rightarrow> objmeta) \<Rightarrow> 'o \<Rightarrow> ('w, 'o) io" where
  "rupdate r kind meta x = api (Request VUpdate kind (Namespace (meta x)) (Name (meta x))) (RUpdate r x)"

definition rdelete ::
  "('w, 'o) resource \<Rightarrow> string \<Rightarrow> ('o \<Rightarrow> objmeta) \<Rightarrow> 'o \<Rightarrow> ('w, unit) io" where
  "rdelete r kind meta x = api (Request VDelete kind (Namespace (meta x)) (Name (meta x))) (RDelete r x)"

lemmas api_unfold [go_simps] =
  api_def outside_def on_host_def rget_def rlist_def rcreate_def rupdate_def rdelete_def

text \<open>The trace after each primitive.\<close>

named_theorems request_simps \<open>the trace after an operation\<close>

lemma requests_run [request_simps]:
  "requests (snd (retE x s)) = requests s"
  "requests (snd (failE e s)) = requests s"
  "requests (snd (wrapE w m s)) = requests (snd (m s))"
  "requests (snd (outside g s)) = requests s"
  "requests (snd (rget r kind ns n s)) = requests s @ [Request VGet kind ns n]"
  "requests (snd (rcreate r kind meta x s)) =
     requests s @ [Request VCreate kind (Namespace (meta x)) (Name (meta x))]"
  "requests (snd (rupdate r kind meta x s)) =
     requests s @ [Request VUpdate kind (Namespace (meta x)) (Name (meta x))]"
  "requests (snd (rdelete r kind meta x s)) =
     requests s @ [Request VDelete kind (Namespace (meta x)) (Name (meta x))]"
  by (auto simp: go_simps split: prod.splits sum.splits)

lemma requests_bindE:
  "requests (snd (bindE m f s)) =
     (case m s of (Inl _, t) \<Rightarrow> requests t | (Inr x, t) \<Rightarrow> requests (snd (f x t)))"
  by (auto simp: bindE_def split: prod.splits sum.splits)

text \<open>The requests made between two sessions, and the operations all of whose requests are in P.\<close>

definition emits :: "(request \<Rightarrow> bool) \<Rightarrow> ('w, 'a) io \<Rightarrow> bool" where
  "emits P m \<longleftrightarrow> (\<forall>s. \<exists>rs. requests (snd (m s)) = requests s @ rs \<and> list_all P rs)"

lemma emitsD:
  assumes "emits P m" and "m s = (r, t)"
  obtains rs where "requests t = requests s @ rs" and "list_all P rs"
  using assms unfolding emits_def by (metis snd_conv)

lemma emits_retE [emits]: "emits P (retE x)"
  by (simp add: emits_def retE_def)

lemma emits_failE [emits]: "emits P (failE e)"
  by (simp add: emits_def failE_def)

lemma emits_checkE [emits]: "emits P (checkE r)"
  by (cases r) (simp_all add: emits)

lemma emits_bindE [emits]:
  assumes m: "emits P m" and f: "\<And>x. emits P (f x)"
  shows "emits P (bindE m f)"
  unfolding emits_def
proof
  fix s
  obtain r t where mt: "m s = (r, t)" by fastforce
  from m mt obtain rs where rs: "requests t = requests s @ rs" "list_all P rs"
    by (rule emitsD)
  show "\<exists>rs. requests (snd (bindE m f s)) = requests s @ rs \<and> list_all P rs"
  proof (cases r)
    case (Inl e)
    with mt rs show ?thesis by (simp add: bindE_def)
  next
    case (Inr x)
    obtain r' u where fu: "f x t = (r', u)" by fastforce
    from f fu obtain rs' where "requests u = requests t @ rs'" "list_all P rs'"
      by (rule emitsD)
    with mt rs fu Inr show ?thesis by (auto simp: bindE_def)
  qed
qed

lemma emits_wrapE [emits]: "emits P m \<Longrightarrow> emits P (wrapE w m)"
  unfolding emits_def wrapE_def by (auto split: prod.splits sum.splits) (metis snd_conv)+

lemma emits_tryE [emits]: "emits P m \<Longrightarrow> emits P (tryE m)"
  unfolding emits_def tryE_def by (auto split: prod.splits) (metis snd_conv)

lemma emits_forE [emits]: "(\<And>x. emits P (f x)) \<Longrightarrow> emits P (forE xs f)"
  by (induction xs) (simp_all add: emits)

lemma emits_outside [emits]: "emits P (outside f)"
  by (simp add: emits_def outside_def split: prod.splits)

lemma emits_on_host [emits]: "emits P (on_host ev f)"
  by (simp add: emits_def on_host_def split: prod.splits)

lemma emits_api: "P rq \<Longrightarrow> emits P (api rq f)"
  by (simp add: emits_def api_def split: prod.splits)

lemma emits_rget [emits]: "P (Request VGet kind ns n) \<Longrightarrow> emits P (rget r kind ns n)"
  by (simp add: rget_def emits_api)

lemma emits_rlist [emits]: "(\<And>ns. P (Request VList kind ns '''')) \<Longrightarrow> emits P (rlist r kind opts)"
  by (simp add: rlist_def emits_api)

lemma emits_rcreate [emits]:
  "P (Request VCreate kind (Namespace (meta x)) (Name (meta x))) \<Longrightarrow> emits P (rcreate r kind meta x)"
  by (simp add: rcreate_def emits_api)

lemma emits_rupdate [emits]:
  "P (Request VUpdate kind (Namespace (meta x)) (Name (meta x))) \<Longrightarrow> emits P (rupdate r kind meta x)"
  by (simp add: rupdate_def emits_api)

lemma emits_rdelete [emits]:
  "P (Request VDelete kind (Namespace (meta x)) (Name (meta x))) \<Longrightarrow> emits P (rdelete r kind meta x)"
  by (simp add: rdelete_def emits_api)

lemma emits_mono: "emits P m \<Longrightarrow> (\<And>r. P r \<Longrightarrow> P' r) \<Longrightarrow> emits P' m"
  unfolding emits_def by (metis list_all_iff)

lemma emits_if [emits]: "(b \<Longrightarrow> emits P m) \<Longrightarrow> (\<not> b \<Longrightarrow> emits P n) \<Longrightarrow> emits P (if b then m else n)"
  by simp

lemma emits_option [emits]:
  "(x = None \<Longrightarrow> emits P m) \<Longrightarrow> (\<And>y. x = Some y \<Longrightarrow> emits P (f y)) \<Longrightarrow>
     emits P (case x of None \<Rightarrow> m | Some y \<Rightarrow> f y)"
  by (cases x) simp_all

lemma emits_sum [emits]:
  "(\<And>e. x = Inl e \<Longrightarrow> emits P (f e)) \<Longrightarrow> (\<And>y. x = Inr y \<Longrightarrow> emits P (g y)) \<Longrightarrow>
     emits P (case x of Inl e \<Rightarrow> f e | Inr y \<Rightarrow> g y)"
  by (cases x) simp_all

lemma is_read_simps [simp]:
  "is_read (Request VGet k ns n)" "is_read (Request VList k ns n)"
  "\<not> is_read (Request VCreate k ns n)" "\<not> is_read (Request VUpdate k ns n)"
  "\<not> is_read (Request VDelete k ns n)" "\<not> is_read (Request VEvict k ns n)"
  by (simp_all add: is_read_def)

text \<open>The same of a run from one session to another.\<close>

definition ran :: "(request \<Rightarrow> bool) \<Rightarrow> 'w session \<Rightarrow> 'w session \<Rightarrow> bool" where
  "ran P s t \<longleftrightarrow> (\<exists>rs. requests t = requests s @ rs \<and> list_all P rs)"

lemma ran_refl [simp, intro]: "ran P s s"
  by (simp add: ran_def)

lemma ran_trans [trans]: "ran P s t \<Longrightarrow> ran P t u \<Longrightarrow> ran P s u"
  by (force simp: ran_def)

lemma ran_mono: "ran P s t \<Longrightarrow> (\<And>q. P q \<Longrightarrow> Q q) \<Longrightarrow> ran Q s t"
  unfolding ran_def by (metis list_all_iff)

lemma ran_env [simp]: "ran P s (t\<lparr>env := w\<rparr>) = ran P s t" "ran P (s\<lparr>env := w\<rparr>) t = ran P s t"
  by (simp_all add: ran_def)

lemma emits_ran: "emits P m \<Longrightarrow> m s = (r, t) \<Longrightarrow> ran P s t"
  unfolding emits_def ran_def by (metis snd_conv)

subsection \<open>Operations that leave the host alone\<close>

definition silent :: "('w, 'a) io \<Rightarrow> bool" where
  "silent m \<longleftrightarrow> (\<forall>s. local_events (snd (m s)) = local_events s)"

named_theorems silent_intros \<open>operations that touch no file and start no process\<close>

lemma silentD: "silent m \<Longrightarrow> m s = (r, t) \<Longrightarrow> local_events t = local_events s"
  unfolding silent_def by (metis snd_conv)

lemma silent_basic [silent_intros]:
  "silent (retE x)" "silent (failE e)" "silent (api rq f)" "silent (outside g)"
  "silent (rget r kind ns n)" "silent (rlist r kind opts)"
  by (simp_all add: silent_def retE_def failE_def api_def outside_def rget_def rlist_def
      split: prod.splits)

lemma silent_checkE [silent_intros]: "silent (checkE r)"
  by (cases r) (simp_all add: silent_intros)

lemma silent_bindE [silent_intros]:
  "silent m \<Longrightarrow> (\<And>x. silent (f x)) \<Longrightarrow> silent (bindE m f)"
  unfolding silent_def bindE_def by (auto split: prod.splits sum.splits) (metis snd_conv)+

lemma silent_wrapE [silent_intros]: "silent m \<Longrightarrow> silent (wrapE w m)"
  unfolding silent_def wrapE_def by (auto split: prod.splits sum.splits) (metis snd_conv)+

lemma silent_tryE [silent_intros]: "silent m \<Longrightarrow> silent (tryE m)"
  unfolding silent_def tryE_def by (auto split: prod.splits) (metis snd_conv)

lemma silent_option [silent_intros]:
  "silent m \<Longrightarrow> (\<And>y. silent (f y)) \<Longrightarrow> silent (case x of None \<Rightarrow> m | Some y \<Rightarrow> f y)"
  by (cases x) simp_all

subsection \<open>Gated operations\<close>

text \<open>
  Most mutating operations have one shape: fetch an object, let a gate of the policy look at its
  metadata, then act.  The locale proves once what that shape guarantees.
\<close>

locale gated_write = write_gate gate
  for gate :: "WritePolicy \<Rightarrow> string \<Rightarrow> objmeta \<Rightarrow> goerr option" +
  fixes op :: "'w Client \<Rightarrow> ('w, 'a) io"
    and fetch :: "'w Client \<Rightarrow> ('w, 'o) io"
    and kind :: string
    and meta :: "'o \<Rightarrow> objmeta"
    and act :: "'w Client \<Rightarrow> 'o \<Rightarrow> ('w, 'a) io"
  assumes shape: "op c = bindE (fetch c) (\<lambda>x.
      bindE (checkE (gate (policy c) kind (meta x))) (\<lambda>_. act c x))"
    and fetch_reads: "emits is_read (fetch c)"
begin

lemma refused:
  assumes "fetch c s = (Inr x, t)" and "gate (policy c) kind (meta x) = Some e"
  shows "op c s = (Inl e, t)"
  using assms by (simp add: shape bindE_def failE_def)

lemma permitted:
  assumes "fetch c s = (Inr x, t)" and "gate (policy c) kind (meta x) = None"
  shows "op c s = act c x t"
  using assms by (simp add: shape bindE_def retE_def)

lemma fetch_failed: "fetch c s = (Inl e, t) \<Longrightarrow> op c s = (Inl e, t)"
  by (simp add: shape bindE_def)

text \<open>On a read-only client the operation fails and only reads.\<close>

lemma read_only_reads:
  assumes "ReadOnly (policy c)"
  shows "emits is_read (op c)"
proof -
  have "\<exists>e. gate (policy c) kind (meta x) = Some e" for x
    using assms by (intro gate_refuses) simp
  then have "emits is_read (bindE (checkE (gate (policy c) kind (meta x))) (\<lambda>_. act c x))" for x
    by (metis emits_failE monad_simps(2,6))
  then show ?thesis
    unfolding shape by (rule emits_bindE [OF fetch_reads])
qed

lemma read_only_fails:
  assumes "ReadOnly (policy c)"
  shows "\<exists>e t. op c s = (Inl e, t)"
proof (cases "fetch c s")
  case (Pair r t)
  show ?thesis
  proof (cases r)
    case (Inl e)
    with Pair show ?thesis by (auto dest: fetch_failed)
  next
    case (Inr x)
    obtain e where "gate (policy c) kind (meta x) = Some e"
      using gate_refuses [of "policy c" "meta x" kind] assms by auto
    with Pair Inr show ?thesis by (auto dest: refused)
  qed
qed

text \<open>An owned object is left alone under the GitOps guard: nothing follows the fetch.\<close>

lemma managed_refused:
  assumes "fetch c s = (Inr x, t)" and "\<not> ReadOnly (policy c)" and "GitOpsGuard (policy c)"
    and "managed (meta x)"
  shows "\<exists>e. op c s = (Inl e, t) \<and> refusal (Some e) = Some ErrManagedResource"
proof -
  obtain e where e: "gate (policy c) kind (meta x) = Some e"
    using gate_refuses [of "policy c" "meta x" kind] assms by auto
  moreover have "refusal (Some e) = Some ErrManagedResource"
    using gate_managed [of "policy c" "meta x" kind] assms e by simp
  ultimately show ?thesis using assms(1) by (auto dest: refused)
qed

text \<open>A write happens only when the fetched object passed the gate.\<close>

lemma write_was_permitted:
  assumes run: "op c s = (r, u)" and new: "requests u = requests s @ rs"
    and w: "\<exists>q \<in> set rs. is_write q"
  obtains x t where "fetch c s = (Inr x, t)" and "gate (policy c) kind (meta x) = None"
proof (cases "fetch c s")
  case (Pair q t)
  from fetch_reads Pair obtain fs where fs: "requests t = requests s @ fs" "list_all is_read fs"
    by (rule emitsD)
  have no: "u \<noteq> t"
    using w new fs by (auto simp: list_all_iff is_read_def is_write_def)
  show ?thesis
  proof (cases q)
    case (Inl e)
    with Pair run no show ?thesis by (auto dest: fetch_failed)
  next
    case (Inr x)
    show ?thesis
    proof (cases "gate (policy c) kind (meta x)")
      case None
      with Inr Pair that show ?thesis by blast
    next
      case (Some e)
      with Inr Pair run no show ?thesis by (auto dest: refused)
    qed
  qed
qed

end

end
