(* ===== verification/Capi_Memory.thy ===== *)
theory Capi_Memory
  imports Capi_Kube
begin

section \<open>A concrete API server for examples\<close>

text \<open>
  The API server is a parameter everywhere; this theory instantiates it once with lists of objects
  in memory, so that a theorem with a hypothesis about a run can be applied to a run.  Nothing
  else depends on it.
\<close>

record world =
  w_clusters :: "Cluster list"
  w_machines :: "Machine list"
  w_machinedeployments :: "MachineDeployment list"
  w_controlplanes :: "KubeadmControlPlane list"
  w_nodes :: "Node list"
  w_pods :: "Pod list"
  w_secrets :: "Secret list"
  w_refusals :: nat
  w_polls :: nat

definition at_key :: "('o \<Rightarrow> objmeta) \<Rightarrow> string \<Rightarrow> string \<Rightarrow> 'o \<Rightarrow> bool" where
  "at_key meta ns n x \<longleftrightarrow> Namespace (meta x) = ns \<and> Name (meta x) = n"

definition selected :: "('o \<Rightarrow> objmeta) \<Rightarrow> list_opts \<Rightarrow> 'o \<Rightarrow> bool" where
  "selected meta opts x \<longleftrightarrow>
     (case InNamespace opts of None \<Rightarrow> True | Some ns \<Rightarrow> Namespace (meta x) = ns)
     \<and> list_all (\<lambda>(k, v). map_of (Labels (meta x)) k = Some v) (MatchingLabels opts)"

definition mem :: "('o \<Rightarrow> objmeta) \<Rightarrow> (world \<Rightarrow> 'o list) \<Rightarrow> (('o list \<Rightarrow> 'o list) \<Rightarrow> world \<Rightarrow> world)
    \<Rightarrow> (world, 'o) resource" where
  "mem meta sel upd =
     \<lparr>RGet = (\<lambda>ns n w. (case find (at_key meta ns n) (sel w) of
          None \<Rightarrow> Inl (ApiErr NotFound n) | Some x \<Rightarrow> Inr x, w)),
      RList = (\<lambda>opts w. (Inr (filter (selected meta opts) (sel w)), w)),
      RCreate = (\<lambda>x w. if list_ex (at_key meta (Namespace (meta x)) (Name (meta x))) (sel w)
         then (Inl (ApiErr AlreadyExists (Name (meta x))), w) else (Inr x, upd (Cons x) w)),
      RUpdate = (\<lambda>x w. (Inr x, upd (map (\<lambda>y.
         if at_key meta (Namespace (meta x)) (Name (meta x)) y then x else y)) w)),
      RDelete = (\<lambda>x w. (Inr (), upd (filter (\<lambda>y.
         \<not> at_key meta (Namespace (meta x)) (Name (meta x)) y)) w))\<rparr>"

definition none :: "(world, 'o) resource" where
  "none = \<lparr>RGet = (\<lambda>ns n w. (Inl (ApiErr NotFound n), w)), RList = (\<lambda>opts w. (Inr [], w)),
     RCreate = (\<lambda>x w. (Inr x, w)), RUpdate = (\<lambda>x w. (Inr x, w)), RDelete = (\<lambda>x w. (Inr (), w))\<rparr>"

text \<open>Evictions are refused while the budget allows none; the context ends when the polls are used up.\<close>

definition memory :: "world kube" where
  "memory = \<lparr>k_clusters = mem C_Meta w_clusters w_clusters_update,
     k_machines = mem M_Meta w_machines w_machines_update,
     k_machinedeployments = mem MD_Meta w_machinedeployments w_machinedeployments_update,
     k_machinesets = none,
     k_controlplanes = mem KCP_Meta w_controlplanes w_controlplanes_update,
     k_clusterclasses = none,
     k_nodes = mem N_Meta w_nodes w_nodes_update,
     k_pods = mem P_Meta w_pods w_pods_update,
     k_secrets = mem Sec_Meta w_secrets w_secrets_update,
     k_configmaps = none, k_resourcesets = none,
     k_evict = (\<lambda>ns n grace w. if 0 < w_refusals w
        then (Inl (ApiErr TooManyRequests n), w\<lparr>w_refusals := w_refusals w - 1\<rparr>)
        else (Inr (), w\<lparr>w_pods := filter (\<lambda>p. \<not> at_key P_Meta ns n p) (w_pods w)\<rparr>)),
     k_now = (\<lambda>w. (1700000000, w)),
     k_timer = (\<lambda>d w. ((), w)),
     k_poll = (\<lambda>w. (0 < w_polls w, w\<lparr>w_polls := w_polls w - 1\<rparr>))\<rparr>"

definition empty_world :: world where
  "empty_world = \<lparr>w_clusters = [], w_machines = [], w_machinedeployments = [], w_controlplanes = [],
     w_nodes = [], w_pods = [], w_secrets = [], w_refusals = 0, w_polls = 3\<rparr>"

definition open_policy :: WritePolicy where
  "open_policy = \<lparr>ReadOnly = False, GitOpsGuard = True, ExposeKubeconfig = False\<rparr>"

definition read_only_policy :: WritePolicy where
  "read_only_policy = \<lparr>ReadOnly = True, GitOpsGuard = True, ExposeKubeconfig = False\<rparr>"

definition memory_client :: "WritePolicy \<Rightarrow> world Client" where
  "memory_client p = \<lparr>Kube = memory, policy = p, config_host = Some ''https://mgmt:6443''\<rparr>"

definition start :: "world \<Rightarrow> world session" where
  "start w = \<lparr>env = w, requests = [], local_events = []\<rparr>"

definition meta :: "string \<Rightarrow> string \<Rightarrow> smap \<Rightarrow> objmeta" where
  "meta ns n labels = \<lparr>Name = n, Namespace = ns, UID = n, CreationTimestamp = '''', Labels = labels,
     Annotations = [], OwnerReferences = []\<rparr>"

definition no_ref :: ObjectReference where
  "no_ref = \<lparr>Ref_Kind = '''', Ref_Namespace = '''', Ref_Name = '''', Ref_APIVersion = '''', Ref_UID = ''''\<rparr>"

definition example_cluster :: "string \<Rightarrow> smap \<Rightarrow> Cluster" where
  "example_cluster n labels = \<lparr>C_Meta = meta ''org'' n labels, C_Paused = False,
     C_InfrastructureRef = None,
     C_ControlPlaneRef = Some (no_ref\<lparr>Ref_Kind := ''KubeadmControlPlane'', Ref_Namespace := ''org'', Ref_Name := n\<rparr>),
     C_ClusterNetwork = None, C_Topology = None, C_Phase = ''Provisioned'', C_ControlPlaneReady = True,
     C_InfrastructureReady = True, C_Conditions = []\<rparr>"

definition example_machine :: "string \<Rightarrow> smap \<Rightarrow> Machine" where
  "example_machine n labels = \<lparr>M_Meta = meta ''org'' n labels, M_ClusterName = ''demo'', M_Version = None,
     M_ProviderID = None, M_InfrastructureRef = no_ref, M_BootstrapRef = None, M_Phase = ''Running'',
     M_NodeRef = None, M_Conditions = [], M_Addresses = []\<rparr>"

definition example_node :: "string \<Rightarrow> Node" where
  "example_node n = \<lparr>N_Meta = meta '''' n [], N_Unschedulable = False, N_ProviderID = '''',
     N_NodeInfo = \<lparr>NI_OperatingSystem = ''linux'', NI_OSImage = '''', NI_KernelVersion = '''',
       NI_ContainerRuntimeVersion = '''', NI_KubeletVersion = ''v1.31.0'', NI_Architecture = ''amd64''\<rparr>,
     N_Capacity = [], N_Allocatable = [], N_Conditions = [], N_Addresses = [], N_Taints = []\<rparr>"

definition example_pod :: "string \<Rightarrow> string \<Rightarrow> Pod" where
  "example_pod n node = \<lparr>P_Meta = (meta ''apps'' n [])\<lparr>OwnerReferences :=
       [\<lparr>RefKind = ''ReplicaSet'', RefName = n, RefController = True\<rparr>]\<rparr>,
     P_NodeName = node, P_Phase = ''Running'', P_EmptyDirs = []\<rparr>"

text \<open>Evaluation of the server's calls, one by one, without unfolding the server.\<close>

lemma client_run:
  "Kube (memory_client p) = memory" "policy (memory_client p) = p"
  "config_host (memory_client p) = Some ''https://mgmt:6443''"
  by (simp_all add: memory_client_def)

lemma kinds_run:
  "k_clusters memory = mem C_Meta w_clusters w_clusters_update"
  "k_machines memory = mem M_Meta w_machines w_machines_update"
  "k_machinedeployments memory = mem MD_Meta w_machinedeployments w_machinedeployments_update"
  "k_controlplanes memory = mem KCP_Meta w_controlplanes w_controlplanes_update"
  "k_nodes memory = mem N_Meta w_nodes w_nodes_update"
  "k_pods memory = mem P_Meta w_pods w_pods_update"
  "k_secrets memory = mem Sec_Meta w_secrets w_secrets_update"
  "k_evict memory ns n grace w = (if 0 < w_refusals w
     then (Inl (ApiErr TooManyRequests n), w\<lparr>w_refusals := w_refusals w - 1\<rparr>)
     else (Inr (), w\<lparr>w_pods := filter (\<lambda>p. \<not> at_key P_Meta ns n p) (w_pods w)\<rparr>))"
  "k_now memory w = (1700000000, w)" "k_timer memory d w = ((), w)"
  "k_poll memory w = (0 < w_polls w, w\<lparr>w_polls := w_polls w - 1\<rparr>)"
  by (simp_all add: memory_def)

lemma calls_run:
  "RGet (mem m sel upd) ns n w = (case find (at_key m ns n) (sel w) of
      None \<Rightarrow> Inl (ApiErr NotFound n) | Some x \<Rightarrow> Inr x, w)"
  "RList (mem m sel upd) opts w = (Inr (filter (selected m opts) (sel w)), w)"
  "RUpdate (mem m sel upd) x w = (Inr x, upd (map (\<lambda>y.
     if at_key m (Namespace (m x)) (Name (m x)) y then x else y)) w)"
  "RDelete (mem m sel upd) x w = (Inr (), upd (filter (\<lambda>y.
     \<not> at_key m (Namespace (m x)) (Name (m x)) y)) w)"
  "RCreate (mem m sel upd) x w = (if list_ex (at_key m (Namespace (m x)) (Name (m x))) (sel w)
     then (Inl (ApiErr AlreadyExists (Name (m x))), w) else (Inr x, upd (Cons x) w))"
  by (simp_all add: mem_def)

lemmas example_simps = client_run kinds_run calls_run empty_world_def start_def open_policy_def
  read_only_policy_def meta_def no_ref_def example_cluster_def example_machine_def
  example_node_def example_pod_def at_key_def selected_def go_simps mhas_def mget_def

end
