(* ===== verification/Capi_KeyStore.thy ===== *)
theory Capi_KeyStore
  imports Capi_Kube
begin

section \<open>An API server that keeps objects by key\<close>

text \<open>
  What an API server promises to a client that nobody interferes with: it keeps, per kind, at most
  one object for a namespace and a name, and a request that it admits succeeds and changes the one
  object it names.  Operations that write are stated under this contract as functions of the
  objects kept.  The contract follows the documentation of the API: a created object gets a UID and
  a creation time, the StringData of a Secret is merged into its Data when it is written, and the
  type of a Secret cannot be changed; no object is marked immutable.
\<close>

type_synonym 'o table = "string \<times> string \<Rightarrow> 'o option"

record objects =
  clusters_at :: "Cluster table"
  deployments_at :: "MachineDeployment table"
  controlplanes_at :: "KubeadmControlPlane table"
  secrets_at :: "Secret table"
  configmaps_at :: "ConfigMap table"
  sets_at :: "ClusterResourceSet table"

definition key_of :: "objmeta \<Rightarrow> string \<times> string" where
  "key_of m = (Namespace m, Name m)"

text \<open>The metadata without what the server assigns on creation.\<close>

definition unstamped :: "objmeta \<Rightarrow> objmeta" where
  "unstamped m = m\<lparr>UID := '''', CreationTimestamp := ''''\<rparr>"

text \<open>
  The laws of one kind: \<open>sel\<close> and \<open>upd\<close> are its table, \<open>meta\<close> and \<open>upd_meta\<close> the metadata of its
  objects, \<open>kept\<close> is what a written object is kept as, and \<open>admits\<close> the updates the server admits.
\<close>

definition kind_store :: "('w, 'o) resource \<Rightarrow> ('w \<Rightarrow> objects) \<Rightarrow> (objects \<Rightarrow> 'o table)
    \<Rightarrow> (('o table \<Rightarrow> 'o table) \<Rightarrow> objects \<Rightarrow> objects) \<Rightarrow> ('o \<Rightarrow> objmeta)
    \<Rightarrow> ((objmeta \<Rightarrow> objmeta) \<Rightarrow> 'o \<Rightarrow> 'o) \<Rightarrow> ('o \<Rightarrow> 'o) \<Rightarrow> ('o \<Rightarrow> 'o \<Rightarrow> bool) \<Rightarrow> bool" where
  "kind_store r view sel upd meta upd_meta kept admits \<longleftrightarrow>
     (\<forall>ns n w. view (snd (RGet r ns n w)) = view w
        \<and> (case sel (view w) (ns, n) of
             None \<Rightarrow> \<exists>msg. fst (RGet r ns n w) = Inl (ApiErr NotFound msg)
           | Some x \<Rightarrow> fst (RGet r ns n w) = Inr x))
     \<and> (\<forall>x w. case sel (view w) (key_of (meta x)) of
             None \<Rightarrow> \<exists>y. fst (RCreate r x w) = Inr y \<and> upd_meta unstamped y = upd_meta unstamped (kept x)
               \<and> view (snd (RCreate r x w)) = upd (\<lambda>m. m(key_of (meta x) \<mapsto> y)) (view w)
           | Some _ \<Rightarrow> \<exists>msg. fst (RCreate r x w) = Inl (ApiErr AlreadyExists msg) \<and> view (snd (RCreate r x w)) = view w)
     \<and> (\<forall>x w old. sel (view w) (key_of (meta x)) = Some old \<longrightarrow>
          (if admits old x then fst (RUpdate r x w) = Inr (kept x)
             \<and> view (snd (RUpdate r x w)) = upd (\<lambda>m. m(key_of (meta x) \<mapsto> kept x)) (view w)
           else (\<exists>e. fst (RUpdate r x w) = Inl e) \<and> view (snd (RUpdate r x w)) = view w))
     \<and> (\<forall>x w. sel (view w) (key_of (meta x)) \<noteq> None \<longrightarrow> fst (RDelete r x w) = Inr ()
          \<and> view (snd (RDelete r x w)) = upd (\<lambda>m. m(key_of (meta x) := None)) (view w))"

text \<open>A Secret as it is kept: its StringData merged into its Data.\<close>

definition merged_data :: "smap \<Rightarrow> smap \<Rightarrow> smap" where
  "merged_data new old = new @ filter (\<lambda>(k, v). \<not> mhas new k) old"

definition kept_secret :: "Secret \<Rightarrow> Secret" where
  "kept_secret x = x\<lparr>Sec_Data := merged_data (Sec_StringData x) (Sec_Data x), Sec_StringData := []\<rparr>"

definition same_type :: "Secret \<Rightarrow> Secret \<Rightarrow> bool" where
  "same_type old new \<longleftrightarrow> Sec_Type old = Sec_Type new"

definition api_store :: "'w kube \<Rightarrow> ('w \<Rightarrow> objects) \<Rightarrow> bool" where
  "api_store k view \<longleftrightarrow>
     kind_store (k_clusters k) view clusters_at clusters_at_update C_Meta C_Meta_update id (\<lambda>_ _. True)
   \<and> kind_store (k_machinedeployments k) view deployments_at deployments_at_update MD_Meta MD_Meta_update id (\<lambda>_ _. True)
   \<and> kind_store (k_controlplanes k) view controlplanes_at controlplanes_at_update KCP_Meta KCP_Meta_update id (\<lambda>_ _. True)
   \<and> kind_store (k_secrets k) view secrets_at secrets_at_update Sec_Meta Sec_Meta_update kept_secret same_type
   \<and> kind_store (k_configmaps k) view configmaps_at configmaps_at_update CM_Meta CM_Meta_update id (\<lambda>_ _. True)
   \<and> kind_store (k_resourcesets k) view sets_at sets_at_update CRS_Meta CRS_Meta_update id (\<lambda>_ _. True)"

text \<open>Every object is kept under its own key.\<close>

definition keyed :: "('o \<Rightarrow> objmeta) \<Rightarrow> 'o table \<Rightarrow> bool" where
  "keyed meta m \<longleftrightarrow> (\<forall>k x. m k = Some x \<longrightarrow> key_of (meta x) = k)"

definition well_keyed :: "objects \<Rightarrow> bool" where
  "well_keyed o1 \<longleftrightarrow> keyed C_Meta (clusters_at o1) \<and> keyed MD_Meta (deployments_at o1)
     \<and> keyed KCP_Meta (controlplanes_at o1) \<and> keyed Sec_Meta (secrets_at o1)
     \<and> keyed CM_Meta (configmaps_at o1) \<and> keyed CRS_Meta (sets_at o1)"

subsection \<open>The client's calls under the contract\<close>

lemma get_store:
  assumes "kind_store r view sel upd meta upd_meta kept admits" and "rget r kind ns n s = (res, t)"
  shows "view (env t) = view (env s)"
    and "sel (view (env s)) (ns, n) = Some x \<Longrightarrow> res = Inr x"
    and "sel (view (env s)) (ns, n) = None \<Longrightarrow> \<exists>e. res = Inl e"
proof -
  have "view (snd (RGet r ns n (env s))) = view (env s)"
    and law: "case sel (view (env s)) (ns, n) of
        None \<Rightarrow> \<exists>msg. fst (RGet r ns n (env s)) = Inl (ApiErr NotFound msg)
      | Some x \<Rightarrow> fst (RGet r ns n (env s)) = Inr x"
    using assms(1) unfolding kind_store_def by blast+
  with assms(2) show "view (env t) = view (env s)"
    and "sel (view (env s)) (ns, n) = Some x \<Longrightarrow> res = Inr x"
    and "sel (view (env s)) (ns, n) = None \<Longrightarrow> \<exists>e. res = Inl e"
    by (auto simp: rget_def api_def split: prod.splits)
qed

lemma create_store:
  assumes "kind_store r view sel upd meta upd_meta kept admits" and "rcreate r kind meta x s = (res, t)"
  shows "sel (view (env s)) (key_of (meta x)) = None \<Longrightarrow> \<exists>y. res = Inr y \<and> upd_meta unstamped y = upd_meta unstamped (kept x)
      \<and> view (env t) = upd (\<lambda>m. m(key_of (meta x) \<mapsto> y)) (view (env s))"
    and "sel (view (env s)) (key_of (meta x)) = Some z \<Longrightarrow> (\<exists>msg. res = Inl (ApiErr AlreadyExists msg)) \<and> view (env t) = view (env s)"
proof -
  have law: "case sel (view (env s)) (key_of (meta x)) of
       None \<Rightarrow> \<exists>y. fst (RCreate r x (env s)) = Inr y \<and> upd_meta unstamped y = upd_meta unstamped (kept x)
         \<and> view (snd (RCreate r x (env s))) = upd (\<lambda>m. m(key_of (meta x) \<mapsto> y)) (view (env s))
     | Some _ \<Rightarrow> \<exists>msg. fst (RCreate r x (env s)) = Inl (ApiErr AlreadyExists msg)
         \<and> view (snd (RCreate r x (env s))) = view (env s)"
    using assms(1) unfolding kind_store_def by blast
  with assms(2)
  show "sel (view (env s)) (key_of (meta x)) = None \<Longrightarrow> \<exists>y. res = Inr y \<and> upd_meta unstamped y = upd_meta unstamped (kept x)
      \<and> view (env t) = upd (\<lambda>m. m(key_of (meta x) \<mapsto> y)) (view (env s))"
    and "sel (view (env s)) (key_of (meta x)) = Some z \<Longrightarrow> (\<exists>msg. res = Inl (ApiErr AlreadyExists msg)) \<and> view (env t) = view (env s)"
    by (auto simp: rcreate_def api_def split: prod.splits)
qed

lemma update_store:
  assumes "kind_store r view sel upd meta upd_meta kept admits" and "rupdate r kind meta x s = (res, t)"
    and "sel (view (env s)) (key_of (meta x)) = Some old"
  shows "admits old x \<Longrightarrow> res = Inr (kept x) \<and> view (env t) = upd (\<lambda>m. m(key_of (meta x) \<mapsto> kept x)) (view (env s))"
    and "\<not> admits old x \<Longrightarrow> (\<exists>e. res = Inl e) \<and> view (env t) = view (env s)"
proof -
  have law: "if admits old x then fst (RUpdate r x (env s)) = Inr (kept x)
        \<and> view (snd (RUpdate r x (env s))) = upd (\<lambda>m. m(key_of (meta x) \<mapsto> kept x)) (view (env s))
      else (\<exists>e. fst (RUpdate r x (env s)) = Inl e) \<and> view (snd (RUpdate r x (env s))) = view (env s)"
    using assms(1,3) unfolding kind_store_def by blast
  with assms(2)
  show "admits old x \<Longrightarrow> res = Inr (kept x) \<and> view (env t) = upd (\<lambda>m. m(key_of (meta x) \<mapsto> kept x)) (view (env s))"
    and "\<not> admits old x \<Longrightarrow> (\<exists>e. res = Inl e) \<and> view (env t) = view (env s)"
    by (auto simp: rupdate_def api_def split: prod.splits)
qed

lemma delete_store:
  assumes "kind_store r view sel upd meta upd_meta kept admits" and "rdelete r kind meta x s = (res, t)"
    and "sel (view (env s)) (key_of (meta x)) \<noteq> None"
  shows "res = Inr ()" and "view (env t) = upd (\<lambda>m. m(key_of (meta x) := None)) (view (env s))"
proof -
  have "fst (RDelete r x (env s)) = Inr () \<and> view (snd (RDelete r x (env s))) = upd (\<lambda>m. m(key_of (meta x) := None)) (view (env s))"
    using assms(1,3) unfolding kind_store_def by blast
  with assms(2) show "res = Inr ()" and "view (env t) = upd (\<lambda>m. m(key_of (meta x) := None)) (view (env s))"
    by (auto simp: rdelete_def api_def split: prod.splits)
qed

subsection \<open>A server that meets the contract\<close>

definition table_resource :: "(objects \<Rightarrow> 'o table) \<Rightarrow> (('o table \<Rightarrow> 'o table) \<Rightarrow> objects \<Rightarrow> objects)
    \<Rightarrow> ('o \<Rightarrow> objmeta) \<Rightarrow> ('o \<Rightarrow> 'o) \<Rightarrow> ('o \<Rightarrow> 'o \<Rightarrow> bool) \<Rightarrow> (objects, 'o) resource" where
  "table_resource sel upd meta kept admits =
     \<lparr>RGet = (\<lambda>ns n w. (case sel w (ns, n) of None \<Rightarrow> Inl (ApiErr NotFound n) | Some x \<Rightarrow> Inr x, w)),
      RList = (\<lambda>opts w. (Inl (ApiErr OtherReason ''list''), w)),
      RCreate = (\<lambda>x w. case sel w (key_of (meta x)) of
         None \<Rightarrow> (Inr (kept x), upd (\<lambda>m. m(key_of (meta x) \<mapsto> kept x)) w)
       | Some _ \<Rightarrow> (Inl (ApiErr AlreadyExists (Name (meta x))), w)),
      RUpdate = (\<lambda>x w. case sel w (key_of (meta x)) of
         None \<Rightarrow> (Inl (ApiErr NotFound (Name (meta x))), w)
       | Some old \<Rightarrow> if admits old x then (Inr (kept x), upd (\<lambda>m. m(key_of (meta x) \<mapsto> kept x)) w)
           else (Inl (ApiErr OtherReason (Name (meta x))), w)),
      RDelete = (\<lambda>x w. (Inr (), upd (\<lambda>m. m(key_of (meta x) := None)) w))\<rparr>"

lemma table_kind_store: "kind_store (table_resource sel upd meta kept admits) id sel upd meta upd_meta kept admits"
  by (auto simp: kind_store_def table_resource_def split: option.splits)

definition absent :: "('w, 'o) resource" where
  "absent = \<lparr>RGet = (\<lambda>ns n w. (Inl (ApiErr NotFound n), w)), RList = (\<lambda>opts w. (Inr [], w)),
     RCreate = (\<lambda>x w. (Inr x, w)), RUpdate = (\<lambda>x w. (Inr x, w)), RDelete = (\<lambda>x w. (Inr (), w))\<rparr>"

definition tables :: "objects kube" where
  "tables = \<lparr>k_clusters = table_resource clusters_at clusters_at_update C_Meta id (\<lambda>_ _. True),
     k_machines = absent,
     k_machinedeployments = table_resource deployments_at deployments_at_update MD_Meta id (\<lambda>_ _. True),
     k_machinesets = absent,
     k_controlplanes = table_resource controlplanes_at controlplanes_at_update KCP_Meta id (\<lambda>_ _. True),
     k_clusterclasses = absent, k_nodes = absent, k_pods = absent,
     k_secrets = table_resource secrets_at secrets_at_update Sec_Meta kept_secret same_type,
     k_configmaps = table_resource configmaps_at configmaps_at_update CM_Meta id (\<lambda>_ _. True),
     k_resourcesets = table_resource sets_at sets_at_update CRS_Meta id (\<lambda>_ _. True),
     k_evict = (\<lambda>ns n grace w. (Inr (), w)), k_now = (\<lambda>w. (0, w)), k_timer = (\<lambda>d w. ((), w)),
     k_poll = (\<lambda>w. (False, w))\<rparr>"

lemma tables_store: "api_store tables id"
  by (simp add: api_store_def tables_def table_kind_store)

definition no_objects :: objects where
  "no_objects = \<lparr>clusters_at = (\<lambda>_. None), deployments_at = (\<lambda>_. None), controlplanes_at = (\<lambda>_. None),
     secrets_at = (\<lambda>_. None), configmaps_at = (\<lambda>_. None), sets_at = (\<lambda>_. None)\<rparr>"

definition tables_client :: "WritePolicy \<Rightarrow> objects Client" where
  "tables_client p = \<lparr>Kube = tables, policy = p, config_host = None\<rparr>"

definition begin_at :: "'w \<Rightarrow> 'w session" where
  "begin_at w = \<lparr>env = w, requests = [], local_events = []\<rparr>"

lemma no_objects_keyed: "well_keyed no_objects"
  by (simp add: well_keyed_def keyed_def no_objects_def)

end
