(* ===== verification/Capi_Machine.thy ===== *)
theory Capi_Machine
  imports Capi_Memory "HOL-Library.Multiset"
begin

section \<open>Machines, MachineDeployments and MachineSets (pkg/capi/client.go)\<close>

text \<open>
  The operations of the client on machines and machine groups: listing and reading, deleting and
  remediating a Machine, creating, updating and rolling out a MachineDeployment.  The label and
  annotation keys and the condition values are constants of the Cluster API and core packages.
\<close>

subsection \<open>Constants of the API packages\<close>

definition ClusterNameLabel :: string where
  "ClusterNameLabel = ''cluster.x-k8s.io/cluster-name''"
definition MachineControlPlaneLabel :: string where
  "MachineControlPlaneLabel = ''cluster.x-k8s.io/control-plane''"
definition MachineDeploymentNameLabel :: string where
  "MachineDeploymentNameLabel = ''cluster.x-k8s.io/deployment-name''"
definition MachineHealthCheckSucceededCondition :: string where
  "MachineHealthCheckSucceededCondition = ''HealthCheckSucceeded''"
definition ReadyCondition :: string where "ReadyCondition = ''Ready''"
definition ConditionTrue :: string where "ConditionTrue = ''True''"
definition RemediateMachineAnnotation :: string where
  "RemediateMachineAnnotation = ''cluster.x-k8s.io/remediate-machine''"
definition RolloutReasonAnnotation :: string where
  "RolloutReasonAnnotation = ''mcp-capi.giantswarm.io/rollout-reason''"

subsection \<open>Label and annotation updates\<close>

text \<open>
  The loop over the requested labels (or annotations) that removes a key whose value is empty and
  sets every other one.
\<close>

fun apply_metadata :: "smap \<Rightarrow> smap \<Rightarrow> smap" where
  "apply_metadata m [] = m"
| "apply_metadata m ((k, v) # upd) =
     apply_metadata (if v = '''' then AList.delete k m else AList.update k v m) upd"

definition set_label :: "string \<Rightarrow> string \<Rightarrow> objmeta \<Rightarrow> objmeta" where
  "set_label k v m = m\<lparr>Labels := AList.update k v (Labels m)\<rparr>"

definition set_annotation :: "string \<Rightarrow> string \<Rightarrow> objmeta \<Rightarrow> objmeta" where
  "set_annotation k v m = m\<lparr>Annotations := AList.update k v (Annotations m)\<rparr>"

definition delete_annotation :: "string \<Rightarrow> objmeta \<Rightarrow> objmeta" where
  "delete_annotation k m = m\<lparr>Annotations := AList.delete k (Annotations m)\<rparr>"

definition update_metadata :: "smap \<Rightarrow> smap \<Rightarrow> objmeta \<Rightarrow> objmeta" where
  "update_metadata labels annotations m =
     m\<lparr>Labels := apply_metadata (Labels m) labels,
       Annotations := apply_metadata (Annotations m) annotations\<rparr>"

text \<open>What an update request asks of a key: remove it, or set it.\<close>

definition wanted :: "string \<Rightarrow> string option" where
  "wanted v = (if v = '''' then None else Some v)"

lemma map_of_apply_metadata:
  assumes "distinct (map fst upd)"
  shows "map_of (apply_metadata m upd) k =
    (case map_of upd k of None \<Rightarrow> map_of m k | Some v \<Rightarrow> wanted v)"
  using assms
proof (induction m upd rule: apply_metadata.induct)
  case (1 m)
  then show ?case by simp
next
  case (2 m k' v upd)
  let ?m = "if v = '''' then AList.delete k' m else AList.update k' v m"
  have m: "map_of ?m k = (if k = k' then wanted v else map_of m k)"
    by (simp add: wanted_def delete_conv' update_conv')
  have "k' \<notin> dom (map_of upd)"
    using 2(2) by (simp add: dom_map_of_conv_image_fst)
  then have none: "k = k' \<longrightarrow> map_of upd k = None"
    by (auto simp: domIff)
  have "map_of (apply_metadata m ((k', v) # upd)) k =
      (case map_of upd k of None \<Rightarrow> map_of ?m k | Some v \<Rightarrow> wanted v)"
    using 2 by simp
  also have "\<dots> = (case map_of ((k', v) # upd) k of None \<Rightarrow> map_of m k | Some v \<Rightarrow> wanted v)"
    unfolding m using none by (cases "k = k'") simp_all
  finally show ?case .
qed

lemma distinct_apply_metadata:
  "distinct (map fst m) \<Longrightarrow> distinct (map fst (apply_metadata m upd))"
  by (induction m upd rule: apply_metadata.induct) (simp_all add: distinct_update distinct_delete)

subsection \<open>Machines\<close>

definition ListMachines :: "'w Client \<Rightarrow> string \<Rightarrow> string \<Rightarrow> ('w, Machine list) io" where
  "ListMachines c namespace clusterName =
     wrapE (\<lambda>e. Errorf ''failed to list machines: %w'' [Fw e])
       (rlist (k_machines (Kube c)) ''Machine''
         \<lparr>InNamespace = (if namespace \<noteq> '''' then Some namespace else None),
          MatchingLabels = (if clusterName \<noteq> '''' then [(ClusterNameLabel, clusterName)] else []),
          OnNode = None\<rparr>)"

definition GetMachine :: "'w Client \<Rightarrow> string \<Rightarrow> string \<Rightarrow> ('w, Machine) io" where
  "GetMachine c namespace name =
     wrapE (\<lambda>e. Errorf ''failed to get machine %s/%s: %w'' [Fs namespace, Fs name, Fw e])
       (rget (k_machines (Kube c)) ''Machine'' namespace name)"

definition isControlPlaneMachine :: "Machine \<Rightarrow> bool" where
  "isControlPlaneMachine m = mhas (Labels (M_Meta m)) MachineControlPlaneLabel"

record DeleteMachineOptions =
  DMO_Namespace :: string
  DMO_Name :: string
  DMO_Force :: bool

text \<open>The safety checks of a deletion that is not forced.\<close>

definition machine_delete_refusal :: "Machine \<Rightarrow> goerr option" where
  "machine_delete_refusal m =
     (if list_ex (\<lambda>c. Cond_Type c = MachineHealthCheckSucceededCondition \<and> Cond_Status c = ConditionTrue)
           (M_Conditions m)
      then Some (Errorf ''machine %s is healthy, use force=true to delete anyway'' [Fs (Name (M_Meta m))])
      else if isControlPlaneMachine m
      then Some (Errorf ''cannot delete control plane machine %s without force=true'' [Fs (Name (M_Meta m))])
      else None)"

definition DeleteMachine :: "'w Client \<Rightarrow> DeleteMachineOptions \<Rightarrow> ('w, unit) io" where
  "DeleteMachine c opts =
     bindE (wrapE (\<lambda>e. Errorf ''failed to get machine: %w'' [Fw e])
       (rget (k_machines (Kube c)) ''Machine'' (DMO_Namespace opts) (DMO_Name opts))) (\<lambda>machine.
     bindE (checkE (CheckDelete (policy c) ''Machine'' (M_Meta machine))) (\<lambda>_.
     bindE (checkE (if DMO_Force opts then None else machine_delete_refusal machine)) (\<lambda>_.
     wrapE (\<lambda>e. Errorf ''failed to delete machine: %w'' [Fw e])
       (rdelete (k_machines (Kube c)) ''Machine'' M_Meta machine))))"

definition RemediateMachine :: "'w Client \<Rightarrow> string \<Rightarrow> string \<Rightarrow> ('w, unit) io" where
  "RemediateMachine c namespace name =
     bindE (wrapE (\<lambda>e. Errorf ''failed to get machine: %w'' [Fw e])
       (rget (k_machines (Kube c)) ''Machine'' namespace name)) (\<lambda>machine.
     bindE (checkE (CheckUpdate (policy c) ''Machine'' (M_Meta machine))) (\<lambda>_.
     bindE (outside (k_now (Kube c))) (\<lambda>now.
     bindE (wrapE (\<lambda>e. Errorf ''failed to update machine with remediation annotation: %w'' [Fw e])
       (rupdate (k_machines (Kube c)) ''Machine'' M_Meta
         (machine\<lparr>M_Meta := set_annotation RemediateMachineAnnotation (int_string now)
            (M_Meta machine)\<rparr>))) (\<lambda>_.
     retE ()))))"

subsection \<open>MachineDeployments\<close>

definition ListMachineDeployments ::
  "'w Client \<Rightarrow> string \<Rightarrow> string \<Rightarrow> ('w, MachineDeployment list) io" where
  "ListMachineDeployments c namespace clusterName =
     wrapE (\<lambda>e. Errorf ''failed to list machine deployments: %w'' [Fw e])
       (rlist (k_machinedeployments (Kube c)) ''MachineDeployment''
         \<lparr>InNamespace = Some namespace,
          MatchingLabels = (if clusterName \<noteq> '''' then [(ClusterNameLabel, clusterName)] else []),
          OnNode = None\<rparr>)"

definition GetMachineDeployment ::
  "'w Client \<Rightarrow> string \<Rightarrow> string \<Rightarrow> ('w, MachineDeployment) io" where
  "GetMachineDeployment c namespace name =
     wrapE (\<lambda>e. Errorf ''failed to get machine deployment: %w'' [Fw e])
       (rget (k_machinedeployments (Kube c)) ''MachineDeployment'' namespace name)"

record CreateMachineDeploymentOptions =
  CMO_Namespace :: string
  CMO_Name :: string
  CMO_ClusterName :: string
  CMO_Replicas :: int32
  CMO_InfrastructureRef :: ObjectReference
  CMO_BootstrapConfigRef :: ObjectReference
  CMO_Version :: string
  CMO_Labels :: smap
  CMO_NodeDrainTimeout :: "int option"
  CMO_MinReadySeconds :: int32

definition new_machine_deployment :: "CreateMachineDeploymentOptions \<Rightarrow> MachineDeployment" where
  "new_machine_deployment opts =
     \<lparr>MD_Meta = \<lparr>Name = CMO_Name opts, Namespace = CMO_Namespace opts, UID = '''',
        CreationTimestamp = '''', Labels = CMO_Labels opts, Annotations = [], OwnerReferences = []\<rparr>,
      MD_ClusterName = CMO_ClusterName opts,
      MD_Replicas = Some (CMO_Replicas opts),
      MD_Selector = [(''machinedeployment'', CMO_Name opts)],
      MD_TemplateLabels = [(''machinedeployment'', CMO_Name opts),
        (ClusterNameLabel, CMO_ClusterName opts), (MachineDeploymentNameLabel, CMO_Name opts)],
      MD_TemplateClusterName = CMO_ClusterName opts,
      MD_Version = Some (CMO_Version opts),
      MD_InfrastructureRef = CMO_InfrastructureRef opts,
      MD_BootstrapRef = Some (CMO_BootstrapConfigRef opts),
      MD_NodeDrainTimeout = CMO_NodeDrainTimeout opts,
      MD_MinReadySeconds = Some (CMO_MinReadySeconds opts),
      MD_RolloutAfter = None, MD_Phase = '''',
      MD_ReadyReplicas = 0, MD_UpdatedReplicas = 0, MD_AvailableReplicas = 0\<rparr>"

definition CreateMachineDeployment ::
  "'w Client \<Rightarrow> CreateMachineDeploymentOptions \<Rightarrow> ('w, MachineDeployment) io" where
  "CreateMachineDeployment c opts =
     bindE (checkE (CheckCreate (policy c) ''MachineDeployment'' (CMO_Namespace opts) (CMO_Name opts))) (\<lambda>_.
     wrapE (\<lambda>e. Errorf ''failed to create machine deployment: %w'' [Fw e])
       (rcreate (k_machinedeployments (Kube c)) ''MachineDeployment'' MD_Meta
         (new_machine_deployment opts)))"

text \<open>The pointer fields of the update options are options; nil maps are empty maps.\<close>

record UpdateMachineDeploymentOptions =
  UMO_Namespace :: string
  UMO_Name :: string
  UMO_Version :: "string option"
  UMO_Replicas :: "int32 option"
  UMO_Labels :: smap
  UMO_Annotations :: smap
  UMO_MinReadySeconds :: "int32 option"
  UMO_NodeDrainTimeout :: "int option"

definition or_keep :: "'a option \<Rightarrow> 'a option \<Rightarrow> 'a option" where
  "or_keep new old = (case new of None \<Rightarrow> old | Some v \<Rightarrow> Some v)"

definition update_md :: "UpdateMachineDeploymentOptions \<Rightarrow> MachineDeployment \<Rightarrow> MachineDeployment" where
  "update_md opts md =
     md\<lparr>MD_Version := or_keep (UMO_Version opts) (MD_Version md),
        MD_Replicas := or_keep (UMO_Replicas opts) (MD_Replicas md),
        MD_MinReadySeconds := or_keep (UMO_MinReadySeconds opts) (MD_MinReadySeconds md),
        MD_NodeDrainTimeout := or_keep (UMO_NodeDrainTimeout opts) (MD_NodeDrainTimeout md),
        MD_Meta := update_metadata (UMO_Labels opts) (UMO_Annotations opts) (MD_Meta md)\<rparr>"

definition UpdateMachineDeployment ::
  "'w Client \<Rightarrow> UpdateMachineDeploymentOptions \<Rightarrow> ('w, MachineDeployment) io" where
  "UpdateMachineDeployment c opts =
     bindE (wrapE (\<lambda>e. Errorf ''failed to get machine deployment: %w'' [Fw e])
       (GetMachineDeployment c (UMO_Namespace opts) (UMO_Name opts))) (\<lambda>md.
     bindE (checkE (CheckUpdate (policy c) ''MachineDeployment'' (MD_Meta md))) (\<lambda>_.
     wrapE (\<lambda>e. Errorf ''failed to update machine deployment: %w'' [Fw e])
       (rupdate (k_machinedeployments (Kube c)) ''MachineDeployment'' MD_Meta (update_md opts md))))"

definition rollout_md :: "int \<Rightarrow> string \<Rightarrow> MachineDeployment \<Rightarrow> MachineDeployment" where
  "rollout_md now why md =
     (let md' = md\<lparr>MD_RolloutAfter := Some now\<rparr>
      in if why \<noteq> '''' then md'\<lparr>MD_Meta := set_annotation RolloutReasonAnnotation why (MD_Meta md')\<rparr>
         else md')"

definition RolloutMachineDeployment ::
  "'w Client \<Rightarrow> string \<Rightarrow> string \<Rightarrow> string \<Rightarrow> ('w, unit) io" where
  "RolloutMachineDeployment c namespace name why =
     bindE (wrapE (\<lambda>e. Errorf ''failed to get machine deployment: %w'' [Fw e])
       (GetMachineDeployment c namespace name)) (\<lambda>md.
     bindE (checkE (CheckUpdate (policy c) ''MachineDeployment'' (MD_Meta md))) (\<lambda>_.
     bindE (outside (k_now (Kube c))) (\<lambda>now.
     bindE (wrapE (\<lambda>e. Errorf ''failed to trigger rollout: %w'' [Fw e])
       (rupdate (k_machinedeployments (Kube c)) ''MachineDeployment'' MD_Meta
         (rollout_md now why md))) (\<lambda>_.
     retE ()))))"

subsection \<open>MachineSets\<close>

definition ListMachineSets :: "'w Client \<Rightarrow> string \<Rightarrow> string \<Rightarrow> ('w, MachineSet list) io" where
  "ListMachineSets c namespace clusterName =
     wrapE (\<lambda>e. Errorf ''failed to list machine sets: %w'' [Fw e])
       (rlist (k_machinesets (Kube c)) ''MachineSet''
         \<lparr>InNamespace = Some namespace,
          MatchingLabels = (if clusterName \<noteq> '''' then [(ClusterNameLabel, clusterName)] else []),
          OnNode = None\<rparr>)"

definition GetMachineSet :: "'w Client \<Rightarrow> string \<Rightarrow> string \<Rightarrow> ('w, MachineSet) io" where
  "GetMachineSet c namespace name =
     wrapE (\<lambda>e. Errorf ''failed to get machine set %s/%s: %w'' [Fs namespace, Fs name, Fw e])
       (rget (k_machinesets (Kube c)) ''MachineSet'' namespace name)"

subsection \<open>What the reads and the writes reach\<close>

lemma machine_reads [emits]:
  "emits is_read (ListMachines c ns cl)"
  "emits is_read (GetMachine c ns n)"
  "emits is_read (ListMachineDeployments c ns cl)"
  "emits is_read (GetMachineDeployment c ns n)"
  "emits is_read (ListMachineSets c ns cl)"
  "emits is_read (GetMachineSet c ns n)"
  by (simp_all add: ListMachines_def GetMachine_def ListMachineDeployments_def
      GetMachineDeployment_def ListMachineSets_def GetMachineSet_def emits)

text \<open>
  The gated operations on machines are instances of \<open>gated_write\<close>: the interpretations give
  each its read-only and GitOps facts.
\<close>

interpretation delete_machine: gated_write CheckDelete
  "\<lambda>c. DeleteMachine c opts"
  "\<lambda>c. wrapE (\<lambda>e. Errorf ''failed to get machine: %w'' [Fw e])
     (rget (k_machines (Kube c)) ''Machine'' (DMO_Namespace opts) (DMO_Name opts))"
  "''Machine''" M_Meta
  "\<lambda>c machine. bindE (checkE (if DMO_Force opts then None else machine_delete_refusal machine)) (\<lambda>_.
     wrapE (\<lambda>e. Errorf ''failed to delete machine: %w'' [Fw e])
       (rdelete (k_machines (Kube c)) ''Machine'' M_Meta machine))"
  for opts
  by unfold_locales (simp_all add: DeleteMachine_def emits)

interpretation remediate_machine: gated_write CheckUpdate
  "\<lambda>c. RemediateMachine c ns n"
  "\<lambda>c. wrapE (\<lambda>e. Errorf ''failed to get machine: %w'' [Fw e])
     (rget (k_machines (Kube c)) ''Machine'' ns n)"
  "''Machine''" M_Meta
  "\<lambda>c machine. bindE (outside (k_now (Kube c))) (\<lambda>now.
     bindE (wrapE (\<lambda>e. Errorf ''failed to update machine with remediation annotation: %w'' [Fw e])
       (rupdate (k_machines (Kube c)) ''Machine'' M_Meta
         (machine\<lparr>M_Meta := set_annotation RemediateMachineAnnotation (int_string now)
            (M_Meta machine)\<rparr>))) (\<lambda>_.
     retE ()))"
  for ns n
  by unfold_locales (simp_all add: RemediateMachine_def emits)

interpretation update_machine_deployment: gated_write CheckUpdate
  "\<lambda>c. UpdateMachineDeployment c opts"
  "\<lambda>c. wrapE (\<lambda>e. Errorf ''failed to get machine deployment: %w'' [Fw e])
     (GetMachineDeployment c (UMO_Namespace opts) (UMO_Name opts))"
  "''MachineDeployment''" MD_Meta
  "\<lambda>c md. wrapE (\<lambda>e. Errorf ''failed to update machine deployment: %w'' [Fw e])
     (rupdate (k_machinedeployments (Kube c)) ''MachineDeployment'' MD_Meta (update_md opts md))"
  for opts
  by unfold_locales (simp_all add: UpdateMachineDeployment_def emits)

interpretation rollout_machine_deployment: gated_write CheckUpdate
  "\<lambda>c. RolloutMachineDeployment c ns n why"
  "\<lambda>c. wrapE (\<lambda>e. Errorf ''failed to get machine deployment: %w'' [Fw e])
     (GetMachineDeployment c ns n)"
  "''MachineDeployment''" MD_Meta
  "\<lambda>c md. bindE (outside (k_now (Kube c))) (\<lambda>now.
     bindE (wrapE (\<lambda>e. Errorf ''failed to trigger rollout: %w'' [Fw e])
       (rupdate (k_machinedeployments (Kube c)) ''MachineDeployment'' MD_Meta
         (rollout_md now why md))) (\<lambda>_.
     retE ()))"
  for ns n why
  by unfold_locales (simp_all add: RolloutMachineDeployment_def emits)

lemma CreateMachineDeployment_read_only [emits]:
  "ReadOnly (policy c) \<Longrightarrow> emits is_read (CreateMachineDeployment c opts)"
  by (simp add: CreateMachineDeployment_def CheckCreate_def emits)

subsection \<open>Facts about the updates\<close>

lemma apply_metadata_cong:
  assumes "distinct (map fst upd)" and "mset upd' = mset upd"
  shows "map_of (apply_metadata m upd') = map_of (apply_metadata m upd)"
proof
  have "distinct (map fst upd')"
    using assms by (metis mset_map mset_eq_imp_distinct_iff)
  moreover have "map_of upd' = map_of upd"
    using assms calculation by (metis map_of_inject_set mset_eq_setD)
  ultimately show "map_of (apply_metadata m upd') k = map_of (apply_metadata m upd) k" for k
    using assms(1) by (simp add: map_of_apply_metadata)
qed

definition healthy_machine :: "Machine \<Rightarrow> bool" where
  "healthy_machine m \<longleftrightarrow> (\<exists>cd \<in> set (M_Conditions m).
     Cond_Type cd = MachineHealthCheckSucceededCondition \<and> Cond_Status cd = ConditionTrue)"

lemma machine_delete_refusal_None_iff:
  "machine_delete_refusal m = None \<longleftrightarrow> \<not> healthy_machine m \<and> \<not> isControlPlaneMachine m"
  by (auto simp: machine_delete_refusal_def healthy_machine_def list_ex_iff)

definition deletable :: "WritePolicy \<Rightarrow> bool \<Rightarrow> Machine \<Rightarrow> bool" where
  "deletable p force m \<longleftrightarrow> \<not> ReadOnly p \<and> \<not> (GitOpsGuard p \<and> managed (M_Meta m)) \<and> \<not> protected (M_Meta m)
     \<and> (force \<or> \<not> healthy_machine m \<and> \<not> isControlPlaneMachine m)"

lemma DeleteMachine_after_fetch:
  assumes "rget (k_machines (Kube c)) ''Machine'' (DMO_Namespace opts) (DMO_Name opts) s = (Inr m, t)"
  shows "if deletable (policy c) (DMO_Force opts) m
    then DeleteMachine c opts s = wrapE (\<lambda>e. Errorf ''failed to delete machine: %w'' [Fw e])
       (rdelete (k_machines (Kube c)) ''Machine'' M_Meta m) t
    else (\<exists>e. DeleteMachine c opts s = (Inl e, t))"
proof -
  have fetch: "wrapE (\<lambda>e. Errorf ''failed to get machine: %w'' [Fw e])
     (rget (k_machines (Kube c)) ''Machine'' (DMO_Namespace opts) (DMO_Name opts)) s = (Inr m, t)"
    using assms by (simp add: wrapE_def)
  show ?thesis
  proof (cases "CheckDelete (policy c) ''Machine'' (M_Meta m)")
    case (Some e)
    with delete_machine.refused [OF fetch Some] show ?thesis
      using CheckDelete_None_iff [of "policy c" "''Machine''" "M_Meta m"] by (auto simp: deletable_def)
  next
    case None
    note gate = None [unfolded CheckDelete_None_iff]
    show ?thesis
      using delete_machine.permitted [OF fetch None] gate machine_delete_refusal_None_iff [of m]
      by (cases "DMO_Force opts"; cases "machine_delete_refusal m") (auto simp: deletable_def)
  qed
qed

text \<open>What the API server requires of a MachineDeployment: its selector selects its template.\<close>

definition selects_template :: "MachineDeployment \<Rightarrow> bool" where
  "selects_template md \<longleftrightarrow> MD_Selector md \<noteq> []
     \<and> list_all (\<lambda>(k, v). map_of (MD_TemplateLabels md) k = Some v) (MD_Selector md)"

subsection \<open>Properties\<close>

text \<open>
  The label and annotation updates of UpdateMachineDeployment and UpdateCluster remove the
  keys given an empty value, set the others and leave the rest, in whatever order Go iterates over
  the requested map.
\<close>

theorem metadata_update_meaning:
  assumes "distinct (map fst upd)" and "mset upd' = mset upd"
  shows "map_of (apply_metadata m upd') k =
     (case map_of upd k of None \<Rightarrow> map_of m k | Some v \<Rightarrow> if v = '''' then None else Some v)"
  using map_of_apply_metadata [OF assms(1)] apply_metadata_cong [OF assms]
  by (simp add: wanted_def split: option.split)

theorem metadata_update_meaning_witness:
  "map_of (apply_metadata [(''a'', ''1''), (''b'', ''2'')] [(''c'', ''3''), (''a'', '''')]) ''a'' = None"
  using metadata_update_meaning [of "[(''a'', ''''), (''c'', ''3'')]" "[(''c'', ''3''), (''a'', '''')]"
      "[(''a'', ''1''), (''b'', ''2'')]" "''a''"] by simp

text \<open>
  C19. DeleteMachine sends a delete request exactly for a machine that was fetched, that the
  policy lets delete (not read-only, not owned under the GitOps guard, not protected) and that is
  neither healthy nor a control plane machine unless forced; otherwise it fails and sends nothing
  after the fetch.
\<close>

theorem delete_machine_guarded:
  "case rget (k_machines (Kube c)) ''Machine'' (DMO_Namespace opts) (DMO_Name opts) s of
     (Inl e, t) \<Rightarrow> DeleteMachine c opts s = (Inl (Errorf ''failed to get machine: %w'' [Fw e]), t)
   | (Inr m, t) \<Rightarrow>
       if deletable (policy c) (DMO_Force opts) m
       then requests (snd (DeleteMachine c opts s)) =
         requests t @ [Request VDelete ''Machine'' (Namespace (M_Meta m)) (Name (M_Meta m))]
       else (\<exists>e. DeleteMachine c opts s = (Inl e, t))"
proof (cases "rget (k_machines (Kube c)) ''Machine'' (DMO_Namespace opts) (DMO_Name opts) s")
  case (Pair r t)
  show ?thesis
  proof (cases r)
    case (Inl e)
    with Pair show ?thesis by (simp add: DeleteMachine_def bindE_def wrapE_def)
  next
    case (Inr m)
    from DeleteMachine_after_fetch [OF Pair [unfolded Inr]] Pair Inr show ?thesis
      by (auto simp: request_simps split: if_splits)
  qed
qed

text \<open>
  A new MachineDeployment selects its own template and belongs to its cluster by the name
  label as by the field, with the requested replicas and version; and it is created by one
  request, which a read-only policy prevents.
\<close>

theorem created_machine_deployment_selects_template:
  "selects_template (new_machine_deployment opts)
   \<and> map_of (MD_TemplateLabels (new_machine_deployment opts)) ClusterNameLabel = Some (CMO_ClusterName opts)
   \<and> MD_ClusterName (new_machine_deployment opts) = MD_TemplateClusterName (new_machine_deployment opts)
   \<and> MD_Replicas (new_machine_deployment opts) = Some (CMO_Replicas opts)
   \<and> MD_Version (new_machine_deployment opts) = Some (CMO_Version opts)
   \<and> requests (snd (CreateMachineDeployment c opts s)) = requests s @
       (if ReadOnly (policy c) then [] else [Request VCreate ''MachineDeployment'' (CMO_Namespace opts) (CMO_Name opts)])"
  by (cases "ReadOnly (policy c)")
    (simp_all add: selects_template_def new_machine_deployment_def ClusterNameLabel_def
      MachineDeploymentNameLabel_def CreateMachineDeployment_def CheckCreate_def request_simps)

text \<open>
  UpdateMachineDeployment changes only what is asked: an option that is absent keeps the
  field, the selector, the template's labels, its references and the owners are never touched, so
  a deployment that selected its template still does, and a request for nothing is the identity.
\<close>

theorem update_machine_deployment_frame:
  "selects_template (update_md opts md) = selects_template md
   \<and> MD_InfrastructureRef (update_md opts md) = MD_InfrastructureRef md
   \<and> MD_ClusterName (update_md opts md) = MD_ClusterName md
   \<and> OwnerReferences (MD_Meta (update_md opts md)) = OwnerReferences (MD_Meta md)
   \<and> Name (MD_Meta (update_md opts md)) = Name (MD_Meta md)
   \<and> MD_Replicas (update_md opts md) = (if UMO_Replicas opts = None then MD_Replicas md else UMO_Replicas opts)
   \<and> MD_Version (update_md opts md) = (if UMO_Version opts = None then MD_Version md else UMO_Version opts)
   \<and> update_md \<lparr>UMO_Namespace = ns, UMO_Name = n, UMO_Version = None, UMO_Replicas = None, UMO_Labels = [],
        UMO_Annotations = [], UMO_MinReadySeconds = None, UMO_NodeDrainTimeout = None\<rparr> md = md"
  by (simp add: update_md_def or_keep_def update_metadata_def selects_template_def split: option.split)


end
