(* ===== verification/Capi_Cluster.thy ===== *)
theory Capi_Cluster
  imports Capi_Machine
begin

section \<open>Clusters (pkg/capi/client.go)\<close>

text \<open>
  Listing, finding and reading Clusters; pausing, resuming, creating, updating, upgrading and
  deleting them; the placeholders for moving and backing up.  \<open>json.Marshal\<close> is the argument
  \<open>marshal\<close> of the operations that use it.
\<close>

subsection \<open>Reading\<close>

definition ListClusters :: "'w Client \<Rightarrow> string \<Rightarrow> smap \<Rightarrow> ('w, Cluster list) io" where
  "ListClusters c namespace labelSelector =
     wrapE (\<lambda>e. Errorf ''failed to list clusters: %w'' [Fw e])
       (rlist (k_clusters (Kube c)) ''Cluster''
         \<lparr>InNamespace = (if namespace \<noteq> '''' then Some namespace else None),
          MatchingLabels = (if length labelSelector > 0 then labelSelector else []),
          OnNode = None\<rparr>)"

definition label_value_matches :: "string \<Rightarrow> Cluster \<Rightarrow> bool" where
  "label_value_matches searchTerm cl =
     list_ex (\<lambda>(k, v). EqualFold v searchTerm) (Labels (C_Meta cl))"

definition FindClustersByLabelValue :: "'w Client \<Rightarrow> string \<Rightarrow> string \<Rightarrow> ('w, Cluster list) io" where
  "FindClustersByLabelValue c namespace searchTerm =
     bindE (ListClusters c namespace []) (\<lambda>allClusters.
     retE (filter (label_value_matches searchTerm) allClusters))"

definition GetCluster :: "'w Client \<Rightarrow> string \<Rightarrow> string \<Rightarrow> ('w, Cluster) io" where
  "GetCluster c namespace name =
     wrapE (\<lambda>e. Errorf ''failed to get cluster %s/%s: %w'' [Fs namespace, Fs name, Fw e])
       (rget (k_clusters (Kube c)) ''Cluster'' namespace name)"

text \<open>The read that the mutating operations start with; its error names no cluster.\<close>

definition fetch_cluster :: "'w Client \<Rightarrow> string \<Rightarrow> string \<Rightarrow> ('w, Cluster) io" where
  "fetch_cluster c namespace name =
     wrapE (\<lambda>e. Errorf ''failed to get cluster: %w'' [Fw e])
       (rget (k_clusters (Kube c)) ''Cluster'' namespace name)"

subsection \<open>Pausing, resuming, deleting\<close>

definition PausedAnnotation :: string where
  "PausedAnnotation = ''cluster.x-k8s.io/paused''"

definition PauseCluster :: "'w Client \<Rightarrow> string \<Rightarrow> string \<Rightarrow> ('w, unit) io" where
  "PauseCluster c namespace name =
     bindE (fetch_cluster c namespace name) (\<lambda>cluster.
     bindE (checkE (CheckUpdate (policy c) ''Cluster'' (C_Meta cluster))) (\<lambda>_.
     bindE (wrapE (\<lambda>e. Errorf ''failed to pause cluster: %w'' [Fw e])
       (rupdate (k_clusters (Kube c)) ''Cluster'' C_Meta
         (cluster\<lparr>C_Meta := set_annotation PausedAnnotation ''true'' (C_Meta cluster)\<rparr>))) (\<lambda>_.
     retE ())))"

definition ResumeCluster :: "'w Client \<Rightarrow> string \<Rightarrow> string \<Rightarrow> ('w, unit) io" where
  "ResumeCluster c namespace name =
     bindE (fetch_cluster c namespace name) (\<lambda>cluster.
     bindE (checkE (CheckUpdate (policy c) ''Cluster'' (C_Meta cluster))) (\<lambda>_.
     bindE (wrapE (\<lambda>e. Errorf ''failed to resume cluster: %w'' [Fw e])
       (rupdate (k_clusters (Kube c)) ''Cluster'' C_Meta
         (cluster\<lparr>C_Meta := delete_annotation PausedAnnotation (C_Meta cluster)\<rparr>))) (\<lambda>_.
     retE ())))"

definition DeleteCluster :: "'w Client \<Rightarrow> string \<Rightarrow> string \<Rightarrow> ('w, unit) io" where
  "DeleteCluster c namespace name =
     bindE (fetch_cluster c namespace name) (\<lambda>cluster.
     bindE (checkE (CheckDelete (policy c) ''Cluster'' (C_Meta cluster))) (\<lambda>_.
     wrapE (\<lambda>e. Errorf ''failed to delete cluster: %w'' [Fw e])
       (rdelete (k_clusters (Kube c)) ''Cluster'' C_Meta cluster)))"

subsection \<open>Creating from a ClusterClass\<close>

record MachineDeploymentSpec =
  MDS_Class :: string
  MDS_Name :: string
  MDS_Replicas :: int32
  MDS_Variables :: "json gomap"

record ClusterNetworkSpec =
  CNS_Pods :: "string list"
  CNS_Services :: "string list"
  CNS_ServiceDomain :: string

record CreateClusterOptions =
  CCO_Name :: string
  CCO_Namespace :: string
  CCO_ClusterClass :: string
  CCO_KubernetesVersion :: string
  CCO_ControlPlaneReplicas :: int32
  CCO_MachineDeployments :: "MachineDeploymentSpec list"
  CCO_Variables :: "json gomap"
  CCO_ClusterNetwork :: "ClusterNetworkSpec option"

fun toClusterVariables :: "(json \<Rightarrow> goerr + string) \<Rightarrow> json gomap \<Rightarrow> goerr + ClusterVariable list" where
  "toClusterVariables marshal [] = Inr []"
| "toClusterVariables marshal ((name, value) # vars) =
     (case marshal value of
        Inl e \<Rightarrow> Inl (Errorf ''failed to marshal value for variable %s: %w'' [Fs name, Fw e])
      | Inr raw \<Rightarrow> (case toClusterVariables marshal vars of
            Inl e \<Rightarrow> Inl e
          | Inr out \<Rightarrow> Inr ((name, raw) # out)))"

definition md_topology ::
  "(json \<Rightarrow> goerr + string) \<Rightarrow> MachineDeploymentSpec \<Rightarrow> goerr + MachineDeploymentTopology" where
  "md_topology marshal md =
     (if length (MDS_Variables md) > 0 then
        (case toClusterVariables marshal (MDS_Variables md) of
           Inl e \<Rightarrow> Inl (Errorf ''machine deployment %s: %w'' [Fs (MDS_Name md), Fw e])
         | Inr overrides \<Rightarrow>
             Inr \<lparr>MDT_Class = MDS_Class md, MDT_Name = MDS_Name md,
               MDT_Replicas = Some (MDS_Replicas md), MDT_Overrides = Some overrides\<rparr>)
      else Inr \<lparr>MDT_Class = MDS_Class md, MDT_Name = MDS_Name md,
             MDT_Replicas = Some (MDS_Replicas md), MDT_Overrides = None\<rparr>)"

fun md_topologies ::
  "(json \<Rightarrow> goerr + string) \<Rightarrow> MachineDeploymentSpec list \<Rightarrow> goerr + MachineDeploymentTopology list" where
  "md_topologies marshal [] = Inr []"
| "md_topologies marshal (md # mds) =
     (case md_topology marshal md of
        Inl e \<Rightarrow> Inl e
      | Inr t \<Rightarrow> (case md_topologies marshal mds of Inl e \<Rightarrow> Inl e | Inr ts \<Rightarrow> Inr (t # ts)))"

definition cluster_network :: "ClusterNetworkSpec option \<Rightarrow> ClusterNetwork option" where
  "cluster_network spec = (case spec of None \<Rightarrow> None | Some ns \<Rightarrow> Some
     \<lparr>CN_Pods = (if length (CNS_Pods ns) > 0 then Some (CNS_Pods ns) else None),
      CN_Services = (if length (CNS_Services ns) > 0 then Some (CNS_Services ns) else None),
      CN_ServiceDomain = CNS_ServiceDomain ns\<rparr>)"

definition new_cluster ::
  "CreateClusterOptions \<Rightarrow> ClusterVariable list \<Rightarrow> MachineDeploymentTopology list \<Rightarrow> Cluster" where
  "new_cluster opts variables mds =
     \<lparr>C_Meta = \<lparr>Name = CCO_Name opts, Namespace = CCO_Namespace opts, UID = '''',
        CreationTimestamp = '''', Labels = [], Annotations = [], OwnerReferences = []\<rparr>,
      C_Paused = False, C_InfrastructureRef = None, C_ControlPlaneRef = None,
      C_ClusterNetwork = cluster_network (CCO_ClusterNetwork opts),
      C_Topology = Some
        \<lparr>T_Class = CCO_ClusterClass opts, T_Version = CCO_KubernetesVersion opts,
         T_ControlPlaneReplicas = Some (CCO_ControlPlaneReplicas opts),
         T_Workers = Some mds, T_Variables = variables\<rparr>,
      C_Phase = '''', C_ControlPlaneReady = False, C_InfrastructureReady = False,
      C_Conditions = []\<rparr>"

definition liftE :: "goerr + 'a \<Rightarrow> ('s, 'a) go" where
  "liftE r = (case r of Inl e \<Rightarrow> failE e | Inr x \<Rightarrow> retE x)"

lemma emits_liftE [emits]: "emits P (liftE r)"
  by (simp add: liftE_def emits split: sum.split)

definition CreateCluster ::
  "(json \<Rightarrow> goerr + string) \<Rightarrow> 'w Client \<Rightarrow> CreateClusterOptions \<Rightarrow> ('w, Cluster) io" where
  "CreateCluster marshal c opts =
     bindE (checkE (CheckCreate (policy c) ''Cluster'' (CCO_Namespace opts) (CCO_Name opts))) (\<lambda>_.
     bindE (wrapE (\<lambda>e. Errorf ''cluster class %s/%s not found: %w''
              [Fs (CCO_Namespace opts), Fs (CCO_ClusterClass opts), Fw e])
       (rget (k_clusterclasses (Kube c)) ''ClusterClass'' (CCO_Namespace opts) (CCO_ClusterClass opts))) (\<lambda>_.
     bindE (liftE (toClusterVariables marshal (CCO_Variables opts))) (\<lambda>variables.
     bindE (liftE (md_topologies marshal (CCO_MachineDeployments opts))) (\<lambda>machineDeployments.
     wrapE (\<lambda>e. Errorf ''failed to create cluster: %w'' [Fw e])
       (rcreate (k_clusters (Kube c)) ''Cluster'' C_Meta
         (new_cluster opts variables machineDeployments))))))"

subsection \<open>Upgrading\<close>

record UpgradeClusterOptions =
  UCO_Namespace :: string
  UCO_Name :: string
  UCO_TargetVersion :: string
  UCO_UpgradeWorkers :: bool

definition upgrade_control_plane :: "'w Client \<Rightarrow> string \<Rightarrow> Cluster \<Rightarrow> ('w, unit) io" where
  "upgrade_control_plane c version cluster =
     (case C_ControlPlaneRef cluster of
        None \<Rightarrow> retE ()
      | Some ref \<Rightarrow>
          if Ref_Kind ref = ''KubeadmControlPlane'' then
            bindE (wrapE (\<lambda>e. Errorf ''failed to get control plane: %w'' [Fw e])
              (rget (k_controlplanes (Kube c)) ''KubeadmControlPlane'' (Ref_Namespace ref) (Ref_Name ref))) (\<lambda>kcp.
            bindE (checkE (CheckUpdate (policy c) ''KubeadmControlPlane'' (KCP_Meta kcp))) (\<lambda>_.
            bindE (wrapE (\<lambda>e. Errorf ''failed to update control plane version: %w'' [Fw e])
              (rupdate (k_controlplanes (Kube c)) ''KubeadmControlPlane'' KCP_Meta
                (kcp\<lparr>KCP_Version := version\<rparr>))) (\<lambda>_.
            retE ())))
          else failE (Errorf ''unsupported control plane type: %s'' [Fs (Ref_Kind ref)]))"

definition upgrade_worker :: "'w Client \<Rightarrow> string \<Rightarrow> MachineDeployment \<Rightarrow> ('w, unit) io" where
  "upgrade_worker c version md =
     (case MD_Version md of
        None \<Rightarrow> retE ()
      | Some _ \<Rightarrow>
          bindE (checkE (CheckUpdate (policy c) ''MachineDeployment'' (MD_Meta md))) (\<lambda>_.
          bindE (wrapE (\<lambda>e. Errorf ''failed to update machine deployment %s: %w''
                   [Fs (Name (MD_Meta md)), Fw e])
            (rupdate (k_machinedeployments (Kube c)) ''MachineDeployment'' MD_Meta
              (md\<lparr>MD_Version := Some version\<rparr>))) (\<lambda>_.
          retE ())))"

definition UpgradeCluster :: "'w Client \<Rightarrow> UpgradeClusterOptions \<Rightarrow> ('w, unit) io" where
  "UpgradeCluster c opts =
     bindE (fetch_cluster c (UCO_Namespace opts) (UCO_Name opts)) (\<lambda>cluster.
     bindE (checkE (CheckUpdate (policy c) ''Cluster'' (C_Meta cluster))) (\<lambda>_.
     bindE (upgrade_control_plane c (UCO_TargetVersion opts) cluster) (\<lambda>_.
     if UCO_UpgradeWorkers opts then
       bindE (wrapE (\<lambda>e. Errorf ''failed to list machine deployments: %w'' [Fw e])
         (ListMachineDeployments c (UCO_Namespace opts) (UCO_Name opts))) (\<lambda>mds.
       forE mds (upgrade_worker c (UCO_TargetVersion opts)))
     else retE ())))"

subsection \<open>Updating metadata, moving, backing up\<close>

record UpdateClusterOptions =
  UPO_Namespace :: string
  UPO_Name :: string
  UPO_Labels :: smap
  UPO_Annotations :: smap

definition UpdateCluster :: "'w Client \<Rightarrow> UpdateClusterOptions \<Rightarrow> ('w, Cluster) io" where
  "UpdateCluster c opts =
     bindE (fetch_cluster c (UPO_Namespace opts) (UPO_Name opts)) (\<lambda>cluster.
     bindE (checkE (CheckUpdate (policy c) ''Cluster'' (C_Meta cluster))) (\<lambda>_.
     wrapE (\<lambda>e. Errorf ''failed to update cluster: %w'' [Fw e])
       (rupdate (k_clusters (Kube c)) ''Cluster'' C_Meta
         (cluster\<lparr>C_Meta := update_metadata (UPO_Labels opts) (UPO_Annotations opts) (C_Meta cluster)\<rparr>))))"

record MoveClusterOptions =
  MVO_Namespace :: string
  MVO_Name :: string
  MVO_TargetKubeconfig :: string
  MVO_TargetNamespace :: string
  MVO_DryRun :: bool

definition MoveCluster :: "'w Client \<Rightarrow> MoveClusterOptions \<Rightarrow> ('w, string) io" where
  "MoveCluster c opts =
     bindE (fetch_cluster c (MVO_Namespace opts) (MVO_Name opts)) (\<lambda>_.
     let targetNs = (if MVO_TargetNamespace opts = '''' then MVO_Namespace opts
                     else MVO_TargetNamespace opts)
     in retE (''# Cluster Move Manifest'' @ nl
        @ ''# Source: '' @ MVO_Namespace opts @ ''/'' @ MVO_Name opts @ nl
        @ ''# Target: '' @ targetNs @ ''/'' @ MVO_Name opts @ nl
        @ ''# Apply this manifest to the target management cluster'' @ nl
        @ ''---'' @ nl
        @ ''# This is a placeholder implementation'' @ nl
        @ ''# In production, use 'clusterctl move' command'' @ nl
        @ ''# Example: clusterctl move --to-kubeconfig=target.kubeconfig'' @ nl))"

record BackupClusterOptions =
  BKO_Namespace :: string
  BKO_Name :: string
  BKO_IncludeSecrets :: bool
  BKO_OutputFormat :: string

definition BackupCluster :: "'w Client \<Rightarrow> BackupClusterOptions \<Rightarrow> ('w, string) io" where
  "BackupCluster c opts =
     bindE (checkE (if BKO_IncludeSecrets opts
        then CheckCredentialExport (policy c) ''Secrets in the backup'' (BKO_Namespace opts) (BKO_Name opts)
        else None)) (\<lambda>_.
     bindE (fetch_cluster c (BKO_Namespace opts) (BKO_Name opts)) (\<lambda>cluster.
     retE (''# Cluster Backup'' @ nl
        @ ''# Cluster: '' @ BKO_Namespace opts @ ''/'' @ BKO_Name opts @ nl
        @ ''# Date: '' @ CreationTimestamp (C_Meta cluster) @ nl
        @ ''# Resources a backup should include:'' @ nl
        @ ''# - Cluster'' @ nl
        @ ''# - Control Plane'' @ nl
        @ ''# - MachineDeployments'' @ nl
        @ ''# - Infrastructure Resources'' @ nl
        @ (if BKO_IncludeSecrets opts then ''# - Secrets (kubeconfig, certificates)'' @ nl else [])
        @ ''---'' @ nl
        @ ''# This is a placeholder implementation'' @ nl
        @ ''# Use velero or similar tools for complete cluster backup'' @ nl
        @ ''# Example: velero backup create cluster-backup --include-namespaces=<namespace>'' @ nl)))"

subsection \<open>What the operations reach\<close>

lemma cluster_reads [emits]:
  "emits is_read (ListClusters c ns sel)"
  "emits is_read (FindClustersByLabelValue c ns v)"
  "emits is_read (GetCluster c ns n)"
  "emits is_read (fetch_cluster c ns n)"
  "emits is_read (MoveCluster c mo)"
  "emits is_read (BackupCluster c bo)"
  by (simp_all add: ListClusters_def FindClustersByLabelValue_def GetCluster_def fetch_cluster_def
      MoveCluster_def BackupCluster_def Let_def emits)

interpretation pause_cluster: gated_write CheckUpdate
  "\<lambda>c. PauseCluster c ns n" "\<lambda>c. fetch_cluster c ns n" "''Cluster''" C_Meta
  "\<lambda>c cluster. bindE (wrapE (\<lambda>e. Errorf ''failed to pause cluster: %w'' [Fw e])
     (rupdate (k_clusters (Kube c)) ''Cluster'' C_Meta
       (cluster\<lparr>C_Meta := set_annotation PausedAnnotation ''true'' (C_Meta cluster)\<rparr>))) (\<lambda>_. retE ())"
  for ns n
  by unfold_locales (simp_all add: PauseCluster_def emits)

interpretation resume_cluster: gated_write CheckUpdate
  "\<lambda>c. ResumeCluster c ns n" "\<lambda>c. fetch_cluster c ns n" "''Cluster''" C_Meta
  "\<lambda>c cluster. bindE (wrapE (\<lambda>e. Errorf ''failed to resume cluster: %w'' [Fw e])
     (rupdate (k_clusters (Kube c)) ''Cluster'' C_Meta
       (cluster\<lparr>C_Meta := delete_annotation PausedAnnotation (C_Meta cluster)\<rparr>))) (\<lambda>_. retE ())"
  for ns n
  by unfold_locales (simp_all add: ResumeCluster_def emits)

interpretation delete_cluster: gated_write CheckDelete
  "\<lambda>c. DeleteCluster c ns n" "\<lambda>c. fetch_cluster c ns n" "''Cluster''" C_Meta
  "\<lambda>c cluster. wrapE (\<lambda>e. Errorf ''failed to delete cluster: %w'' [Fw e])
     (rdelete (k_clusters (Kube c)) ''Cluster'' C_Meta cluster)"
  for ns n
  by unfold_locales (simp_all add: DeleteCluster_def emits)

interpretation update_cluster: gated_write CheckUpdate
  "\<lambda>c. UpdateCluster c opts"
  "\<lambda>c. fetch_cluster c (UPO_Namespace opts) (UPO_Name opts)" "''Cluster''" C_Meta
  "\<lambda>c cluster. wrapE (\<lambda>e. Errorf ''failed to update cluster: %w'' [Fw e])
     (rupdate (k_clusters (Kube c)) ''Cluster'' C_Meta
       (cluster\<lparr>C_Meta := update_metadata (UPO_Labels opts) (UPO_Annotations opts) (C_Meta cluster)\<rparr>))"
  for opts
  by unfold_locales (simp_all add: UpdateCluster_def emits)

interpretation upgrade_cluster: gated_write CheckUpdate
  "\<lambda>c. UpgradeCluster c opts"
  "\<lambda>c. fetch_cluster c (UCO_Namespace opts) (UCO_Name opts)" "''Cluster''" C_Meta
  "\<lambda>c cluster. bindE (upgrade_control_plane c (UCO_TargetVersion opts) cluster) (\<lambda>_.
     if UCO_UpgradeWorkers opts then
       bindE (wrapE (\<lambda>e. Errorf ''failed to list machine deployments: %w'' [Fw e])
         (ListMachineDeployments c (UCO_Namespace opts) (UCO_Name opts))) (\<lambda>mds.
       forE mds (upgrade_worker c (UCO_TargetVersion opts)))
     else retE ())"
  for opts
  by unfold_locales (simp_all add: UpgradeCluster_def emits)

lemma CreateCluster_read_only [emits]:
  "ReadOnly (policy c) \<Longrightarrow> emits is_read (CreateCluster marshal c opts)"
  by (simp add: CreateCluster_def CheckCreate_def emits)

subsection \<open>Facts about the operations\<close>

lemma paused_not_marker:
  "managed (set_annotation PausedAnnotation v m) = managed m"
  "managed (delete_annotation PausedAnnotation m) = managed m"
  by (simp_all add: managed_iff ManagedBy_def Let_def set_annotation_def delete_annotation_def
      PausedAnnotation_def marker_defs)

lemma fetch_cluster_run:
  "fetch_cluster c ns n s = (Inr cl, t) \<longleftrightarrow> rget (k_clusters (Kube c)) ''Cluster'' ns n s = (Inr cl, t)"
  by (auto simp: fetch_cluster_def wrapE_def split: prod.splits sum.splits)

text \<open>The variables of a topology: one per requested variable, in order, or the first failure.\<close>

lemma toClusterVariables_Inr:
  "toClusterVariables marshal vars = Inr out \<Longrightarrow>
     list_all2 (\<lambda>(name, value) (name', raw). name' = name \<and> marshal value = Inr raw) vars out"
  by (induction marshal vars arbitrary: out rule: toClusterVariables.induct) (auto split: sum.splits)

lemma toClusterVariables_Inl:
  "toClusterVariables marshal vars = Inl e \<Longrightarrow>
     \<exists>name value e'. (name, value) \<in> set vars \<and> marshal value = Inl e'
       \<and> e = Errorf ''failed to marshal value for variable %s: %w'' [Fs name, Fw e']"
  by (induction marshal vars rule: toClusterVariables.induct) (auto split: sum.splits)

definition md_topology_of ::
  "(json \<Rightarrow> goerr + string) \<Rightarrow> MachineDeploymentSpec \<Rightarrow> MachineDeploymentTopology \<Rightarrow> bool" where
  "md_topology_of marshal md t \<longleftrightarrow> MDT_Class t = MDS_Class md \<and> MDT_Name t = MDS_Name md
     \<and> MDT_Replicas t = Some (MDS_Replicas md)
     \<and> (case MDT_Overrides t of None \<Rightarrow> MDS_Variables md = []
        | Some ovs \<Rightarrow> MDS_Variables md \<noteq> [] \<and>
            list_all2 (\<lambda>(name, value) (name', raw). name' = name \<and> marshal value = Inr raw) (MDS_Variables md) ovs)"

lemma md_topologies_Inr:
  "md_topologies marshal mds = Inr ts \<Longrightarrow> list_all2 (md_topology_of marshal) mds ts"
  by (induction marshal mds arbitrary: ts rule: md_topologies.induct)
    (auto simp: md_topology_def md_topology_of_def split: sum.splits if_splits dest: toClusterVariables_Inr)

text \<open>The two phases of an upgrade.\<close>

definition upgrades_control_plane :: "request \<Rightarrow> bool" where
  "upgrades_control_plane q \<longleftrightarrow> is_read q \<or> rq_verb q = VUpdate \<and> rq_kind q = ''KubeadmControlPlane''"

definition upgrades_workers :: "request \<Rightarrow> bool" where
  "upgrades_workers q \<longleftrightarrow> is_read q \<or> rq_verb q = VUpdate \<and> rq_kind q = ''MachineDeployment''"

lemma upgrade_phase_requests:
  "emits upgrades_control_plane (upgrade_control_plane c v cl)"
  "emits upgrades_workers (upgrade_worker c v md)"
  unfolding upgrade_control_plane_def upgrade_worker_def
  by (intro emits; simp add: upgrades_control_plane_def upgrades_workers_def)+

lemma UpgradeCluster_phases:
  assumes "UpgradeCluster c opts s = (r, t)"
  shows "\<exists>u. ran upgrades_control_plane s u \<and> ran upgrades_workers u t \<and> (u = t \<or> UCO_UpgradeWorkers opts)"
  using assms
proof (cases rule: bindE_cases [OF assms [unfolded UpgradeCluster_def]])
  case (1 e)
  have "ran upgrades_control_plane s t"
    by (rule ran_mono [OF emits_ran [OF cluster_reads(4) 1(1)]]) (simp add: upgrades_control_plane_def)
  then show ?thesis by auto
next
  case (2 cl u)
  have fetched: "ran upgrades_control_plane s u"
    by (rule ran_mono [OF emits_ran [OF cluster_reads(4) 2(1)]]) (simp add: upgrades_control_plane_def)
  show ?thesis
  proof (cases "CheckUpdate (policy c) ''Cluster'' (C_Meta cl)")
    case (Some e)
    with 2(2) fetched show ?thesis by auto
  next
    case None
    obtain q v where cp: "upgrade_control_plane c (UCO_TargetVersion opts) cl u = (q, v)" by fastforce
    have first: "ran upgrades_control_plane s v"
      using fetched emits_ran [OF upgrade_phase_requests(1) cp] by (rule ran_trans)
    show ?thesis
    proof (cases q)
      case (Inl e)
      with None 2(2) cp first show ?thesis by (auto simp: bindE_def retE_def)
    next
      case (Inr x)
      let ?workers = "bindE (wrapE (\<lambda>e. Errorf ''failed to list machine deployments: %w'' [Fw e])
         (ListMachineDeployments c (UCO_Namespace opts) (UCO_Name opts))) (\<lambda>mds.
       forE mds (upgrade_worker c (UCO_TargetVersion opts)))"
      have run: "(if UCO_UpgradeWorkers opts then ?workers else retE ()) v = (r, t)"
        using None 2(2) cp Inr by (simp add: bindE_def retE_def)
      have "emits upgrades_workers ?workers"
        by (intro emits emits_mono [OF machine_reads(3)] upgrade_phase_requests) (simp add: upgrades_workers_def)
      with run first show ?thesis
        by (cases "UCO_UpgradeWorkers opts") (auto dest: emits_ran)
    qed
  qed
qed

text \<open>
  What is relied on of a server that stores Clusters: a read does not lose the object, and an
  update of an object that is there succeeds and a later read of the name returns what was written.
\<close>

definition stores_clusters :: "'w kube \<Rightarrow> bool" where
  "stores_clusters k \<longleftrightarrow>
     (\<forall>ns n w cl. fst (RGet (k_clusters k) ns n w) = Inr cl \<longrightarrow>
        fst (RGet (k_clusters k) ns n (snd (RGet (k_clusters k) ns n w))) = Inr cl)
     \<and> (\<forall>cl w old. fst (RGet (k_clusters k) (Namespace (C_Meta cl)) (Name (C_Meta cl)) w) = Inr old \<longrightarrow>
        fst (RUpdate (k_clusters k) cl w) = Inr cl
        \<and> fst (RGet (k_clusters k) (Namespace (C_Meta cl)) (Name (C_Meta cl))
             (snd (RUpdate (k_clusters k) cl w))) = Inr cl)"

lemma stored_cluster:
  assumes "stores_clusters (Kube c)" and "fetch_cluster c ns n s = (Inr old, t)"
    and "Namespace (C_Meta cl) = ns" and "Name (C_Meta cl) = n"
  shows "\<exists>u. rupdate (k_clusters (Kube c)) ''Cluster'' C_Meta cl t = (Inr cl, u)
     \<and> (\<exists>v. fetch_cluster c ns n u = (Inr cl, v))"
proof -
  let ?r = "k_clusters (Kube c)"
  have get: "RGet ?r ns n (env s) = (Inr old, env t)"
    using assms(2) by (auto simp: fetch_cluster_run rget_def api_def split: prod.splits)
  then have "fst (RGet ?r ns n (env t)) = Inr old"
    using assms(1) unfolding stores_clusters_def by (metis fst_conv snd_conv)
  then have "fst (RUpdate ?r cl (env t)) = Inr cl"
    and "fst (RGet ?r ns n (snd (RUpdate ?r cl (env t)))) = Inr cl"
    using assms unfolding stores_clusters_def by blast+
  then show ?thesis
    by (cases "RUpdate ?r cl (env t)"; cases "RGet ?r ns n (snd (RUpdate ?r cl (env t)))")
      (auto simp: fetch_cluster_run rupdate_def rget_def api_def)
qed

definition with_annotation :: "string option \<Rightarrow> Cluster \<Rightarrow> Cluster" where
  "with_annotation v cl = cl\<lparr>C_Meta := (case v of
       Some x \<Rightarrow> set_annotation PausedAnnotation x (C_Meta cl)
     | None \<Rightarrow> delete_annotation PausedAnnotation (C_Meta cl))\<rparr>"

lemma annotation_key [simp]:
  "Name (C_Meta (with_annotation v cl)) = Name (C_Meta cl)"
  "Namespace (C_Meta (with_annotation v cl)) = Namespace (C_Meta cl)"
  by (simp_all add: with_annotation_def set_annotation_def delete_annotation_def split: option.split)

lemma with_annotation_map:
  "map_of (Annotations (C_Meta (with_annotation v cl))) = (map_of (Annotations (C_Meta cl)))(PausedAnnotation := v)"
  by (simp add: with_annotation_def set_annotation_def delete_annotation_def update_conv' delete_conv'
      split: option.split)

lemma with_annotation_frame:
  "(with_annotation v cl)\<lparr>C_Meta := (C_Meta (with_annotation v cl))\<lparr>Annotations := []\<rparr>\<rparr>
     = cl\<lparr>C_Meta := (C_Meta cl)\<lparr>Annotations := []\<rparr>\<rparr>"
  by (simp add: with_annotation_def set_annotation_def delete_annotation_def split: option.split)

lemma pause_resume_run:
  assumes "stores_clusters (Kube c)" and "fetch_cluster c ns n s = (Inr cl, t)"
    and "Namespace (C_Meta cl) = ns" and "Name (C_Meta cl) = n"
    and "CheckUpdate (policy c) ''Cluster'' (C_Meta cl) = None"
  shows "\<exists>u v. PauseCluster c ns n s = (Inr (), u) \<and> fetch_cluster c ns n u = (Inr (with_annotation (Some ''true'') cl), v)"
    and "\<exists>u v. ResumeCluster c ns n s = (Inr (), u) \<and> fetch_cluster c ns n u = (Inr (with_annotation None cl), v)"
proof -
  obtain u v where "rupdate (k_clusters (Kube c)) ''Cluster'' C_Meta (with_annotation (Some ''true'') cl) t
      = (Inr (with_annotation (Some ''true'') cl), u)"
    "fetch_cluster c ns n u = (Inr (with_annotation (Some ''true'') cl), v)"
    using stored_cluster [OF assms(1,2), of "with_annotation (Some ''true'') cl"] assms(3,4) by auto
  then show "\<exists>u v. PauseCluster c ns n s = (Inr (), u) \<and> fetch_cluster c ns n u = (Inr (with_annotation (Some ''true'') cl), v)"
    using pause_cluster.permitted [OF assms(2,5)]
    by (simp add: with_annotation_def bindE_def wrapE_def retE_def)
  obtain u v where "rupdate (k_clusters (Kube c)) ''Cluster'' C_Meta (with_annotation None cl) t
      = (Inr (with_annotation None cl), u)"
    "fetch_cluster c ns n u = (Inr (with_annotation None cl), v)"
    using stored_cluster [OF assms(1,2), of "with_annotation None cl"] assms(3,4) by auto
  then show "\<exists>u v. ResumeCluster c ns n s = (Inr (), u) \<and> fetch_cluster c ns n u = (Inr (with_annotation None cl), v)"
    using resume_cluster.permitted [OF assms(2,5)]
    by (simp add: with_annotation_def bindE_def wrapE_def retE_def)
qed

text \<open>Removing the label that prevents a deletion does not change who owns the object.\<close>

lemma unprotect_managed:
  "managed (update_metadata [(PreventDeletionLabel, '''')] [] m) = managed m"
  by (simp add: managed_iff ManagedBy_def Let_def update_metadata_def marker_defs)

subsection \<open>Properties\<close>

text \<open>
  C30. Against a server that stores what it is given, pausing a cluster the policy lets update
  makes its paused annotation true, and resuming it then succeeds too and leaves the annotations
  as they were but for the paused one; labels, owners and everything else are unchanged.
\<close>

theorem pause_then_resume:
  assumes "stores_clusters (Kube c)" and "fetch_cluster c ns n s = (Inr cl, t)"
    and "Namespace (C_Meta cl) = ns" and "Name (C_Meta cl) = n"
    and "CheckUpdate (policy c) ''Cluster'' (C_Meta cl) = None"
  shows "\<exists>u v w x paused resumed. PauseCluster c ns n s = (Inr (), u)
     \<and> fetch_cluster c ns n u = (Inr paused, v)
     \<and> map_of (Annotations (C_Meta paused)) = (map_of (Annotations (C_Meta cl)))(PausedAnnotation \<mapsto> ''true'')
     \<and> ResumeCluster c ns n u = (Inr (), w) \<and> fetch_cluster c ns n w = (Inr resumed, x)
     \<and> map_of (Annotations (C_Meta resumed)) = (map_of (Annotations (C_Meta cl)))(PausedAnnotation := None)
     \<and> resumed\<lparr>C_Meta := (C_Meta resumed)\<lparr>Annotations := []\<rparr>\<rparr> = cl\<lparr>C_Meta := (C_Meta cl)\<lparr>Annotations := []\<rparr>\<rparr>"
proof -
  obtain u v where pause: "PauseCluster c ns n s = (Inr (), u)"
      "fetch_cluster c ns n u = (Inr (with_annotation (Some ''true'') cl), v)"
    using pause_resume_run(1) [OF assms] by blast
  have "CheckUpdate (policy c) ''Cluster'' (C_Meta (with_annotation (Some ''true'') cl)) = None"
    using assms(5) by (simp add: CheckUpdate_None_iff with_annotation_def paused_not_marker)
  then obtain w x where resume: "ResumeCluster c ns n u = (Inr (), w)"
      "fetch_cluster c ns n w = (Inr (with_annotation None (with_annotation (Some ''true'') cl)), x)"
    using pause_resume_run(2) [OF assms(1) pause(2)] assms(3,4) by auto
  have "map_of (Annotations (C_Meta (with_annotation None (with_annotation (Some ''true'') cl))))
      = (map_of (Annotations (C_Meta cl)))(PausedAnnotation := None)"
    by (simp add: with_annotation_map)
  with pause resume with_annotation_map [of "Some ''true''" cl]
    with_annotation_frame [of None "with_annotation (Some ''true'') cl"] with_annotation_frame [of "Some ''true''" cl]
  show ?thesis by metis
qed

text \<open>
  C21. Nothing protects the label that prevents a deletion: on a Cluster the policy lets update,
  UpdateCluster with an empty value for it removes it, and the DeleteCluster that follows then passes
  its checks and sends the deletion.
\<close>

theorem protection_label_removable:
  assumes "stores_clusters (Kube c)" and "fetch_cluster c ns n s = (Inr cl, t)"
    and "Namespace (C_Meta cl) = ns" and "Name (C_Meta cl) = n"
    and "CheckUpdate (policy c) ''Cluster'' (C_Meta cl) = None"
  shows "\<exists>cl' u. UpdateCluster c \<lparr>UPO_Namespace = ns, UPO_Name = n,
       UPO_Labels = [(PreventDeletionLabel, '''')], UPO_Annotations = []\<rparr> s = (Inr cl', u)
     \<and> \<not> protected (C_Meta cl') \<and> requests (snd (DeleteCluster c ns n u))
         = requests u @ [Request VGet ''Cluster'' ns n, Request VDelete ''Cluster'' ns n]"
proof -
  let ?opts = "\<lparr>UPO_Namespace = ns, UPO_Name = n,
      UPO_Labels = [(PreventDeletionLabel, '''')], UPO_Annotations = []\<rparr>"
  define cl' where "cl' = cl\<lparr>C_Meta := update_metadata [(PreventDeletionLabel, '''')] [] (C_Meta cl)\<rparr>"
  have key: "Namespace (C_Meta cl') = ns" "Name (C_Meta cl') = n"
    using assms(3,4) by (simp_all add: cl'_def update_metadata_def)
  obtain u v where upd: "rupdate (k_clusters (Kube c)) ''Cluster'' C_Meta cl' t = (Inr cl', u)"
    and get: "fetch_cluster c ns n u = (Inr cl', v)"
    using stored_cluster [OF assms(1,2) key] by blast
  have free: "\<not> protected (C_Meta cl')"
    by (auto simp: cl'_def update_metadata_def protected_def delete_conv')
  have "managed (C_Meta cl') = managed (C_Meta cl)" by (simp add: cl'_def unprotect_managed)
  with assms(5) free have "CheckDelete (policy c) ''Cluster'' (C_Meta cl') = None"
    by (simp add: CheckUpdate_None_iff CheckDelete_None_iff)
  from delete_cluster.permitted [OF get this] have
    "requests (snd (DeleteCluster c ns n u)) = requests v @ [Request VDelete ''Cluster'' ns n]"
    using key by (simp add: request_simps)
  moreover have "requests v = requests u @ [Request VGet ''Cluster'' ns n]"
    using get by (auto simp: fetch_cluster_run rget_def api_def split: prod.splits)
  moreover have "fetch_cluster c (UPO_Namespace ?opts) (UPO_Name ?opts) s = (Inr cl, t)"
    using assms(2) by simp
  from update_cluster.permitted [OF this assms(5)] have "UpdateCluster c ?opts s = (Inr cl', u)"
    using upd by (simp add: cl'_def wrapE_def)
  ultimately show ?thesis using free by fastforce
qed

text \<open>
  C29. An upgrade runs in two phases: the first reads and updates only KubeadmControlPlanes, the
  second, which is there only when workers are to be upgraded, reads and updates only
  MachineDeployments; no worker is touched before the control plane phase is over.
\<close>

theorem upgrade_control_plane_first:
  "\<exists>u. ran upgrades_control_plane s u \<and> ran upgrades_workers u (snd (UpgradeCluster c opts s))
     \<and> (UCO_UpgradeWorkers opts \<or> u = snd (UpgradeCluster c opts s))"
  using UpgradeCluster_phases [of c opts s] by (metis prod.collapse)

text \<open>
  CreateCluster sends its one create request exactly when the policy permits it, the
  ClusterClass exists and every variable can be encoded, and the topology it sends has one variable
  per requested variable and one MachineDeployment per requested one, in order, with the requested
  classes, names, replicas and encoded overrides.
\<close>

theorem create_cluster_requests:
  "requests (snd (CreateCluster marshal c opts s)) = requests s @
     (if ReadOnly (policy c) then []
      else Request VGet ''ClusterClass'' (CCO_Namespace opts) (CCO_ClusterClass opts) #
       (case fst (rget (k_clusterclasses (Kube c)) ''ClusterClass'' (CCO_Namespace opts) (CCO_ClusterClass opts) s) of
          Inl _ \<Rightarrow> []
        | Inr _ \<Rightarrow> (case toClusterVariables marshal (CCO_Variables opts) of
             Inl _ \<Rightarrow> []
           | Inr _ \<Rightarrow> (case md_topologies marshal (CCO_MachineDeployments opts) of
                Inl _ \<Rightarrow> []
              | Inr _ \<Rightarrow> [Request VCreate ''Cluster'' (CCO_Namespace opts) (CCO_Name opts)]))))"
proof (cases "ReadOnly (policy c)")
  case True
  then show ?thesis by (simp add: CreateCluster_def CheckCreate_def request_simps)
next
  case False
  then show ?thesis
    by (cases "toClusterVariables marshal (CCO_Variables opts)";
        cases "md_topologies marshal (CCO_MachineDeployments opts)")
      (auto simp: CreateCluster_def CheckCreate_def liftE_def new_cluster_def go_simps
        split: prod.split sum.split)
qed

text \<open>
  The encoding of variables is all or nothing: on success each variable and each override is
  the encoding of the requested value under its name, in order; a failure names a variable whose
  value could not be encoded.
\<close>

theorem topology_variables_encoded:
  "(case toClusterVariables marshal vars of
      Inr out \<Rightarrow> list_all2 (\<lambda>(name, value) (name', raw). name' = name \<and> marshal value = Inr raw) vars out
    | Inl e \<Rightarrow> (\<exists>name value e'. (name, value) \<in> set vars \<and> marshal value = Inl e'
        \<and> e = Errorf ''failed to marshal value for variable %s: %w'' [Fs name, Fw e']))
   \<and> (case md_topologies marshal mds of Inr ts \<Rightarrow> list_all2 (md_topology_of marshal) mds ts | Inl _ \<Rightarrow> True)"
  using toClusterVariables_Inr toClusterVariables_Inl md_topologies_Inr by (auto split: sum.split)

subsection \<open>Examples\<close>

lemma find_after_update:
  "find (at_key m (Namespace (m x)) (Name (m x))) xs = Some y \<Longrightarrow>
   find (at_key m (Namespace (m x)) (Name (m x)))
     (map (\<lambda>z. if at_key m (Namespace (m x)) (Name (m x)) z then x else z) xs) = Some x"
  by (induction xs) (auto simp: at_key_def)

lemma memory_stores_clusters: "stores_clusters memory"
  by (auto simp: stores_clusters_def kinds_run calls_run find_after_update split: option.splits)

theorem protection_label_removable_witness:
  "\<exists>cl' u. UpdateCluster (memory_client open_policy) \<lparr>UPO_Namespace = ''org'', UPO_Name = ''demo'',
       UPO_Labels = [(PreventDeletionLabel, '''')], UPO_Annotations = []\<rparr>
       (start (empty_world\<lparr>w_clusters := [example_cluster ''demo'' [(PreventDeletionLabel, ''true'')]]\<rparr>)) = (Inr cl', u)
     \<and> \<not> protected (C_Meta cl')
     \<and> requests (snd (DeleteCluster (memory_client open_policy) ''org'' ''demo'' u))
         = requests u @ [Request VGet ''Cluster'' ''org'' ''demo'', Request VDelete ''Cluster'' ''org'' ''demo'']"
proof -
  let ?cl = "example_cluster ''demo'' [(PreventDeletionLabel, ''true'')]"
  let ?s = "start (empty_world\<lparr>w_clusters := [?cl]\<rparr>)"
  obtain t where "fetch_cluster (memory_client open_policy) ''org'' ''demo'' ?s = (Inr ?cl, t)"
    by (simp add: fetch_cluster_def example_simps)
  moreover have "stores_clusters (Kube (memory_client open_policy))"
    by (simp add: client_run memory_stores_clusters)
  moreover have "CheckUpdate (policy (memory_client open_policy)) ''Cluster'' (C_Meta ?cl) = None"
    by (simp add: CheckUpdate_def policy_check_def ManagedBy_def example_simps marker_defs)
  moreover have "Namespace (C_Meta ?cl) = ''org''" "Name (C_Meta ?cl) = ''demo''"
    by (simp_all add: example_simps)
  ultimately show ?thesis using protection_label_removable by blast
qed

theorem pause_then_resume_witness:
  "\<exists>u w. PauseCluster (memory_client open_policy) ''org'' ''demo''
        (start (empty_world\<lparr>w_clusters := [example_cluster ''demo'' []]\<rparr>)) = (Inr (), u)
     \<and> ResumeCluster (memory_client open_policy) ''org'' ''demo'' u = (Inr (), w)"
proof -
  let ?s = "start (empty_world\<lparr>w_clusters := [example_cluster ''demo'' []]\<rparr>)"
  have "\<exists>t. fetch_cluster (memory_client open_policy) ''org'' ''demo'' ?s = (Inr (example_cluster ''demo'' []), t)"
    by (simp add: fetch_cluster_def example_simps)
  then obtain t where "fetch_cluster (memory_client open_policy) ''org'' ''demo'' ?s = (Inr (example_cluster ''demo'' []), t)"
    by blast
  moreover have "stores_clusters (Kube (memory_client open_policy))"
    by (simp add: client_run memory_stores_clusters)
  moreover have "CheckUpdate (policy (memory_client open_policy)) ''Cluster'' (C_Meta (example_cluster ''demo'' [])) = None"
    by (simp add: CheckUpdate_def policy_check_def ManagedBy_def example_simps marker_defs)
  moreover have "Namespace (C_Meta (example_cluster ''demo'' [])) = ''org''" "Name (C_Meta (example_cluster ''demo'' [])) = ''demo''"
    by (simp_all add: example_simps)
  ultimately show ?thesis
    using pause_then_resume [of "memory_client open_policy" "''org''" "''demo''" ?s "example_cluster ''demo'' []" t]
    by blast
qed

end
