(* ===== verification/Capi_Provider.thy ===== *)
theory Capi_Provider
  imports Capi_Cluster Capi_KeyStore
begin

section \<open>Providers, control planes and scaling (pkg/capi/providers.go)\<close>

text \<open>
  Which infrastructure provider a cluster uses, the KubeadmControlPlane reads, and scaling: of a
  control plane, of a MachineDeployment, and of a cluster, which for a ClusterClass-managed one
  writes the replica count into the Cluster's topology.  Replica counts arrive as Go's 64-bit
  \<open>int\<close> and are written as 32-bit words.  Under the contract of Capi_KeyStore, scaling a cluster is a
  function of the objects kept.
\<close>

type_synonym goint = "64 word"

datatype Provider = ProviderAWS | ProviderAzure | ProviderGCP | ProviderVSphere | ProviderVCD
  | ProviderUnknown

fun provider_string :: "Provider \<Rightarrow> string" where
  "provider_string ProviderAWS = ''aws''"
| "provider_string ProviderAzure = ''azure''"
| "provider_string ProviderGCP = ''gcp''"
| "provider_string ProviderVSphere = ''vsphere''"
| "provider_string ProviderVCD = ''vcd''"
| "provider_string ProviderUnknown = ''unknown''"

definition DetermineProvider :: "Cluster \<Rightarrow> Provider" where
  "DetermineProvider cluster = (case C_InfrastructureRef cluster of
       None \<Rightarrow> ProviderUnknown
     | Some ref \<Rightarrow>
         if Ref_Kind ref = ''AWSCluster'' then ProviderAWS
         else if Ref_Kind ref = ''AzureCluster'' then ProviderAzure
         else if Ref_Kind ref = ''GCPCluster'' then ProviderGCP
         else if Ref_Kind ref = ''VSphereCluster'' then ProviderVSphere
         else if Ref_Kind ref = ''VCDCluster'' then ProviderVCD
         else ProviderUnknown)"

definition GetProviderForCluster :: "'w Client \<Rightarrow> string \<Rightarrow> string \<Rightarrow> ('w, Provider) io" where
  "GetProviderForCluster c namespace clusterName =
     bindE (GetCluster c namespace clusterName) (\<lambda>cluster. retE (DetermineProvider cluster))"

definition GetKubeadmControlPlane ::
  "'w Client \<Rightarrow> string \<Rightarrow> string \<Rightarrow> ('w, KubeadmControlPlane) io" where
  "GetKubeadmControlPlane c namespace name =
     wrapE (\<lambda>e. Errorf ''failed to get KubeadmControlPlane %s/%s: %w'' [Fs namespace, Fs name, Fw e])
       (rget (k_controlplanes (Kube c)) ''KubeadmControlPlane'' namespace name)"

definition ListKubeadmControlPlanes ::
  "'w Client \<Rightarrow> string \<Rightarrow> ('w, KubeadmControlPlane list) io" where
  "ListKubeadmControlPlanes c namespace =
     wrapE (\<lambda>e. Errorf ''failed to list KubeadmControlPlanes: %w'' [Fw e])
       (rlist (k_controlplanes (Kube c)) ''KubeadmControlPlane''
         \<lparr>InNamespace = (if namespace \<noteq> '''' then Some namespace else None),
          MatchingLabels = [], OnNode = None\<rparr>)"

text \<open>\<open>into\<close> decides the kind that is read, which is the resource here.\<close>

definition GetInfrastructureResource ::
  "('w, 'o) resource \<Rightarrow> string \<Rightarrow> string \<Rightarrow> string \<Rightarrow> ('w, 'o) io" where
  "GetInfrastructureResource resource kind namespace name =
     wrapE (\<lambda>e. Errorf ''failed to get infrastructure resource: %w'' [Fw e]) (rget resource kind namespace name)"

subsection \<open>Scaling one object\<close>

definition ScaleControlPlane :: "'w Client \<Rightarrow> string \<Rightarrow> string \<Rightarrow> int32 \<Rightarrow> ('w, unit) io" where
  "ScaleControlPlane c namespace name replicas =
     bindE (GetKubeadmControlPlane c namespace name) (\<lambda>kcp.
     bindE (checkE (CheckUpdate (policy c) ''KubeadmControlPlane'' (KCP_Meta kcp))) (\<lambda>_.
     bindE (wrapE (\<lambda>e. Errorf ''failed to scale control plane: %w'' [Fw e])
       (rupdate (k_controlplanes (Kube c)) ''KubeadmControlPlane'' KCP_Meta
         (kcp\<lparr>KCP_Replicas := Some replicas\<rparr>))) (\<lambda>_.
     retE ())))"

definition ScaleMachineDeployment :: "'w Client \<Rightarrow> string \<Rightarrow> string \<Rightarrow> int32 \<Rightarrow> ('w, unit) io" where
  "ScaleMachineDeployment c namespace name replicas =
     bindE (GetMachineDeployment c namespace name) (\<lambda>md.
     bindE (checkE (CheckUpdate (policy c) ''MachineDeployment'' (MD_Meta md))) (\<lambda>_.
     bindE (wrapE (\<lambda>e. Errorf ''failed to scale machine deployment: %w'' [Fw e])
       (rupdate (k_machinedeployments (Kube c)) ''MachineDeployment'' MD_Meta
         (md\<lparr>MD_Replicas := Some replicas\<rparr>))) (\<lambda>_.
     retE ())))"

subsection \<open>Scaling a cluster\<close>

definition ClusterTopologyMachineDeploymentNameLabel :: string where
  "ClusterTopologyMachineDeploymentNameLabel = ''topology.cluster.x-k8s.io/deployment-name''"

definition resolveMachineDeploymentTopologyName ::
  "'w Client \<Rightarrow> string \<Rightarrow> string \<Rightarrow> ('w, string) io" where
  "resolveMachineDeploymentTopologyName c namespace machineDeploymentName =
     bindE (tryE (GetMachineDeployment c namespace machineDeploymentName)) (\<lambda>r. case r of
         Inl _ \<Rightarrow> retE machineDeploymentName
       | Inr md \<Rightarrow>
           (case map_of (Labels (MD_Meta md)) ClusterTopologyMachineDeploymentNameLabel of
              Some topologyName \<Rightarrow>
                if topologyName \<noteq> '''' then retE topologyName else retE machineDeploymentName
            | None \<Rightarrow> retE machineDeploymentName))"

text \<open>The loop over the topology's machine deployments, which stops at the first of that name.\<close>

fun scale_topology_worker ::
  "string \<Rightarrow> int32 \<Rightarrow> MachineDeploymentTopology list \<Rightarrow> MachineDeploymentTopology list option" where
  "scale_topology_worker n r [] = None"
| "scale_topology_worker n r (md # mds) =
     (if MDT_Name md = n then Some (md\<lparr>MDT_Replicas := Some r\<rparr> # mds)
      else map_option (Cons md) (scale_topology_worker n r mds))"

definition scaled_topology ::
  "'w Client \<Rightarrow> Cluster \<Rightarrow> Topology \<Rightarrow> string \<Rightarrow> int32 \<Rightarrow> string \<Rightarrow> ('w, Topology) io" where
  "scaled_topology c cluster topology target replicas machineDeploymentName =
     (let ns = Namespace (C_Meta cluster); n = Name (C_Meta cluster) in
      if target = ''controlplane'' then
        retE (topology\<lparr>T_ControlPlaneReplicas := Some replicas\<rparr>)
      else if target = ''workers'' then
        if machineDeploymentName = '''' then
          failE (Errorf ''machineDeployment name is required when scaling workers'' [])
        else (case T_Workers topology of
            None \<Rightarrow> failE (Errorf ''cluster %s/%s has no worker machine deployments in its topology'' [Fs ns, Fs n])
          | Some mds \<Rightarrow>
              bindE (resolveMachineDeploymentTopologyName c ns machineDeploymentName) (\<lambda>topologyName.
              case scale_topology_worker topologyName replicas mds of
                None \<Rightarrow> failE (Errorf ''machine deployment %q not found in cluster %s/%s topology''
                  [Fq machineDeploymentName, Fs ns, Fs n])
              | Some mds' \<Rightarrow> retE (topology\<lparr>T_Workers := Some mds'\<rparr>)))
      else failE (Errorf ''invalid target: %s (must be 'controlplane' or 'workers')'' [Fs target]))"

definition scaleClusterTopology ::
  "'w Client \<Rightarrow> Cluster \<Rightarrow> Topology \<Rightarrow> string \<Rightarrow> int32 \<Rightarrow> string \<Rightarrow> ('w, unit) io" where
  "scaleClusterTopology c cluster topology target replicas machineDeploymentName =
     bindE (checkE (CheckUpdate (policy c) ''Cluster'' (C_Meta cluster))) (\<lambda>_.
     bindE (scaled_topology c cluster topology target replicas machineDeploymentName) (\<lambda>topology'.
     bindE (wrapE (\<lambda>e. Errorf ''failed to scale cluster topology: %w'' [Fw e])
       (rupdate (k_clusters (Kube c)) ''Cluster'' C_Meta (cluster\<lparr>C_Topology := Some topology'\<rparr>))) (\<lambda>_.
     retE ())))"

definition MaxInt32 :: int where "MaxInt32 = 2147483647"

definition ScaleCluster ::
  "'w Client \<Rightarrow> string \<Rightarrow> string \<Rightarrow> string \<Rightarrow> goint \<Rightarrow> string \<Rightarrow> ('w, unit) io" where
  "ScaleCluster c namespace clusterName target replicas machineDeploymentName =
     (if sint replicas < 0 \<or> sint replicas > MaxInt32 then
        failE (Errorf ''replicas %d out of range for int32'' [Fd (sint replicas)])
      else let r = word_of_int (sint replicas) :: int32 in
        bindE (GetCluster c namespace clusterName) (\<lambda>cluster.
        case C_Topology cluster of
          Some topology \<Rightarrow> scaleClusterTopology c cluster topology target r machineDeploymentName
        | None \<Rightarrow>
            if target = ''controlplane'' then ScaleControlPlane c namespace clusterName r
            else if target = ''workers'' then
              if machineDeploymentName = '''' then
                failE (Errorf ''machineDeployment name is required when scaling workers'' [])
              else ScaleMachineDeployment c namespace machineDeploymentName r
            else failE (Errorf ''invalid target: %s (must be 'controlplane' or 'workers')'' [Fs target])))"

subsection \<open>What the operations reach\<close>

lemma provider_reads [emits]:
  "emits is_read (GetProviderForCluster c ns n)"
  "emits is_read (GetKubeadmControlPlane c ns n)"
  "emits is_read (ListKubeadmControlPlanes c ns)"
  by (simp_all add: GetProviderForCluster_def GetKubeadmControlPlane_def
      ListKubeadmControlPlanes_def emits)

lemma resolve_reads [emits]: "emits is_read (resolveMachineDeploymentTopologyName c ns n)"
  unfolding resolveMachineDeploymentTopologyName_def
  by (intro emits machine_reads | simp)+

lemma scaled_topology_reads [emits]: "emits is_read (scaled_topology c cl t tg r md)"
  unfolding scaled_topology_def Let_def by (intro emits resolve_reads)

interpretation scale_control_plane: gated_write CheckUpdate
  "\<lambda>c. ScaleControlPlane c ns n r" "\<lambda>c. GetKubeadmControlPlane c ns n"
  "''KubeadmControlPlane''" KCP_Meta
  "\<lambda>c kcp. bindE (wrapE (\<lambda>e. Errorf ''failed to scale control plane: %w'' [Fw e])
     (rupdate (k_controlplanes (Kube c)) ''KubeadmControlPlane'' KCP_Meta
       (kcp\<lparr>KCP_Replicas := Some r\<rparr>))) (\<lambda>_. retE ())"
  for ns n r
  by unfold_locales (simp_all add: ScaleControlPlane_def emits)

interpretation scale_machine_deployment: gated_write CheckUpdate
  "\<lambda>c. ScaleMachineDeployment c ns n r" "\<lambda>c. GetMachineDeployment c ns n"
  "''MachineDeployment''" MD_Meta
  "\<lambda>c md. bindE (wrapE (\<lambda>e. Errorf ''failed to scale machine deployment: %w'' [Fw e])
     (rupdate (k_machinedeployments (Kube c)) ''MachineDeployment'' MD_Meta
       (md\<lparr>MD_Replicas := Some r\<rparr>))) (\<lambda>_. retE ())"
  for ns n r
  by unfold_locales (simp_all add: ScaleMachineDeployment_def emits)

interpretation scale_topology: gated_write CheckUpdate
  "\<lambda>c. scaleClusterTopology c cluster topology target r md" "\<lambda>c. retE cluster"
  "''Cluster''" C_Meta
  "\<lambda>c _. bindE (scaled_topology c cluster topology target r md) (\<lambda>topology'.
     bindE (wrapE (\<lambda>e. Errorf ''failed to scale cluster topology: %w'' [Fw e])
       (rupdate (k_clusters (Kube c)) ''Cluster'' C_Meta (cluster\<lparr>C_Topology := Some topology'\<rparr>))) (\<lambda>_.
     retE ()))"
  for cluster topology target r md
  by unfold_locales (simp_all add: scaleClusterTopology_def emits)

lemma ScaleCluster_read_only [emits]:
  assumes "ReadOnly (policy c)"
  shows "emits is_read (ScaleCluster c ns n target replicas md)"
  unfolding ScaleCluster_def Let_def
  by (intro emits scale_topology.read_only_reads scale_control_plane.read_only_reads
      scale_machine_deployment.read_only_reads assms)

subsection \<open>Facts about scaling\<close>

lemma replicas_fit:
  assumes "0 \<le> sint (w :: goint)" and "sint w \<le> MaxInt32"
  shows "sint (word_of_int (sint w) :: int32) = sint w"
  unfolding sint_sbintrunc'
  by (rule signed_take_bit_int_eq_self) (use assms in \<open>simp_all add: MaxInt32_def\<close>)

text \<open>
  The loop scales exactly the first machine deployment of the name and keeps every other field of
  the list; it reports failure exactly when there is none.
\<close>

lemma scale_topology_worker_None:
  "scale_topology_worker n r mds = None \<longleftrightarrow> n \<notin> MDT_Name ` set mds"
  by (induction mds) auto

lemma scale_topology_worker_append:
  assumes "n \<notin> MDT_Name ` set xs" and "MDT_Name md = n"
  shows "scale_topology_worker n r (xs @ md # ys) = Some (xs @ md\<lparr>MDT_Replicas := Some r\<rparr> # ys)"
  using assms by (induction xs) auto

lemma scale_topology_worker_Some:
  assumes "scale_topology_worker n r mds = Some mds'"
  obtains xs md ys where "mds = xs @ md # ys" and "n \<notin> MDT_Name ` set xs" and "MDT_Name md = n"
    and "mds' = xs @ md\<lparr>MDT_Replicas := Some r\<rparr> # ys"
proof -
  from assms have "n \<in> MDT_Name ` set mds"
    using scale_topology_worker_None [of n r mds] by auto
  then have "\<exists>md \<in> set mds. MDT_Name md = n" by auto
  then obtain xs md ys where md: "mds = xs @ md # ys" "MDT_Name md = n"
      "\<forall>y \<in> set xs. MDT_Name y \<noteq> n"
    by (auto elim!: split_list_first_propE)
  then have "n \<notin> MDT_Name ` set xs" by auto
  with md assms that show ?thesis by (auto simp: scale_topology_worker_append)
qed

lemma ScaleCluster_topology:
  assumes "GetCluster c ns n s = (Inr cl, t)" and "C_Topology cl = Some topology"
    and "0 \<le> sint replicas" and "sint replicas \<le> MaxInt32"
  shows "ScaleCluster c ns n target replicas md s =
    scaleClusterTopology c cl topology target (word_of_int (sint replicas)) md t"
  using assms by (simp add: ScaleCluster_def bindE_def Let_def)

lemma scaled_topology_workers:
  assumes run: "scaled_topology c cl topology target r md s = (Inr topology', t)"
    and target: "target \<noteq> ''controlplane''"
  obtains mds name mds' where "target = ''workers''" and "T_Workers topology = Some mds"
    and "scale_topology_worker name r mds = Some mds'"
    and "topology' = topology\<lparr>T_Workers := Some mds'\<rparr>"
proof -
  have w: "target = ''workers''" and md: "md \<noteq> []"
    using run target by (auto simp: scaled_topology_def Let_def split: if_splits)
  from run w md obtain mds where mds: "T_Workers topology = Some mds"
    by (cases "T_Workers topology") (auto simp: scaled_topology_def Let_def)
  have body: "bindE (resolveMachineDeploymentTopologyName c (Namespace (C_Meta cl)) md) (\<lambda>topologyName.
      case scale_topology_worker topologyName r mds of
        None \<Rightarrow> failE (Errorf ''machine deployment %q not found in cluster %s/%s topology''
          [Fq md, Fs (Namespace (C_Meta cl)), Fs (Name (C_Meta cl))])
      | Some mds' \<Rightarrow> retE (topology\<lparr>T_Workers := Some mds'\<rparr>)) s = (Inr topology', t)"
    using run w md mds by (simp add: scaled_topology_def Let_def)
  from body obtain name u where "(case scale_topology_worker name r mds of
        None \<Rightarrow> failE (Errorf ''machine deployment %q not found in cluster %s/%s topology''
          [Fq md, Fs (Namespace (C_Meta cl)), Fs (Name (C_Meta cl))])
      | Some mds' \<Rightarrow> retE (topology\<lparr>T_Workers := Some mds'\<rparr>)) u = (Inr topology', t)"
    by (rule bindE_InrD)
  with w mds that show ?thesis by (auto split: option.splits)
qed

definition scales_cluster :: "Cluster \<Rightarrow> request \<Rightarrow> bool" where
  "scales_cluster cl q \<longleftrightarrow> is_read q \<or> q = Request VUpdate ''Cluster'' (Namespace (C_Meta cl)) (Name (C_Meta cl))"

lemma scaleClusterTopology_requests:
  "emits (scales_cluster cl) (scaleClusterTopology c cl topology target r md)"
  unfolding scaleClusterTopology_def
  by (intro emits emits_mono [OF scaled_topology_reads]) (simp_all add: scales_cluster_def)

subsection \<open>Scaling as a function of the objects kept\<close>

text \<open>
  The object that holds a replica count: the topology of a managed cluster, where a worker is named
  by the label of its MachineDeployment if there is one, the KubeadmControlPlane, or the
  MachineDeployment.  \<open>None\<close> is a refusal.
\<close>

definition topology_name :: "objects \<Rightarrow> string \<Rightarrow> string \<Rightarrow> string" where
  "topology_name w ns md = (case deployments_at w (ns, md) of
       None \<Rightarrow> md
     | Some d \<Rightarrow> let l = mget (Labels (MD_Meta d)) ClusterTopologyMachineDeploymentNameLabel in
         if l = '''' then md else l)"

definition topology_scaled :: "string \<Rightarrow> int32 \<Rightarrow> string \<Rightarrow> string \<Rightarrow> Topology \<Rightarrow> Topology option" where
  "topology_scaled target r md name topology =
     (if target = ''controlplane'' then Some (topology\<lparr>T_ControlPlaneReplicas := Some r\<rparr>)
      else if target = ''workers'' \<and> md \<noteq> '''' then
        (case T_Workers topology of
           None \<Rightarrow> None
         | Some mds \<Rightarrow> (case dropWhile (\<lambda>m. MDT_Name m \<noteq> name) mds of
               [] \<Rightarrow> None
             | m # ys \<Rightarrow> Some (topology\<lparr>T_Workers :=
                 Some (takeWhile (\<lambda>m. MDT_Name m \<noteq> name) mds @ m\<lparr>MDT_Replicas := Some r\<rparr> # ys)\<rparr>)))
      else None)"

definition scaled_objects :: "WritePolicy \<Rightarrow> string \<Rightarrow> string \<Rightarrow> string \<Rightarrow> int32 \<Rightarrow> string \<Rightarrow> objects \<Rightarrow> objects option" where
  "scaled_objects p ns n target r md w = (case clusters_at w (ns, n) of
       None \<Rightarrow> None
     | Some cl \<Rightarrow> (case C_Topology cl of
           Some topology \<Rightarrow>
             if CheckUpdate p ''Cluster'' (C_Meta cl) \<noteq> None then None
             else map_option (\<lambda>topology'. w\<lparr>clusters_at := (clusters_at w)((ns, n) \<mapsto> cl\<lparr>C_Topology := Some topology'\<rparr>)\<rparr>)
               (topology_scaled target r md (topology_name w ns md) topology)
         | None \<Rightarrow>
             if target = ''controlplane'' then
               (case controlplanes_at w (ns, n) of
                  None \<Rightarrow> None
                | Some kcp \<Rightarrow> if CheckUpdate p ''KubeadmControlPlane'' (KCP_Meta kcp) \<noteq> None then None
                    else Some (w\<lparr>controlplanes_at := (controlplanes_at w)((ns, n) \<mapsto> kcp\<lparr>KCP_Replicas := Some r\<rparr>)\<rparr>))
             else if target = ''workers'' \<and> md \<noteq> '''' then
               (case deployments_at w (ns, md) of
                  None \<Rightarrow> None
                | Some d \<Rightarrow> if CheckUpdate p ''MachineDeployment'' (MD_Meta d) \<noteq> None then None
                    else Some (w\<lparr>deployments_at := (deployments_at w)((ns, md) \<mapsto> d\<lparr>MD_Replicas := Some r\<rparr>)\<rparr>))
             else None))"

text \<open>What a run does to the objects: it brings about the outcome, or fails and leaves them alone.\<close>

definition realises :: "('w \<Rightarrow> objects) \<Rightarrow> 'w session \<Rightarrow> objects option \<Rightarrow> (goerr + 'a) \<times> 'w session \<Rightarrow> bool" where
  "realises view s outcome run = (case run of
       (Inl e, t) \<Rightarrow> outcome = None \<and> view (env t) = view (env s)
     | (Inr x, t) \<Rightarrow> outcome = Some (view (env t)))"

lemma realises_env: "view (env u) = view (env s) \<Longrightarrow> realises view u outcome run = realises view s outcome run"
  by (cases run) (simp add: realises_def split: sum.split)

lemma realises_bindE:
  assumes "m s = (r, u)" and "view (env u) = view (env s)"
    and "\<And>e. r = Inl e \<Longrightarrow> outcome = None" and "\<And>x. r = Inr x \<Longrightarrow> realises view u outcome (f x u)"
  shows "realises view s outcome (bindE m f s)"
proof (cases r)
  case (Inl e)
  with assms(1-3) show ?thesis by (simp add: bindE_def realises_def)
next
  case (Inr x)
  with assms(1,4) show ?thesis by (simp add: bindE_def realises_env [OF assms(2)])
qed

lemma realises_checkE:
  "(P = None \<Longrightarrow> realises view s outcome (f () s)) \<Longrightarrow> (P \<noteq> None \<Longrightarrow> outcome = None) \<Longrightarrow>
     realises view s outcome (bindE (checkE P) f s)"
  by (cases P) (auto simp: bindE_def realises_def go_simps)

lemma realises_failE: "outcome = None \<Longrightarrow> realises view s outcome (failE e s)"
  by (simp add: realises_def failE_def)

lemma realises_update:
  assumes "kind_store r view sel upd mt um id (\<lambda>_ _. True)" and "sel (view (env s)) (key_of (mt x)) = Some old"
    and "outcome = Some (upd (\<lambda>m. m(key_of (mt x) \<mapsto> x)) (view (env s)))"
  shows "realises view s outcome (bindE (wrapE w (rupdate r kind mt x)) (\<lambda>_. retE ()) s)"
proof -
  obtain res t where run: "rupdate r kind mt x s = (res, t)" by fastforce
  from update_store(1) [OF assms(1) run assms(2)] run assms(3) show ?thesis
    by (simp add: realises_def go_simps)
qed

lemma scale_topology_worker_first:
  "scale_topology_worker n r mds = (case dropWhile (\<lambda>m. MDT_Name m \<noteq> n) mds of
     [] \<Rightarrow> None | m # ys \<Rightarrow> Some (takeWhile (\<lambda>m. MDT_Name m \<noteq> n) mds @ m\<lparr>MDT_Replicas := Some r\<rparr> # ys))"
  by (induction mds) (auto split: list.split simp del: dropWhile_eq_Nil_conv)

lemma realises_get:
  assumes "kind_store r view sel upd mt um kept admits"
    and found: "\<And>x u. sel (view (env s)) (ns, n) = Some x \<Longrightarrow> view (env u) = view (env s) \<Longrightarrow> realises view u outcome (f x u)"
    and none: "sel (view (env s)) (ns, n) = None \<Longrightarrow> outcome = None"
  shows "realises view s outcome (bindE (wrapE w (rget r kind ns n)) f s)"
proof -
  obtain res u where run: "rget r kind ns n s = (res, u)" by fastforce
  note law = get_store [OF assms(1) run]
  show ?thesis
  proof (cases "sel (view (env s)) (ns, n)")
    case None
    with law none show ?thesis by (auto simp: realises_def bindE_def wrapE_def run)
  next
    case (Some x)
    with law(2) found [OF Some law(1)] show ?thesis
      by (simp add: bindE_def wrapE_def run realises_env [of view, OF law(1)])
  qed
qed

lemma ScaleControlPlane_realises:
  fixes c :: "'w Client"
  assumes "api_store (Kube c) view" and "well_keyed (view (env s))"
  shows "realises view s (case controlplanes_at (view (env s)) (ns, n) of
       None \<Rightarrow> None
     | Some kcp \<Rightarrow> if CheckUpdate (policy c) ''KubeadmControlPlane'' (KCP_Meta kcp) \<noteq> None then None
         else Some ((view (env s))\<lparr>controlplanes_at := (controlplanes_at (view (env s)))((ns, n) \<mapsto> kcp\<lparr>KCP_Replicas := Some r\<rparr>)\<rparr>))
     (ScaleControlPlane c ns n r s)"
proof -
  have store: "kind_store (k_controlplanes (Kube c)) view controlplanes_at controlplanes_at_update KCP_Meta KCP_Meta_update id (\<lambda>_ _. True)"
    using assms(1) by (simp add: api_store_def)
  show ?thesis
    unfolding ScaleControlPlane_def GetKubeadmControlPlane_def
  proof (rule realises_get [OF store])
    fix kcp and u :: "'w session"
    assume kcp: "controlplanes_at (view (env s)) (ns, n) = Some kcp" and u: "view (env u) = view (env s)"
    then have key: "key_of (KCP_Meta kcp) = (ns, n)" using assms(2) by (simp add: well_keyed_def keyed_def)
    show "realises view u (case controlplanes_at (view (env s)) (ns, n) of
       None \<Rightarrow> None
     | Some kcp \<Rightarrow> if CheckUpdate (policy c) ''KubeadmControlPlane'' (KCP_Meta kcp) \<noteq> None then None
         else Some ((view (env s))\<lparr>controlplanes_at := (controlplanes_at (view (env s)))((ns, n) \<mapsto> kcp\<lparr>KCP_Replicas := Some r\<rparr>)\<rparr>))
      (bindE (checkE (CheckUpdate (policy c) ''KubeadmControlPlane'' (KCP_Meta kcp))) (\<lambda>_.
       bindE (wrapE (\<lambda>e. Errorf ''failed to scale control plane: %w'' [Fw e])
         (rupdate (k_controlplanes (Kube c)) ''KubeadmControlPlane'' KCP_Meta (kcp\<lparr>KCP_Replicas := Some r\<rparr>))) (\<lambda>_. retE ())) u)"
      by (rule realises_checkE) (use kcp u key in \<open>auto intro!: realises_update [OF store] simp del: fun_upd_apply\<close>)
  qed simp
qed

lemma ScaleMachineDeployment_realises:
  fixes c :: "'w Client"
  assumes "api_store (Kube c) view" and "well_keyed (view (env s))"
  shows "realises view s (case deployments_at (view (env s)) (ns, md) of
       None \<Rightarrow> None
     | Some d \<Rightarrow> if CheckUpdate (policy c) ''MachineDeployment'' (MD_Meta d) \<noteq> None then None
         else Some ((view (env s))\<lparr>deployments_at := (deployments_at (view (env s)))((ns, md) \<mapsto> d\<lparr>MD_Replicas := Some r\<rparr>)\<rparr>))
     (ScaleMachineDeployment c ns md r s)"
proof -
  have store: "kind_store (k_machinedeployments (Kube c)) view deployments_at deployments_at_update MD_Meta MD_Meta_update id (\<lambda>_ _. True)"
    using assms(1) by (simp add: api_store_def)
  show ?thesis
    unfolding ScaleMachineDeployment_def GetMachineDeployment_def
  proof (rule realises_get [OF store])
    fix d and u :: "'w session"
    assume d: "deployments_at (view (env s)) (ns, md) = Some d" and u: "view (env u) = view (env s)"
    then have key: "key_of (MD_Meta d) = (ns, md)" using assms(2) by (simp add: well_keyed_def keyed_def)
    show "realises view u (case deployments_at (view (env s)) (ns, md) of
       None \<Rightarrow> None
     | Some d \<Rightarrow> if CheckUpdate (policy c) ''MachineDeployment'' (MD_Meta d) \<noteq> None then None
         else Some ((view (env s))\<lparr>deployments_at := (deployments_at (view (env s)))((ns, md) \<mapsto> d\<lparr>MD_Replicas := Some r\<rparr>)\<rparr>))
      (bindE (checkE (CheckUpdate (policy c) ''MachineDeployment'' (MD_Meta d))) (\<lambda>_.
       bindE (wrapE (\<lambda>e. Errorf ''failed to scale machine deployment: %w'' [Fw e])
         (rupdate (k_machinedeployments (Kube c)) ''MachineDeployment'' MD_Meta (d\<lparr>MD_Replicas := Some r\<rparr>))) (\<lambda>_. retE ())) u)"
      by (rule realises_checkE) (use d u key in \<open>auto intro!: realises_update [OF store] simp del: fun_upd_apply\<close>)
  qed simp
qed

lemma resolve_store:
  assumes "api_store (Kube c) view" and "resolveMachineDeploymentTopologyName c ns md s = (res, t)"
  shows "res = Inr (topology_name (view (env s)) ns md) \<and> view (env t) = view (env s)"
proof -
  have store: "kind_store (k_machinedeployments (Kube c)) view deployments_at deployments_at_update MD_Meta MD_Meta_update id (\<lambda>_ _. True)"
    using assms(1) by (simp add: api_store_def)
  obtain q u where run: "rget (k_machinedeployments (Kube c)) ''MachineDeployment'' ns md s = (q, u)" by fastforce
  note law = get_store [OF store run]
  show ?thesis
  proof (cases "deployments_at (view (env s)) (ns, md)")
    case None
    with law assms(2) show ?thesis
      by (auto simp: resolveMachineDeploymentTopologyName_def GetMachineDeployment_def bindE_def tryE_def wrapE_def
          run topology_name_def retE_def)
  next
    case (Some d)
    with law assms(2) show ?thesis
      by (auto simp: resolveMachineDeploymentTopologyName_def GetMachineDeployment_def bindE_def tryE_def wrapE_def
          run topology_name_def retE_def mget_def Let_def split: option.splits if_splits)
  qed
qed

lemma scaled_topology_store:
  assumes "api_store (Kube c) view" and "scaled_topology c cl topology target r md s = (res, t)"
  shows "view (env t) = view (env s)
     \<and> (case res of
          Inl e \<Rightarrow> topology_scaled target r md (topology_name (view (env s)) (Namespace (C_Meta cl)) md) topology = None
        | Inr topology' \<Rightarrow> topology_scaled target r md (topology_name (view (env s)) (Namespace (C_Meta cl)) md) topology = Some topology')"
proof -
  obtain q u where run: "resolveMachineDeploymentTopologyName c (Namespace (C_Meta cl)) md s = (q, u)" by fastforce
  from resolve_store [OF assms(1) run]
  have q: "q = Inr (topology_name (view (env s)) (Namespace (C_Meta cl)) md)" "view (env u) = view (env s)" by simp_all
  consider "target = ''controlplane''" | "target \<noteq> ''controlplane''" "target \<noteq> ''workers'' \<or> md = ''''"
    | "target = ''workers''" "md \<noteq> ''''" by blast
  then show ?thesis
  proof cases
    case 3
    then show ?thesis using assms(2) q(2)
      by (cases "T_Workers topology")
        (auto simp: scaled_topology_def topology_scaled_def Let_def bindE_def run q(1) scale_topology_worker_first
          failE_def retE_def simp del: dropWhile_eq_Nil_conv split: list.splits)
  qed (use assms(2) in \<open>auto simp: scaled_topology_def topology_scaled_def Let_def failE_def retE_def split: if_splits\<close>)
qed

lemma scaleClusterTopology_realises:
  fixes c :: "'w Client"
  assumes "api_store (Kube c) view" and "clusters_at (view (env s)) (ns, n) = Some cl" and "key_of (C_Meta cl) = (ns, n)"
  shows "realises view s (if CheckUpdate (policy c) ''Cluster'' (C_Meta cl) \<noteq> None then None
       else map_option (\<lambda>topology'. (view (env s))\<lparr>clusters_at := (clusters_at (view (env s)))((ns, n) \<mapsto> cl\<lparr>C_Topology := Some topology'\<rparr>)\<rparr>)
         (topology_scaled target r md (topology_name (view (env s)) ns md) topology))
     (scaleClusterTopology c cl topology target r md s)"
proof -
  have store: "kind_store (k_clusters (Kube c)) view clusters_at clusters_at_update C_Meta C_Meta_update id (\<lambda>_ _. True)"
    using assms(1) by (simp add: api_store_def)
  have ns: "Namespace (C_Meta cl) = ns" using assms(3) by (simp add: key_of_def)
  show ?thesis
    unfolding scaleClusterTopology_def
  proof (rule realises_checkE)
    assume ok: "CheckUpdate (policy c) ''Cluster'' (C_Meta cl) = None"
    obtain res u where run: "scaled_topology c cl topology target r md s = (res, u)" by fastforce
    note law = scaled_topology_store [OF assms(1) run, unfolded ns]
    show "realises view s (if CheckUpdate (policy c) ''Cluster'' (C_Meta cl) \<noteq> None then None
       else map_option (\<lambda>topology'. (view (env s))\<lparr>clusters_at := (clusters_at (view (env s)))((ns, n) \<mapsto> cl\<lparr>C_Topology := Some topology'\<rparr>)\<rparr>)
         (topology_scaled target r md (topology_name (view (env s)) ns md) topology))
      (bindE (scaled_topology c cl topology target r md) (\<lambda>topology'.
       bindE (wrapE (\<lambda>e. Errorf ''failed to scale cluster topology: %w'' [Fw e])
         (rupdate (k_clusters (Kube c)) ''Cluster'' C_Meta (cl\<lparr>C_Topology := Some topology'\<rparr>))) (\<lambda>_. retE ())) s)"
      by (rule realises_bindE [where view = view and m = "scaled_topology c cl topology target r md" and s = s, OF run])
        (use law ok assms(2,3) in \<open>auto intro!: realises_update [OF store] simp del: fun_upd_apply\<close>)
  qed simp
qed

subsection \<open>Properties\<close>

text \<open>
  C33. A replica count outside the range of a 32-bit count is refused before any request is made.
  For every other one, on an API server that keeps objects by key and that nobody else writes to,
  the run brings about, on the objects kept, exactly what scaling them as a function says - the count
  as it was given in the topology of a managed cluster, in the KubeadmControlPlane or in the
  MachineDeployment, and nothing else - and fails, changing nothing, exactly when that function refuses.
\<close>

theorem scale_cluster_range:
  fixes c :: "'w Client"
  assumes "api_store (Kube c) view" and "well_keyed (view (env s))"
  shows "if sint (replicas :: goint) < 0 \<or> 2147483647 < sint replicas
    then (\<exists>e. ScaleCluster c ns n target replicas md s = (Inl e, s))
    else (\<exists>r :: int32. sint r = sint replicas
      \<and> realises view s (scaled_objects (policy c) ns n target r md (view (env s)))
          (ScaleCluster c ns n target replicas md s))"
proof (cases "sint replicas < 0 \<or> 2147483647 < sint replicas")
  case True
  then show ?thesis by (auto simp: ScaleCluster_def MaxInt32_def failE_def)
next
  case False
  obtain r :: int32 where r: "r = word_of_int (sint replicas)" by blast
  have store: "kind_store (k_clusters (Kube c)) view clusters_at clusters_at_update C_Meta C_Meta_update id (\<lambda>_ _. True)"
    using assms(1) by (simp add: api_store_def)
  have "realises view s (scaled_objects (policy c) ns n target r md (view (env s))) (ScaleCluster c ns n target replicas md s)"
    unfolding ScaleCluster_def GetCluster_def Let_def MaxInt32_def if_not_P [OF False] r [symmetric]
  proof (rule realises_get [OF store])
    fix cl and u :: "'w session"
    assume cl: "clusters_at (view (env s)) (ns, n) = Some cl" and u: "view (env u) = view (env s)"
    have key: "key_of (C_Meta cl) = (ns, n)" using cl assms(2) by (simp add: well_keyed_def keyed_def)
    have "clusters_at (view (env u)) (ns, n) = Some cl" "well_keyed (view (env u))" using cl u assms(2) by simp_all
    note parts = scaleClusterTopology_realises [OF assms(1) this(1) key] ScaleControlPlane_realises [OF assms(1) this(2)]
      ScaleMachineDeployment_realises [OF assms(1) this(2)]
    note parts = parts [unfolded u]
    show "realises view u (scaled_objects (policy c) ns n target r md (view (env s))) ((case C_Topology cl of
          Some topology \<Rightarrow> scaleClusterTopology c cl topology target r md
        | None \<Rightarrow>
            if target = ''controlplane'' then ScaleControlPlane c ns n r
            else if target = ''workers'' then
              if md = '''' then failE (Errorf ''machineDeployment name is required when scaling workers'' [])
              else ScaleMachineDeployment c ns md r
            else failE (Errorf ''invalid target: %s (must be 'controlplane' or 'workers')'' [Fs target])) u)"
    proof (cases "C_Topology cl")
      case None
      note cp = parts(2) [of ns n r] and wk = parts(3) [of ns md r]
      consider "target = ''controlplane''" | "target = ''workers''" "md \<noteq> ''''"
        | "target \<noteq> ''controlplane''" "target \<noteq> ''workers'' \<or> md = ''''" by blast
      then show ?thesis
      proof cases
        case 1
        with None cp show ?thesis by (simp add: scaled_objects_def cl realises_env [of view, OF u])
      next
        case 2
        with None wk show ?thesis by (simp add: scaled_objects_def cl realises_env [of view, OF u])
      next
        case 3
        with None show ?thesis by (auto simp: scaled_objects_def cl intro: realises_failE)
      qed
    next
      case (Some topology)
      then show ?thesis using parts(1) [of target r md topology] cl by (simp add: scaled_objects_def realises_env [of view, OF u])
    qed
  qed (simp add: scaled_objects_def)
  moreover have "sint r = sint replicas" using False replicas_fit [of replicas] by (simp add: MaxInt32_def r)
  ultimately show ?thesis using False by auto
qed

text \<open>
  C28. Scaling a ClusterClass-managed cluster writes at most the Cluster itself, never the
  KubeadmControlPlane or the MachineDeployments its topology controller owns.
\<close>

theorem scale_topology_writes_cluster_only:
  assumes "GetCluster c ns n s = (Inr cl, t)" and "C_Topology cl = Some topology"
  shows "ran (scales_cluster cl) s (snd (ScaleCluster c ns n target replicas md s))"
proof (cases "sint replicas < 0 \<or> MaxInt32 < sint replicas")
  case True
  then show ?thesis by (auto simp: ScaleCluster_def failE_def)
next
  case False
  have "ran (scales_cluster cl) s t"
    by (rule ran_mono [OF emits_ran [OF cluster_reads(3) assms(1)]]) (simp add: scales_cluster_def)
  also have "ran (scales_cluster cl) t (snd (ScaleCluster c ns n target replicas md s))"
    using False ScaleCluster_topology [OF assms, of replicas target md]
      emits_ran [OF scaleClusterTopology_requests] by (metis linorder_not_less prod.collapse)
  finally show ?thesis .
qed

text \<open>
  The new topology differs from the old one only in the replica count that was asked for: of
  the control plane, or of the first worker of the resolved name; class, version and variables and
  every other worker stay as they were.
\<close>

theorem scaled_topology_frame:
  "case scaled_topology c cl topology target r md s of (res, t) \<Rightarrow> ran is_read s t \<and> (case res of
     Inl _ \<Rightarrow> True
   | Inr topology' \<Rightarrow> T_Class topology' = T_Class topology \<and> T_Version topology' = T_Version topology
      \<and> T_Variables topology' = T_Variables topology
      \<and> (if target = ''controlplane''
         then T_ControlPlaneReplicas topology' = Some r \<and> T_Workers topology' = T_Workers topology
         else target = ''workers'' \<and> T_ControlPlaneReplicas topology' = T_ControlPlaneReplicas topology
           \<and> (\<exists>xs m ys. T_Workers topology = Some (xs @ m # ys) \<and> MDT_Name m \<notin> MDT_Name ` set xs
               \<and> T_Workers topology' = Some (xs @ m\<lparr>MDT_Replicas := Some r\<rparr> # ys))))"
proof -
  obtain res t where run: "scaled_topology c cl topology target r md s = (res, t)" by fastforce
  have reads: "ran is_read s t" using scaled_topology_reads run by (rule emits_ran)
  have frame: "T_Class topology' = T_Class topology \<and> T_Version topology' = T_Version topology
      \<and> T_Variables topology' = T_Variables topology
      \<and> (if target = ''controlplane''
         then T_ControlPlaneReplicas topology' = Some r \<and> T_Workers topology' = T_Workers topology
         else target = ''workers'' \<and> T_ControlPlaneReplicas topology' = T_ControlPlaneReplicas topology
           \<and> (\<exists>xs m ys. T_Workers topology = Some (xs @ m # ys) \<and> MDT_Name m \<notin> MDT_Name ` set xs
               \<and> T_Workers topology' = Some (xs @ m\<lparr>MDT_Replicas := Some r\<rparr> # ys)))"
    if "res = Inr topology'" for topology'
  proof (cases "target = ''controlplane''")
    case True
    with run that show ?thesis by (auto simp: scaled_topology_def Let_def)
  next
    case False
    from run [unfolded that] False obtain mds name mds' where "target = ''workers''"
        "T_Workers topology = Some mds" "scale_topology_worker name r mds = Some mds'"
        "topology' = topology\<lparr>T_Workers := Some mds'\<rparr>"
      by (rule scaled_topology_workers)
    moreover from this(3) obtain xs m ys where "mds = xs @ m # ys" "name \<notin> MDT_Name ` set xs"
        "MDT_Name m = name" "mds' = xs @ m\<lparr>MDT_Replicas := Some r\<rparr> # ys"
      by (rule scale_topology_worker_Some)
    ultimately show ?thesis using False by auto
  qed
  show ?thesis
  proof (cases res)
    case (Inl e)
    with reads show ?thesis by (simp add: run)
  next
    case (Inr topology')
    show ?thesis unfolding run prod.case Inr sum.case using reads frame [OF Inr] by (rule conjI)
  qed
qed

subsection \<open>Examples\<close>

definition topology_cluster :: Cluster where
  "topology_cluster = (example_cluster ''demo'' [])\<lparr>C_Topology := Some \<lparr>T_Class = ''c'', T_Version = ''v1'',
     T_ControlPlaneReplicas = Some 1, T_Workers = Some [\<lparr>MDT_Class = ''w'', MDT_Name = ''md-0'',
       MDT_Replicas = Some 2, MDT_Overrides = None\<rparr>], T_Variables = []\<rparr>\<rparr>"

text \<open>Scaling the workers of the example writes the count into its topology.\<close>

definition topology_objects :: objects where
  "topology_objects = no_objects\<lparr>clusters_at := [(''org'', ''demo'') \<mapsto> topology_cluster]\<rparr>"

definition workers_five :: Cluster where
  "workers_five = topology_cluster\<lparr>C_Topology := Some \<lparr>T_Class = ''c'', T_Version = ''v1'',
     T_ControlPlaneReplicas = Some 1, T_Workers = Some [\<lparr>MDT_Class = ''w'', MDT_Name = ''md-0'',
       MDT_Replicas = Some 5, MDT_Overrides = None\<rparr>], T_Variables = []\<rparr>\<rparr>"

lemma topology_objects_keyed: "well_keyed topology_objects"
  by (simp add: well_keyed_def keyed_def topology_objects_def no_objects_def topology_cluster_def key_of_def example_simps)

lemma topology_objects_scaled:
  "scaled_objects open_policy ''org'' ''demo'' ''workers'' 5 ''md-0'' topology_objects
     = Some (topology_objects\<lparr>clusters_at := [(''org'', ''demo'') \<mapsto> workers_five]\<rparr>)"
proof -
  have "CheckUpdate open_policy ''Cluster'' (C_Meta topology_cluster) = None"
    by (simp add: CheckUpdate_def policy_check_def topology_cluster_def ManagedBy_def managedByHelm_def example_simps)
  then show ?thesis
    by (simp add: scaled_objects_def topology_objects_def no_objects_def topology_scaled_def topology_name_def
        workers_five_def topology_cluster_def)
qed

theorem scale_cluster_range_witness:
  "(\<exists>t. ScaleCluster (tables_client open_policy) ''org'' ''demo'' ''workers'' 5 ''md-0'' (begin_at topology_objects) = (Inr (), t)
      \<and> env t = topology_objects\<lparr>clusters_at := [(''org'', ''demo'') \<mapsto> workers_five]\<rparr>)
   \<and> (\<exists>e. ScaleCluster (tables_client open_policy) ''org'' ''demo'' ''workers'' 2147483648 ''md-0'' (begin_at topology_objects)
        = (Inl e, begin_at topology_objects))"
proof -
  have store: "api_store (Kube (tables_client open_policy)) id" "well_keyed (id (env (begin_at topology_objects)))"
    using tables_store topology_objects_keyed by (simp_all add: tables_client_def begin_at_def)
  have five: "sint (5 :: goint) = 5" "r = 5" if "sint r = sint (5 :: goint)" for r :: int32
  proof -
    show five: "sint (5 :: goint) = 5" by simp
    have "sint r = sint (5 :: int32)" using that unfolding five by simp
    then show "r = 5" by (rule signed_word_eqI)
  qed
  obtain res t where run: "ScaleCluster (tables_client open_policy) ''org'' ''demo'' ''workers'' 5 ''md-0''
      (begin_at topology_objects) = (res, t)" by fastforce
  have in_range: "\<not> (sint (5 :: goint) < 0 \<or> 2147483647 < sint (5 :: goint))" by simp
  obtain r :: int32 where r: "sint r = sint (5 :: goint)"
    and effect: "realises id (begin_at topology_objects) (scaled_objects (policy (tables_client open_policy)) ''org'' ''demo''
      ''workers'' r ''md-0'' (id (env (begin_at topology_objects)))) (res, t)"
    using scale_cluster_range [OF store, of 5 "''org''" "''demo''" "''workers''" "''md-0''", unfolded if_not_P [OF in_range] run]
    by blast
  have "policy (tables_client open_policy) = open_policy" "id (env (begin_at topology_objects)) = topology_objects"
    by (simp_all add: tables_client_def begin_at_def)
  with effect five(2) [OF r] have "realises id (begin_at topology_objects)
      (scaled_objects open_policy ''org'' ''demo'' ''workers'' 5 ''md-0'' topology_objects) (res, t)"
    by simp
  then have "res = Inr () \<and> env t = topology_objects\<lparr>clusters_at := [(''org'', ''demo'') \<mapsto> workers_five]\<rparr>"
    by (auto simp: topology_objects_scaled realises_def split: sum.splits)
  moreover have "sint (2147483648 :: goint) = 2147483648" by simp
  then have "\<exists>e. ScaleCluster (tables_client open_policy) ''org'' ''demo'' ''workers'' 2147483648 ''md-0''
      (begin_at topology_objects) = (Inl e, begin_at topology_objects)"
    using scale_cluster_range [OF store, where replicas = 2147483648 and ns = "''org''" and n = "''demo''"
        and target = "''workers''" and md = "''md-0''"] by simp
  ultimately show ?thesis using run by blast
qed

theorem scale_topology_writes_cluster_only_witness:
  "ran (scales_cluster topology_cluster) (start (empty_world\<lparr>w_clusters := [topology_cluster]\<rparr>))
     (snd (ScaleCluster (memory_client open_policy) ''org'' ''demo'' ''workers'' 5 ''md-0''
        (start (empty_world\<lparr>w_clusters := [topology_cluster]\<rparr>))))"
proof -
  have "\<exists>t. GetCluster (memory_client open_policy) ''org'' ''demo''
      (start (empty_world\<lparr>w_clusters := [topology_cluster]\<rparr>)) = (Inr topology_cluster, t)"
    by (simp add: GetCluster_def topology_cluster_def example_simps)
  then obtain t where "GetCluster (memory_client open_policy) ''org'' ''demo''
      (start (empty_world\<lparr>w_clusters := [topology_cluster]\<rparr>)) = (Inr topology_cluster, t)"
    by blast
  then show ?thesis
    by (rule scale_topology_writes_cluster_only) (simp add: topology_cluster_def)
qed


end
