(* ===== verification/Capi_Status.thy ===== *)
theory Capi_Status
  imports Capi_Provider
begin

section \<open>Cluster status and health (pkg/capi/utils.go, client.go)\<close>

text \<open>
  The status of a cluster read in one go (\<open>GetClusterStatus\<close>) or computed from an already fetched
  cluster and its machines (\<open>GetClusterStatusFromList\<close>), and the health derived from it.
\<close>

record ClusterStatus =
  St_Name :: string
  St_Namespace :: string
  St_Phase :: string
  St_Ready :: bool
  St_ControlPlaneReady :: bool
  St_InfraReady :: bool
  St_Version :: string
  St_Provider :: Provider
  St_TotalMachines :: nat
  St_ReadyMachines :: nat
  St_Conditions :: Conditions
  St_Paused :: bool
  St_Labels :: smap
  St_Annotations :: smap

fun isConditionTrue :: "Conditions \<Rightarrow> string \<Rightarrow> bool" where
  "isConditionTrue [] t = False"
| "isConditionTrue (c # cs) t =
     (if Cond_Type c = t then Cond_Status c = ConditionTrue else isConditionTrue cs t)"

text \<open>The fields both functions take from the Cluster, the topology's version included.\<close>

definition cluster_fields :: "Cluster \<Rightarrow> ClusterStatus" where
  "cluster_fields cluster =
     \<lparr>St_Name = Name (C_Meta cluster), St_Namespace = Namespace (C_Meta cluster),
      St_Phase = C_Phase cluster,
      St_Ready = isConditionTrue (C_Conditions cluster) ReadyCondition,
      St_ControlPlaneReady = C_ControlPlaneReady cluster,
      St_InfraReady = C_InfrastructureReady cluster,
      St_Version = (case C_Topology cluster of
          None \<Rightarrow> '''' | Some t \<Rightarrow> if T_Version t \<noteq> '''' then T_Version t else ''''),
      St_Provider = ProviderUnknown, St_TotalMachines = 0, St_ReadyMachines = 0,
      St_Conditions = C_Conditions cluster, St_Paused = C_Paused cluster,
      St_Labels = Labels (C_Meta cluster), St_Annotations = Annotations (C_Meta cluster)\<rparr>"

definition count_machines :: "Machine list \<Rightarrow> ClusterStatus \<Rightarrow> ClusterStatus" where
  "count_machines ms st =
     st\<lparr>St_TotalMachines := length ms,
        St_ReadyMachines := length (filter (\<lambda>m. M_NodeRef m \<noteq> None) ms)\<rparr>"

definition control_plane_version ::
  "'w Client \<Rightarrow> string \<Rightarrow> Cluster \<Rightarrow> ClusterStatus \<Rightarrow> ('w, ClusterStatus) io" where
  "control_plane_version c namespace cluster status =
     (case C_ControlPlaneRef cluster of
        None \<Rightarrow> retE status
      | Some ref \<Rightarrow>
          if St_Version status = '''' \<and> Ref_Kind ref = ''KubeadmControlPlane'' then
            bindE (tryE (GetKubeadmControlPlane c namespace (Ref_Name ref))) (\<lambda>r. case r of
                Inl _ \<Rightarrow> retE status
              | Inr kcp \<Rightarrow> if KCP_Version kcp \<noteq> '''' then retE (status\<lparr>St_Version := KCP_Version kcp\<rparr>)
                         else retE status)
          else retE status)"

definition GetClusterStatus :: "'w Client \<Rightarrow> string \<Rightarrow> string \<Rightarrow> ('w, ClusterStatus) io" where
  "GetClusterStatus c namespace name =
     bindE (GetCluster c namespace name) (\<lambda>cluster.
     let status = cluster_fields cluster in
     bindE (tryE (GetProviderForCluster c namespace name)) (\<lambda>pr.
     let status = status\<lparr>St_Provider := (case pr of Inl _ \<Rightarrow> ProviderUnknown | Inr p \<Rightarrow> p)\<rparr> in
     bindE (tryE (ListMachines c namespace name)) (\<lambda>mr.
     let status = (case mr of Inl _ \<Rightarrow> status | Inr ms \<Rightarrow> count_machines ms status) in
     control_plane_version c namespace cluster status)))"

definition GetClusterStatusFromList ::
  "'w Client \<Rightarrow> Cluster \<Rightarrow> Machine list \<Rightarrow> ('w, ClusterStatus) io" where
  "GetClusterStatusFromList c cluster machines =
     (let status = (cluster_fields cluster)\<lparr>St_Provider := DetermineProvider cluster\<rparr>;
          status = count_machines machines status
      in control_plane_version c (Namespace (C_Meta cluster)) cluster status)"

definition IsClusterReady :: "'w Client \<Rightarrow> string \<Rightarrow> string \<Rightarrow> ('w, bool) io" where
  "IsClusterReady c namespace name =
     bindE (GetCluster c namespace name) (\<lambda>cluster.
     retE (isConditionTrue (C_Conditions cluster) ReadyCondition))"

definition WaitForClusterReady :: "'w Client \<Rightarrow> string \<Rightarrow> string \<Rightarrow> ('w, unit) io" where
  "WaitForClusterReady c namespace name =
     bindE (IsClusterReady c namespace name) (\<lambda>ready.
     if \<not> ready then failE (Errorf ''cluster %s/%s is not ready'' [Fs namespace, Fs name])
     else retE ())"

definition GetMachinePhase :: "Machine \<Rightarrow> string" where
  "GetMachinePhase m =
     (if M_Phase m \<noteq> '''' then M_Phase m
      else if isConditionTrue (M_Conditions m) ReadyCondition then ''Running''
      else ''Unknown'')"

definition GetControlPlaneStatus :: "KubeadmControlPlane \<Rightarrow> string" where
  "GetControlPlaneStatus kcp =
     (if KCP_Ready kcp then ''Ready''
      else if sint (KCP_UnavailableReplicas kcp) > 0 then
        ''Degraded ('' @ int_string (sint (KCP_UnavailableReplicas kcp)) @ '' unavailable)''
      else if KCP_StatusReplicas kcp = 0 then ''Not Initialized''
      else ''Updating'')"

definition UserMetadata :: "smap \<Rightarrow> smap" where
  "UserMetadata metadata = filter (\<lambda>(k, v). \<not> sublist ''cluster.x-k8s.io'' k) metadata"

subsection \<open>Health\<close>

record ClusterHealthStatus =
  H_Healthy :: bool
  H_ControlPlaneReady :: bool
  H_WorkersReady :: bool
  H_InfraReady :: bool
  H_Issues :: "string list"
  H_Warnings :: "string list"

definition ConditionSeverityError :: string where "ConditionSeverityError = ''Error''"
definition ConditionSeverityWarning :: string where "ConditionSeverityWarning = ''Warning''"

text \<open>\<open>health.Healthy = false\<close> together with the issue it is for.\<close>

definition add_issue :: "string \<Rightarrow> ClusterHealthStatus \<Rightarrow> ClusterHealthStatus" where
  "add_issue i h = h\<lparr>H_Healthy := False, H_Issues := H_Issues h @ [i]\<rparr>"

definition add_warning :: "string \<Rightarrow> ClusterHealthStatus \<Rightarrow> ClusterHealthStatus" where
  "add_warning i h = h\<lparr>H_Warnings := H_Warnings h @ [i]\<rparr>"

text \<open>A machine whose Ready condition is True; the loop over its conditions stops at the first.\<close>

definition machine_ready :: "Machine \<Rightarrow> bool" where
  "machine_ready m =
     list_ex (\<lambda>c. Cond_Type c = ReadyCondition \<and> Cond_Status c = ConditionTrue) (M_Conditions m)"

definition check_workers :: "Machine list \<Rightarrow> ClusterHealthStatus \<Rightarrow> ClusterHealthStatus" where
  "check_workers ms h =
     (let readyMachines = length (filter machine_ready ms); totalMachines = length ms;
          h = h\<lparr>H_WorkersReady := readyMachines = totalMachines \<and> totalMachines > 0\<rparr>
      in if H_WorkersReady h then h
         else add_issue (''Only '' @ nat_string readyMachines @ ''/'' @ nat_string totalMachines
                @ '' machines are ready'') h)"

fun check_conditions :: "Conditions \<Rightarrow> ClusterHealthStatus \<Rightarrow> ClusterHealthStatus" where
  "check_conditions [] h = h"
| "check_conditions (c # cs) h = check_conditions cs
     (if Cond_Status c \<noteq> ConditionTrue \<and> Cond_Severity c = ConditionSeverityError
      then add_issue (Cond_Type c @ '': '' @ Cond_Message c) h
      else if Cond_Status c \<noteq> ConditionTrue \<and> Cond_Severity c = ConditionSeverityWarning
      then add_warning (Cond_Type c @ '': '' @ Cond_Message c) h
      else h)"

definition assess_health :: "ClusterStatus \<Rightarrow> goerr + Machine list \<Rightarrow> ClusterHealthStatus" where
  "assess_health status machines =
     (let h = \<lparr>H_Healthy = True, H_ControlPlaneReady = St_ControlPlaneReady status,
               H_WorkersReady = False, H_InfraReady = St_InfraReady status,
               H_Issues = [], H_Warnings = []\<rparr>;
          h = (if \<not> St_ControlPlaneReady status then add_issue ''Control plane is not ready'' h else h);
          h = (if \<not> St_InfraReady status then add_issue ''Infrastructure is not ready'' h else h);
          h = (case machines of Inl _ \<Rightarrow> h | Inr ms \<Rightarrow> check_workers ms h);
          h = check_conditions (St_Conditions status) h
      in if St_Phase status \<noteq> ''Provisioned'' \<and> St_Phase status \<noteq> '''' then
           add_warning (''Cluster phase is '' @ [CHR 0x27] @ St_Phase status @ [CHR 0x27]
             @ '', expected '' @ [CHR 0x27] @ ''Provisioned'' @ [CHR 0x27]) h
         else h)"

definition GetClusterHealth :: "'w Client \<Rightarrow> string \<Rightarrow> string \<Rightarrow> ('w, ClusterHealthStatus) io" where
  "GetClusterHealth c namespace name =
     bindE (wrapE (\<lambda>e. Errorf ''failed to get cluster status: %w'' [Fw e])
       (GetClusterStatus c namespace name)) (\<lambda>status.
     bindE (tryE (ListMachines c namespace name)) (\<lambda>machines.
     retE (assess_health status machines)))"

subsection \<open>Facts about status and health\<close>

lemma status_reads [emits]:
  "emits is_read (control_plane_version c ns cl st)"
  "emits is_read (GetClusterStatus c ns n)" "emits is_read (GetClusterStatusFromList c cl ms)"
  "emits is_read (IsClusterReady c ns n)" "emits is_read (WaitForClusterReady c ns n)"
  "emits is_read (GetClusterHealth c ns n)"
proof -
  show cp: "emits is_read (control_plane_version c ns cl st)" for c ns cl st
    unfolding control_plane_version_def by (intro emits provider_reads)
  show status: "emits is_read (GetClusterStatus c ns n)"
    unfolding GetClusterStatus_def Let_def by (intro emits cp cluster_reads provider_reads machine_reads)
  show "emits is_read (GetClusterStatusFromList c cl ms)"
    unfolding GetClusterStatusFromList_def Let_def by (rule cp)
  show ready: "emits is_read (IsClusterReady c ns n)"
    unfolding IsClusterReady_def by (intro emits cluster_reads)
  show "emits is_read (WaitForClusterReady c ns n)"
    unfolding WaitForClusterReady_def by (intro emits ready)
  show "emits is_read (GetClusterHealth c ns n)"
    unfolding GetClusterHealth_def by (intro emits status machine_reads)
qed

definition error_condition :: "Condition \<Rightarrow> bool" where
  "error_condition cd \<longleftrightarrow> Cond_Status cd \<noteq> ConditionTrue \<and> Cond_Severity cd = ConditionSeverityError"

definition consistent_health :: "ClusterHealthStatus \<Rightarrow> bool" where
  "consistent_health h \<longleftrightarrow> H_Healthy h = (H_Issues h = [])"

lemma add_issue_consistent [simp]:
  "consistent_health (add_issue i h)" "\<not> H_Healthy (add_issue i h)"
  by (simp_all add: consistent_health_def add_issue_def)

lemma add_warning_health [simp]:
  "consistent_health (add_warning i h) = consistent_health h" "H_Healthy (add_warning i h) = H_Healthy h"
  by (simp_all add: consistent_health_def add_warning_def)

lemma check_conditions_health:
  "consistent_health h \<Longrightarrow> consistent_health (check_conditions cs h)"
  "H_Healthy (check_conditions cs h) = (H_Healthy h \<and> list_all (\<lambda>cd. \<not> error_condition cd) cs)"
  by (induction cs h rule: check_conditions.induct) (simp_all add: error_condition_def)

lemma filter_all_length: "(length (filter P xs) = length xs) = list_all P xs"
proof
  assume "length (filter P xs) = length xs"
  then have "filter P xs = xs" by (metis filter_id_conv length_filter_less less_irrefl)
  then show "list_all P xs" by (simp add: list_all_iff filter_id_conv)
qed (simp add: list_all_iff)

lemma check_workers_health:
  "consistent_health h \<Longrightarrow> consistent_health (check_workers ms h)"
  "H_Healthy (check_workers ms h) = (H_Healthy h \<and> ms \<noteq> [] \<and> list_all machine_ready ms)"
  by (auto simp: check_workers_def Let_def consistent_health_def add_issue_def filter_all_length)

definition all_workers_ready :: "goerr + Machine list \<Rightarrow> bool" where
  "all_workers_ready r = (case r of Inl _ \<Rightarrow> True | Inr ms \<Rightarrow> ms \<noteq> [] \<and> list_all machine_ready ms)"

lemma isConditionTrue_first:
  "isConditionTrue cs ty = (case find (\<lambda>cd. Cond_Type cd = ty) cs of
     None \<Rightarrow> False | Some cd \<Rightarrow> Cond_Status cd = ConditionTrue)"
  by (induction cs ty rule: isConditionTrue.induct) simp_all

subsection \<open>Properties\<close>

definition workers_ready :: "goerr + Machine list \<Rightarrow> bool" where
  "workers_ready r = (case r of Inl _ \<Rightarrow> False | Inr ms \<Rightarrow> ms \<noteq> [] \<and> list_all machine_ready ms)"

lemma workers_ready_frame:
  "H_WorkersReady (add_issue i h) = H_WorkersReady h" "H_WorkersReady (add_warning i h) = H_WorkersReady h"
  "H_WorkersReady (check_conditions cs h) = H_WorkersReady h"
  "H_WorkersReady (check_workers ms h) = (ms \<noteq> [] \<and> list_all machine_ready ms)"
proof -
  show add: "H_WorkersReady (add_issue i h) = H_WorkersReady h" "H_WorkersReady (add_warning i h) = H_WorkersReady h" for i h
    by (simp_all add: add_issue_def add_warning_def)
  show "H_WorkersReady (check_conditions cs h) = H_WorkersReady h"
    by (induction cs h rule: check_conditions.induct) (simp_all add: add)
  show "H_WorkersReady (check_workers ms h) = (ms \<noteq> [] \<and> list_all machine_ready ms)"
    by (auto simp: check_workers_def Let_def add filter_all_length)
qed

lemma assess_health_workers: "H_WorkersReady (assess_health st machines) = workers_ready machines"
  by (simp add: assess_health_def Let_def workers_ready_frame workers_ready_def split: sum.split)

text \<open>
  C26. A cluster is reported healthy exactly when there is no issue, and that is exactly when the
  control plane and the infrastructure are ready, every condition whose status is not True (False
  and Unknown alike) has a severity other than Error, and the machines could not be listed or are
  there and all ready.  Its workers are reported ready exactly when the machines could be listed, are
  there and are all ready; so a failure to list them can leave a cluster healthy whose workers are
  reported not ready.
\<close>

theorem health_decision:
  "(H_Healthy (assess_health st machines) \<longleftrightarrow> H_Issues (assess_health st machines) = [])
   \<and> (H_Healthy (assess_health st machines) \<longleftrightarrow>
       St_ControlPlaneReady st \<and> St_InfraReady st \<and> all_workers_ready machines
       \<and> list_all (\<lambda>cd. \<not> error_condition cd) (St_Conditions st))
   \<and> (H_WorkersReady (assess_health st machines) \<longleftrightarrow> workers_ready machines)
   \<and> (\<exists>st'. H_Healthy (assess_health st' (Inl e)) \<and> \<not> H_WorkersReady (assess_health st' (Inl e)))"
proof -
  define h0 where "h0 = \<lparr>H_Healthy = True, H_ControlPlaneReady = St_ControlPlaneReady st,
    H_WorkersReady = False, H_InfraReady = St_InfraReady st, H_Issues = [], H_Warnings = []\<rparr>"
  define h1 where "h1 = (if \<not> St_ControlPlaneReady st then add_issue ''Control plane is not ready'' h0 else h0)"
  define h2 where "h2 = (if \<not> St_InfraReady st then add_issue ''Infrastructure is not ready'' h1 else h1)"
  define h3 where "h3 = (case machines of Inl _ \<Rightarrow> h2 | Inr ms \<Rightarrow> check_workers ms h2)"
  define h4 where "h4 = check_conditions (St_Conditions st) h3"
  have h: "assess_health st machines = (if St_Phase st \<noteq> ''Provisioned'' \<and> St_Phase st \<noteq> ''''
      then add_warning (''Cluster phase is '' @ [CHR 0x27] @ St_Phase st @ [CHR 0x27]
             @ '', expected '' @ [CHR 0x27] @ ''Provisioned'' @ [CHR 0x27]) h4 else h4)"
    unfolding assess_health_def Let_def h4_def h3_def h2_def h1_def h0_def by (rule refl)
  have c0: "consistent_health h0" by (simp add: h0_def consistent_health_def)
  have c2: "consistent_health h2" using c0 by (simp add: h1_def h2_def)
  have "consistent_health h4"
    unfolding h4_def h3_def using c2 by (intro check_conditions_health)
      (simp add: check_workers_health(1) split: sum.split)
  then have "consistent_health (assess_health st machines)" by (simp add: h)
  moreover have "H_Healthy h2 \<longleftrightarrow> St_ControlPlaneReady st \<and> St_InfraReady st"
    by (simp add: h0_def h1_def h2_def add_issue_def)
  then have "H_Healthy h3 \<longleftrightarrow> St_ControlPlaneReady st \<and> St_InfraReady st \<and> all_workers_ready machines"
    by (simp add: h3_def all_workers_ready_def check_workers_health(2) split: sum.split)
  then have "H_Healthy (assess_health st machines) \<longleftrightarrow> St_ControlPlaneReady st \<and> St_InfraReady st
      \<and> all_workers_ready machines \<and> list_all (\<lambda>cd. \<not> error_condition cd) (St_Conditions st)"
    by (simp add: h h4_def check_conditions_health(2))
  moreover have "H_Healthy (assess_health (st\<lparr>St_ControlPlaneReady := True, St_InfraReady := True, St_Conditions := []\<rparr>) (Inl e))"
    by (simp add: assess_health_def Let_def)
  then have "\<exists>st'. H_Healthy (assess_health st' (Inl e)) \<and> \<not> H_WorkersReady (assess_health st' (Inl e))"
    unfolding assess_health_workers by (auto simp: workers_ready_def)
  ultimately show ?thesis using assess_health_workers [of st machines] unfolding consistent_health_def by blast
qed

text \<open>
  C31. The status computed from an already fetched cluster and its machines is the status read from
  the API server, when the reads see that cluster in its namespace and those machines.
\<close>

theorem status_from_list_agrees:
  assumes "GetCluster c ns n s = (Inr cl, s1)" and "GetProviderForCluster c ns n s1 = (Inr (DetermineProvider cl), s2)"
    and "ListMachines c ns n s2 = (Inr ms, s3)" and "Namespace (C_Meta cl) = ns"
  shows "GetClusterStatus c ns n s = GetClusterStatusFromList c cl ms s3"
  using assms by (simp add: GetClusterStatus_def GetClusterStatusFromList_def Let_def bindE_def tryE_def)

subsection \<open>Examples\<close>

definition status_example :: world where
  "status_example = empty_world\<lparr>w_clusters := [example_cluster ''demo'' []],
     w_machines := [example_machine ''m1'' [(ClusterNameLabel, ''demo'')]]\<rparr>"

theorem status_from_list_agrees_witness:
  "\<exists>s3. GetClusterStatus (memory_client open_policy) ''org'' ''demo'' (start status_example)
     = GetClusterStatusFromList (memory_client open_policy) (example_cluster ''demo'' [])
         [example_machine ''m1'' [(ClusterNameLabel, ''demo'')]] s3"
proof -
  let ?c = "memory_client open_policy" and ?s = "start status_example"
  let ?s1 = "?s\<lparr>requests := [Request VGet ''Cluster'' ''org'' ''demo'']\<rparr>"
  let ?s2 = "?s\<lparr>requests := [Request VGet ''Cluster'' ''org'' ''demo'', Request VGet ''Cluster'' ''org'' ''demo'']\<rparr>"
  have "GetCluster ?c ''org'' ''demo'' ?s = (Inr (example_cluster ''demo'' []), ?s1)"
    by (simp add: GetCluster_def status_example_def example_simps)
  moreover have "GetProviderForCluster ?c ''org'' ''demo'' ?s1
      = (Inr (DetermineProvider (example_cluster ''demo'' [])), ?s2)"
    by (simp add: GetProviderForCluster_def GetCluster_def status_example_def example_simps)
  moreover have "\<exists>s3. ListMachines ?c ''org'' ''demo'' ?s2
      = (Inr [example_machine ''m1'' [(ClusterNameLabel, ''demo'')]], s3)"
    by (simp add: ListMachines_def status_example_def example_simps ClusterNameLabel_def)
  moreover have "Namespace (C_Meta (example_cluster ''demo'' [])) = ''org''" by (simp add: example_simps)
  ultimately show ?thesis using status_from_list_agrees by blast
qed


end
