(* ===== verification/Capi_Exec.thy ===== *)
theory Capi_Exec
  imports Capi_Cluster
begin

section \<open>Kubeconfigs and command-line subprocesses (pkg/capi/client.go)\<close>

text \<open>
  Reading a workload cluster's kubeconfig, and running kubectl or helm against that cluster with
  the kubeconfig in a temporary file.  The record \<open>tools\<close> is what the code takes from outside the
  repository: parsing a kubeconfig (its server's host), the host name of a URL, and the file and
  process operations of the host.  Every file operation and every process is an event of the
  session.
\<close>

subsection \<open>Reading the kubeconfig\<close>

text \<open>The credential check comes first, then the Cluster, then its Secret.\<close>

definition secret_kubeconfig :: "Secret \<Rightarrow> goerr + string" where
  "secret_kubeconfig secret = (case map_of (Sec_Data secret) ''value'' of
       Some d \<Rightarrow> Inr d
     | None \<Rightarrow> (case map_of (Sec_Data secret) ''data'' of
           Some d \<Rightarrow> Inr d
         | None \<Rightarrow> Inl (Errorf ''kubeconfig not found in secret, available keys: %v''
             [Fv (map fst (Sec_Data secret))])))"

definition readKubeconfig :: "'w Client \<Rightarrow> string \<Rightarrow> string \<Rightarrow> ('w, string) io" where
  "readKubeconfig c namespace clusterName =
     bindE (wrapE (\<lambda>e. Errorf ''refusing to resolve kubeconfig: no such cluster %s/%s: %w''
              [Fs namespace, Fs clusterName, Fw e])
       (GetCluster c namespace clusterName)) (\<lambda>_.
     bindE (wrapE (\<lambda>e. Errorf ''failed to get kubeconfig secret: %w'' [Fw e])
       (rget (k_secrets (Kube c)) ''Secret'' namespace (clusterName @ ''-kubeconfig''))) (\<lambda>secret.
     liftE (secret_kubeconfig secret)))"

definition GetKubeconfig :: "'w Client \<Rightarrow> string \<Rightarrow> string \<Rightarrow> ('w, string) io" where
  "GetKubeconfig c namespace clusterName =
     bindE (checkE (CheckCredentialExport (policy c) ''the kubeconfig'' namespace clusterName)) (\<lambda>_.
     readKubeconfig c namespace clusterName)"

subsection \<open>Flags a caller may not pass\<close>

definition kubectlBinaryPath :: string where "kubectlBinaryPath = ''/usr/local/bin/kubectl''"
definition helmBinaryPath :: string where "helmBinaryPath = ''/usr/local/bin/helm''"

definition blockedKubectlFlags :: "string list" where
  "blockedKubectlFlags = [''--kubeconfig'', ''--context'', ''--cluster'', ''--user'',
     ''--server'', ''-s'', ''--token'', ''--as'', ''--as-group'', ''--as-uid'',
     ''--client-certificate'', ''--client-key'', ''--certificate-authority'']"

definition blockedHelmFlags :: "string list" where
  "blockedHelmFlags = [''--kubeconfig'', ''--kube-context'', ''--kube-apiserver'', ''--kube-token'',
     ''--kube-as-user'', ''--kube-as-group'', ''--kube-ca-file'',
     ''--kube-insecure-skip-tls-verify'', ''--kube-tls-server-name'']"

definition flag_blocked :: "string list \<Rightarrow> string \<Rightarrow> bool" where
  "flag_blocked flags a = list_ex (\<lambda>blocked. a = blocked \<or> prefix (blocked @ ''='') a) flags"

definition check_args :: "string \<Rightarrow> string list \<Rightarrow> string list \<Rightarrow> goerr option" where
  "check_args empty_error flags args =
     (if args = [] then Some (Errorf empty_error [])
      else (case find (flag_blocked flags) args of
          None \<Rightarrow> None
        | Some a \<Rightarrow> Some (Errorf
            ''argument %q is not allowed: it would override the resolved target cluster'' [Fq a])))"

subsection \<open>The host\<close>

record 'w tools =
  parse_kubeconfig :: "string \<Rightarrow> goerr + string"
  url_hostname :: "string \<Rightarrow> string option"
  create_temp :: "'w \<Rightarrow> (goerr + string) \<times> 'w"
  write_file :: "string \<Rightarrow> string \<Rightarrow> 'w \<Rightarrow> goerr option \<times> 'w"
  close_file :: "string \<Rightarrow> 'w \<Rightarrow> goerr option \<times> 'w"
  remove_file :: "string \<Rightarrow> 'w \<Rightarrow> unit \<times> 'w"
  run_process :: "string \<Rightarrow> string list \<Rightarrow> string \<Rightarrow> 'w \<Rightarrow> (string \<times> goerr option) \<times> 'w"

definition os_create_temp :: "'w tools \<Rightarrow> ('w, string) io" where
  "os_create_temp h = bindE (on_host (\<lambda>r. case r of Inl _ \<Rightarrow> [] | Inr p \<Rightarrow> [CreateTemp p]) (create_temp h)) liftE"

definition os_write :: "'w tools \<Rightarrow> string \<Rightarrow> string \<Rightarrow> ('w, goerr option) io" where
  "os_write h p d = on_host (\<lambda>_. [WriteFile p d]) (write_file h p d)"

definition os_close :: "'w tools \<Rightarrow> string \<Rightarrow> ('w, goerr option) io" where
  "os_close h p = on_host (\<lambda>_. [CloseFile p]) (close_file h p)"

definition os_remove :: "'w tools \<Rightarrow> string \<Rightarrow> ('w, unit) io" where
  "os_remove h p = on_host (\<lambda>_. [RemoveFile p]) (remove_file h p)"

definition os_run ::
  "'w tools \<Rightarrow> string \<Rightarrow> string list \<Rightarrow> string \<Rightarrow> ('w, string \<times> goerr option) io" where
  "os_run h bin args stdin = on_host (\<lambda>_. [RunProcess bin args stdin]) (run_process h bin args stdin)"

subsection \<open>The temporary kubeconfig file\<close>

definition same_api_host :: "'w tools \<Rightarrow> string option \<Rightarrow> string \<Rightarrow> bool" where
  "same_api_host h mgmt workload = (case mgmt of
       None \<Rightarrow> False
     | Some m \<Rightarrow> m \<noteq> '''' \<and>
         (case url_hostname h m of
            None \<Rightarrow> False
          | Some mh \<Rightarrow> (case url_hostname h workload of
                None \<Rightarrow> False
              | Some wh \<Rightarrow> mh \<noteq> '''' \<and> mh = wh)))"

text \<open>
  The file part: every error after the creation calls \<open>os.Remove\<close>, whose own error is ignored.  The returned path stands for
  the pair of the path and the cleanup that removes it.
\<close>

definition kubeconfig_file :: "'w tools \<Rightarrow> string \<Rightarrow> ('w, string) io" where
  "kubeconfig_file h kubeconfig =
     bindE (wrapE (\<lambda>e. Errorf ''failed to create temp kubeconfig file: %w'' [Fw e])
       (os_create_temp h)) (\<lambda>tmpPath.
     bindE (os_write h tmpPath kubeconfig) (\<lambda>we. case we of
         Some e \<Rightarrow>
           bindE (os_close h tmpPath) (\<lambda>_.
           bindE (os_remove h tmpPath) (\<lambda>_.
           failE (Errorf ''failed to write temp kubeconfig file: %w'' [Fw e])))
       | None \<Rightarrow>
           bindE (os_close h tmpPath) (\<lambda>ce. case ce of
               Some e \<Rightarrow>
                 bindE (os_remove h tmpPath) (\<lambda>_.
                 failE (Errorf ''failed to close temp kubeconfig file: %w'' [Fw e]))
             | None \<Rightarrow> retE tmpPath)))"

definition resolveWorkloadKubeconfigFile ::
  "'w tools \<Rightarrow> 'w Client \<Rightarrow> string \<Rightarrow> string \<Rightarrow> ('w, string) io" where
  "resolveWorkloadKubeconfigFile h c namespace clusterName =
     bindE (wrapE (\<lambda>e. Errorf ''failed to get kubeconfig for cluster %s: %w'' [Fs clusterName, Fw e])
       (readKubeconfig c namespace clusterName)) (\<lambda>kubeconfig.
     bindE (wrapE (\<lambda>e. Errorf ''failed to parse kubeconfig for cluster %s: %w'' [Fs clusterName, Fw e])
       (liftE (parse_kubeconfig h kubeconfig))) (\<lambda>workloadHost.
     if same_api_host h (config_host c) workloadHost then
       failE (Errorf ''refusing to resolve kubeconfig: resolved target for cluster %s matches the management cluster's own API host''
         [Fs clusterName])
     else
     kubeconfig_file h kubeconfig))"

subsection \<open>Running kubectl and helm\<close>

text \<open>
  Both return the output and the error of the command; the deferred cleanup runs after the
  process, whatever its outcome.
\<close>

definition kubectl_args :: "string \<Rightarrow> string \<Rightarrow> string list \<Rightarrow> string list" where
  "kubectl_args tmpPath impersonateAs args =
     [''--kubeconfig'', tmpPath] @ (if impersonateAs \<noteq> '''' then [''--as'', impersonateAs] else []) @ args"

definition ExecKubectl :: "'w tools \<Rightarrow> 'w Client \<Rightarrow> string \<Rightarrow> string \<Rightarrow> string list \<Rightarrow> string \<Rightarrow> string \<Rightarrow>
    ('w, string \<times> goerr option) io" where
  "ExecKubectl h c namespace clusterName args impersonateAs stdin =
     (case check_args ''at least one kubectl argument is required'' blockedKubectlFlags args of
        Some e \<Rightarrow> retE ('''', Some e)
      | None \<Rightarrow>
          bindE (tryE (resolveWorkloadKubeconfigFile h c namespace clusterName)) (\<lambda>r. case r of
              Inl e \<Rightarrow> retE ('''', Some e)
            | Inr tmpPath \<Rightarrow>
                bindE (os_run h kubectlBinaryPath (kubectl_args tmpPath impersonateAs args) stdin) (\<lambda>(output, err).
                bindE (os_remove h tmpPath) (\<lambda>_.
                retE (output, map_option
                  (\<lambda>e. Errorf ''kubectl command failed for cluster %s: %w'' [Fs clusterName, Fw e]) err)))))"

definition ExecHelm :: "'w tools \<Rightarrow> 'w Client \<Rightarrow> string \<Rightarrow> string \<Rightarrow> string list \<Rightarrow>
    ('w, string \<times> goerr option) io" where
  "ExecHelm h c namespace clusterName args =
     (case check_args ''at least one helm argument is required'' blockedHelmFlags args of
        Some e \<Rightarrow> retE ('''', Some e)
      | None \<Rightarrow>
          bindE (tryE (resolveWorkloadKubeconfigFile h c namespace clusterName)) (\<lambda>r. case r of
              Inl e \<Rightarrow> retE ('''', Some e)
            | Inr tmpPath \<Rightarrow>
                bindE (os_run h helmBinaryPath ([''--kubeconfig'', tmpPath] @ args) '''') (\<lambda>(output, err).
                bindE (os_remove h tmpPath) (\<lambda>_.
                retE (output, map_option
                  (\<lambda>e. Errorf ''helm command failed for cluster %s: %w'' [Fs clusterName, Fw e]) err)))))"

subsection \<open>What the file and process events are\<close>

text \<open>
  The temporary files for which a run of events has no call of \<open>os.Remove\<close>, and the processes
  started.  The code ignores the error of \<open>os.Remove\<close>, so the event is the call, not its success.
\<close>

fun leftover :: "local_event list \<Rightarrow> string list \<Rightarrow> string list" where
  "leftover [] open_files = open_files"
| "leftover (CreateTemp p # es) open_files = leftover es (p # open_files)"
| "leftover (RemoveFile p # es) open_files = leftover es (remove1 p open_files)"
| "leftover (_ # es) open_files = leftover es open_files"

fun started :: "local_event list \<Rightarrow> (string \<times> string list \<times> string) list" where
  "started [] = []"
| "started (RunProcess bin args stdin # es) = (bin, args, stdin) # started es"
| "started (_ # es) = started es"

lemma silent_liftE [silent_intros]: "silent (liftE r)"
  by (simp add: liftE_def silent_intros split: sum.split)

lemma read_silent [silent_intros]: "silent (readKubeconfig c ns n)"
  by (simp add: readKubeconfig_def GetCluster_def silent_intros)

lemma exec_reads [emits]:
  "emits is_read (readKubeconfig c ns n)" "emits is_read (GetKubeconfig c ns n)"
  "emits is_read (os_create_temp h)" "emits is_read (os_write h p d)"
  "emits is_read (os_close h p)" "emits is_read (os_remove h p)" "emits is_read (os_run h b as i)"
  by (simp_all add: readKubeconfig_def GetKubeconfig_def os_create_temp_def os_write_def os_close_def
      os_remove_def os_run_def emits cluster_reads)

lemma kubeconfig_file_reads [emits]: "emits is_read (kubeconfig_file h d)"
  unfolding kubeconfig_file_def by (intro emits exec_reads)

lemma resolve_workload_reads [emits]: "emits is_read (resolveWorkloadKubeconfigFile h c ns n)"
  unfolding resolveWorkloadKubeconfigFile_def by (intro emits exec_reads kubeconfig_file_reads)

lemma host_events:
  "os_write h p d s = (Inr x, t) \<Longrightarrow> local_events t = local_events s @ [WriteFile p d]"
  "os_close h p s = (Inr x, t) \<Longrightarrow> local_events t = local_events s @ [CloseFile p]"
  "os_remove h p s = (Inr y, t) \<Longrightarrow> local_events t = local_events s @ [RemoveFile p]"
  "os_run h b as i s = (Inr z, t) \<Longrightarrow> local_events t = local_events s @ [RunProcess b as i]"
  by (auto simp: os_write_def os_close_def os_remove_def os_run_def on_host_def split: prod.splits)

lemma host_no_error [simp]:
  "os_write h p d s \<noteq> (Inl e, t)" "os_close h p s \<noteq> (Inl e, t)"
  "os_remove h p s \<noteq> (Inl e, t)" "os_run h b as i s \<noteq> (Inl e, t)"
  by (auto simp: os_write_def os_close_def os_remove_def os_run_def on_host_def split: prod.splits)

lemma host_total:
  "\<exists>x t. os_write h p d s = (Inr x, t)" "\<exists>x t. os_close h p s = (Inr x, t)"
  "\<exists>x t. os_remove h p s = (Inr x, t)" "\<exists>x t. os_run h b as i s = (Inr x, t)"
  by (auto simp: os_write_def os_close_def os_remove_def os_run_def on_host_def split: prod.splits)

lemma create_events:
  "os_create_temp h s = (Inl e, t) \<Longrightarrow> local_events t = local_events s"
  "os_create_temp h s = (Inr p, t) \<Longrightarrow> local_events t = local_events s @ [CreateTemp p]"
  by (auto simp: os_create_temp_def on_host_def bindE_def liftE_def split: prod.splits sum.splits)

text \<open>
  The server of a kubeconfig shares the host of the management cluster: both addresses are URLs
  with the same host name.  An address that is not a URL, like one without its scheme, has no host
  name to compare, and the guard lets it pass.
\<close>

definition shares_host :: "'w tools \<Rightarrow> 'w Client \<Rightarrow> string \<Rightarrow> bool" where
  "shares_host h c server \<longleftrightarrow> (\<exists>mgmt x. config_host c = Some mgmt \<and> mgmt \<noteq> '''' \<and> x \<noteq> ''''
     \<and> url_hostname h mgmt = Some x \<and> url_hostname h server = Some x)"

lemma same_api_host_iff: "same_api_host h (config_host c) server \<longleftrightarrow> shares_host h c server"
  by (auto simp: same_api_host_def shares_host_def split: option.splits)

lemma guard_fails_open:
  "config_host c = Some mgmt \<Longrightarrow> url_hostname h mgmt = None \<or> url_hostname h server = None \<Longrightarrow>
     \<not> same_api_host h (config_host c) server"
  by (auto simp: same_api_host_def split: option.splits)

text \<open>
  On success the file holds the kubeconfig that was read, whose server does not share the management
  cluster's host; on failure every file made was to be removed.
\<close>

definition resolved :: "'w tools \<Rightarrow> 'w Client \<Rightarrow> string \<Rightarrow> string \<Rightarrow> 'w session \<Rightarrow> string \<Rightarrow> local_event list \<Rightarrow> bool" where
  "resolved h c ns n s p es \<longleftrightarrow> (\<exists>d u w. readKubeconfig c ns n s = (Inr d, u)
     \<and> es = [CreateTemp p, WriteFile p d, CloseFile p]
     \<and> parse_kubeconfig h d = Inr w \<and> \<not> shares_host h c w)"

lemma liftE_run [simp]: "liftE r s = (r', t) \<longleftrightarrow> r = r' \<and> t = s"
  by (auto simp: liftE_def split: sum.splits)

lemma kubeconfig_file_events:
  assumes "kubeconfig_file h d s = (r, t)"
  obtains es where "local_events t = local_events s @ es"
    and "case r of Inr p \<Rightarrow> es = [CreateTemp p, WriteFile p d, CloseFile p]
         | Inl _ \<Rightarrow> leftover es [] = [] \<and> started es = []"
  using assms unfolding kubeconfig_file_def
  by (elim bindE_cases wrapE_cases)
    (auto split: option.splits elim!: bindE_cases dest!: host_events create_events)

lemma resolve_steps:
  assumes "resolveWorkloadKubeconfigFile h c ns n s = (r, t)"
  obtains e where "r = Inl e" and "local_events t = local_events s"
    | d w u where "readKubeconfig c ns n s = (Inr d, u)" and "parse_kubeconfig h d = Inr w"
        and "\<not> shares_host h c w" and "kubeconfig_file h d u = (r, t)" and "local_events u = local_events s"
  using assms unfolding resolveWorkloadKubeconfigFile_def same_api_host_iff
  by (elim bindE_cases wrapE_cases)
    (auto split: if_splits dest: silentD [OF read_silent] intro: sym)

lemma resolve_events:
  assumes "resolveWorkloadKubeconfigFile h c ns n s = (r, t)"
  obtains es where "local_events t = local_events s @ es"
    and "case r of Inr p \<Rightarrow> resolved h c ns n s p es | Inl _ \<Rightarrow> leftover es [] = [] \<and> started es = []"
  using assms
proof (cases rule: resolve_steps)
  case (1 e)
  then show ?thesis by (intro that [where es = "[]"]) simp_all
next
  case (2 d w u)
  from 2(4) obtain es where "local_events t = local_events u @ es"
    and "case r of Inr p \<Rightarrow> es = [CreateTemp p, WriteFile p d, CloseFile p]
         | Inl _ \<Rightarrow> leftover es [] = [] \<and> started es = []"
    by (rule kubeconfig_file_events)
  with 2 show ?thesis
    by (intro that [where es = es]) (auto simp: resolved_def split: sum.splits)
qed

text \<open>
  Both commands have the shape below, so that either no process was started, or exactly one file was
  made, filled with the kubeconfig that was read, closed, given to one process and then removed.
\<close>

definition cli_events ::
  "'w tools \<Rightarrow> 'w Client \<Rightarrow> string \<Rightarrow> string \<Rightarrow> 'w session \<Rightarrow> string \<Rightarrow> (string \<Rightarrow> string list) \<Rightarrow> string
     \<Rightarrow> local_event list \<Rightarrow> bool" where
  "cli_events h c ns n s bin mk stdin es \<longleftrightarrow> (\<exists>p d u w. readKubeconfig c ns n s = (Inr d, u)
     \<and> es = [CreateTemp p, WriteFile p d, CloseFile p, RunProcess bin (mk p) stdin, RemoveFile p]
     \<and> parse_kubeconfig h d = Inr w \<and> \<not> shares_host h c w)"

definition cli_shape ::
  "'w tools \<Rightarrow> 'w Client \<Rightarrow> string \<Rightarrow> string \<Rightarrow> string \<Rightarrow> (string \<Rightarrow> string list) \<Rightarrow> string
     \<Rightarrow> (goerr \<Rightarrow> goerr) \<Rightarrow> ('w, string \<times> goerr option) io" where
  "cli_shape h c ns n bin mk stdin wrap =
     bindE (tryE (resolveWorkloadKubeconfigFile h c ns n)) (\<lambda>r. case r of
         Inl e \<Rightarrow> retE ('''', Some e)
       | Inr tmpPath \<Rightarrow> bindE (os_run h bin (mk tmpPath) stdin) (\<lambda>(output, err).
           bindE (os_remove h tmpPath) (\<lambda>_. retE (output, map_option wrap err))))"

lemma cli_shape_events:
  "\<exists>es. local_events (snd (cli_shape h c ns n bin mk stdin wrap s)) = local_events s @ es \<and>
    (cli_events h c ns n s bin mk stdin es \<or> (leftover es [] = [] \<and> started es = []))"
proof -
  obtain q u where q: "resolveWorkloadKubeconfigFile h c ns n s = (q, u)" by fastforce
  then obtain es where es: "local_events u = local_events s @ es"
      "case q of Inr p \<Rightarrow> resolved h c ns n s p es | Inl _ \<Rightarrow> leftover es [] = [] \<and> started es = []"
    by (rule resolve_events)
  show ?thesis
  proof (cases q)
    case (Inl e)
    with q es show ?thesis by (auto simp: cli_shape_def bindE_def tryE_def retE_def)
  next
    case (Inr p)
    obtain o1 v where v: "os_run h bin (mk p) stdin u = (Inr o1, v)" using host_total(4) by blast
    obtain x y where y: "os_remove h p v = (Inr x, y)" using host_total(3) by blast
    have "snd (cli_shape h c ns n bin mk stdin wrap s) = y"
      using q Inr v y by (simp add: cli_shape_def bindE_def tryE_def retE_def split: prod.split)
    moreover have "local_events y = local_events s @ es @ [RunProcess bin (mk p) stdin, RemoveFile p]"
      using host_events(4) [OF v] host_events(3) [OF y] es(1) by simp
    ultimately show ?thesis
      using es(2) Inr by (auto simp: resolved_def cli_events_def)
  qed
qed

lemma exec_shapes:
  "ExecKubectl h c ns n args imp stdin =
     (case check_args ''at least one kubectl argument is required'' blockedKubectlFlags args of
        Some e \<Rightarrow> retE ('''', Some e)
      | None \<Rightarrow> cli_shape h c ns n kubectlBinaryPath (\<lambda>p. kubectl_args p imp args) stdin
          (\<lambda>e. Errorf ''kubectl command failed for cluster %s: %w'' [Fs n, Fw e]))"
  "ExecHelm h c ns n args =
     (case check_args ''at least one helm argument is required'' blockedHelmFlags args of
        Some e \<Rightarrow> retE ('''', Some e)
      | None \<Rightarrow> cli_shape h c ns n helmBinaryPath (\<lambda>p. [''--kubeconfig'', p] @ args) ''''
          (\<lambda>e. Errorf ''helm command failed for cluster %s: %w'' [Fs n, Fw e]))"
  unfolding ExecKubectl_def ExecHelm_def cli_shape_def by (rule refl)+

lemma check_args_None_iff:
  "check_args msg flags args = None \<longleftrightarrow> args \<noteq> [] \<and> find (flag_blocked flags) args = None"
  by (auto simp: check_args_def split: option.splits)

lemma blocked_forms:
  assumes "b \<in> set flags"
  shows "flag_blocked flags b" and "flag_blocked flags (b @ ''='' @ v)"
  unfolding flag_blocked_def list_ex_iff
  using assms by (auto simp: prefix_def intro!: bexI [of _ b])

lemma guarded_cli_events:
  assumes "f = (case check_args msg flags args of
      Some e \<Rightarrow> retE ([], Some e) | None \<Rightarrow> cli_shape h c ns n bin mk stdin wrap)"
  shows "\<exists>es. local_events (snd (f s)) = local_events s @ es \<and>
     (if es = [] then True
      else if started es = [] then leftover es [] = []
      else find (flag_blocked flags) args = None \<and> cli_events h c ns n s bin mk stdin es)"
proof (cases "check_args msg flags args")
  case None
  then have "find (flag_blocked flags) args = None"
    by (auto simp: check_args_None_iff)
  moreover have "cli_events h c ns n s bin mk stdin es \<Longrightarrow> started es \<noteq> []" for es
    by (auto simp: cli_events_def)
  ultimately show ?thesis
    using cli_shape_events [of h c ns n bin mk stdin wrap s] None assms by fastforce
next
  case (Some e)
  with assms show ?thesis by (auto simp: retE_def)
qed

lemma exec_writes_nothing [emits]:
  "emits is_read (ExecKubectl h c ns n args imp stdin)" "emits is_read (ExecHelm h c ns n args)"
  unfolding exec_shapes cli_shape_def
  by (intro emits resolve_workload_reads | simp add: emits resolve_workload_reads exec_reads split: prod.split)+

subsection \<open>Properties\<close>

text \<open>
  C15. Without the option to expose kubeconfigs, GetKubeconfig (and a backup that asks for Secrets)
  returns the credential error and leaves the session unchanged: no request is made.  With it,
  the Cluster is read first, and the Secret only when that read succeeded.
\<close>

theorem kubeconfig_export_gated:
  "(if ExposeKubeconfig (policy c) then GetKubeconfig c ns n s = readKubeconfig c ns n s
    else (\<exists>e e'. GetKubeconfig c ns n s = (Inl e, s) \<and> refusal (Some e) = Some ErrCredentialExport
       \<and> BackupCluster c (bo\<lparr>BKO_IncludeSecrets := True\<rparr>) s = (Inl e', s)
       \<and> refusal (Some e') = Some ErrCredentialExport))
   \<and> requests (snd (readKubeconfig c ns n s)) = requests s @ Request VGet ''Cluster'' ns n #
       (case fst (GetCluster c ns n s) of Inl _ \<Rightarrow> []
        | Inr _ \<Rightarrow> [Request VGet ''Secret'' ns (n @ ''-kubeconfig'')])"
proof (rule conjI)
  show "if ExposeKubeconfig (policy c) then GetKubeconfig c ns n s = readKubeconfig c ns n s
    else (\<exists>e e'. GetKubeconfig c ns n s = (Inl e, s) \<and> refusal (Some e) = Some ErrCredentialExport
       \<and> BackupCluster c (bo\<lparr>BKO_IncludeSecrets := True\<rparr>) s = (Inl e', s)
       \<and> refusal (Some e') = Some ErrCredentialExport)"
    by (simp add: GetKubeconfig_def BackupCluster_def CheckCredentialExport_def refusal_def
        all_sentinels_def bindE_def failE_def retE_def)
  show "requests (snd (readKubeconfig c ns n s)) = requests s @ Request VGet ''Cluster'' ns n #
       (case fst (GetCluster c ns n s) of Inl _ \<Rightarrow> []
        | Inr _ \<Rightarrow> [Request VGet ''Secret'' ns (n @ ''-kubeconfig'')])"
    by (auto simp: readKubeconfig_def GetCluster_def go_simps liftE_def split: prod.splits sum.splits)
qed

text \<open>
  C14. Whatever the API server, the kubeconfig and the host do, a kubectl or helm call either
  starts no process and calls for the removal of every temporary file it made, or its arguments
  passed the guard and it makes one temporary file, fills it with the kubeconfig it has read for that
  cluster, gives it to exactly one process of the fixed binary, and then calls for its removal (the
  code ignores whether that succeeds).  No process is started for a kubeconfig whose server has
  the host name of the management cluster, if both addresses are URLs with a host name.
\<close>

theorem exec_confined:
  "(\<exists>es. local_events (snd (ExecKubectl h c ns n args imp stdin s)) = local_events s @ es \<and>
     (if es = [] then True
      else if started es = [] then leftover es [] = []
      else find (flag_blocked blockedKubectlFlags) args = None
        \<and> cli_events h c ns n s kubectlBinaryPath (\<lambda>p. kubectl_args p imp args) stdin es))
   \<and> (\<exists>es. local_events (snd (ExecHelm h c ns n args s)) = local_events s @ es \<and>
     (if es = [] then True
      else if started es = [] then leftover es [] = []
      else find (flag_blocked blockedHelmFlags) args = None
        \<and> cli_events h c ns n s helmBinaryPath (\<lambda>p. [''--kubeconfig'', p] @ args) '''' es))"
proof (intro conjI)
  show "\<exists>es. local_events (snd (ExecKubectl h c ns n args imp stdin s)) = local_events s @ es \<and>
     (if es = [] then True
      else if started es = [] then leftover es [] = []
      else find (flag_blocked blockedKubectlFlags) args = None
        \<and> cli_events h c ns n s kubectlBinaryPath (\<lambda>p. kubectl_args p imp args) stdin es)"
    by (rule guarded_cli_events) (rule exec_shapes)
  show "\<exists>es. local_events (snd (ExecHelm h c ns n args s)) = local_events s @ es \<and>
     (if es = [] then True
      else if started es = [] then leftover es [] = []
      else find (flag_blocked blockedHelmFlags) args = None
        \<and> cli_events h c ns n s helmBinaryPath (\<lambda>p. [''--kubeconfig'', p] @ args) '''' es)"
    by (rule guarded_cli_events) (rule exec_shapes)
qed

text \<open>
  C40. The guard rejects every argument that is a blocked flag or starts with one and an equals
  sign, at any position, but it lets a value glued to the shorthand of the server flag pass.
\<close>

theorem exec_guard_scope:
  "list_all (\<lambda>b. check_args msg blockedKubectlFlags (xs @ b # ys) \<noteq> None
        \<and> check_args msg blockedKubectlFlags (xs @ (b @ ''='' @ v) # ys) \<noteq> None) blockedKubectlFlags
   \<and> list_all (\<lambda>b. check_args msg blockedHelmFlags (xs @ b # ys) \<noteq> None
        \<and> check_args msg blockedHelmFlags (xs @ (b @ ''='' @ v) # ys) \<noteq> None) blockedHelmFlags
   \<and> check_args msg blockedKubectlFlags [''get'', ''pods'', ''-shttps://mgmt:6443''] = None"
proof -
  have hit: "check_args msg flags (xs @ a # ys) \<noteq> None" if "flag_blocked flags a" for flags a
    using that by (auto simp: check_args_None_iff find_None_iff)
  have "list_all (\<lambda>b. check_args msg flags (xs @ b # ys) \<noteq> None
        \<and> check_args msg flags (xs @ (b @ ''='' @ v) # ys) \<noteq> None) flags" for flags
    unfolding list_all_iff
    by (intro ballI conjI hit blocked_forms)
  then show ?thesis
    by (simp add: check_args_def flag_blocked_def blockedKubectlFlags_def)
qed

end
