(* ===== verification/Capi_Node.thy ===== *)
theory Capi_Node
  imports Capi_Machine Capi_Memory "HOL-Library.Multiset"
begin

section \<open>Nodes and draining (pkg/capi/client.go, pkg/capi/drain.go)\<close>

text \<open>
  Cordoning and reading a Node, and draining it.  The two loops of a drain, which retry evictions
  and wait for pods to go, end only with the drain's context, so they are partial functions: the
  value \<open>None\<close> is a loop that never returns.
\<close>

record NodeOperationOptions =
  NO_Namespace :: string
  NO_MachineName :: string
  NO_NodeName :: string
  NO_GracePeriodSeconds :: "int option"
  NO_IgnoreDaemonSets :: bool
  NO_DeleteLocalData :: bool
  NO_Force :: bool
  NO_Timeout :: int
  NO_Uncordon :: bool

definition resolveNodeName :: "'w Client \<Rightarrow> NodeOperationOptions \<Rightarrow> ('w, string) io" where
  "resolveNodeName c opts =
     (if NO_NodeName opts \<noteq> '''' then retE (NO_NodeName opts)
      else if NO_MachineName opts = '''' then
        failE (Errorf ''either nodeName or machineName must be provided'' [])
      else bindE (wrapE (\<lambda>e. Errorf ''failed to get machine: %w'' [Fw e])
             (GetMachine c (NO_Namespace opts) (NO_MachineName opts))) (\<lambda>machine.
           case M_NodeRef machine of
             None \<Rightarrow> failE (Errorf ''machine %s has no associated node'' [Fs (NO_MachineName opts)])
           | Some ref \<Rightarrow> retE (Ref_Name ref)))"

definition get_node :: "'w Client \<Rightarrow> string \<Rightarrow> ('w, Node) io" where
  "get_node c nodeName =
     wrapE (\<lambda>e. Errorf ''failed to get node %s: %w'' [Fs nodeName, Fw e])
       (rget (k_nodes (Kube c)) ''Node'' '''' nodeName)"

definition setUnschedulable :: "'w Client \<Rightarrow> string \<Rightarrow> bool \<Rightarrow> ('w, unit) io" where
  "setUnschedulable c nodeName unschedulable =
     bindE (get_node c nodeName) (\<lambda>node.
     bindE (checkE (CheckUpdate (policy c) ''Node'' (N_Meta node))) (\<lambda>_.
     bindE (wrapE (\<lambda>e. Errorf ''failed to update node %s: %w'' [Fs nodeName, Fw e])
       (rupdate (k_nodes (Kube c)) ''Node'' N_Meta (node\<lparr>N_Unschedulable := unschedulable\<rparr>))) (\<lambda>_.
     retE ())))"

definition CordonNode :: "'w Client \<Rightarrow> NodeOperationOptions \<Rightarrow> ('w, unit) io" where
  "CordonNode c opts =
     bindE (resolveNodeName c opts) (\<lambda>nodeName. setUnschedulable c nodeName (\<not> NO_Uncordon opts))"

definition GetNodeStatus :: "'w Client \<Rightarrow> NodeOperationOptions \<Rightarrow> ('w, Node) io" where
  "GetNodeStatus c opts = bindE (resolveNodeName c opts) (\<lambda>nodeName. get_node c nodeName)"

subsection \<open>The plan of a drain\<close>

definition DefaultDrainTimeout :: int where "DefaultDrainTimeout = 120000000000"

record DrainResult =
  DR_NodeName :: string
  DR_Evicted :: "string list"
  DR_Skipped :: "string list"

definition MirrorPodAnnotationKey :: string where
  "MirrorPodAnnotationKey = ''kubernetes.io/config.mirror''"

definition podName :: "Pod \<Rightarrow> string" where
  "podName pod = Namespace (P_Meta pod) @ ''/'' @ Name (P_Meta pod)"

definition podNames :: "Pod list \<Rightarrow> string" where
  "podNames pods = Join (map podName pods) '', ''"

definition hasLocalStorage :: "Pod \<Rightarrow> bool" where
  "hasLocalStorage pod = list_ex (\<lambda>emptyDir. emptyDir) (P_EmptyDirs pod)"

text \<open>\<open>metav1.GetControllerOf\<close>: the first owner reference that is a controller.\<close>

definition GetControllerOf :: "objmeta \<Rightarrow> owner_ref option" where
  "GetControllerOf m = find RefController (OwnerReferences m)"

fun drainPlan ::
  "Pod list \<Rightarrow> string \<Rightarrow> NodeOperationOptions \<Rightarrow> Pod list \<times> string list \<times> string list" where
  "drainPlan [] nodeName opts = ([], [], [])"
| "drainPlan (pod # pods) nodeName opts =
     (let (evict, skipped, refusals) = drainPlan pods nodeName opts;
          name = podName pod;
          controller = GetControllerOf (P_Meta pod)
      in
      if P_NodeName pod \<noteq> nodeName then (evict, skipped, refusals)
      else if mhas (Annotations (P_Meta pod)) MirrorPodAnnotationKey then (evict, name # skipped, refusals)
      else if P_Phase pod = ''Succeeded'' \<or> P_Phase pod = ''Failed'' then (pod # evict, skipped, refusals)
      else if (case controller of None \<Rightarrow> False | Some r \<Rightarrow> RefKind r = ''DaemonSet'') then
        (if NO_IgnoreDaemonSets opts then (evict, name # skipped, refusals)
         else (evict, skipped,
           (''pod '' @ name @ '' belongs to a DaemonSet (set ignore_daemonsets to leave it)'') # refusals))
      else if controller = None \<and> \<not> NO_Force opts then
        (evict, skipped,
         (''pod '' @ name @ '' is managed by no controller and would be lost (set force)'') # refusals)
      else if hasLocalStorage pod \<and> \<not> NO_DeleteLocalData opts then
        (evict, skipped,
         (''pod '' @ name @ '' has emptyDir data that would be lost (set delete_local_data)'') # refusals)
      else (pod # evict, skipped, refusals))"

subsection \<open>Evicting and waiting\<close>

definition evict_call :: "'w Client \<Rightarrow> int option \<Rightarrow> Pod \<Rightarrow> ('w, unit) io" where
  "evict_call c grace pod =
     api (Request VEvict ''Pod'' (Namespace (P_Meta pod)) (Name (P_Meta pod)))
       (k_evict (Kube c) (Namespace (P_Meta pod)) (Name (P_Meta pod)) grace)"

text \<open>One pass over the pending pods: the evicted so far, the refused, and an error that ends it.\<close>

fun evict_round :: "'w Client \<Rightarrow> int option \<Rightarrow> Pod list \<Rightarrow> Pod list \<Rightarrow> Pod list \<Rightarrow> 'w session
    \<Rightarrow> (Pod list \<times> Pod list \<times> goerr option) \<times> 'w session" where
  "evict_round c grace [] evicted refused s = ((evicted, refused, None), s)"
| "evict_round c grace (pod # pods) evicted refused s =
     (case evict_call c grace pod s of
        (Inr _, t) \<Rightarrow> evict_round c grace pods (evicted @ [pod]) refused t
      | (Inl err, t) \<Rightarrow>
          if hasReason NotFound err then evict_round c grace pods (evicted @ [pod]) refused t
          else if hasReason TooManyRequests err then evict_round c grace pods evicted (refused @ [pod]) t
          else ((evicted, refused, Some (Errorf ''failed to evict pod %s: %w'' [Fs (podName pod), Fw err])), t))"

partial_function (option) evict_loop :: "'w Client \<Rightarrow> int option \<Rightarrow> Pod list \<Rightarrow> Pod list \<Rightarrow> 'w session
    \<Rightarrow> ((Pod list \<times> goerr option) \<times> 'w session) option" where
  "evict_loop c grace evicted pending s =
     (case evict_round c grace pending evicted [] s of
        ((evicted', refused, err), t) \<Rightarrow>
          (case err of
             Some e \<Rightarrow> Some ((evicted', Some e), t)
           | None \<Rightarrow>
               if refused = [] then Some ((evicted', None), t)
               else (case k_poll (Kube c) (env t) of
                   (interval_passed, w) \<Rightarrow>
                     if interval_passed then evict_loop c grace evicted' refused (t\<lparr>env := w\<rparr>)
                     else Some ((evicted', Some (Errorf
                       ''the drain timed out while a PodDisruptionBudget still refused to evict %s''
                       [Fs (podNames refused)])), t\<lparr>env := w\<rparr>))))"

definition evictPods :: "'w Client \<Rightarrow> Pod list \<Rightarrow> int option \<Rightarrow> 'w session
    \<Rightarrow> ((Pod list \<times> goerr option) \<times> 'w session) option" where
  "evictPods c pods grace s = evict_loop c grace [] pods s"

fun wait_round :: "'w Client \<Rightarrow> Pod list \<Rightarrow> Pod list \<Rightarrow> 'w session
    \<Rightarrow> (Pod list \<times> goerr option) \<times> 'w session" where
  "wait_round c [] remaining s = ((remaining, None), s)"
| "wait_round c (pod # pods) remaining s =
     (case rget (k_pods (Kube c)) ''Pod'' (Namespace (P_Meta pod)) (Name (P_Meta pod)) s of
        (Inr current, t) \<Rightarrow>
          if UID (P_Meta current) = UID (P_Meta pod) then wait_round c pods (remaining @ [pod]) t
          else wait_round c pods remaining t
      | (Inl err, t) \<Rightarrow>
          if hasReason NotFound err then wait_round c pods remaining t
          else ((remaining, Some (Errorf ''failed to check whether pod %s is gone: %w''
                 [Fs (podName pod), Fw err])), t))"

partial_function (option) waitForPodsGone ::
  "'w Client \<Rightarrow> Pod list \<Rightarrow> 'w session \<Rightarrow> (goerr option \<times> 'w session) option" where
  "waitForPodsGone c pending s =
     (case wait_round c pending [] s of
        ((remaining, err), t) \<Rightarrow>
          (case err of
             Some e \<Rightarrow> Some (Some e, t)
           | None \<Rightarrow>
               if remaining = [] then Some (None, t)
               else (case k_poll (Kube c) (env t) of
                   (interval_passed, w) \<Rightarrow>
                     if interval_passed then waitForPodsGone c remaining (t\<lparr>env := w\<rparr>)
                     else Some (Some (Errorf ''the drain timed out while evicted pods were still terminating: %s''
                       [Fs (podNames remaining)]), t\<lparr>env := w\<rparr>))))"

definition list_node_pods :: "'w Client \<Rightarrow> string \<Rightarrow> ('w, Pod list) io" where
  "list_node_pods c nodeName =
     wrapE (\<lambda>e. Errorf ''failed to list the pods of node %s: %w'' [Fs nodeName, Fw e])
       (rlist (k_pods (Kube c)) ''Pod'' \<lparr>InNamespace = None, MatchingLabels = [], OnNode = Some nodeName\<rparr>)"

text \<open>The result (nil when the node was not cordoned) and the error of a drain.\<close>

definition DrainNode :: "'w Client \<Rightarrow> NodeOperationOptions \<Rightarrow> 'w session
    \<Rightarrow> ((DrainResult option \<times> goerr option) \<times> 'w session) option" where
  "DrainNode c opts s =
     (case bindE (resolveNodeName c opts) (\<lambda>nodeName.
             bindE (setUnschedulable c nodeName True) (\<lambda>_. retE nodeName)) s of
        (Inl e, t) \<Rightarrow> Some ((None, Some e), t)
      | (Inr nodeName, t) \<Rightarrow>
          let result = \<lparr>DR_NodeName = nodeName, DR_Evicted = [], DR_Skipped = []\<rparr>;
              timeout = (if NO_Timeout opts \<le> 0 then DefaultDrainTimeout else NO_Timeout opts)
          in (case bindE (outside (k_timer (Kube c) timeout)) (\<lambda>_. list_node_pods c nodeName) t of
                (Inl e, u) \<Rightarrow> Some ((Some result, Some e), u)
              | (Inr pods, u) \<Rightarrow>
                  let (evict, skipped, refusals) = drainPlan pods nodeName opts;
                      result = result\<lparr>DR_Skipped := skipped\<rparr>
                  in if refusals \<noteq> [] then
                       Some ((Some result, Some (Errorf ''refusing to drain node %s, no pod was evicted: %s''
                         [Fs nodeName, Fs (Join refusals ''; '')])), u)
                     else (case evictPods c evict (NO_GracePeriodSeconds opts) u of
                         None \<Rightarrow> None
                       | Some ((evicted, err), v) \<Rightarrow>
                           let result = result\<lparr>DR_Evicted := map podName evicted\<rparr>
                           in (case err of
                                 Some e \<Rightarrow> Some ((Some result, Some e), v)
                               | None \<Rightarrow> (case waitForPodsGone c evicted v of
                                     None \<Rightarrow> None
                                   | Some (werr, w) \<Rightarrow> Some ((Some result, werr), w))))))"

subsection \<open>The plan as a decision per pod\<close>

definition mirror_pod :: "Pod \<Rightarrow> bool" where
  "mirror_pod p = mhas (Annotations (P_Meta p)) MirrorPodAnnotationKey"

definition finished_pod :: "Pod \<Rightarrow> bool" where
  "finished_pod p \<longleftrightarrow> P_Phase p = ''Succeeded'' \<or> P_Phase p = ''Failed''"

definition daemon_pod :: "Pod \<Rightarrow> bool" where
  "daemon_pod p \<longleftrightarrow> (\<exists>r. GetControllerOf (P_Meta p) = Some r \<and> RefKind r = ''DaemonSet'')"

definition unmanaged_pod :: "Pod \<Rightarrow> bool" where
  "unmanaged_pod p \<longleftrightarrow> GetControllerOf (P_Meta p) = None"

text \<open>What kubectl drain promises of the pods it evicts, and of the ones it leaves.\<close>

definition may_evict :: "NodeOperationOptions \<Rightarrow> Pod \<Rightarrow> bool" where
  "may_evict opts p \<longleftrightarrow> \<not> mirror_pod p \<and> (finished_pod p \<or>
     \<not> daemon_pod p \<and> (if unmanaged_pod p then NO_Force opts else True)
       \<and> (if hasLocalStorage p then NO_DeleteLocalData opts else True))"

definition may_leave :: "NodeOperationOptions \<Rightarrow> Pod \<Rightarrow> bool" where
  "may_leave opts p \<longleftrightarrow> mirror_pod p \<or> \<not> finished_pod p \<and> daemon_pod p \<and> NO_IgnoreDaemonSets opts"

lemma daemon_pod_case:
  "(case GetControllerOf (P_Meta p) of None \<Rightarrow> False | Some r \<Rightarrow> RefKind r = ''DaemonSet'') = daemon_pod p"
  by (auto simp: daemon_pod_def split: option.splits)

lemma daemon_managed: "daemon_pod p \<Longrightarrow> \<not> unmanaged_pod p"
  by (auto simp: daemon_pod_def unmanaged_pod_def)

lemma leave_not_evict: "may_leave opts p \<Longrightarrow> \<not> may_evict opts p"
  by (auto simp: may_leave_def may_evict_def)

lemma drainPlan_step:
  assumes "drainPlan pods n opts = (ev, sk, rf)"
  shows "\<exists>msg. drainPlan (p # pods) n opts =
     (if P_NodeName p \<noteq> n then (ev, sk, rf)
      else if may_leave opts p then (ev, podName p # sk, rf)
      else if may_evict opts p then (p # ev, sk, rf)
      else (ev, sk, msg # rf))"
  using daemon_managed [of p]
  unfolding drainPlan.simps assms Let_def prod.case daemon_pod_case mirror_pod_def [symmetric]
    finished_pod_def [symmetric] unmanaged_pod_def [symmetric] may_evict_def may_leave_def
  by (cases "mirror_pod p"; cases "finished_pod p"; cases "daemon_pod p"; cases "unmanaged_pod p";
      cases "NO_IgnoreDaemonSets opts"; cases "NO_Force opts"; cases "hasLocalStorage p";
      cases "NO_DeleteLocalData opts") simp_all

lemma drainPlan_filters:
  "drainPlan pods n opts = (ev, sk, rf) \<Longrightarrow>
     ev = filter (\<lambda>p. P_NodeName p = n \<and> may_evict opts p) pods
     \<and> sk = map podName (filter (\<lambda>p. P_NodeName p = n \<and> may_leave opts p) pods)
     \<and> length rf = length (filter (\<lambda>p. P_NodeName p = n \<and> \<not> may_evict opts p \<and> \<not> may_leave opts p) pods)"
proof (induction pods arbitrary: ev sk rf)
  case Nil
  then show ?case by simp
next
  case (Cons p pods)
  obtain ev0 sk0 rf0 where plan: "drainPlan pods n opts = (ev0, sk0, rf0)"
    by (metis prod_cases3)
  obtain msg where step: "drainPlan (p # pods) n opts =
     (if P_NodeName p \<noteq> n then (ev0, sk0, rf0)
      else if may_leave opts p then (ev0, podName p # sk0, rf0)
      else if may_evict opts p then (p # ev0, sk0, rf0)
      else (ev0, sk0, msg # rf0))"
    using drainPlan_step [OF plan] by blast
  show ?case
    using Cons.prems Cons.IH [OF plan] leave_not_evict [of opts p]
    unfolding step by (simp split: if_splits) auto
qed

subsection \<open>What the two loops do\<close>

definition eviction :: "Pod \<Rightarrow> request" where
  "eviction p = Request VEvict ''Pod'' (Namespace (P_Meta p)) (Name (P_Meta p))"

definition evicts :: "Pod list \<Rightarrow> request \<Rightarrow> bool" where
  "evicts ps q \<longleftrightarrow> q \<in> eviction ` set ps"

lemma evict_call_ran: "evict_call c g p s = (r, t) \<Longrightarrow> ran (evicts (p # ps)) s t"
  by (rule emits_ran [of _ "evict_call c g p"])
    (simp_all add: evict_call_def emits_api evicts_def eviction_def)

lemma evicts_tail: "ran (evicts ps) s t \<Longrightarrow> ran (evicts (p # ps)) s t"
  by (erule ran_mono) (simp add: evicts_def)

lemma evicts_sub: "ran (evicts qs) s t \<Longrightarrow> set qs \<subseteq> set ps \<Longrightarrow> ran (evicts ps) s t"
  by (erule ran_mono) (auto simp: evicts_def)

text \<open>A round moves every pending pod to the evicted or the refused, or ends in an error.\<close>

definition sorted_out ::
  "Pod list \<Rightarrow> Pod list \<Rightarrow> Pod list \<Rightarrow> Pod list \<Rightarrow> Pod list \<Rightarrow> goerr option \<Rightarrow> bool" where
  "sorted_out pods ev rf ev' rf' err \<longleftrightarrow> (\<exists>a b. ev' = ev @ a \<and> rf' = rf @ b
     \<and> mset a + mset b \<subseteq># mset pods \<and> (err = None \<longrightarrow> mset a + mset b = mset pods))"

lemma sorted_out_start: "sorted_out [] ev rf ev rf None" "sorted_out pods ev rf ev rf (Some e)"
  by (simp_all add: sorted_out_def)

lemma sorted_out_evicted: "sorted_out ps (ev @ [p]) rf ev' rf' err \<Longrightarrow> sorted_out (p # ps) ev rf ev' rf' err"
  unfolding sorted_out_def by (force intro: exI [of _ "p # _"])

lemma sorted_out_refused: "sorted_out ps ev (rf @ [p]) ev' rf' err \<Longrightarrow> sorted_out (p # ps) ev rf ev' rf' err"
  unfolding sorted_out_def by (force intro: exI [of _ "p # _"])

lemma evict_round_result:
  "evict_round c g pods ev rf s = ((ev', rf', err), t) \<Longrightarrow>
     ran (evicts pods) s t \<and> sorted_out pods ev rf ev' rf' err"
proof (induction pods arbitrary: ev rf s)
  case Nil
  then show ?case by (simp add: sorted_out_start)
next
  case (Cons p ps)
  obtain r u where call: "evict_call c g p s = (r, u)" by fastforce
  have step: "ran (evicts (p # ps)) s t" if "ran (evicts ps) u t"
    using evict_call_ran [OF call, of ps] evicts_tail [OF that] by (rule ran_trans)
  have evicted: ?case if "evict_round c g ps (ev @ [p]) rf u = ((ev', rf', err), t)"
    using Cons.IH [OF that] by (simp add: step sorted_out_evicted)
  have refused: ?case if "evict_round c g ps ev (rf @ [p]) u = ((ev', rf', err), t)"
    using Cons.IH [OF that] by (simp add: step sorted_out_refused)
  show ?case
  proof (cases r)
    case (Inr x)
    with Cons.prems call evicted show ?thesis by simp
  next
    case (Inl e)
    consider "hasReason NotFound e" | "\<not> hasReason NotFound e" "hasReason TooManyRequests e"
      | "\<not> hasReason NotFound e" "\<not> hasReason TooManyRequests e" by blast
    then show ?thesis
    proof cases
      case 1
      with Inl Cons.prems call evicted show ?thesis by simp
    next
      case 2
      with Inl Cons.prems call refused show ?thesis by simp
    next
      case 3
      with Inl Cons.prems call evict_call_ran [OF call, of ps] show ?thesis
        by (auto simp: sorted_out_start)
    qed
  qed
qed

lemma evict_loop_result:
  assumes "evict_loop c g ev pods s = Some y"
  shows "case y of ((ev', err), t) \<Rightarrow>
     ran (evicts pods) s t \<and> (\<exists>a. ev' = ev @ a \<and> mset a \<subseteq># mset pods
       \<and> (err = None \<longrightarrow> mset a = mset pods))"
proof (rule evict_loop.raw_induct [OF _ assms], goal_cases)
  case (1 loop c g ev pods s y)
  obtain ev1 rf1 err1 u where round: "evict_round c g pods ev [] s = ((ev1, rf1, err1), u)"
    by (metis surj_pair)
  obtain ok w where poll: "k_poll (Kube c) (env u) = (ok, w)" by fastforce
  from evict_round_result [OF round] obtain a where run: "ran (evicts pods) s u"
    and a: "ev1 = ev @ a" "mset a + mset rf1 \<subseteq># mset pods"
       "err1 = None \<longrightarrow> mset a + mset rf1 = mset pods"
    by (auto simp: sorted_out_def)
  have sub: "mset a \<subseteq># mset pods" using a(2) by (metis mset_subset_eq_add_left subset_mset.order_trans)
  show ?case
  proof (cases "err1 = None \<and> rf1 \<noteq> [] \<and> ok")
    case False
    with 1(2) run a sub show ?thesis
      by (auto simp: round poll split: option.splits if_splits)
  next
    case True
    with 1(2) have "loop c g ev1 rf1 (u\<lparr>env := w\<rparr>) = Some y"
      by (simp add: round poll)
    from 1(1) [OF this] obtain ev' err t b where y: "y = ((ev', err), t)"
      and rest: "ran (evicts rf1) u t" "ev' = ev1 @ b" "mset b \<subseteq># mset rf1"
        "err = None \<longrightarrow> mset b = mset rf1"
      by (auto split: prod.splits)
    have "set rf1 \<subseteq> set pods"
      using a(3) True by (metis UnCI set_mset_mset set_mset_union subsetI)
    then have "ran (evicts pods) s t"
      using run rest(1) evicts_sub ran_trans by blast
    moreover have "mset (a @ b) \<subseteq># mset pods"
      using subset_mset.order_trans [OF subset_mset.add_left_mono [OF rest(3)] a(2)] by simp
    ultimately show ?thesis
      using y a rest True by (auto intro!: exI [of _ "a @ b"])
  qed
qed

text \<open>The requests of the waiting: reads of single pods.\<close>

definition pod_read :: "request \<Rightarrow> bool" where
  "pod_read q \<longleftrightarrow> rq_verb q = VGet \<and> rq_kind q = ''Pod''"

lemma pod_read_reads [simp]: "pod_read q \<Longrightarrow> is_read q"
  by (simp add: pod_read_def is_read_def)

lemma wait_round_reads: "wait_round c pods rem s = (r, t) \<Longrightarrow> ran pod_read s t"
proof (induction pods arbitrary: rem s)
  case (Cons p ps)
  obtain q u where get: "rget (k_pods (Kube c)) ''Pod'' (Namespace (P_Meta p)) (Name (P_Meta p)) s = (q, u)"
    by fastforce
  have "ran pod_read s u"
    using emits_ran [where m = "rget (k_pods (Kube c)) ''Pod'' (Namespace (P_Meta p)) (Name (P_Meta p))"]
      get by (simp add: emits pod_read_def)
  with Cons get show ?case by (auto intro: ran_trans split: sum.splits if_splits)
qed simp

lemma wait_reads: "waitForPodsGone c pods s = Some (err, t) \<Longrightarrow> ran pod_read s t"
proof -
  assume "waitForPodsGone c pods s = Some (err, t)"
  then have "case (err, t) of (err, t) \<Rightarrow> ran pod_read s t"
  proof (rule waitForPodsGone.raw_induct [rotated], goal_cases)
    case (1 loop c pods s y)
    obtain rem1 err1 u where round: "wait_round c pods [] s = ((rem1, err1), u)" by (metis surj_pair)
    obtain ok w where poll: "k_poll (Kube c) (env u) = (ok, w)" by fastforce
    have run: "ran pod_read s u" using round by (rule wait_round_reads)
    show ?case
    proof (cases "err1 = None \<and> rem1 \<noteq> [] \<and> ok")
      case False
      with 1(2) run show ?thesis by (auto simp: round poll split: option.splits if_splits)
    next
      case True
      with 1(2) have "loop c rem1 (u\<lparr>env := w\<rparr>) = Some y" by (simp add: round poll)
      from 1(1) [OF this] run show ?thesis by (auto split: prod.splits intro: ran_trans)
    qed
  qed
  then show ?thesis by simp
qed

subsection \<open>The run of a drain\<close>

text \<open>
  The calls of the two loops with the answers they got, in order.  \<open>drain_steps c g s es t\<close>: from
  session \<open>s\<close> the calls of \<open>es\<close>, made one after the other on the client \<open>c\<close> with grace period \<open>g\<close>,
  get the answers of \<open>es\<close> and end in \<open>t\<close>.
\<close>

datatype drain_step = Asked Pod "goerr + unit" | Looked Pod "goerr + Pod" | Waited

inductive drain_steps :: "'w Client \<Rightarrow> int option \<Rightarrow> 'w session \<Rightarrow> drain_step list \<Rightarrow> 'w session \<Rightarrow> bool"
  for c g where
  stop: "drain_steps c g s [] s"
| ask: "evict_call c g p s = (a, u) \<Longrightarrow> drain_steps c g u es t \<Longrightarrow> drain_steps c g s (Asked p a # es) t"
| look: "rget (k_pods (Kube c)) ''Pod'' (Namespace (P_Meta p)) (Name (P_Meta p)) s = (q, u) \<Longrightarrow>
    drain_steps c g u es t \<Longrightarrow> drain_steps c g s (Looked p q # es) t"
| wait: "k_poll (Kube c) (env s) = (True, w) \<Longrightarrow> drain_steps c g (s\<lparr>env := w\<rparr>) es t \<Longrightarrow>
    drain_steps c g s (Waited # es) t"

text \<open>The answers that end the matter for a pod, and the evictions that were granted.\<close>

definition granted :: "goerr + unit \<Rightarrow> bool" where
  "granted a \<longleftrightarrow> (case a of Inr _ \<Rightarrow> True | Inl e \<Rightarrow> hasReason NotFound e)"

definition shows_gone :: "Pod \<Rightarrow> goerr + Pod \<Rightarrow> bool" where
  "shows_gone p q \<longleftrightarrow> (case q of Inl e \<Rightarrow> hasReason NotFound e
     | Inr current \<Rightarrow> UID (P_Meta current) \<noteq> UID (P_Meta p))"

fun evictions :: "drain_step list \<Rightarrow> Pod list" where
  "evictions [] = []"
| "evictions (Asked p a # es) = (if granted a then p # evictions es else evictions es)"
| "evictions (_ # es) = evictions es"

definition seen_gone :: "Pod \<Rightarrow> drain_step list \<Rightarrow> bool" where
  "seen_gone p es \<longleftrightarrow> (\<exists>q. Looked p q \<in> set es \<and> shows_gone p q)"

text \<open>The eviction of the pod was granted, and a later read of it found it gone.\<close>

definition cleared :: "drain_step list \<Rightarrow> Pod \<Rightarrow> bool" where
  "cleared es p \<longleftrightarrow> (\<exists>es1 a es2 q es3. es = es1 @ Asked p a # es2 @ Looked p q # es3
     \<and> granted a \<and> shows_gone p q)"

lemma drain_steps_append:
  "drain_steps c g s es u \<Longrightarrow> drain_steps c g u es' t \<Longrightarrow> drain_steps c g s (es @ es') t"
  by (induction rule: drain_steps.induct) (auto intro: drain_steps.intros)

lemma evictions_append [simp]: "evictions (es @ es') = evictions es @ evictions es'"
  by (induction es rule: evictions.induct) simp_all

lemma seen_gone_append [simp]: "seen_gone p (es @ es') \<longleftrightarrow> seen_gone p es \<or> seen_gone p es'"
  by (auto simp: seen_gone_def)

lemma evictions_asked: "p \<in> set (evictions es) \<Longrightarrow> \<exists>a. Asked p a \<in> set es \<and> granted a"
  by (induction es rule: evictions.induct) (auto split: if_splits)

lemma clearedI:
  assumes "p \<in> set (evictions es)" and "seen_gone p es'"
  shows "cleared (es @ es') p"
proof -
  from evictions_asked [OF assms(1)] obtain a es1 es2 where "es = es1 @ Asked p a # es2" "granted a"
    by (auto dest: split_list)
  moreover from assms(2) obtain q es3 es4 where "es' = es3 @ Looked p q # es4" "shows_gone p q"
    by (auto simp: seen_gone_def dest!: split_list)
  ultimately have "es @ es' = es1 @ Asked p a # (es2 @ es3) @ Looked p q # es4" by simp
  with \<open>granted a\<close> \<open>shows_gone p q\<close> show ?thesis unfolding cleared_def by blast
qed

text \<open>The two loops as such runs.\<close>

lemma evict_round_steps:
  "evict_round c g pods ev rf s = ((ev', rf', None), t) \<Longrightarrow>
     \<exists>es. drain_steps c g s es t \<and> ev' = ev @ evictions es"
proof (induction pods arbitrary: ev rf s)
  case Nil
  then show ?case by (auto intro!: exI [of _ "[]"] drain_steps.stop)
next
  case (Cons p ps)
  obtain a u where call: "evict_call c g p s = (a, u)" by fastforce
  consider "granted a" "evict_round c g ps (ev @ [p]) rf u = ((ev', rf', None), t)"
    | "\<not> granted a" "evict_round c g ps ev (rf @ [p]) u = ((ev', rf', None), t)"
    using Cons.prems call by (auto simp: granted_def split: sum.splits if_splits)
  then show ?case
  proof cases
    case 1
    from Cons.IH [OF 1(2)] obtain es where "drain_steps c g u es t" "ev' = (ev @ [p]) @ evictions es" by blast
    with 1(1) drain_steps.ask [OF call] show ?thesis by (intro exI [of _ "Asked p a # es"]) simp
  next
    case 2
    from Cons.IH [OF 2(2)] obtain es where "drain_steps c g u es t" "ev' = ev @ evictions es" by blast
    with 2(1) drain_steps.ask [OF call] show ?thesis by (intro exI [of _ "Asked p a # es"]) simp
  qed
qed

lemma evict_loop_run:
  assumes "evict_loop c g ev pods s = Some y"
  shows "case y of ((ev', err), t) \<Rightarrow>
      err = None \<longrightarrow> (\<exists>es. drain_steps c g s es t \<and> ev' = ev @ evictions es)"
proof (rule evict_loop.raw_induct [OF _ assms], goal_cases)
  case (1 loop c g ev pods s y)
  obtain ev1 rf1 err1 u where round: "evict_round c g pods ev [] s = ((ev1, rf1, err1), u)"
    by (metis surj_pair)
  obtain ok w where poll: "k_poll (Kube c) (env u) = (ok, w)" by fastforce
  show ?case
  proof (cases "err1 = None \<and> rf1 \<noteq> [] \<and> ok")
    case False
    with 1(2) round show ?thesis
      by (auto simp: poll split: option.splits if_splits dest: evict_round_steps)
  next
    case True
    with 1(2) have "loop c g ev1 rf1 (u\<lparr>env := w\<rparr>) = Some y" by (simp add: round poll)
    note rest = 1(1) [OF this]
    from True round obtain es where es: "drain_steps c g s es u" "ev1 = ev @ evictions es"
      using evict_round_steps by blast
    have "drain_steps c g s (es @ Waited # es') t" if "drain_steps c g (u\<lparr>env := w\<rparr>) es' t" for es' t
      using drain_steps_append [OF es(1) drain_steps.wait [OF _ that]] poll True by simp
    with rest es(2) show ?thesis by (fastforce split: prod.splits)
  qed
qed

lemma wait_round_steps:
  "wait_round c pods rem s = ((rem', None), t) \<Longrightarrow>
     \<exists>es a. drain_steps c g s es t \<and> evictions es = [] \<and> rem' = rem @ a
       \<and> (\<forall>p \<in> set pods. p \<in> set a \<or> seen_gone p es)"
proof (induction pods arbitrary: rem s)
  case Nil
  then show ?case by (auto intro!: exI [of _ "[]"] drain_steps.stop)
next
  case (Cons p ps)
  obtain q u where get: "rget (k_pods (Kube c)) ''Pod'' (Namespace (P_Meta p)) (Name (P_Meta p)) s = (q, u)"
    by fastforce
  consider "shows_gone p q" "wait_round c ps rem u = ((rem', None), t)"
    | "wait_round c ps (rem @ [p]) u = ((rem', None), t)"
    using Cons.prems get by (auto simp: shows_gone_def split: sum.splits if_splits)
  then show ?case
  proof cases
    case 1
    from Cons.IH [OF 1(2)] obtain es a where es: "drain_steps c g u es t" "evictions es = []" "rem' = rem @ a"
      "\<forall>p \<in> set ps. p \<in> set a \<or> seen_gone p es" by blast
    with 1(1) drain_steps.look [OF get es(1)] show ?thesis
      by (intro exI [of _ "Looked p q # es"] exI [of _ a]) (auto simp: seen_gone_def)
  next
    case 2
    from Cons.IH [OF 2] obtain es a where es: "drain_steps c g u es t" "evictions es = []" "rem' = (rem @ [p]) @ a"
      "\<forall>p \<in> set ps. p \<in> set a \<or> seen_gone p es" by blast
    with drain_steps.look [OF get es(1)] show ?thesis
      by (intro exI [of _ "Looked p q # es"] exI [of _ "p # a"]) (auto simp: seen_gone_def)
  qed
qed

lemma wait_loop_run:
  assumes "waitForPodsGone c pods s = Some y"
  shows "case y of (err, t) \<Rightarrow> err = None \<longrightarrow>
      (\<exists>es. drain_steps c g s es t \<and> evictions es = [] \<and> (\<forall>p \<in> set pods. seen_gone p es))"
proof (rule waitForPodsGone.raw_induct [OF _ assms], goal_cases)
  case (1 loop c pods s y)
  obtain rem1 err1 u where round: "wait_round c pods [] s = ((rem1, err1), u)" by (metis surj_pair)
  obtain ok w where poll: "k_poll (Kube c) (env u) = (ok, w)" by fastforce
  show ?case
  proof (cases "err1 = None")
    case False
    with 1(2) show ?thesis by (auto simp: round poll split: option.splits)
  next
    case True
    with round obtain es where es: "drain_steps c g s es u" "evictions es = []"
      "\<forall>p \<in> set pods. p \<in> set rem1 \<or> seen_gone p es"
      using wait_round_steps [of c pods "[]" s rem1 u g] by auto
    show ?thesis
    proof (cases "rem1 \<noteq> [] \<and> ok")
      case False
      with 1(2) True es show ?thesis by (auto simp: round poll split: if_splits)
    next
      case more: True
      with 1(2) True have "loop c rem1 (u\<lparr>env := w\<rparr>) = Some y" by (simp add: round poll)
      note rest = 1(1) [OF this]
      have "drain_steps c g s (es @ Waited # es') t" if "drain_steps c g (u\<lparr>env := w\<rparr>) es' t" for es' t
        using drain_steps_append [OF es(1) drain_steps.wait [OF _ that]] poll more by simp
      moreover have "seen_gone p (es @ Waited # es')" if "p \<in> set pods" "\<forall>p \<in> set rem1. seen_gone p es'" for p es'
        using es(3) that by (auto simp: seen_gone_def)
      ultimately show ?thesis using rest es(2) by (fastforce split: prod.splits)
    qed
  qed
qed

lemmas wait_run = wait_loop_run [of c pods s "(None, t)" for c pods s t, simplified]

subsection \<open>Termination\<close>

text \<open>
  The documented behaviour of a context with a timeout, as a bound on the polls: each interval
  that passes before the end brings the end nearer, and the calls between do not put it off.
\<close>

definition deadline_bounds :: "'w kube \<Rightarrow> ('w \<Rightarrow> nat) \<Rightarrow> bool" where
  "deadline_bounds k m \<longleftrightarrow> (\<forall>w w'. k_poll k w = (True, w') \<longrightarrow> m w' < m w)
     \<and> (\<forall>ns n g w. m (snd (k_evict k ns n g w)) \<le> m w)
     \<and> (\<forall>ns n w. m (snd (RGet (k_pods k) ns n w)) \<le> m w)"

lemma deadline_calls:
  assumes "deadline_bounds (Kube c) m"
  shows "evict_call c g p s = (r, t) \<Longrightarrow> m (env t) \<le> m (env s)"
    and "rget (k_pods (Kube c)) kind ns n s = (r', t) \<Longrightarrow> m (env t) \<le> m (env s)"
  using assms by (auto simp: deadline_bounds_def evict_call_def rget_def api_def split: prod.splits)
    (metis snd_conv)+

lemma evict_round_bound:
  assumes "deadline_bounds (Kube c) m"
  shows "evict_round c g pods ev rf s = (x, t) \<Longrightarrow> m (env t) \<le> m (env s)"
proof (induction pods arbitrary: ev rf s)
  case (Cons p ps)
  obtain r u where call: "evict_call c g p s = (r, u)" by fastforce
  from deadline_calls(1) [OF assms call] have "m (env u) \<le> m (env s)" .
  then show ?case
    using Cons call by (auto split: sum.splits if_splits intro: le_trans)
qed simp

lemma wait_round_bound:
  assumes "deadline_bounds (Kube c) m"
  shows "wait_round c pods rem s = (x, t) \<Longrightarrow> m (env t) \<le> m (env s)"
proof (induction pods arbitrary: rem s)
  case (Cons p ps)
  obtain r u where call: "rget (k_pods (Kube c)) ''Pod'' (Namespace (P_Meta p)) (Name (P_Meta p)) s = (r, u)"
    by fastforce
  from deadline_calls(2) [OF assms call] have "m (env u) \<le> m (env s)" .
  then show ?case
    using Cons call by (auto split: sum.splits if_splits intro: le_trans)
qed simp

lemma evict_loop_terminates:
  assumes "deadline_bounds (Kube c) m"
  shows "\<exists>y. evict_loop c g ev pods s = Some y"
proof (induction "m (env s)" arbitrary: ev pods s rule: less_induct)
  case less
  obtain ev1 rf1 err1 u where round: "evict_round c g pods ev [] s = ((ev1, rf1, err1), u)"
    by (metis surj_pair)
  obtain ok w where poll: "k_poll (Kube c) (env u) = (ok, w)" by fastforce
  have "m w < m (env s)" if ok
    using that poll assms evict_round_bound [OF assms round]
    by (auto simp: deadline_bounds_def intro: less_le_trans)
  then have "\<exists>y. evict_loop c g ev1 rf1 (u\<lparr>env := w\<rparr>) = Some y" if ok
    using that less by simp
  then show ?case
    by (subst evict_loop.simps) (auto simp: round poll split: option.splits)
qed

lemma wait_terminates:
  assumes "deadline_bounds (Kube c) m"
  shows "\<exists>y. waitForPodsGone c pods s = Some y"
proof (induction "m (env s)" arbitrary: pods s rule: less_induct)
  case less
  obtain rem1 err1 u where round: "wait_round c pods [] s = ((rem1, err1), u)"
    by (metis surj_pair)
  obtain ok w where poll: "k_poll (Kube c) (env u) = (ok, w)" by fastforce
  have "m w < m (env s)" if ok
    using that poll assms wait_round_bound [OF assms round]
    by (auto simp: deadline_bounds_def intro: less_le_trans)
  then have "\<exists>y. waitForPodsGone c rem1 (u\<lparr>env := w\<rparr>) = Some y" if ok
    using that less by simp
  then show ?case
    by (subst waitForPodsGone.simps) (auto simp: round poll split: option.splits)
qed

subsection \<open>Progress\<close>

text \<open>
  A server that gives only finitely many discouraging answers: \<open>m\<close> bounds the refusals by a budget
  and the sightings of an evicted pod that are still to come, \<open>p\<close> is the number of polling intervals
  before the deadline, and \<open>gone\<close> says for which pods an eviction was accepted.  Every other answer
  is the one hoped for.
\<close>

definition keeps :: "('w \<Rightarrow> nat) \<Rightarrow> ('w \<Rightarrow> string \<Rightarrow> string \<Rightarrow> bool) \<Rightarrow> 'w \<Rightarrow> 'w \<Rightarrow> bool" where
  "keeps m gone w w' \<longleftrightarrow> m w' \<le> m w \<and> (\<forall>ns n. gone w ns n \<longrightarrow> gone w' ns n)"

definition relents :: "'w kube \<Rightarrow> ('w \<Rightarrow> nat) \<Rightarrow> ('w \<Rightarrow> nat) \<Rightarrow> ('w \<Rightarrow> string \<Rightarrow> string \<Rightarrow> bool) \<Rightarrow> bool" where
  "relents k m p gone \<longleftrightarrow>
     (\<forall>ns n g w r w'. k_evict k ns n g w = (r, w') \<longrightarrow> keeps m gone w w' \<and> p w \<le> p w'
        \<and> (gone w' ns n \<and> (case r of Inl e \<Rightarrow> hasReason NotFound e | Inr _ \<Rightarrow> True)
           \<or> (\<exists>e. r = Inl e \<and> \<not> hasReason NotFound e \<and> hasReason TooManyRequests e) \<and> m w' < m w))
   \<and> (\<forall>ns n w r w'. gone w ns n \<longrightarrow> RGet (k_pods k) ns n w = (r, w') \<longrightarrow> keeps m gone w w' \<and> p w \<le> p w'
        \<and> (case r of Inl e \<Rightarrow> hasReason NotFound e | Inr _ \<Rightarrow> m w' < m w))
   \<and> (\<forall>w ok w'. k_poll k w = (ok, w') \<longrightarrow> 0 < p w \<longrightarrow> ok \<and> keeps m gone w w' \<and> p w \<le> Suc (p w'))"

lemma keeps_refl: "keeps m gone w w"
  by (simp add: keeps_def)

lemma keeps_trans: "keeps m gone w w' \<Longrightarrow> keeps m gone w' w'' \<Longrightarrow> keeps m gone w w''"
  by (auto simp: keeps_def)

definition all_gone :: "('w \<Rightarrow> string \<Rightarrow> string \<Rightarrow> bool) \<Rightarrow> 'w \<Rightarrow> Pod list \<Rightarrow> bool" where
  "all_gone gone w ps = list_all (\<lambda>p. gone w (Namespace (P_Meta p)) (Name (P_Meta p))) ps"

lemma all_gone_keeps: "all_gone gone w ps \<Longrightarrow> keeps m gone w w' \<Longrightarrow> all_gone gone w' ps"
  by (auto simp: all_gone_def keeps_def list_all_iff)

lemma evict_round_progress:
  assumes "relents (Kube c) m p gone"
  shows "evict_round c g pods ev rf s = ((ev', rf', err), t) \<Longrightarrow> all_gone gone (env s) ev \<Longrightarrow>
     err = None \<and> keeps m gone (env s) (env t) \<and> p (env s) \<le> p (env t) \<and> all_gone gone (env t) ev'
     \<and> (rf' = rf \<or> m (env t) < m (env s))"
proof (induction pods arbitrary: ev rf s)
  case Nil
  then show ?case by (simp add: keeps_refl)
next
  case (Cons q qs)
  obtain r w where call: "k_evict (Kube c) (Namespace (P_Meta q)) (Name (P_Meta q)) g (env s) = (r, w)" by fastforce
  define u where "u = s\<lparr>env := w, requests := requests s
    @ [Request VEvict ''Pod'' (Namespace (P_Meta q)) (Name (P_Meta q))]\<rparr>"
  have run: "evict_call c g q s = (r, u)" by (simp add: evict_call_def api_def call u_def)
  have env: "env u = w" by (simp add: u_def)
  have step: "keeps m gone (env s) (env u)" "p (env s) \<le> p (env u)"
    and ans: "gone w (Namespace (P_Meta q)) (Name (P_Meta q)) \<and> (case r of Inl e \<Rightarrow> hasReason NotFound e | Inr _ \<Rightarrow> True)
      \<or> (\<exists>e. r = Inl e \<and> \<not> hasReason NotFound e \<and> hasReason TooManyRequests e) \<and> m w < m (env s)"
    using assms call env unfolding relents_def by blast+
  have gone: "all_gone gone (env u) ev" by (rule all_gone_keeps [OF Cons.prems(2) step(1)])
  show ?case
  proof (cases "\<exists>e. r = Inl e \<and> \<not> hasReason NotFound e \<and> hasReason TooManyRequests e")
    case True
    then have rest: "evict_round c g qs ev (rf @ [q]) u = ((ev', rf', err), t)" and less: "m (env u) < m (env s)"
      using Cons.prems(1) run ans env by auto
    from Cons.IH [OF rest gone] less step show ?thesis by (auto simp: keeps_def)
  next
    case False
    then have rest: "evict_round c g qs (ev @ [q]) rf u = ((ev', rf', err), t)"
      and "all_gone gone (env u) (ev @ [q])"
      using Cons.prems(1) run ans env gone by (auto simp: all_gone_def split: sum.splits)
    from Cons.IH [OF this] step show ?thesis by (auto simp: keeps_def)
  qed
qed

lemma wait_round_progress:
  assumes "relents (Kube c) m p gone"
  shows "wait_round c pods rem s = ((rem', err), t) \<Longrightarrow> all_gone gone (env s) (pods @ rem) \<Longrightarrow>
     err = None \<and> keeps m gone (env s) (env t) \<and> p (env s) \<le> p (env t) \<and> all_gone gone (env t) rem'
     \<and> (rem' = rem \<or> m (env t) < m (env s))"
proof (induction pods arbitrary: rem s)
  case Nil
  then show ?case by (simp add: keeps_refl)
next
  case (Cons q qs)
  let ?ns = "Namespace (P_Meta q)" and ?n = "Name (P_Meta q)"
  obtain r w where call: "RGet (k_pods (Kube c)) ?ns ?n (env s) = (r, w)" by fastforce
  define u where "u = s\<lparr>env := w, requests := requests s @ [Request VGet ''Pod'' ?ns ?n]\<rparr>"
  have run: "rget (k_pods (Kube c)) ''Pod'' ?ns ?n s = (r, u)" by (simp add: rget_def api_def call u_def)
  have env: "env u = w" by (simp add: u_def)
  have "gone (env s) ?ns ?n" using Cons.prems(2) by (simp add: all_gone_def)
  then have step: "keeps m gone (env s) (env u)" "p (env s) \<le> p (env u)"
    and ans: "case r of Inl e \<Rightarrow> hasReason NotFound e | Inr _ \<Rightarrow> m w < m (env s)"
    using assms call env unfolding relents_def by blast+
  have "all_gone gone (env u) ((q # qs) @ rem)" by (rule all_gone_keeps [OF Cons.prems(2) step(1)])
  then have gone: "all_gone gone (env u) (qs @ rem)" "all_gone gone (env u) (qs @ rem @ [q])"
    by (auto simp: all_gone_def)
  show ?case
  proof (cases r)
    case (Inl e)
    with ans run Cons.prems(1) have "wait_round c qs rem u = ((rem', err), t)" by simp
    from Cons.IH [OF this gone(1)] step show ?thesis by (auto simp: keeps_def)
  next
    case (Inr cur)
    with ans env have less: "m (env u) < m (env s)" by simp
    from Inr run Cons.prems(1) consider "wait_round c qs (rem @ [q]) u = ((rem', err), t)"
      | "wait_round c qs rem u = ((rem', err), t)" by (auto split: if_splits)
    then show ?thesis
    proof cases
      case 1
      from Cons.IH [OF this] gone(2) less step show ?thesis by (auto simp: keeps_def)
    next
      case 2
      from Cons.IH [OF this gone(1)] less step show ?thesis by (auto simp: keeps_def)
    qed
  qed
qed

lemma poll_progress:
  assumes "relents (Kube c) m p gone" and "m (env t) < p (env t)"
  obtains w where "k_poll (Kube c) (env t) = (True, w)" and "keeps m gone (env t) w" and "m w \<le> p w"
proof -
  obtain ok w where poll: "k_poll (Kube c) (env t) = (ok, w)" by fastforce
  from assms(2) have "0 < p (env t)" by simp
  with assms(1) poll have "ok" "keeps m gone (env t) w" "p (env t) \<le> Suc (p w)" unfolding relents_def by blast+
  with assms(2) poll that show ?thesis by (simp add: keeps_def)
qed

lemma evict_loop_progress:
  assumes "relents (Kube c) m p gone"
  shows "all_gone gone (env s) ev \<Longrightarrow> m (env s) \<le> p (env s) \<Longrightarrow>
     \<exists>ev' t. evict_loop c g ev pods s = Some ((ev', None), t) \<and> all_gone gone (env t) ev' \<and> m (env t) \<le> p (env t)"
proof (induction "m (env s)" arbitrary: ev pods s rule: less_induct)
  case less
  obtain ev1 rf1 err1 u where round: "evict_round c g pods ev [] s = ((ev1, rf1, err1), u)"
    by (metis surj_pair)
  note round_ok = evict_round_progress [OF assms round less.prems(1)]
  show ?case
  proof (cases "rf1 = []")
    case True
    with round round_ok less.prems(2) show ?thesis
      by (subst evict_loop.simps) (auto simp: keeps_def)
  next
    case False
    with round_ok have drop: "m (env u) < m (env s)" by simp
    with round_ok less.prems(2) have "m (env u) < p (env u)" by simp
    from poll_progress [OF assms this] obtain w where poll: "k_poll (Kube c) (env u) = (True, w)"
      and keep: "keeps m gone (env u) w" and enough: "m w \<le> p w" .
    let ?u = "u\<lparr>env := w\<rparr>"
    have "m (env ?u) < m (env s)" using keep drop by (simp add: keeps_def)
    moreover have "all_gone gone (env ?u) ev1" using round_ok all_gone_keeps [OF _ keep] by simp
    moreover have "evict_loop c g ev pods s = evict_loop c g ev1 rf1 ?u"
      using round round_ok False poll by (subst evict_loop.simps) simp
    ultimately show ?thesis using less.hyps [of ?u ev1 rf1] enough by simp
  qed
qed

lemma wait_progress:
  assumes "relents (Kube c) m p gone"
  shows "all_gone gone (env s) pods \<Longrightarrow> m (env s) \<le> p (env s) \<Longrightarrow> \<exists>t. waitForPodsGone c pods s = Some (None, t)"
proof (induction "m (env s)" arbitrary: pods s rule: less_induct)
  case less
  obtain rem1 err1 u where round: "wait_round c pods [] s = ((rem1, err1), u)"
    by (metis surj_pair)
  have "all_gone gone (env s) (pods @ [])" using less.prems(1) by simp
  note round_ok = wait_round_progress [OF assms round this]
  show ?case
  proof (cases "rem1 = []")
    case True
    with round round_ok show ?thesis by (subst waitForPodsGone.simps) simp
  next
    case False
    with round_ok have drop: "m (env u) < m (env s)" by simp
    with round_ok less.prems(2) have "m (env u) < p (env u)" by simp
    from poll_progress [OF assms this] obtain w where poll: "k_poll (Kube c) (env u) = (True, w)"
      and keep: "keeps m gone (env u) w" and enough: "m w \<le> p w" .
    let ?u = "u\<lparr>env := w\<rparr>"
    have "m (env ?u) < m (env s)" using keep drop by (simp add: keeps_def)
    moreover have "all_gone gone (env ?u) rem1" using round_ok all_gone_keeps [OF _ keep] by simp
    moreover have "waitForPodsGone c pods s = waitForPodsGone c rem1 ?u"
      using round round_ok False poll by (subst waitForPodsGone.simps) simp
    ultimately show ?thesis using less.hyps [of ?u rem1] enough by simp
  qed
qed

subsection \<open>What a drain does\<close>

lemma node_reads [emits]:
  "emits is_read (resolveNodeName c opts)" "emits is_read (get_node c n)"
  "emits is_read (GetNodeStatus c opts)" "emits is_read (list_node_pods c n)"
  by (simp_all add: resolveNodeName_def get_node_def GetNodeStatus_def list_node_pods_def emits machine_reads)

interpretation cordon: gated_write CheckUpdate
  "\<lambda>c. setUnschedulable c n b" "\<lambda>c. get_node c n" "''Node''" N_Meta
  "\<lambda>c node. bindE (wrapE (\<lambda>e. Errorf ''failed to update node %s: %w'' [Fs n, Fw e])
     (rupdate (k_nodes (Kube c)) ''Node'' N_Meta (node\<lparr>N_Unschedulable := b\<rparr>))) (\<lambda>_. retE ())"
  for n b
  by unfold_locales (simp_all add: setUnschedulable_def emits node_reads)

lemma CordonNode_read_only [emits]:
  "ReadOnly (policy c) \<Longrightarrow> emits is_read (CordonNode c opts)"
  by (simp add: CordonNode_def emits node_reads cordon.read_only_reads)

text \<open>The first part of a drain and the listing that follows, and what they request.\<close>

definition cordon_node :: "'w Client \<Rightarrow> NodeOperationOptions \<Rightarrow> ('w, string) io" where
  "cordon_node c opts = bindE (resolveNodeName c opts) (\<lambda>nodeName.
     bindE (setUnschedulable c nodeName True) (\<lambda>_. retE nodeName))"

definition timed_list :: "'w Client \<Rightarrow> int \<Rightarrow> string \<Rightarrow> ('w, Pod list) io" where
  "timed_list c timeout n = bindE (outside (k_timer (Kube c) timeout)) (\<lambda>_. list_node_pods c n)"

definition prepares :: "request \<Rightarrow> bool" where
  "prepares q \<longleftrightarrow> is_read q \<or> rq_verb q = VUpdate \<and> rq_kind q = ''Node''"

lemma cordon_prepares: "emits prepares (cordon_node c opts)"
  unfolding cordon_node_def setUnschedulable_def
  by (intro emits emits_mono [OF node_reads(1)] emits_mono [OF node_reads(2)])
    (simp_all add: prepares_def emits)

lemma timed_list_reads: "emits is_read (timed_list c d n)"
  by (simp add: timed_list_def emits node_reads)

definition drain_timeout :: "NodeOperationOptions \<Rightarrow> int" where
  "drain_timeout opts = (if NO_Timeout opts \<le> 0 then DefaultDrainTimeout else NO_Timeout opts)"

definition drain_end ::
  "'w Client \<Rightarrow> Pod list \<Rightarrow> goerr option \<Rightarrow> 'w session \<Rightarrow> (goerr option \<times> 'w session) option" where
  "drain_end c evd eerr v = (case eerr of Some e \<Rightarrow> Some (Some e, v) | None \<Rightarrow> waitForPodsGone c evd v)"

lemma DrainNode_cases:
  assumes "DrainNode c opts s = Some ((res, err), t)"
  obtains (cordon) e where "cordon_node c opts s = (Inl e, t)" and "res = None" and "err = Some e"
    | (listing) n e s1 where "cordon_node c opts s = (Inr n, s1)"
        and "timed_list c (drain_timeout opts) n s1 = (Inl e, t)" and "err = Some e"
        and "res = Some \<lparr>DR_NodeName = n, DR_Evicted = [], DR_Skipped = []\<rparr>"
    | (refused) n s1 pods ev sk rf e where "cordon_node c opts s = (Inr n, s1)"
        and "timed_list c (drain_timeout opts) n s1 = (Inr pods, t)"
        and "drainPlan pods n opts = (ev, sk, rf)" and "rf \<noteq> []" and "err = Some e"
        and "res = Some \<lparr>DR_NodeName = n, DR_Evicted = [], DR_Skipped = sk\<rparr>"
    | (evicting) n s1 pods u ev sk evd eerr v where "cordon_node c opts s = (Inr n, s1)"
        and "timed_list c (drain_timeout opts) n s1 = (Inr pods, u)"
        and "drainPlan pods n opts = (ev, sk, [])"
        and "evictPods c ev (NO_GracePeriodSeconds opts) u = Some ((evd, eerr), v)"
        and "drain_end c evd eerr v = Some (err, t)"
        and "res = Some \<lparr>DR_NodeName = n, DR_Evicted = map podName evd, DR_Skipped = sk\<rparr>"
  using assms unfolding DrainNode_def cordon_node_def [symmetric] drain_timeout_def [symmetric]
    timed_list_def [symmetric] Let_def
  by (auto simp: drain_end_def split: prod.splits sum.splits if_splits option.splits)

text \<open>After a successful cordon the node was updated and nothing but that was written.\<close>

lemma drain_prefix:
  assumes "cordon_node c opts s = (Inr n, s1)" and "timed_list c d n s1 = (r, u)"
  shows "ran prepares s u"
proof -
  have "ran prepares s s1" using cordon_prepares assms(1) by (rule emits_ran)
  also have "ran prepares s1 u"
    using emits_ran [OF timed_list_reads assms(2)] by (rule ran_mono) (simp add: prepares_def)
  finally show ?thesis .
qed

lemma evictPods_result:
  assumes "evictPods c pods g s = Some ((evd, err), t)"
  shows "ran (evicts pods) s t" and "mset evd \<subseteq># mset pods" and "err = None \<Longrightarrow> mset evd = mset pods"
  using evict_loop_result [OF assms [unfolded evictPods_def]] by auto

lemma drain_end_result:
  assumes "drain_end c evd eerr v = Some (err, t)"
  shows "ran pod_read v t" and "err = None \<Longrightarrow> eerr = None"
    and "err = None \<Longrightarrow> waitForPodsGone c evd v = Some (None, t)"
  using assms wait_reads [of c evd v] by (auto simp: drain_end_def split: option.splits)

definition drainable :: "NodeOperationOptions \<Rightarrow> string \<Rightarrow> Pod list \<Rightarrow> Pod list" where
  "drainable opts n pods = filter (\<lambda>p. P_NodeName p = n \<and> may_evict opts p) pods"

definition no_loss :: "NodeOperationOptions \<Rightarrow> string \<Rightarrow> Pod list \<Rightarrow> bool" where
  "no_loss opts n pods =
     list_all (\<lambda>p. may_evict opts p \<or> may_leave opts p) (filter (\<lambda>p. P_NodeName p = n) pods)"

lemma drainPlan_no_refusal:
  assumes "drainPlan pods n opts = (ev, sk, [])"
  shows "ev = drainable opts n pods" and "no_loss opts n pods"
    and "sk = map podName (filter (\<lambda>p. P_NodeName p = n \<and> may_leave opts p) pods)"
  using drainPlan_filters [OF assms]
  by (auto simp: drainable_def no_loss_def list_all_iff filter_empty_conv)

subsection \<open>Properties\<close>

text \<open>
  C23. The drain plan sorts the pods of the node, in their order: it evicts exactly those that
  kubectl drain's rules allow to evict under the options, leaves exactly the mirror pods and the
  DaemonSet pods that may be ignored, and refuses once for each other pod; pods of other nodes are
  not touched.
\<close>

theorem drain_plan_correct:
  "case drainPlan pods n opts of (ev, sk, rf) \<Rightarrow>
     ev = filter (\<lambda>p. P_NodeName p = n \<and> may_evict opts p) pods
     \<and> sk = map podName (filter (\<lambda>p. P_NodeName p = n \<and> may_leave opts p) pods)
     \<and> length rf = length (filter (\<lambda>p. P_NodeName p = n \<and> \<not> may_evict opts p \<and> \<not> may_leave opts p) pods)"
  using drainPlan_filters by (auto split: prod.split)

text \<open>
  C8. Whatever the outcome of a drain, its requests split in two phases: first reads and the update
  of the node, then (only if no pod of the node would be lost without the option that accepts it)
  reads and evictions of pods of the plan.
\<close>

theorem drain_evicts_only_plan:
  assumes "DrainNode c opts s = Some ((res, err), t)"
  shows "\<exists>u. ran prepares s u \<and> (u = t \<or> (\<exists>n s1 pods. cordon_node c opts s = (Inr n, s1)
     \<and> timed_list c (drain_timeout opts) n s1 = (Inr pods, u) \<and> no_loss opts n pods
     \<and> ran (\<lambda>q. is_read q \<or> evicts (drainable opts n pods) q) u t))"
  using assms
proof (cases rule: DrainNode_cases)
  case (cordon e)
  then show ?thesis using emits_ran [OF cordon_prepares] by blast
next
  case (listing n e s1)
  then show ?thesis using drain_prefix by blast
next
  case (refused n s1 pods ev sk rf e)
  then show ?thesis using drain_prefix by blast
next
  case (evicting n s1 pods u ev sk evd eerr v)
  note plan = drainPlan_no_refusal [OF evicting(3)]
  have "ran (\<lambda>q. is_read q \<or> evicts (drainable opts n pods) q) u v"
    by (rule ran_mono [OF evictPods_result(1) [OF evicting(4)]]) (simp add: plan(1))
  also have "ran (\<lambda>q. is_read q \<or> evicts (drainable opts n pods) q) v t"
    by (rule ran_mono [OF drain_end_result(1) [OF evicting(5)]]) simp
  finally have phase: "ran (\<lambda>q. is_read q \<or> evicts (drainable opts n pods) q) u t" .
  have "ran prepares s u" using evicting(1,2) by (rule drain_prefix)
  with evicting(1,2) plan(2) phase show ?thesis by blast
qed

text \<open>
  C9. A drain that returns without an error made a run of evictions and reads in which every pod of
  the plan was granted its eviction (or was not there any more), once each, and was later read as
  gone from its name; it reports the evictions that were granted, no pod of the node would have
  been lost without its option, and the skipped pods are those the options leave.
\<close>

theorem drain_success:
  assumes "DrainNode c opts s = Some ((res, None), t)"
  shows "\<exists>r n s1 pods u es. res = Some r \<and> DR_NodeName r = n \<and> cordon_node c opts s = (Inr n, s1)
     \<and> timed_list c (drain_timeout opts) n s1 = (Inr pods, u) \<and> no_loss opts n pods
     \<and> drain_steps c (NO_GracePeriodSeconds opts) u es t
     \<and> mset (evictions es) = mset (drainable opts n pods)
     \<and> list_all (cleared es) (drainable opts n pods)
     \<and> DR_Evicted r = map podName (evictions es)
     \<and> DR_Skipped r = map podName (filter (\<lambda>p. P_NodeName p = n \<and> may_leave opts p) pods)"
  using assms
proof (cases rule: DrainNode_cases)
  case (evicting n s1 pods u ev sk evd eerr v)
  note plan = drainPlan_no_refusal [OF evicting(3)]
  note fin = drain_end_result [OF evicting(5)]
  have evict: "evictPods c ev (NO_GracePeriodSeconds opts) u = Some ((evd, None), v)"
    using evicting(4) fin(2) by simp
  then obtain es where es: "drain_steps c (NO_GracePeriodSeconds opts) u es v" "evd = evictions es"
    using evict_loop_run [of c "NO_GracePeriodSeconds opts" "[]" ev u "((evd, None), v)"] by (auto simp: evictPods_def)
  obtain es' where es': "drain_steps c (NO_GracePeriodSeconds opts) v es' t" "evictions es' = []"
      "\<forall>p \<in> set evd. seen_gone p es'"
    using wait_run [OF fin(3)] by blast
  have all: "mset (evictions (es @ es')) = mset (drainable opts n pods)"
    using evictPods_result(3) [OF evict] plan(1) es(2) es'(2) by simp
  have "set (evictions (es @ es')) = set (drainable opts n pods)" using all by (rule mset_eq_setD)
  with es(2) es'(2,3) have "list_all (cleared (es @ es')) (drainable opts n pods)"
    by (auto simp: list_all_iff intro!: clearedI)
  moreover have "map podName evd = map podName (evictions (es @ es'))" using es(2) es'(2) by simp
  moreover note drain_steps_append [OF es(1) es'(1)]
  ultimately show ?thesis
    using evicting(1,2) plan(2,3) all
    by (intro exI [of _ "\<lparr>DR_NodeName = n, DR_Evicted = map podName evd, DR_Skipped = sk\<rparr>"] exI conjI)
      (rule evicting(6) | assumption | simp only: DrainResult.select_convs)+
qed simp_all

text \<open>
  A drain returns: if the context's deadline bounds the polls (each interval that passes
  brings it nearer and the calls between do not put it off), neither loop runs forever.
\<close>

theorem drain_terminates:
  assumes "deadline_bounds (Kube c) m"
  shows "\<exists>res err t. DrainNode c opts s = Some ((res, err), t)"
  using evict_loop_terminates [OF assms] wait_terminates [OF assms]
  unfolding DrainNode_def evictPods_def Let_def
  by (auto split: prod.split sum.split option.split) (metis option.distinct(1) surj_pair)+

text \<open>
  A read-only client cordons, uncordons and drains nothing: it makes only reads, the drain
  returns no result and an error, and no pod is evicted.
\<close>

theorem drain_read_only:
  assumes "ReadOnly (policy c)"
  shows "\<exists>e t. DrainNode c opts s = Some ((None, Some e), t) \<and> ran is_read s t
     \<and> emits is_read (CordonNode c opts)"
proof -
  obtain q u where q: "resolveNodeName c opts s = (q, u)" by fastforce
  have "\<exists>e t. cordon_node c opts s = (Inl e, t)"
  proof (cases q)
    case (Inr n)
    obtain e t where "setUnschedulable c n True u = (Inl e, t)"
      using cordon.read_only_fails [OF assms] by blast
    with q Inr show ?thesis by (simp add: cordon_node_def bindE_def)
  qed (simp add: cordon_node_def bindE_def q)
  then obtain e t where stop: "cordon_node c opts s = (Inl e, t)" by blast
  have "emits is_read (cordon_node c opts)"
    unfolding cordon_node_def by (intro emits node_reads cordon.read_only_reads assms)
  from emits_ran [OF this stop] have "ran is_read s t" .
  moreover have "DrainNode c opts s = Some ((None, Some e), t)"
    using stop unfolding DrainNode_def cordon_node_def by simp
  ultimately show ?thesis using CordonNode_read_only [OF assms] by blast
qed

lemma drain_only_reads:
  "ReadOnly (policy c) \<Longrightarrow> \<exists>e t. DrainNode c opts s = Some ((None, Some e), t) \<and> ran is_read s t"
  using drain_read_only by blast

text \<open>
  C22. A drain that may start makes progress: if the deadline leaves at least as many polling intervals
  as the server still has refusals and sightings of terminating pods to give, the drain returns
  without an error, and every pod of its plan is reported as evicted.
\<close>

theorem drain_succeeds_eventually:
  assumes "relents (Kube c) m p gone"
    and "cordon_node c opts s = (Inr n, s1)" and "timed_list c (drain_timeout opts) n s1 = (Inr pods, u)"
    and "drainPlan pods n opts = (ev, sk, [])" and "m (env u) \<le> p (env u)"
  shows "\<exists>evd t. DrainNode c opts s
      = Some ((Some \<lparr>DR_NodeName = n, DR_Evicted = map podName evd, DR_Skipped = sk\<rparr>, None), t)
     \<and> mset evd = mset ev"
proof -
  have "all_gone gone (env u) []" by (simp add: all_gone_def)
  from evict_loop_progress [OF assms(1) this assms(5)] obtain evd v
    where evict: "evictPods c ev (NO_GracePeriodSeconds opts) u = Some ((evd, None), v)"
      and gone: "all_gone gone (env v) evd" "m (env v) \<le> p (env v)"
    unfolding evictPods_def by blast
  from wait_progress [OF assms(1) gone] obtain t where "waitForPodsGone c evd v = Some (None, t)" by blast
  with evict assms(2-4) have "DrainNode c opts s
      = Some ((Some \<lparr>DR_NodeName = n, DR_Evicted = map podName evd, DR_Skipped = sk\<rparr>, None), t)"
    unfolding DrainNode_def cordon_node_def [symmetric] drain_timeout_def [symmetric] timed_list_def [symmetric] Let_def
    by simp
  moreover have "mset evd = mset ev" using evictPods_result(3) [OF evict] by simp
  ultimately show ?thesis by blast
qed

subsection \<open>Examples\<close>

definition drain_example :: world where
  "drain_example = empty_world\<lparr>w_nodes := [example_node ''n1''],
     w_pods := [example_pod ''a'' ''n1'', example_pod ''b'' ''n2''], w_refusals := 1\<rparr>"

definition drain_options :: NodeOperationOptions where
  "drain_options = \<lparr>NO_Namespace = '''', NO_MachineName = '''', NO_NodeName = ''n1'',
     NO_GracePeriodSeconds = None, NO_IgnoreDaemonSets = False, NO_DeleteLocalData = False,
     NO_Force = False, NO_Timeout = 0, NO_Uncordon = False\<rparr>"

lemma evict_loop_steps:
  "evict_round c g pods ev [] s = ((ev', rf, Some e), t) \<Longrightarrow>
     evict_loop c g ev pods s = Some ((ev', Some e), t)"
  "evict_round c g pods ev [] s = ((ev', [], None), t) \<Longrightarrow>
     evict_loop c g ev pods s = Some ((ev', None), t)"
  "evict_round c g pods ev [] s = ((ev', p # rf, None), t) \<Longrightarrow> k_poll (Kube c) (env t) = (True, w) \<Longrightarrow>
     evict_loop c g ev pods s = evict_loop c g ev' (p # rf) (t\<lparr>env := w\<rparr>)"
  using evict_loop.simps [of c g ev pods s] by simp_all

lemma wait_steps:
  "wait_round c pods [] s = ((rem, Some e), t) \<Longrightarrow> waitForPodsGone c pods s = Some (Some e, t)"
  "wait_round c pods [] s = (([], None), t) \<Longrightarrow> waitForPodsGone c pods s = Some (None, t)"
  "wait_round c pods [] s = ((p # rem, None), t) \<Longrightarrow> k_poll (Kube c) (env t) = (True, w) \<Longrightarrow>
     waitForPodsGone c pods s = waitForPodsGone c (p # rem) (t\<lparr>env := w\<rparr>)"
  using waitForPodsGone.simps [of c pods s] by simp_all

lemma drain_example_run:
  "\<exists>t. DrainNode (memory_client open_policy) drain_options (start drain_example)
     = Some ((Some \<lparr>DR_NodeName = ''n1'', DR_Evicted = [''apps/a''], DR_Skipped = []\<rparr>, None), t)"
  by (simp add: DrainNode_def drain_options_def drain_example_def example_simps resolveNodeName_def
      setUnschedulable_def get_node_def CheckUpdate_def policy_check_def ManagedBy_def
      marker_defs list_node_pods_def GetControllerOf_def hasLocalStorage_def MirrorPodAnnotationKey_def
      evictPods_def evict_loop_steps wait_steps evict_call_def podName_def del: mhas_iff)

theorem drain_evicts_only_plan_witness:
  "\<exists>r t u. DrainNode (memory_client open_policy) drain_options (start drain_example) = Some (r, t)
     \<and> ran prepares (start drain_example) u
     \<and> (u = t \<or> (\<exists>n s1 pods. timed_list (memory_client open_policy) (drain_timeout drain_options) n s1
           = (Inr pods, u)
         \<and> ran (\<lambda>q. is_read q \<or> evicts (drainable drain_options n pods) q) u t))"
proof -
  obtain t where run: "DrainNode (memory_client open_policy) drain_options (start drain_example)
      = Some ((Some \<lparr>DR_NodeName = ''n1'', DR_Evicted = [''apps/a''], DR_Skipped = []\<rparr>, None), t)"
    using drain_example_run by blast
  from drain_evicts_only_plan [OF run] run show ?thesis by blast
qed

theorem drain_success_witness:
  "\<exists>t n pods u s1 es. DrainNode (memory_client open_policy) drain_options (start drain_example)
      = Some ((Some \<lparr>DR_NodeName = ''n1'', DR_Evicted = [''apps/a''], DR_Skipped = []\<rparr>, None), t)
     \<and> timed_list (memory_client open_policy) (drain_timeout drain_options) n s1 = (Inr pods, u)
     \<and> drain_steps (memory_client open_policy) None u es t
     \<and> map podName (evictions es) = [''apps/a''] \<and> list_all (cleared es) (drainable drain_options n pods)"
proof -
  obtain t where run: "DrainNode (memory_client open_policy) drain_options (start drain_example)
      = Some ((Some \<lparr>DR_NodeName = ''n1'', DR_Evicted = [''apps/a''], DR_Skipped = []\<rparr>, None), t)"
    using drain_example_run by blast
  have grace: "NO_GracePeriodSeconds drain_options = None" by (simp add: drain_options_def)
  from drain_success [OF run, unfolded grace] obtain r n s1 pods u es where
    r: "Some \<lparr>DR_NodeName = ''n1'', DR_Evicted = [''apps/a''], DR_Skipped = []\<rparr> = Some r"
    and steps:
    "timed_list (memory_client open_policy) (drain_timeout drain_options) n s1 = (Inr pods, u)"
    "drain_steps (memory_client open_policy) None u es t"
    "list_all (cleared es) (drainable drain_options n pods)" and evicted: "DR_Evicted r = map podName (evictions es)"
    by blast
  from r evicted have "map podName (evictions es) = [''apps/a'']" by auto
  with run steps show ?thesis by (intro exI conjI) assumption+
qed

theorem drain_terminates_witness:
  "\<exists>res err t. DrainNode (memory_client open_policy) drain_options (start drain_example) = Some ((res, err), t)"
  by (rule drain_terminates [of _ w_polls])
    (auto simp: deadline_bounds_def client_run kinds_run calls_run)

theorem drain_read_only_witness:
  "\<exists>e t. DrainNode (memory_client read_only_policy) drain_options (start drain_example) = Some ((None, Some e), t)
     \<and> ran is_read (start drain_example) t
     \<and> emits is_read (CordonNode (memory_client read_only_policy) drain_options)"
  by (rule drain_read_only) (simp add: client_run read_only_policy_def)

theorem drain_succeeds_eventually_witness:
  "\<exists>evd t n sk. DrainNode (memory_client open_policy) drain_options (start drain_example)
      = Some ((Some \<lparr>DR_NodeName = n, DR_Evicted = map podName evd, DR_Skipped = sk\<rparr>, None), t)
     \<and> evd = [example_pod ''a'' ''n1'']"
proof -
  let ?c = "memory_client open_policy"
  have rel: "relents (Kube ?c) w_refusals w_polls (\<lambda>w ns n. find (at_key P_Meta ns n) (w_pods w) = None)"
    by (auto simp: relents_def keeps_def client_run calls_run kinds_run find_None_iff find_Some_iff
        split: if_splits option.split intro: nth_mem)
  obtain s1 where cordon: "cordon_node ?c drain_options (start drain_example) = (Inr ''n1'', s1)"
    and env1: "w_pods (env s1) = w_pods drain_example" "w_refusals (env s1) = 1" "w_polls (env s1) = 3"
    by (simp add: cordon_node_def drain_options_def drain_example_def example_simps resolveNodeName_def
      setUnschedulable_def get_node_def CheckUpdate_def policy_check_def ManagedBy_def marker_defs del: mhas_iff)
  obtain u where list: "timed_list ?c (drain_timeout drain_options) ''n1'' s1 = (Inr [example_pod ''a'' ''n1'', example_pod ''b'' ''n2''], u)"
    and env: "w_refusals (env u) \<le> w_polls (env u)"
    using env1 by (simp add: timed_list_def list_node_pods_def drain_example_def example_simps)
  have plan: "drainPlan [example_pod ''a'' ''n1'', example_pod ''b'' ''n2''] ''n1'' drain_options = ([example_pod ''a'' ''n1''], [], [])"
    by (simp add: drain_options_def example_pod_def meta_def GetControllerOf_def hasLocalStorage_def
        MirrorPodAnnotationKey_def mhas_def Let_def del: mhas_iff)
  from drain_succeeds_eventually [OF rel cordon list plan env] show ?thesis by force
qed

end
