(* ===== verification/Capi_ResourceSet.thy ===== *)
theory Capi_ResourceSet
  imports Capi_Memory Capi_KeyStore
begin

section \<open>ClusterResourceSets (pkg/capi/resourceset.go)\<close>

text \<open>
  Creating a ClusterResourceSet together with the ConfigMaps and Secrets it refers to, and
  listing, reading and deleting one.  Unlike the other mutating operations of the client, these
  never look at the write policy.  Under the contract of Capi_KeyStore, creating a set is a function
  of the objects kept.
\<close>

record ClusterResourceSetResourceSpec =
  RS_Kind :: string
  RS_Name :: string
  RS_Data :: smap

record CreateClusterResourceSetOptions =
  RSO_Name :: string
  RSO_Namespace :: string
  RSO_ClusterSelector :: smap
  RSO_Strategy :: string
  RSO_Resources :: "ClusterResourceSetResourceSpec list"

definition ApplyOnce :: string where "ApplyOnce = ''ApplyOnce''"
definition Reconcile :: string where "Reconcile = ''Reconcile''"
definition ResourceSetSecretType :: string where
  "ResourceSetSecretType = ''addons.cluster.x-k8s.io/resource-set''"

definition named_meta :: "string \<Rightarrow> string \<Rightarrow> objmeta" where
  "named_meta namespace name = \<lparr>Name = name, Namespace = namespace, UID = '''', CreationTimestamp = '''',
     Labels = [], Annotations = [], OwnerReferences = []\<rparr>"

definition createOrUpdateResourceSetConfigMap ::
  "'w Client \<Rightarrow> string \<Rightarrow> string \<Rightarrow> smap \<Rightarrow> ('w, unit) io" where
  "createOrUpdateResourceSetConfigMap c namespace name data =
     bindE (tryE (rcreate (k_configmaps (Kube c)) ''ConfigMap'' CM_Meta
       \<lparr>CM_Meta = named_meta namespace name, CM_Data = data\<rparr>)) (\<lambda>r. case r of
         Inr _ \<Rightarrow> retE ()
       | Inl err \<Rightarrow>
           if \<not> hasReason AlreadyExists err then failE err
           else bindE (rget (k_configmaps (Kube c)) ''ConfigMap'' namespace name) (\<lambda>existing.
                bindE (rupdate (k_configmaps (Kube c)) ''ConfigMap'' CM_Meta
                  (existing\<lparr>CM_Data := data\<rparr>)) (\<lambda>_. retE ())))"

definition createOrUpdateResourceSetSecret ::
  "'w Client \<Rightarrow> string \<Rightarrow> string \<Rightarrow> smap \<Rightarrow> ('w, unit) io" where
  "createOrUpdateResourceSetSecret c namespace name data =
     bindE (tryE (rcreate (k_secrets (Kube c)) ''Secret'' Sec_Meta
       \<lparr>Sec_Meta = named_meta namespace name, Sec_Data = [], Sec_StringData = data,
        Sec_Type = ResourceSetSecretType\<rparr>)) (\<lambda>r. case r of
         Inr _ \<Rightarrow> retE ()
       | Inl err \<Rightarrow>
           if \<not> hasReason AlreadyExists err then failE err
           else bindE (rget (k_secrets (Kube c)) ''Secret'' namespace name) (\<lambda>existing.
                bindE (rupdate (k_secrets (Kube c)) ''Secret'' Sec_Meta
                  (existing\<lparr>Sec_StringData := data, Sec_Type := ResourceSetSecretType\<rparr>)) (\<lambda>_. retE ())))"

text \<open>The body of the loop over the resources: the data is written, the reference collected.\<close>

definition write_resource ::
  "'w Client \<Rightarrow> string \<Rightarrow> ClusterResourceSetResourceSpec \<Rightarrow> ('w, unit) io" where
  "write_resource c namespace res =
     (if RS_Kind res = ''Secret'' then
        if length (RS_Data res) > 0 then
          wrapE (\<lambda>e. Errorf ''failed to create resource secret %s: %w'' [Fs (RS_Name res), Fw e])
            (createOrUpdateResourceSetSecret c namespace (RS_Name res) (RS_Data res))
        else retE ()
      else if RS_Kind res = ''ConfigMap'' then
        if length (RS_Data res) > 0 then
          wrapE (\<lambda>e. Errorf ''failed to create resource configmap %s: %w'' [Fs (RS_Name res), Fw e])
            (createOrUpdateResourceSetConfigMap c namespace (RS_Name res) (RS_Data res))
        else retE ()
      else failE (Errorf ''invalid resource kind %q for %q: must be %q or %q''
        [Fq (RS_Kind res), Fq (RS_Name res), Fq ''Secret'', Fq ''ConfigMap'']))"

definition resource_set_strategy :: "string \<Rightarrow> goerr + string" where
  "resource_set_strategy given =
     (let strategy = (if given = '''' then ApplyOnce else given) in
      if strategy \<noteq> ApplyOnce \<and> strategy \<noteq> Reconcile then
        Inl (Errorf ''invalid strategy %q: must be %q or %q'' [Fq strategy, Fq ApplyOnce, Fq Reconcile])
      else Inr strategy)"

definition CreateClusterResourceSet ::
  "'w Client \<Rightarrow> CreateClusterResourceSetOptions \<Rightarrow> ('w, ClusterResourceSet) io" where
  "CreateClusterResourceSet c opts =
     (if length (RSO_ClusterSelector opts) = 0 then
        failE (Errorf ''cluster_selector must not be empty'' [])
      else if length (RSO_Resources opts) = 0 then
        failE (Errorf ''at least one resource is required'' [])
      else (case resource_set_strategy (RSO_Strategy opts) of
          Inl e \<Rightarrow> failE e
        | Inr strategy \<Rightarrow>
            bindE (forE (RSO_Resources opts) (write_resource c (RSO_Namespace opts))) (\<lambda>_.
            wrapE (\<lambda>e. Errorf ''failed to create cluster resource set: %w'' [Fw e])
              (rcreate (k_resourcesets (Kube c)) ''ClusterResourceSet'' CRS_Meta
                \<lparr>CRS_Meta = named_meta (RSO_Namespace opts) (RSO_Name opts),
                 CRS_ClusterSelector = RSO_ClusterSelector opts,
                 CRS_Resources = map (\<lambda>res. (RS_Kind res, RS_Name res)) (RSO_Resources opts),
                 CRS_Strategy = strategy, CRS_ObservedGeneration = 0, CRS_Conditions = []\<rparr>))))"

definition ListClusterResourceSets :: "'w Client \<Rightarrow> string \<Rightarrow> ('w, ClusterResourceSet list) io" where
  "ListClusterResourceSets c namespace =
     wrapE (\<lambda>e. Errorf ''failed to list cluster resource sets: %w'' [Fw e])
       (rlist (k_resourcesets (Kube c)) ''ClusterResourceSet''
         \<lparr>InNamespace = (if namespace \<noteq> '''' then Some namespace else None),
          MatchingLabels = [], OnNode = None\<rparr>)"

definition GetClusterResourceSet :: "'w Client \<Rightarrow> string \<Rightarrow> string \<Rightarrow> ('w, ClusterResourceSet) io" where
  "GetClusterResourceSet c namespace name =
     wrapE (\<lambda>e. Errorf ''failed to get cluster resource set %s/%s: %w'' [Fs namespace, Fs name, Fw e])
       (rget (k_resourcesets (Kube c)) ''ClusterResourceSet'' namespace name)"

definition DeleteClusterResourceSet :: "'w Client \<Rightarrow> string \<Rightarrow> string \<Rightarrow> ('w, unit) io" where
  "DeleteClusterResourceSet c namespace name =
     bindE (GetClusterResourceSet c namespace name) (\<lambda>crs.
     wrapE (\<lambda>e. Errorf ''failed to delete cluster resource set: %w'' [Fw e])
       (rdelete (k_resourcesets (Kube c)) ''ClusterResourceSet'' CRS_Meta crs))"

subsection \<open>What the operations reach\<close>

lemma resource_set_reads [emits]:
  "emits is_read (ListClusterResourceSets c ns)" "emits is_read (GetClusterResourceSet c ns n)"
  by (simp_all add: ListClusterResourceSets_def GetClusterResourceSet_def emits)

text \<open>The requests a creation may make before the ClusterResourceSet itself.\<close>

definition resource_request :: "string \<Rightarrow> request \<Rightarrow> bool" where
  "resource_request ns q \<longleftrightarrow> rq_kind q \<in> {''Secret'', ''ConfigMap''}
     \<and> (rq_verb q = VUpdate \<or> rq_verb q \<in> {VCreate, VGet} \<and> rq_namespace q = ns)"

lemma write_resource_requests: "emits (resource_request ns) (write_resource c ns res)"
  unfolding write_resource_def createOrUpdateResourceSetSecret_def createOrUpdateResourceSetConfigMap_def
  by (intro emits) (simp_all add: resource_request_def named_meta_def)

text \<open>The invalid kinds: the loop stops there, with the writes of the earlier resources made.\<close>

definition known_kind :: "ClusterResourceSetResourceSpec \<Rightarrow> bool" where
  "known_kind res \<longleftrightarrow> RS_Kind res = ''Secret'' \<or> RS_Kind res = ''ConfigMap''"

lemma unknown_kind_fails:
  "\<not> known_kind res \<Longrightarrow> \<exists>e. write_resource c ns res = failE e"
  unfolding write_resource_def known_kind_def by auto

lemma write_resources_known:
  "forE rs (write_resource c ns) s = (Inr x, t) \<Longrightarrow> list_all known_kind rs"
proof (induction rs arbitrary: s)
  case (Cons res rs)
  then obtain y u where first: "write_resource c ns res s = (Inr y, u)"
    and rest: "forE rs (write_resource c ns) u = (Inr x, t)"
    by (auto elim: bindE_InrD)
  from first have "known_kind res"
    using unknown_kind_fails [of res c ns] by (cases "known_kind res") auto
  with Cons.IH [OF rest] show ?case by simp
qed simp

subsection \<open>Creating a set as a function of the objects kept\<close>

text \<open>The objects without what the server assigns to those it creates.\<close>

definition bare :: "objects \<Rightarrow> objects" where
  "bare w = w\<lparr>secrets_at := map_option (Sec_Meta_update unstamped) \<circ> secrets_at w,
     configmaps_at := map_option (CM_Meta_update unstamped) \<circ> configmaps_at w,
     sets_at := map_option (CRS_Meta_update unstamped) \<circ> sets_at w\<rparr>"

text \<open>
  The data of a resource goes to the Secret or ConfigMap of its name: a new one holds it alone, an
  existing ConfigMap has its data replaced, and an existing Secret keeps the other keys it had.
\<close>

definition put_secret :: "string \<Rightarrow> string \<Rightarrow> smap \<Rightarrow> objects \<Rightarrow> objects" where
  "put_secret ns n data w = w\<lparr>secrets_at := (secrets_at w)((ns, n) \<mapsto> (case secrets_at w (ns, n) of
       None \<Rightarrow> \<lparr>Sec_Meta = named_meta ns n, Sec_Data = data, Sec_StringData = [], Sec_Type = ResourceSetSecretType\<rparr>
     | Some x \<Rightarrow> x\<lparr>Sec_Data := merged_data data (Sec_Data x), Sec_StringData := [], Sec_Type := ResourceSetSecretType\<rparr>))\<rparr>"

definition put_configmap :: "string \<Rightarrow> string \<Rightarrow> smap \<Rightarrow> objects \<Rightarrow> objects" where
  "put_configmap ns n data w = w\<lparr>configmaps_at := (configmaps_at w)((ns, n) \<mapsto> (case configmaps_at w (ns, n) of
       None \<Rightarrow> \<lparr>CM_Meta = named_meta ns n, CM_Data = data\<rparr>
     | Some x \<Rightarrow> x\<lparr>CM_Data := data\<rparr>))\<rparr>"

definition put_resource :: "string \<Rightarrow> ClusterResourceSetResourceSpec \<Rightarrow> objects \<Rightarrow> objects" where
  "put_resource ns res w =
     (if RS_Data res = [] then w
      else if RS_Kind res = ''Secret'' then put_secret ns (RS_Name res) (RS_Data res) w
      else put_configmap ns (RS_Name res) (RS_Data res) w)"

definition wanted_set :: "CreateClusterResourceSetOptions \<Rightarrow> string \<Rightarrow> ClusterResourceSet" where
  "wanted_set opts strategy = \<lparr>CRS_Meta = named_meta (RSO_Namespace opts) (RSO_Name opts),
     CRS_ClusterSelector = RSO_ClusterSelector opts,
     CRS_Resources = map (\<lambda>res. (RS_Kind res, RS_Name res)) (RSO_Resources opts),
     CRS_Strategy = strategy, CRS_ObservedGeneration = 0, CRS_Conditions = []\<rparr>"

text \<open>A Secret of another type is in the way of a resource: its type cannot be changed.\<close>

definition compatible :: "string \<Rightarrow> objects \<Rightarrow> ClusterResourceSetResourceSpec \<Rightarrow> bool" where
  "compatible ns w res \<longleftrightarrow> RS_Kind res \<noteq> ''Secret'' \<or> RS_Data res = []
     \<or> (case secrets_at w (ns, RS_Name res) of None \<Rightarrow> True | Some x \<Rightarrow> Sec_Type x = ResourceSetSecretType)"

definition stored :: "string \<Rightarrow> objects \<Rightarrow> objects \<Rightarrow> (objects \<Rightarrow> objects) \<Rightarrow> bool" where
  "stored ns before after f \<longleftrightarrow> bare after = f (bare before) \<and> sets_at after = sets_at before
     \<and> (well_keyed before \<longrightarrow> well_keyed after) \<and> (\<forall>res. compatible ns before res \<longrightarrow> compatible ns after res)"

lemma key_named [simp]: "key_of (named_meta ns n) = (ns, n)" "unstamped (named_meta ns n) = named_meta ns n"
  by (simp_all add: key_of_def unstamped_def named_meta_def)

lemma key_unstamped: "unstamped m = unstamped m' \<Longrightarrow> key_of m = key_of m'"
  by (auto simp: unstamped_def key_of_def objmeta.defs dest: arg_cong [where f = Name] arg_cong [where f = Namespace])

lemma merged_data_Nil [simp]: "merged_data new [] = new"
  by (simp add: merged_data_def)

lemma write_secret_stored:
  fixes c :: "'w Client"
  assumes "api_store (Kube c) view" and "well_keyed (view (env s))"
    and free: "case secrets_at (view (env s)) (ns, n) of None \<Rightarrow> True | Some x \<Rightarrow> Sec_Type x = ResourceSetSecretType"
  shows "\<exists>t. createOrUpdateResourceSetSecret c ns n data s = (Inr (), t)
     \<and> stored ns (view (env s)) (view (env t)) (put_secret ns n data)"
proof -
  have store: "kind_store (k_secrets (Kube c)) view secrets_at secrets_at_update Sec_Meta Sec_Meta_update kept_secret same_type"
    using assms(1) by (simp add: api_store_def)
  let ?new = "\<lparr>Sec_Meta = named_meta ns n, Sec_Data = [], Sec_StringData = data, Sec_Type = ResourceSetSecretType\<rparr>"
  obtain r u where create: "rcreate (k_secrets (Kube c)) ''Secret'' Sec_Meta ?new s = (r, u)" by fastforce
  note law = create_store [OF store create, simplified]
  show ?thesis
  proof (cases "secrets_at (view (env s)) (ns, n)")
    case None
    with law(1) obtain y where y: "r = Inr y" "Sec_Meta_update unstamped y = Sec_Meta_update unstamped (kept_secret ?new)"
        "view (env u) = secrets_at_update (\<lambda>m. m((ns, n) \<mapsto> y)) (view (env s))" by blast
    have meta: "unstamped (Sec_Meta y) = named_meta ns n" and type: "Sec_Type y = ResourceSetSecretType"
      using arg_cong [OF y(2), of Sec_Meta] arg_cong [OF y(2), of Sec_Type] by (simp_all add: kept_secret_def)
    have "key_of (Sec_Meta y) = (ns, n)" using key_unstamped [of "Sec_Meta y" "named_meta ns n"] meta by simp
    then have "stored ns (view (env s)) (view (env u)) (put_secret ns n data)"
      using y(2,3) None type
      by (auto simp: stored_def bare_def put_secret_def kept_secret_def well_keyed_def keyed_def compatible_def fun_eq_iff)
    then show ?thesis using create y(1)
      by (simp add: createOrUpdateResourceSetSecret_def bindE_def tryE_def retE_def)
  next
    case (Some x)
    from law(2) [OF Some] obtain msg where r: "r = Inl (ApiErr AlreadyExists msg)" and u: "view (env u) = view (env s)" by blast
    obtain q v where get: "rget (k_secrets (Kube c)) ''Secret'' ns n u = (q, v)" by fastforce
    note got = get_store [OF store get]
    from got(2) Some u have q: "q = Inr x" by simp
    have v: "view (env v) = view (env s)" using got(1) u by simp
    let ?x = "x\<lparr>Sec_StringData := data, Sec_Type := ResourceSetSecretType\<rparr>"
    obtain p t where update: "rupdate (k_secrets (Kube c)) ''Secret'' Sec_Meta ?x v = (p, t)" by fastforce
    have key: "key_of (Sec_Meta x) = (ns, n)" using assms(2) Some by (simp add: well_keyed_def keyed_def)
    have "secrets_at (view (env v)) (key_of (Sec_Meta ?x)) = Some x" using Some key v by simp
    moreover have "same_type x ?x" using free Some by (simp add: same_type_def)
    ultimately have updated: "p = Inr (kept_secret ?x)"
      "view (env t) = secrets_at_update (\<lambda>m. m((ns, n) \<mapsto> kept_secret ?x)) (view (env s))"
      using update_store(1) [OF store update] key v by auto
    have "stored ns (view (env s)) (view (env t)) (put_secret ns n data)"
      using updated(2) Some key
      by (auto simp: stored_def bare_def put_secret_def kept_secret_def well_keyed_def keyed_def compatible_def fun_eq_iff)
    then show ?thesis using create r get q update updated(1)
      by (simp add: createOrUpdateResourceSetSecret_def bindE_def tryE_def retE_def)
  qed
qed

lemma write_configmap_stored:
  fixes c :: "'w Client"
  assumes "api_store (Kube c) view" and "well_keyed (view (env s))"
  shows "\<exists>t. createOrUpdateResourceSetConfigMap c ns n data s = (Inr (), t)
     \<and> stored ns (view (env s)) (view (env t)) (put_configmap ns n data)"
proof -
  have store: "kind_store (k_configmaps (Kube c)) view configmaps_at configmaps_at_update CM_Meta CM_Meta_update id (\<lambda>_ _. True)"
    using assms(1) by (simp add: api_store_def)
  let ?new = "\<lparr>CM_Meta = named_meta ns n, CM_Data = data\<rparr>"
  obtain r u where create: "rcreate (k_configmaps (Kube c)) ''ConfigMap'' CM_Meta ?new s = (r, u)" by fastforce
  note law = create_store [OF store create, simplified]
  show ?thesis
  proof (cases "configmaps_at (view (env s)) (ns, n)")
    case None
    with law(1) obtain y where y: "r = Inr y" "CM_Meta_update unstamped y = CM_Meta_update unstamped ?new"
        "view (env u) = configmaps_at_update (\<lambda>m. m((ns, n) \<mapsto> y)) (view (env s))" by auto
    have "key_of (CM_Meta y) = (ns, n)"
      using key_unstamped [of "CM_Meta y" "named_meta ns n"] arg_cong [OF y(2), of CM_Meta] by simp
    then have "stored ns (view (env s)) (view (env u)) (put_configmap ns n data)"
      using y(2,3) None
      by (auto simp: stored_def bare_def put_configmap_def well_keyed_def keyed_def compatible_def fun_eq_iff)
    then show ?thesis using create y(1)
      by (simp add: createOrUpdateResourceSetConfigMap_def bindE_def tryE_def retE_def)
  next
    case (Some x)
    from law(2) [OF Some] obtain msg where r: "r = Inl (ApiErr AlreadyExists msg)" and u: "view (env u) = view (env s)" by blast
    obtain q v where get: "rget (k_configmaps (Kube c)) ''ConfigMap'' ns n u = (q, v)" by fastforce
    note got = get_store [OF store get]
    from got(2) Some u have q: "q = Inr x" by simp
    have v: "view (env v) = view (env s)" using got(1) u by simp
    obtain p t where update: "rupdate (k_configmaps (Kube c)) ''ConfigMap'' CM_Meta (x\<lparr>CM_Data := data\<rparr>) v = (p, t)" by fastforce
    have key: "key_of (CM_Meta x) = (ns, n)" using assms(2) Some by (simp add: well_keyed_def keyed_def)
    have "configmaps_at (view (env v)) (key_of (CM_Meta (x\<lparr>CM_Data := data\<rparr>))) = Some x" using Some key v by simp
    from update_store(1) [OF store update this] key v have updated: "p = Inr (x\<lparr>CM_Data := data\<rparr>)"
      "view (env t) = configmaps_at_update (\<lambda>m. m((ns, n) \<mapsto> x\<lparr>CM_Data := data\<rparr>)) (view (env s))" by auto
    have "stored ns (view (env s)) (view (env t)) (put_configmap ns n data)"
      using updated(2) Some key
      by (auto simp: stored_def bare_def put_configmap_def well_keyed_def keyed_def compatible_def fun_eq_iff)
    then show ?thesis using create r get q update updated(1)
      by (simp add: createOrUpdateResourceSetConfigMap_def bindE_def tryE_def retE_def)
  qed
qed

lemma write_resource_stored:
  assumes "api_store (Kube c) view" and "well_keyed (view (env s))" and "known_kind res"
    and "compatible ns (view (env s)) res"
  shows "\<exists>t. write_resource c ns res s = (Inr (), t) \<and> stored ns (view (env s)) (view (env t)) (put_resource ns res)"
proof (cases "RS_Data res = []")
  case True
  with assms(3) show ?thesis
    by (auto simp: write_resource_def known_kind_def retE_def stored_def put_resource_def)
next
  case data: False
  show ?thesis
  proof (cases "RS_Kind res = ''Secret''")
    case True
    with data assms(4) write_secret_stored [OF assms(1,2), of ns "RS_Name res" "RS_Data res"] show ?thesis
      by (auto simp: write_resource_def compatible_def wrapE_def put_resource_def stored_def)
  next
    case False
    with data assms(3) write_configmap_stored [OF assms(1,2), of ns "RS_Name res" "RS_Data res"] show ?thesis
      by (auto simp: write_resource_def known_kind_def wrapE_def put_resource_def stored_def)
  qed
qed

lemma write_resources_stored:
  assumes "api_store (Kube c) view"
  shows "well_keyed (view (env s)) \<Longrightarrow> list_all known_kind rs \<Longrightarrow> list_all (compatible ns (view (env s))) rs \<Longrightarrow>
    \<exists>t. forE rs (write_resource c ns) s = (Inr (), t)
      \<and> bare (view (env t)) = fold (put_resource ns) rs (bare (view (env s)))
      \<and> sets_at (view (env t)) = sets_at (view (env s)) \<and> well_keyed (view (env t))"
proof (induction rs arbitrary: s)
  case Nil
  then show ?case by (auto simp: retE_def)
next
  case (Cons res rs)
  then obtain u where u: "write_resource c ns res s = (Inr (), u)"
      and step: "stored ns (view (env s)) (view (env u)) (put_resource ns res)"
    using write_resource_stored [OF assms, of s res ns] by auto
  have "list_all (compatible ns (view (env u))) rs"
    using step Cons.prems(3) by (auto simp: stored_def list_all_iff)
  with Cons.IH [of u] Cons.prems step obtain t where "forE rs (write_resource c ns) u = (Inr (), t)"
      "bare (view (env t)) = fold (put_resource ns) rs (bare (view (env u)))"
      "sets_at (view (env t)) = sets_at (view (env u))" "well_keyed (view (env t))"
    by (auto simp: stored_def)
  with u step show ?case by (auto simp: bindE_def stored_def)
qed

text \<open>A Secret of another type is left as it is, and the resource fails.\<close>

lemma foreign_secret_refused:
  assumes "api_store (Kube c) view" and "well_keyed (view (env s))" and "RS_Kind res = ''Secret''" and "RS_Data res \<noteq> []"
    and "secrets_at (view (env s)) (ns, RS_Name res) = Some x" and "Sec_Type x \<noteq> ResourceSetSecretType"
  shows "\<exists>e t. write_resource c ns res s = (Inl e, t) \<and> view (env t) = view (env s)"
proof -
  have store: "kind_store (k_secrets (Kube c)) view secrets_at secrets_at_update Sec_Meta Sec_Meta_update kept_secret same_type"
    using assms(1) by (simp add: api_store_def)
  let ?n = "RS_Name res" and ?new = "\<lparr>Sec_Meta = named_meta ns (RS_Name res), Sec_Data = [],
    Sec_StringData = RS_Data res, Sec_Type = ResourceSetSecretType\<rparr>"
    and ?x = "x\<lparr>Sec_StringData := RS_Data res, Sec_Type := ResourceSetSecretType\<rparr>"
  obtain r u where create: "rcreate (k_secrets (Kube c)) ''Secret'' Sec_Meta ?new s = (r, u)" by fastforce
  from create_store(2) [OF store create, of x, simplified, OF assms(5)]
  obtain msg where r: "r = Inl (ApiErr AlreadyExists msg)" and u: "view (env u) = view (env s)" by blast
  obtain q v where get: "rget (k_secrets (Kube c)) ''Secret'' ns ?n u = (q, v)" by fastforce
  from get_store(1,2) [OF store get] assms(5) u have q: "q = Inr x" and v: "view (env v) = view (env s)" by simp_all
  obtain p t where update: "rupdate (k_secrets (Kube c)) ''Secret'' Sec_Meta ?x v = (p, t)" by fastforce
  have "key_of (Sec_Meta x) = (ns, ?n)" using assms(2,5) by (simp add: well_keyed_def keyed_def)
  then have "secrets_at (view (env v)) (key_of (Sec_Meta ?x)) = Some x" using assms(5) v by simp
  from update_store(2) [OF store update this] assms(6) v have "(\<exists>e. p = Inl e) \<and> view (env t) = view (env s)"
    by (simp add: same_type_def)
  then show ?thesis using create r get q update assms(3,4)
    by (auto simp: write_resource_def createOrUpdateResourceSetSecret_def bindE_def tryE_def wrapE_def)
qed

subsection \<open>Properties\<close>

text \<open>
  A ClusterResourceSet that was created has a non-empty selector, at least one resource, only
  resources of kind Secret or ConfigMap and a valid strategy, and before the creation of the set
  only Secrets and ConfigMaps were read, created in its namespace, or updated.
\<close>

theorem resource_set_created_valid:
  assumes "CreateClusterResourceSet c opts s = (Inr crs, t)"
  shows "RSO_ClusterSelector opts \<noteq> [] \<and> RSO_Resources opts \<noteq> []
     \<and> list_all known_kind (RSO_Resources opts)
     \<and> (\<exists>st u. resource_set_strategy (RSO_Strategy opts) = Inr st \<and> st \<in> {ApplyOnce, Reconcile}
          \<and> ran (resource_request (RSO_Namespace opts)) s u
          \<and> requests t = requests u @ [Request VCreate ''ClusterResourceSet'' (RSO_Namespace opts) (RSO_Name opts)])"
proof -
  obtain st where st: "resource_set_strategy (RSO_Strategy opts) = Inr st"
    using assms by (auto simp: CreateClusterResourceSet_def split: if_splits sum.splits)
  then have valid: "st \<in> {ApplyOnce, Reconcile}"
    by (auto simp: resource_set_strategy_def Let_def split: if_splits)
  from assms st obtain x u where
      writes: "forE (RSO_Resources opts) (write_resource c (RSO_Namespace opts)) s = (Inr x, u)"
    and create: "requests t = requests u @ [Request VCreate ''ClusterResourceSet'' (RSO_Namespace opts) (RSO_Name opts)]"
    and nonempty: "RSO_ClusterSelector opts \<noteq> []" "RSO_Resources opts \<noteq> []"
    by (auto simp: CreateClusterResourceSet_def wrapE_def rcreate_def api_def named_meta_def
        split: if_splits prod.splits sum.splits elim!: bindE_InrD)
  have "emits (resource_request (RSO_Namespace opts)) (forE (RSO_Resources opts) (write_resource c (RSO_Namespace opts)))"
    by (intro emits_forE write_resource_requests)
  from emits_ran [OF this writes] write_resources_known [OF writes] nonempty st valid create
  show ?thesis by blast
qed


text \<open>A read-only client adds a key to the Secret that is there, creates the ConfigMap and the set.\<close>

definition cni_options :: CreateClusterResourceSetOptions where
  "cni_options = \<lparr>RSO_Name = ''cni'', RSO_Namespace = ''org'', RSO_ClusterSelector = [(''cni'', ''flannel'')],
     RSO_Strategy = '''', RSO_Resources = [
       \<lparr>RS_Kind = ''Secret'', RS_Name = ''token'', RS_Data = [(''b'', ''2'')]\<rparr>,
       \<lparr>RS_Kind = ''ConfigMap'', RS_Name = ''cni'', RS_Data = [(''cni.yaml'', ''x'')]\<rparr>]\<rparr>"

definition token_secret :: "smap \<Rightarrow> Secret" where
  "token_secret data = \<lparr>Sec_Meta = named_meta ''org'' ''token'', Sec_Data = data, Sec_StringData = [],
     Sec_Type = ResourceSetSecretType\<rparr>"

definition token_objects :: objects where
  "token_objects = no_objects\<lparr>secrets_at := [(''org'', ''token'') \<mapsto> token_secret [(''a'', ''1'')]],
     sets_at := [(''org'', ''old'') \<mapsto> wanted_set (cni_options\<lparr>RSO_Name := ''old''\<rparr>) ApplyOnce]\<rparr>"

lemma token_objects_keyed: "well_keyed token_objects"
  by (simp add: well_keyed_def keyed_def token_objects_def no_objects_def token_secret_def wanted_set_def cni_options_def)

lemma token_objects_after:
  "fold (put_resource ''org'') (RSO_Resources cni_options) (bare token_objects) = token_objects
     \<lparr>secrets_at := [(''org'', ''token'') \<mapsto> token_secret [(''b'', ''2''), (''a'', ''1'')]],
      configmaps_at := [(''org'', ''cni'') \<mapsto> \<lparr>CM_Meta = named_meta ''org'' ''cni'', CM_Data = [(''cni.yaml'', ''x'')]\<rparr>]\<rparr>"
  by (simp add: put_resource_def put_secret_def put_configmap_def bare_def token_objects_def no_objects_def
      token_secret_def merged_data_def mhas_def wanted_set_def cni_options_def fun_eq_iff)


definition crs_example :: CreateClusterResourceSetOptions where
  "crs_example = \<lparr>RSO_Name = ''cni'', RSO_Namespace = ''org'', RSO_ClusterSelector = [(''cni'', ''flannel'')],
     RSO_Strategy = '''', RSO_Resources = [\<lparr>RS_Kind = ''Secret'', RS_Name = ''cni'',
       RS_Data = [(''cni.yaml'', ''x'')]\<rparr>]\<rparr>"

theorem resource_set_created_valid_witness:
  "\<exists>crs t. \<exists>u :: world session. CreateClusterResourceSet (memory_client read_only_policy) crs_example (start empty_world) = (Inr crs, t)
     \<and> requests t = requests u @
         [Request VCreate ''ClusterResourceSet'' (RSO_Namespace crs_example) (RSO_Name crs_example)]"
proof -
  have "\<exists>crs t. CreateClusterResourceSet (memory_client read_only_policy) crs_example (start empty_world) = (Inr crs, t)"
    by (simp add: CreateClusterResourceSet_def crs_example_def resource_set_strategy_def write_resource_def
        createOrUpdateResourceSetSecret_def named_meta_def example_simps memory_def none_def)
  then obtain crs t where run:
    "CreateClusterResourceSet (memory_client read_only_policy) crs_example (start empty_world) = (Inr crs, t)"
    by blast
  from resource_set_created_valid [OF run] run show ?thesis by blast
qed


end
