(* ===== verification/Capi_Bearer.thy ===== *)
theory Capi_Bearer
  imports Capi_Memory "HOL-Library.AList"
begin

section \<open>Building clients, and one client per caller (pkg/capi/client.go, pkg/capi/bearer.go)\<close>

text \<open>
  Where a client's REST configuration comes from, how a client is built from one, and the factory
  that builds a client per bearer token and caches it.  The client libraries are the record
  \<open>libs\<close>; the digest of a token and the expiry claim of a decoded token payload are parameters.
  Times are nanoseconds.  The factory is shared by concurrent requests: a request passes through
  two critical sections with the building of the client between them, which is the step relation
  below.
\<close>

subsection \<open>Configuration and construction of a client\<close>

record rest_config =
  RC_Host :: string
  RC_BearerToken :: string
  RC_CAFile :: string
  RC_CAData :: string
  RC_QPS :: nat
  RC_Burst :: nat
  RC_Timeout :: int

text \<open>
  What \<open>loadConfig\<close> asks of the host: the loaders of client-go, the environment variable
  KUBECONFIG, the home directory (a clean path) and whether a file is there.
\<close>

record config_source =
  BuildConfigFromFlags :: "string \<Rightarrow> goerr + rest_config"
  InClusterConfig :: "goerr + rest_config"
  KubeconfigEnv :: string
  HomeDir :: string
  FileExists :: "string \<Rightarrow> bool"

definition loadConfig :: "config_source \<Rightarrow> string \<Rightarrow> goerr + rest_config" where
  "loadConfig src kubeconfig =
     (if kubeconfig \<noteq> '''' then BuildConfigFromFlags src kubeconfig
      else (case InClusterConfig src of
          Inr config \<Rightarrow> Inr config
        | Inl _ \<Rightarrow>
            if KubeconfigEnv src \<noteq> '''' then BuildConfigFromFlags src (KubeconfigEnv src)
            else if HomeDir src \<noteq> '''' \<and> FileExists src (HomeDir src @ ''/.kube/config'')
            then BuildConfigFromFlags src (HomeDir src @ ''/.kube/config'')
            else Inl (Errorf ''no kubeconfig found'' [])))"

record ('k, 'c, 'w) libs =
  kubernetes_NewForConfig :: "rest_config \<Rightarrow> goerr + 'k"
  client_New :: "rest_config \<Rightarrow> goerr + 'c"
  add_core_types :: "goerr option"
  add_capi_types :: "goerr option"
  add_control_plane_types :: "goerr option"
  add_addons_types :: "goerr option"
  server_of :: "'k \<Rightarrow> 'c \<Rightarrow> 'w kube"

definition newScheme :: "('k, 'c, 'w) libs \<Rightarrow> goerr option" where
  "newScheme l =
     (case add_core_types l of
        Some e \<Rightarrow> Some (Errorf ''failed to add core types to scheme: %w'' [Fw e])
      | None \<Rightarrow> (case add_capi_types l of
            Some e \<Rightarrow> Some (Errorf ''failed to add CAPI to scheme: %w'' [Fw e])
          | None \<Rightarrow> (case add_control_plane_types l of
                Some e \<Rightarrow> Some (Errorf ''failed to add KubeadmControlPlane to scheme: %w'' [Fw e])
              | None \<Rightarrow> None)))"

definition no_policy :: WritePolicy where
  "no_policy = \<lparr>ReadOnly = False, GitOpsGuard = False, ExposeKubeconfig = False\<rparr>"

definition NewClientFromConfig ::
  "('k, 'c, 'w) libs \<Rightarrow> rest_config \<Rightarrow> ('w Client \<Rightarrow> 'w Client) list \<Rightarrow> goerr + 'w Client" where
  "NewClientFromConfig l config opts =
     (case kubernetes_NewForConfig l config of
        Inl e \<Rightarrow> Inl (Errorf ''failed to create kubernetes client: %w'' [Fw e])
      | Inr k \<Rightarrow> (case newScheme l of
            Some e \<Rightarrow> Inl e
          | None \<Rightarrow> (case add_addons_types l of
                Some e \<Rightarrow> Inl (Errorf ''failed to add CAPI addons to scheme: %w'' [Fw e])
              | None \<Rightarrow> (case client_New l config of
                    Inl e \<Rightarrow> Inl (Errorf ''failed to create controller client: %w'' [Fw e])
                  | Inr c \<Rightarrow> Inr (fold (\<lambda>opt cl. opt cl) opts
                      \<lparr>Kube = server_of l k c, policy = no_policy, config_host = Some (RC_Host config)\<rparr>)))))"

definition NewClient ::
  "config_source \<Rightarrow> ('k, 'c, 'w) libs \<Rightarrow> string \<Rightarrow> ('w Client \<Rightarrow> 'w Client) list \<Rightarrow> goerr + 'w Client" where
  "NewClient src l kubeconfig opts =
     (case loadConfig src kubeconfig of
        Inl e \<Rightarrow> Inl (Errorf ''failed to load kubeconfig: %w'' [Fw e])
      | Inr config \<Rightarrow> NewClientFromConfig l config opts)"

subsection \<open>The lifetime of a cached client\<close>

definition second :: int where "second = 1000000000"
definition defaultClientTTL :: int where "defaultClientTTL = 5 * 60 * second"
definition maxClientTTL :: int where "maxClientTTL = 10 * 60 * second"
definition defaultMaxClients :: nat where "defaultMaxClients = 1000"

text \<open>\<open>strings.Split(token, ".")\<close> and \<open>base64.RawURLEncoding.DecodeString\<close>.\<close>

fun split_at :: "char \<Rightarrow> string \<Rightarrow> string list" where
  "split_at c [] = [[]]"
| "split_at c (x # xs) =
     (if x = c then [] # split_at c xs
      else (case split_at c xs of [] \<Rightarrow> [[x]] | w # ws \<Rightarrow> (x # w) # ws))"

definition base64url_value :: "char \<Rightarrow> nat option" where
  "base64url_value c = (let n = of_char c :: nat in
     if 65 \<le> n \<and> n \<le> 90 then Some (n - 65)
     else if 97 \<le> n \<and> n \<le> 122 then Some (n - 71)
     else if 48 \<le> n \<and> n \<le> 57 then Some (n + 4)
     else if n = 45 then Some 62
     else if n = 95 then Some 63
     else None)"

fun base64_bytes :: "nat list \<Rightarrow> string option" where
  "base64_bytes [] = Some []"
| "base64_bytes [a] = None"
| "base64_bytes [a, b] = Some [char_of (a * 4 + b div 16)]"
| "base64_bytes [a, b, c] = Some [char_of (a * 4 + b div 16), char_of (b mod 16 * 16 + c div 4)]"
| "base64_bytes (a # b # c # d # r) =
     map_option (\<lambda>s. char_of (a * 4 + b div 16) # char_of (b mod 16 * 16 + c div 4)
        # char_of (c mod 4 * 64 + d) # s) (base64_bytes r)"

definition RawURLEncoding_DecodeString :: "string \<Rightarrow> string option" where
  "RawURLEncoding_DecodeString s =
     (case those (map base64url_value (filter (\<lambda>c. c \<noteq> CHR 0x0D \<and> c \<noteq> CHR 0x0A) s)) of
        None \<Rightarrow> None | Some vs \<Rightarrow> base64_bytes vs)"

text \<open>
  \<open>exp_claim\<close> is the decoding of the payload into a structure with one integer member \<open>exp\<close>:
  \<open>None\<close> for an error, \<open>Some 0\<close> when the member is absent.
\<close>

definition tokenExpiry :: "(string \<Rightarrow> int option) \<Rightarrow> string \<Rightarrow> int option" where
  "tokenExpiry exp_claim token =
     (case split_at (CHR ''.'') token of
        [_, payload64, _] \<Rightarrow>
          (case RawURLEncoding_DecodeString payload64 of
             None \<Rightarrow> None
           | Some payload \<Rightarrow> (case exp_claim payload of
                 None \<Rightarrow> None
               | Some e \<Rightarrow> if e = 0 then None else Some (e * second)))
      | _ \<Rightarrow> None)"

definition clientExpiry :: "(string \<Rightarrow> int option) \<Rightarrow> string \<Rightarrow> int \<Rightarrow> int" where
  "clientExpiry exp_claim token now =
     (let limit = now + maxClientTTL in
      case tokenExpiry exp_claim token of
        None \<Rightarrow> now + defaultClientTTL
      | Some e \<Rightarrow> if e < limit then e else limit)"

subsection \<open>The factory\<close>

record 'w cacheEntry =
  ce_client :: "'w Client"
  ce_expires :: int

record 'w BearerClientFactory =
  bf_host :: string
  bf_caFile :: string
  bf_caData :: string
  bf_qps :: nat
  bf_burst :: nat
  bf_timeout :: int
  bf_policy :: WritePolicy
  bf_cache :: "'w cacheEntry gomap"
  bf_maxEntries :: nat

definition NewBearerClientFactory :: "string \<Rightarrow> string \<Rightarrow> string \<Rightarrow> 'w BearerClientFactory" where
  "NewBearerClientFactory host caFile caData =
     \<lparr>bf_host = host, bf_caFile = caFile, bf_caData = caData, bf_qps = 20, bf_burst = 30,
      bf_timeout = 30 * second, bf_policy = no_policy, bf_cache = [], bf_maxEntries = defaultMaxClients\<rparr>"

definition DefaultInClusterCAFile :: string where
  "DefaultInClusterCAFile = ''/var/run/secrets/kubernetes.io/serviceaccount/ca.crt''"

text \<open>\<open>join_host_port\<close> is \<open>net.JoinHostPort\<close>: a host with a colon is put in brackets.\<close>

definition join_host_port :: "string \<Rightarrow> string \<Rightarrow> string" where
  "join_host_port host port =
     (if List.member host (CHR '':'') then ''['' @ host @ '']:'' @ port else host @ '':'' @ port)"

definition NewInClusterBearerClientFactory ::
  "string \<Rightarrow> string \<Rightarrow> goerr option \<Rightarrow> goerr + 'w BearerClientFactory" where
  "NewInClusterBearerClientFactory host port ca_stat =
     (if host = '''' \<or> port = '''' then
        Inl (Errorf ''not running in a cluster: KUBERNETES_SERVICE_HOST and KUBERNETES_SERVICE_PORT are unset'' [])
      else (case ca_stat of
          Some e \<Rightarrow> Inl (Errorf ''cluster CA %s: %w'' [Fs DefaultInClusterCAFile, Fw e])
        | None \<Rightarrow> Inr (NewBearerClientFactory (''https://'' @ join_host_port host port) DefaultInClusterCAFile '''')))"

text \<open>Of the kubeconfig only the server and its CA are kept, never its credentials.\<close>

definition NewBearerClientFactoryFromKubeconfig ::
  "config_source \<Rightarrow> string \<Rightarrow> goerr + 'w BearerClientFactory" where
  "NewBearerClientFactoryFromKubeconfig src path =
     (case BuildConfigFromFlags src path of
        Inl e \<Rightarrow> Inl (Errorf ''load kubeconfig %s: %w'' [Fs path, Fw e])
      | Inr cfg \<Rightarrow> Inr (NewBearerClientFactory (RC_Host cfg) (RC_CAFile cfg) (RC_CAData cfg)))"

definition SetWritePolicy :: "WritePolicy \<Rightarrow> 'w BearerClientFactory \<Rightarrow> 'w BearerClientFactory" where
  "SetWritePolicy p f = f\<lparr>bf_policy := p\<rparr>"

definition restConfig :: "'w BearerClientFactory \<Rightarrow> string \<Rightarrow> rest_config" where
  "restConfig f token = \<lparr>RC_Host = bf_host f, RC_BearerToken = token, RC_CAFile = bf_caFile f,
     RC_CAData = bf_caData f, RC_QPS = bf_qps f, RC_Burst = bf_burst f, RC_Timeout = bf_timeout f\<rparr>"

text \<open>The first critical section: a live entry of the cache.\<close>

definition cache_lookup :: "'w BearerClientFactory \<Rightarrow> string \<Rightarrow> int \<Rightarrow> 'w Client option" where
  "cache_lookup f key now = (case map_of (bf_cache f) key of
       None \<Rightarrow> None
     | Some e \<Rightarrow> if now < ce_expires e then Some (ce_client e) else None)"

definition build_client ::
  "('k, 'c, 'w) libs \<Rightarrow> 'w BearerClientFactory \<Rightarrow> string \<Rightarrow> goerr + 'w Client" where
  "build_client l f token = NewClientFromConfig l (restConfig f token) [WithWritePolicy (bf_policy f)]"

text \<open>The second: a full cache is swept of dead entries, and the client stored if there is room.\<close>

definition sweep :: "int \<Rightarrow> 'w cacheEntry gomap \<Rightarrow> 'w cacheEntry gomap" where
  "sweep now cache = filter (\<lambda>(k, e). now < ce_expires e) cache"

definition cache_store ::
  "string \<Rightarrow> 'w Client \<Rightarrow> int \<Rightarrow> int \<Rightarrow> 'w BearerClientFactory \<Rightarrow> 'w BearerClientFactory" where
  "cache_store key c expires now f =
     (let cache = (if length (bf_cache f) \<ge> bf_maxEntries f then sweep now (bf_cache f) else bf_cache f);
          cache = (if length cache < bf_maxEntries f
                   then AList.update key \<lparr>ce_client = c, ce_expires = expires\<rparr> cache else cache)
      in f\<lparr>bf_cache := cache\<rparr>)"

record ('k, 'c, 'w) bearer_env =
  be_libs :: "('k, 'c, 'w) libs"
  be_digest :: "string \<Rightarrow> string"
  be_exp_claim :: "string \<Rightarrow> int option"

definition ClientFor :: "('k, 'c, 'w) bearer_env \<Rightarrow> int \<Rightarrow> string \<Rightarrow> 'w BearerClientFactory
    \<Rightarrow> (goerr + 'w Client) \<times> 'w BearerClientFactory" where
  "ClientFor b now token f =
     (if token = '''' then (Inl (Sentinel ErrNoBearerToken), f)
      else (case cache_lookup f (be_digest b token) now of
          Some c \<Rightarrow> (Inr c, f)
        | None \<Rightarrow> (case build_client (be_libs b) f token of
              Inl e \<Rightarrow> (Inl e, f)
            | Inr c \<Rightarrow> (Inr c, cache_store (be_digest b token) c
                (clientExpiry (be_exp_claim b) token now) now f))))"

subsection \<open>The cache invariant\<close>

text \<open>
  A client is owned by a token if it is the one the factory builds from that token.  Under the
  cache's key, which is only a digest, a client is owned by some token of that digest.
\<close>

definition owned :: "('k, 'c, 'w) bearer_env \<Rightarrow> 'w BearerClientFactory \<Rightarrow> string \<Rightarrow> 'w Client \<Rightarrow> bool" where
  "owned b f token c \<longleftrightarrow> token \<noteq> '''' \<and> build_client (be_libs b) f token = Inr c"

definition owned_key :: "('k, 'c, 'w) bearer_env \<Rightarrow> 'w BearerClientFactory \<Rightarrow> string \<Rightarrow> 'w Client \<Rightarrow> bool" where
  "owned_key b f key c \<longleftrightarrow> (\<exists>token. be_digest b token = key \<and> owned b f token c)"

definition cache_ok :: "('k, 'c, 'w) bearer_env \<Rightarrow> 'w BearerClientFactory \<Rightarrow> bool" where
  "cache_ok b f \<longleftrightarrow> length (bf_cache f) \<le> bf_maxEntries f \<and> distinct (map fst (bf_cache f))
     \<and> list_all (\<lambda>(k, e). owned_key b f k (ce_client e)) (bf_cache f)"

lemma config_of_cache [simp]:
  "restConfig (f\<lparr>bf_cache := m\<rparr>) t = restConfig f t"
  "build_client l (f\<lparr>bf_cache := m\<rparr>) t = build_client l f t"
  "owned b (f\<lparr>bf_cache := m\<rparr>) t c = owned b f t c"
  "owned_key b (f\<lparr>bf_cache := m\<rparr>) k c = owned_key b f k c"
  by (simp_all add: restConfig_def build_client_def owned_def owned_key_def)

lemma store_config [simp]:
  "build_client l (cache_store k c x now f) t = build_client l f t"
  "owned b (cache_store k c x now f) t c' = owned b f t c'"
  "owned_key b (cache_store k c x now f) k' c' = owned_key b f k' c'"
  "bf_maxEntries (cache_store k c x now f) = bf_maxEntries f"
  by (simp_all add: cache_store_def Let_def)

lemma cache_ok_entries:
  "cache_ok b (f\<lparr>bf_cache := m\<rparr>) \<longleftrightarrow> length m \<le> bf_maxEntries f \<and> distinct (map fst m)
     \<and> list_all (\<lambda>(k, e). owned_key b f k (ce_client e)) m"
  by (simp add: cache_ok_def)

lemma sweep_ok:
  assumes "cache_ok b f"
  shows "cache_ok b (f\<lparr>bf_cache := sweep now (bf_cache f)\<rparr>)"
  using assms unfolding cache_ok_entries cache_ok_def sweep_def
  by (auto simp: list_all_iff distinct_map inj_on_def intro: le_trans [OF length_filter_le])

lemma length_update_le: "length (AList.update k v m) \<le> Suc (length m)"
  by (induction m) auto

lemma set_update_subset: "set (AList.update k v m) \<subseteq> insert (k, v) (set m)"
  by (induction m) auto

lemma update_ok:
  assumes "cache_ok b f" and "length (bf_cache f) < bf_maxEntries f" and "owned_key b f k (ce_client e)"
  shows "cache_ok b (f\<lparr>bf_cache := AList.update k e (bf_cache f)\<rparr>)"
proof -
  have "length (AList.update k e (bf_cache f)) \<le> bf_maxEntries f"
    using length_update_le [of k e "bf_cache f"] assms(2) by simp
  then show ?thesis
    using assms set_update_subset [of k e "bf_cache f"]
    unfolding cache_ok_entries by (auto simp: cache_ok_def list_all_iff distinct_update)
qed

lemma store_ok:
  assumes "cache_ok b f" and "owned_key b f k c"
  shows "cache_ok b (cache_store k c x now f)"
proof -
  define m where "m = (if length (bf_cache f) \<ge> bf_maxEntries f then sweep now (bf_cache f) else bf_cache f)"
  have m: "cache_ok b (f\<lparr>bf_cache := m\<rparr>)"
    using assms(1) sweep_ok [OF assms(1)] by (simp add: m_def)
  have "cache_ok b (f\<lparr>bf_cache := AList.update k \<lparr>ce_client = c, ce_expires = x\<rparr> m\<rparr>)"
    if "length m < bf_maxEntries f"
    using update_ok [OF m] that assms(2) by simp
  with m show ?thesis
    by (simp add: cache_store_def Let_def m_def [symmetric])
qed

lemma lookup_owned:
  assumes "cache_ok b f" and "cache_lookup f k now = Some c"
  shows "owned_key b f k c"
  using assms by (auto simp: cache_ok_def cache_lookup_def list_all_iff dest!: map_of_SomeD
      split: option.splits if_splits)

subsection \<open>The interface of a source of clients\<close>

text \<open>
  What the request path relies on: whatever was asked before, the client handed out for a token
  belongs to the token's digest.  Inside the locale this is proved of every sequence of requests.
\<close>

fun serve :: "(int \<Rightarrow> string \<Rightarrow> 'st \<Rightarrow> 'r \<times> 'st) \<Rightarrow> (int \<times> string) list \<Rightarrow> 'st \<Rightarrow> 'r list \<times> 'st" where
  "serve get [] st = ([], st)"
| "serve get ((now, token) # reqs) st =
     (case get now token st of (r, st1) \<Rightarrow> (case serve get reqs st1 of (rs, st2) \<Rightarrow> (r # rs, st2)))"

definition answered_own ::
  "('st \<Rightarrow> string \<Rightarrow> 'c \<Rightarrow> bool) \<Rightarrow> 'st \<Rightarrow> (int \<times> string) \<times> (goerr + 'c) \<Rightarrow> bool" where
  "answered_own own st q = (case q of ((now, token), r) \<Rightarrow> (case r of Inl _ \<Rightarrow> True | Inr c \<Rightarrow> own st token c))"

locale client_source =
  fixes get :: "int \<Rightarrow> string \<Rightarrow> 'st \<Rightarrow> (goerr + 'c) \<times> 'st"
    and ok :: "'st \<Rightarrow> bool"
    and own :: "'st \<Rightarrow> string \<Rightarrow> 'c \<Rightarrow> bool"
  assumes get_ok: "ok st \<Longrightarrow> ok (snd (get now token st))"
    and get_own: "ok st \<Longrightarrow> fst (get now token st) = Inr c \<Longrightarrow> own st token c"
    and own_stable: "ok st \<Longrightarrow> own (snd (get now token st)) token' c = own st token' c"
    and no_token: "get now '''' st = (Inl (Sentinel ErrNoBearerToken), st)"
begin

lemma serve_ok: "ok st \<Longrightarrow> ok (snd (serve get reqs st))"
proof (induction reqs arbitrary: st)
  case (Cons q reqs)
  obtain now token where q: "q = (now, token)" by fastforce
  from Cons.IH [OF get_ok [OF Cons.prems]] show ?case
    by (simp add: q split: prod.split) (metis snd_conv)
qed simp

lemma serve_own:
  "ok st \<Longrightarrow> list_all (answered_own own st) (zip reqs (fst (serve get reqs st)))"
proof (induction reqs arbitrary: st)
  case (Cons q reqs)
  obtain now token where q: "q = (now, token)" by fastforce
  obtain r st1 where g: "get now token st = (r, st1)" by fastforce
  have "answered_own own st1 = answered_own own st"
    using own_stable [OF Cons.prems, of now token] g by (simp add: answered_own_def fun_eq_iff split: sum.split)
  moreover have "list_all (answered_own own st1) (zip reqs (fst (serve get reqs st1)))"
    using Cons.IH get_ok [OF Cons.prems, of now token] g by simp
  moreover have "answered_own own st ((now, token), r)"
    using get_own [OF Cons.prems, of now token] g by (simp add: answered_own_def split: sum.split)
  ultimately show ?case by (cases "serve get reqs st1") (simp add: q g)
qed simp

end

interpretation bearer: client_source "ClientFor b" "cache_ok b" "\<lambda>f token. owned_key b f (be_digest b token)"
  for b
proof
  fix st now token c token'
  assume ok: "cache_ok b st"
  have own: "owned_key b st (be_digest b token) cl" if "build_client (be_libs b) st token = Inr cl" "token \<noteq> ''''" for cl
    using that by (auto simp: owned_key_def owned_def)
  show "cache_ok b (snd (ClientFor b now token st))"
    using ok own by (auto simp: ClientFor_def store_ok split: option.split sum.split)
  show "owned_key b st (be_digest b token) c" if "fst (ClientFor b now token st) = Inr c"
    using that own lookup_owned [OF ok]
    by (auto simp: ClientFor_def split: option.splits sum.splits if_splits)
  show "owned_key b (snd (ClientFor b now token st)) (be_digest b token') c = owned_key b st (be_digest b token') c"
    by (auto simp: ClientFor_def split: option.split sum.split)
next
  show "ClientFor b now '''' st = (Inl (Sentinel ErrNoBearerToken), st)" for now st
    by (simp add: ClientFor_def)
qed

subsection \<open>Concurrent requests\<close>

text \<open>
  A call to \<open>ClientFor\<close> has read the clock, missed the cache and is building, has built, or has
  answered.  The two critical sections of different calls interleave in any order, and the clock
  readings need not be in the order of the steps.
\<close>

datatype 'w call =
    Asked string int
  | Building string int
  | Built string int "'w Client"
  | Answered string "goerr + 'w Client"

type_synonym 'w factory_state = "'w BearerClientFactory \<times> 'w call list"

inductive factory_step :: "('k, 'c, 'w) bearer_env \<Rightarrow> 'w factory_state \<Rightarrow> 'w factory_state \<Rightarrow> bool" for b where
  arrive: "factory_step b (f, cs) (f, cs @ [Asked token now])"
| no_token: "factory_step b (f, as @ Asked '''' now # bs)
    (f, as @ Answered '''' (Inl (Sentinel ErrNoBearerToken)) # bs)"
| hit: "token \<noteq> '''' \<Longrightarrow> cache_lookup f (be_digest b token) now = Some c \<Longrightarrow>
    factory_step b (f, as @ Asked token now # bs) (f, as @ Answered token (Inr c) # bs)"
| miss: "token \<noteq> '''' \<Longrightarrow> cache_lookup f (be_digest b token) now = None \<Longrightarrow>
    factory_step b (f, as @ Asked token now # bs) (f, as @ Building token now # bs)"
| build_fails: "build_client (be_libs b) f token = Inl e \<Longrightarrow>
    factory_step b (f, as @ Building token now # bs) (f, as @ Answered token (Inl e) # bs)"
| built: "build_client (be_libs b) f token = Inr c \<Longrightarrow>
    factory_step b (f, as @ Building token now # bs) (f, as @ Built token now c # bs)"
| store: "factory_step b (f, as @ Built token now c # bs)
    (cache_store (be_digest b token) c (clientExpiry (be_exp_claim b) token now) now f,
     as @ Answered token (Inr c) # bs)"

inductive_cases factory_stepE: "factory_step b (f, cs) (f', cs')"

text \<open>What holds of a call: a client on its way out belongs to the token.\<close>

fun call_ok :: "('k, 'c, 'w) bearer_env \<Rightarrow> 'w BearerClientFactory \<Rightarrow> 'w call \<Rightarrow> bool" where
  "call_ok b f (Asked token now) = True"
| "call_ok b f (Building token now) = (token \<noteq> '''')"
| "call_ok b f (Built token now c) = owned b f token c"
| "call_ok b f (Answered token r) =
     (case r of Inl _ \<Rightarrow> True | Inr c \<Rightarrow> owned_key b f (be_digest b token) c)"

definition system_ok :: "('k, 'c, 'w) bearer_env \<Rightarrow> 'w factory_state \<Rightarrow> bool" where
  "system_ok b st = (case st of (f, cs) \<Rightarrow> cache_ok b f \<and> list_all (call_ok b f) cs)"

lemma call_ok_store [simp]: "call_ok b (cache_store k c x now f) = call_ok b f"
proof
  show "call_ok b (cache_store k c x now f) q = call_ok b f q" for q
    by (cases q) (auto split: sum.split)
qed

lemma owned_keyI: "owned b f token c \<Longrightarrow> owned_key b f (be_digest b token) c"
  by (auto simp: owned_key_def)

lemma ownedI: "token \<noteq> [] \<Longrightarrow> build_client (be_libs b) f token = Inr c \<Longrightarrow> owned b f token c"
  by (simp add: owned_def)

lemma step_preserves_ok:
  assumes "factory_step b st st'" and "system_ok b st"
  shows "system_ok b st'"
  using assms
  by (induction rule: factory_step.induct)
    (auto simp: system_ok_def intro: lookup_owned store_ok owned_keyI ownedI)

text \<open>The steps never change the factory's configuration.\<close>

lemma step_keeps_config:
  assumes "factory_step b (f, cs) (f', cs')"
  shows "owned b f' = owned b f" and "bf_policy f' = bf_policy f" and "bf_maxEntries f' = bf_maxEntries f"
  using assms by (auto elim!: factory_stepE simp: fun_eq_iff) (simp_all add: cache_store_def Let_def)

lemma reachable_ok:
  assumes "(factory_step b)\<^sup>*\<^sup>* (f0, cs0) (f, cs)" and "system_ok b (f0, cs0)"
  shows "system_ok b (f, cs) \<and> owned b f = owned b f0 \<and> bf_policy f = bf_policy f0
    \<and> bf_maxEntries f = bf_maxEntries f0"
  using assms
proof (induction "(f, cs)" arbitrary: f cs rule: rtranclp_induct)
  case (step y)
  obtain g ds where y: "y = (g, ds)" by fastforce
  with step step_preserves_ok [OF step(2)] step_keeps_config [of b g ds f cs] show ?case
    by simp
qed simp

lemma built_policy:
  assumes "build_client l f token = Inr c"
  shows "policy c = bf_policy f \<and> config_host c = Some (bf_host f)"
  using assms by (auto simp: build_client_def NewClientFromConfig_def WithWritePolicy_def restConfig_def
      split: sum.splits option.splits)

text \<open>One uninterrupted call is a run of the steps.\<close>

lemma ClientFor_steps:
  "(factory_step b)\<^sup>*\<^sup>* (f, cs) (snd (ClientFor b now token f), cs @ [Answered token (fst (ClientFor b now token f))])"
proof -
  let ?k = "be_digest b token"
  have start: "(factory_step b)\<^sup>*\<^sup>* (f, cs) (f, cs @ Asked token now # [])"
    using arrive by blast
  show ?thesis
  proof (cases "token = ''''")
    case True
    with start no_token [of b f cs now "[]"] show ?thesis by (auto simp: ClientFor_def)
  next
    case False
    show ?thesis
    proof (cases "cache_lookup f ?k now")
      case (Some c)
      with start hit [OF False Some, of cs "[]"] False show ?thesis by (auto simp: ClientFor_def)
    next
      case None
      have building: "(factory_step b)\<^sup>*\<^sup>* (f, cs) (f, cs @ Building token now # [])"
        using start miss [OF False None, of cs "[]"] by auto
      show ?thesis
      proof (cases "build_client (be_libs b) f token")
        case (Inl e)
        with building build_fails [OF Inl, of cs now "[]"] None False show ?thesis
          by (auto simp: ClientFor_def)
      next
        case (Inr c)
        have "(factory_step b)\<^sup>*\<^sup>* (f, cs) (f, cs @ Built token now c # [])"
          using building built [OF Inr, of cs now "[]"] by auto
        with store [of b f cs token now c "[]"] None False Inr show ?thesis
          by (auto simp: ClientFor_def)
      qed
    qed
  qed
qed

subsection \<open>Properties\<close>

text \<open>
  C13. Under every interleaving of concurrent requests the cache never holds more entries than its
  maximum and never two for one key, and a client a request is answered with is the one the
  factory builds from the request's own token, or from another token with the same digest; it
  enforces the factory's write policy and dials the factory's host.
\<close>

theorem bearer_clients_isolated:
  assumes "(factory_step b)\<^sup>*\<^sup>* (f0, []) (f, cs)" and "cache_ok b f0"
    and "Answered token (Inr c) \<in> set cs"
  shows "length (bf_cache f) \<le> bf_maxEntries f0 \<and> distinct (map fst (bf_cache f))
     \<and> (owned b f0 token c
        \<or> (\<exists>token'. token' \<noteq> token \<and> be_digest b token' = be_digest b token \<and> owned b f0 token' c))
     \<and> policy c = bf_policy f0 \<and> config_host c = Some (bf_host f0)"
proof -
  have "system_ok b (f0, [])" using assms(2) by (simp add: system_ok_def)
  from reachable_ok [OF assms(1) this] have ok: "system_ok b (f, cs)"
    and same: "owned b f = owned b f0" "bf_maxEntries f = bf_maxEntries f0"
    by auto
  from ok assms(3) have "owned_key b f (be_digest b token) c"
    by (auto simp: system_ok_def list_all_iff)
  then obtain token' where t: "be_digest b token' = be_digest b token" "owned b f0 token' c"
    by (auto simp: owned_key_def same)
  then have "policy c = bf_policy f0 \<and> config_host c = Some (bf_host f0)"
    using built_policy by (auto simp: owned_def)
  moreover have "owned b f0 token c
      \<or> (\<exists>token'. token' \<noteq> token \<and> be_digest b token' = be_digest b token \<and> owned b f0 token' c)"
    using t by (cases "token' = token") auto
  ultimately show ?thesis using ok same by (auto simp: system_ok_def cache_ok_def)
qed

text \<open>
  A sequence of requests against one factory, starting from a sound cache, answers each with
  an error or a client of the request's token digest, and keeps the cache sound; a call without a
  token is refused and changes nothing; and one call is a run of the concurrent steps.
\<close>

theorem bearer_requests_served:
  assumes "cache_ok b f"
  shows "list_all (answered_own (\<lambda>f token. owned_key b f (be_digest b token)) f)
           (zip reqs (fst (serve (ClientFor b) reqs f)))
     \<and> cache_ok b (snd (serve (ClientFor b) reqs f))
     \<and> ClientFor b now '''' f = (Inl (Sentinel ErrNoBearerToken), f)
     \<and> (factory_step b)\<^sup>*\<^sup>* (f, cs)
         (snd (ClientFor b now token f), cs @ [Answered token (fst (ClientFor b now token f))])"
  using bearer.serve_own [OF assms] bearer.serve_ok [OF assms] bearer.no_token ClientFor_steps
  by blast

text \<open>
  A client that was built and stored is handed out again, without building, exactly until its
  expiry, which is the token's own expiry if it has one, but never more than ten minutes away, and
  five minutes for a token without an expiry.
\<close>

theorem client_cached_until_expiry:
  assumes "token \<noteq> ''''" and "cache_lookup f (be_digest b token) now = None"
    and "build_client (be_libs b) f token = Inr c" and "length (bf_cache f) < bf_maxEntries f"
  shows "cache_lookup (snd (ClientFor b now token f)) (be_digest b token) later
       = (if later < clientExpiry (be_exp_claim b) token now then Some c else None)
     \<and> clientExpiry (be_exp_claim b) token now
       = (case tokenExpiry (be_exp_claim b) token of
            None \<Rightarrow> now + 300000000000 | Some e \<Rightarrow> min e (now + 600000000000))"
  using assms
  by (simp add: ClientFor_def cache_store_def Let_def cache_lookup_def update_conv' clientExpiry_def
      min_def defaultClientTTL_def maxClientTTL_def second_def split: option.split)

text \<open>
  Without an explicit kubeconfig the in-cluster configuration wins over the KUBECONFIG
  variable, which wins over the file in the home directory; an explicit kubeconfig is the only one
  that is tried.
\<close>

theorem load_config_order:
  "loadConfig src kubeconfig =
     (case filter (\<lambda>(wanted, _). wanted)
        [(kubeconfig \<noteq> '''', BuildConfigFromFlags src kubeconfig),
         (\<exists>config. InClusterConfig src = Inr config, InClusterConfig src),
         (KubeconfigEnv src \<noteq> '''', BuildConfigFromFlags src (KubeconfigEnv src)),
         (HomeDir src \<noteq> '''' \<and> FileExists src (HomeDir src @ ''/.kube/config''),
            BuildConfigFromFlags src (HomeDir src @ ''/.kube/config''))] of
        [] \<Rightarrow> Inl (Errorf ''no kubeconfig found'' [])
      | (_, r) # _ \<Rightarrow> r)"
  by (cases "InClusterConfig src") (auto simp: loadConfig_def)

subsection \<open>Examples\<close>

definition example_libs :: "(unit, unit, world) libs" where
  "example_libs = \<lparr>kubernetes_NewForConfig = (\<lambda>_. Inr ()), client_New = (\<lambda>_. Inr ()),
     add_core_types = None, add_capi_types = None, add_control_plane_types = None,
     add_addons_types = None, server_of = (\<lambda>_ _. memory)\<rparr>"

definition example_bearer :: "(unit, unit, world) bearer_env" where
  "example_bearer = \<lparr>be_libs = example_libs, be_digest = (\<lambda>t. rev t), be_exp_claim = (\<lambda>_. None)\<rparr>"

definition example_factory :: "world BearerClientFactory" where
  "example_factory = SetWritePolicy open_policy (NewBearerClientFactory ''https://api:6443'' '''' '''')"

definition example_built :: "world Client" where
  "example_built = \<lparr>Kube = memory, policy = open_policy, config_host = Some ''https://api:6443''\<rparr>"

lemma example_build: "build_client (be_libs example_bearer) example_factory t = Inr example_built"
  by (simp add: build_client_def NewClientFromConfig_def example_bearer_def example_libs_def newScheme_def
      example_factory_def SetWritePolicy_def NewBearerClientFactory_def restConfig_def WithWritePolicy_def
      example_built_def)

lemma example_factory_empty: "bf_cache example_factory = []" "bf_maxEntries example_factory = 1000"
  by (simp_all add: example_factory_def SetWritePolicy_def NewBearerClientFactory_def defaultMaxClients_def)

lemma example_factory_ok: "cache_ok example_bearer example_factory"
  by (simp add: cache_ok_def example_factory_empty)

lemma example_answer: "fst (ClientFor example_bearer 0 ''tok'' example_factory) = Inr example_built"
  by (simp add: ClientFor_def cache_lookup_def example_factory_empty example_build)

theorem bearer_clients_isolated_witness:
  "\<exists>f. (factory_step example_bearer)\<^sup>*\<^sup>* (example_factory, []) (f, [Answered ''tok'' (Inr example_built)])
     \<and> length (bf_cache f) \<le> 1000 \<and> policy example_built = bf_policy example_factory"
proof -
  have run: "(factory_step example_bearer)\<^sup>*\<^sup>* (example_factory, [])
      (snd (ClientFor example_bearer 0 ''tok'' example_factory), [Answered ''tok'' (Inr example_built)])"
    using ClientFor_steps [of example_bearer example_factory "[]" 0 "''tok''"] by (simp add: example_answer)
  from bearer_clients_isolated [OF run example_factory_ok, of "''tok''" example_built] run
  show ?thesis by (auto simp: example_factory_empty)
qed

theorem bearer_requests_served_witness:
  "list_all (answered_own (\<lambda>f token. owned_key example_bearer f (be_digest example_bearer token)) example_factory)
     (zip [(0, ''tok''), (1, ''tok'')] (fst (serve (ClientFor example_bearer) [(0, ''tok''), (1, ''tok'')] example_factory)))"
  using bearer_requests_served [OF example_factory_ok] by blast

theorem client_cached_until_expiry_witness:
  "cache_lookup (snd (ClientFor example_bearer 0 ''tok'' example_factory)) (be_digest example_bearer ''tok'') 7
     = (if 7 < clientExpiry (be_exp_claim example_bearer) ''tok'' 0 then Some example_built else None)"
  by (rule client_cached_until_expiry [THEN conjunct1])
    (simp_all add: cache_lookup_def example_factory_empty example_build)


end
