(* ===== verification/Capi_Tools.thy ===== *)
theory Capi_Tools
  imports Capi_Policy
begin

section \<open>Which tools a server offers (pkg/mcp/handlers/readonly.go, registry.go)\<close>

text \<open>
  The registry of tools with their parameters and handlers, the classification of the tools, the
  annotations derived from it, and the filter that decides by the write policy which tools are
  registered.  Of a tool's definition the prose is left out: a tool is its name, its parameters
  (name, JSON type and whether it is required, in order) and the name of the handler that serves it.
\<close>

subsection \<open>The classification\<close>

definition readOnlyTools :: "string list" where
  "readOnlyTools = [
     ''capi_list_clusters'', ''capi_get_cluster'', ''capi_cluster_status'',
     ''capi_cluster_health'', ''capi_backup_cluster'', ''capi_move_cluster'',
     ''capi_list_machines'', ''capi_get_machine'', ''capi_list_machinesets'',
     ''capi_get_machineset'', ''capi_node_status'', ''capi_list_machinedeployments'',
     ''capi_list_infrastructure_providers'', ''capi_get_provider_config'',
     ''capi_aws_list_clusters'', ''capi_aws_get_cluster'', ''capi_aws_get_machine_template'',
     ''capi_azure_list_clusters'', ''capi_azure_get_cluster'', ''capi_gcp_list_clusters'',
     ''capi_gcp_get_cluster'', ''capi_vsphere_list_clusters'', ''capi_vsphere_get_cluster'',
     ''capi_list_cluster_resource_sets'', ''capi_get_cluster_resource_set'']"

definition mutatingTools :: "string list" where
  "mutatingTools = [
     ''capi_create_cluster'', ''capi_scale_cluster'', ''capi_pause_cluster'',
     ''capi_resume_cluster'', ''capi_delete_cluster'', ''capi_upgrade_cluster'',
     ''capi_update_cluster'', ''capi_delete_machine'', ''capi_remediate_machine'',
     ''capi_create_machinedeployment'', ''capi_scale_machinedeployment'',
     ''capi_update_machinedeployment'', ''capi_rollout_machinedeployment'', ''capi_drain_node'',
     ''capi_cordon_node'', ''capi_create_cluster_resource_set'',
     ''capi_delete_cluster_resource_set'', ''capi_kubectl'', ''capi_helm'']"

definition credentialTools :: "string list" where
  "credentialTools = [
     ''capi_get_kubeconfig'']"

definition additiveTools :: "string list" where
  "additiveTools = [
     ''capi_create_cluster'', ''capi_create_machinedeployment'',
     ''capi_create_cluster_resource_set'']"

definition idempotentWrites :: "string list" where
  "idempotentWrites = [
     ''capi_scale_cluster'', ''capi_pause_cluster'', ''capi_resume_cluster'',
     ''capi_update_cluster'', ''capi_scale_machinedeployment'',
     ''capi_update_machinedeployment'', ''capi_cordon_node'']"

definition IsReadOnlyTool :: "string \<Rightarrow> bool" where
  "IsReadOnlyTool name = List.member readOnlyTools name"

definition IsCredentialTool :: "string \<Rightarrow> bool" where
  "IsCredentialTool name = List.member credentialTools name"

definition IsMutatingTool :: "string \<Rightarrow> bool" where
  "IsMutatingTool name = List.member mutatingTools name"

record ToolAnnotation =
  ReadOnlyHint :: bool
  DestructiveHint :: bool
  IdempotentHint :: bool
  OpenWorldHint :: bool

definition annotationsFor :: "string \<Rightarrow> ToolAnnotation" where
  "annotationsFor name =
     (if IsReadOnlyTool name \<or> IsCredentialTool name then
        \<lparr>ReadOnlyHint = True, DestructiveHint = False, IdempotentHint = True, OpenWorldHint = False\<rparr>
      else
        \<lparr>ReadOnlyHint = False, DestructiveHint = (\<not> List.member additiveTools name),
         IdempotentHint = List.member idempotentWrites name, OpenWorldHint = False\<rparr>)"

subsection \<open>The registry\<close>

datatype param_type = PString | PNumber | PBoolean | PArray | PObject

record tool_param =
  TP_Type :: param_type
  TP_Name :: string
  TP_Required :: bool

record ToolRegistration =
  TR_Name :: string
  TR_Handler :: string
  TR_Params :: "tool_param list"
  TR_Annotations :: "ToolAnnotation option"

definition required :: "param_type \<Rightarrow> string \<Rightarrow> tool_param" where
  "required t n = \<lparr>TP_Type = t, TP_Name = n, TP_Required = True\<rparr>"

definition optional :: "param_type \<Rightarrow> string \<Rightarrow> tool_param" where
  "optional t n = \<lparr>TP_Type = t, TP_Name = n, TP_Required = False\<rparr>"

definition tool :: "string \<Rightarrow> string \<Rightarrow> tool_param list \<Rightarrow> ToolRegistration" where
  "tool name handler params =
     \<lparr>TR_Name = name, TR_Handler = handler, TR_Params = params, TR_Annotations = None\<rparr>"

definition create_cluster_tool :: ToolRegistration where
  "create_cluster_tool =
   tool ''capi_create_cluster'' ''CreateCreateClusterHandler''
     [required PString ''name'', required PString ''namespace'',
      required PString ''cluster_class'', required PString ''kubernetes_version'',
      optional PNumber ''control_plane_replicas'',
      optional PArray ''machine_deployments'', optional PObject ''variables'',
      optional PObject ''cluster_network'']"

definition list_clusters_tool :: ToolRegistration where
  "list_clusters_tool =
   tool ''capi_list_clusters'' ''CreateListClustersHandler''
     [optional PString ''namespace'', optional PObject ''label_selector'',
      optional PString ''search'']"

definition get_cluster_tool :: ToolRegistration where
  "get_cluster_tool =
   tool ''capi_get_cluster'' ''CreateGetClusterHandler''
     [required PString ''namespace'', required PString ''name'']"

definition cluster_status_tool :: ToolRegistration where
  "cluster_status_tool =
   tool ''capi_cluster_status'' ''CreateClusterStatusHandler''
     [required PString ''namespace'', required PString ''name'']"

definition cluster_health_tool :: ToolRegistration where
  "cluster_health_tool =
   tool ''capi_cluster_health'' ''CreateClusterHealthHandler''
     [required PString ''namespace'', required PString ''name'']"

definition scale_cluster_tool :: ToolRegistration where
  "scale_cluster_tool =
   tool ''capi_scale_cluster'' ''CreateScaleClusterHandler''
     [required PString ''namespace'', required PString ''name'',
      required PString ''target'', required PNumber ''replicas'',
      optional PString ''machineDeployment'']"

definition get_kubeconfig_tool :: ToolRegistration where
  "get_kubeconfig_tool =
   tool ''capi_get_kubeconfig'' ''CreateGetKubeconfigHandler''
     [required PString ''namespace'', required PString ''name'']"

definition kubectl_tool :: ToolRegistration where
  "kubectl_tool =
   tool ''capi_kubectl'' ''CreateKubectlHandler''
     [required PString ''namespace'', required PString ''cluster_name'',
      required PArray ''args'', optional PString ''as'', optional PString ''stdin'']"

definition helm_tool :: ToolRegistration where
  "helm_tool =
   tool ''capi_helm'' ''CreateHelmHandler''
     [required PString ''namespace'', required PString ''cluster_name'',
      required PArray ''args'']"

definition pause_cluster_tool :: ToolRegistration where
  "pause_cluster_tool =
   tool ''capi_pause_cluster'' ''CreatePauseClusterHandler''
     [required PString ''namespace'', required PString ''name'']"

definition resume_cluster_tool :: ToolRegistration where
  "resume_cluster_tool =
   tool ''capi_resume_cluster'' ''CreateResumeClusterHandler''
     [required PString ''namespace'', required PString ''name'']"

definition delete_cluster_tool :: ToolRegistration where
  "delete_cluster_tool =
   tool ''capi_delete_cluster'' ''CreateDeleteClusterHandler''
     [required PString ''namespace'', required PString ''name'',
      optional PBoolean ''force'']"

definition upgrade_cluster_tool :: ToolRegistration where
  "upgrade_cluster_tool =
   tool ''capi_upgrade_cluster'' ''CreateUpgradeClusterHandler''
     [required PString ''namespace'', required PString ''name'',
      required PString ''target_version'', optional PBoolean ''upgrade_workers'']"

definition update_cluster_tool :: ToolRegistration where
  "update_cluster_tool =
   tool ''capi_update_cluster'' ''CreateUpdateClusterHandler''
     [required PString ''namespace'', required PString ''name'',
      optional PObject ''labels'', optional PObject ''annotations'']"

definition move_cluster_tool :: ToolRegistration where
  "move_cluster_tool =
   tool ''capi_move_cluster'' ''CreateMoveClusterHandler''
     [required PString ''namespace'', required PString ''name'',
      optional PString ''target_kubeconfig'', optional PString ''target_namespace'',
      optional PBoolean ''dry_run'']"

definition backup_cluster_tool :: ToolRegistration where
  "backup_cluster_tool =
   tool ''capi_backup_cluster'' ''CreateBackupClusterHandler''
     [required PString ''namespace'', required PString ''name'',
      optional PBoolean ''include_secrets'', optional PString ''output_format'']"

definition buildClusterTools :: "ToolRegistration list" where
  "buildClusterTools = [
     create_cluster_tool, list_clusters_tool, get_cluster_tool, cluster_status_tool,
     cluster_health_tool, scale_cluster_tool, get_kubeconfig_tool, kubectl_tool, helm_tool,
     pause_cluster_tool, resume_cluster_tool, delete_cluster_tool, upgrade_cluster_tool,
     update_cluster_tool, move_cluster_tool, backup_cluster_tool]"

definition buildResourceSetTools :: "ToolRegistration list" where
  "buildResourceSetTools = [
     tool ''capi_create_cluster_resource_set'' ''CreateCreateClusterResourceSetHandler''
       [required PString ''name'', required PString ''namespace'',
        required PObject ''cluster_selector'', required PArray ''resources'',
        optional PString ''strategy''],
     tool ''capi_list_cluster_resource_sets'' ''CreateListClusterResourceSetsHandler''
       [optional PString ''namespace''],
     tool ''capi_get_cluster_resource_set'' ''CreateGetClusterResourceSetHandler''
       [required PString ''namespace'', required PString ''name''],
     tool ''capi_delete_cluster_resource_set'' ''CreateDeleteClusterResourceSetHandler''
       [required PString ''namespace'', required PString ''name'']]"

definition list_machines_tool :: ToolRegistration where
  "list_machines_tool =
   tool ''capi_list_machines'' ''CreateListMachinesHandler''
     [required PString ''namespace'', optional PString ''clusterName'']"

definition get_machine_tool :: ToolRegistration where
  "get_machine_tool =
   tool ''capi_get_machine'' ''CreateGetMachineHandler''
     [required PString ''namespace'', required PString ''name'']"

definition delete_machine_tool :: ToolRegistration where
  "delete_machine_tool =
   tool ''capi_delete_machine'' ''CreateDeleteMachineHandler''
     [required PString ''namespace'', required PString ''name'',
      optional PBoolean ''force'']"

definition remediate_machine_tool :: ToolRegistration where
  "remediate_machine_tool =
   tool ''capi_remediate_machine'' ''CreateRemediateMachineHandler''
     [required PString ''namespace'', required PString ''name'']"

definition list_machinedeployments_tool :: ToolRegistration where
  "list_machinedeployments_tool =
   tool ''capi_list_machinedeployments'' ''CreateListMachineDeploymentsHandler''
     [required PString ''namespace'', optional PString ''clusterName'']"

definition create_machinedeployment_tool :: ToolRegistration where
  "create_machinedeployment_tool =
   tool ''capi_create_machinedeployment'' ''CreateCreateMachineDeploymentHandler''
     [required PString ''namespace'', required PString ''name'',
      required PString ''cluster_name'', optional PNumber ''replicas'',
      optional PString ''version'', required PString ''infra_kind'',
      required PString ''infra_name'', optional PString ''infra_api_version'',
      required PString ''bootstrap_kind'', required PString ''bootstrap_name'',
      optional PString ''bootstrap_api_version'']"

definition scale_machinedeployment_tool :: ToolRegistration where
  "scale_machinedeployment_tool =
   tool ''capi_scale_machinedeployment'' ''CreateScaleMachineDeploymentHandler''
     [required PString ''namespace'', required PString ''name'',
      required PNumber ''replicas'']"

definition update_machinedeployment_tool :: ToolRegistration where
  "update_machinedeployment_tool =
   tool ''capi_update_machinedeployment'' ''CreateUpdateMachineDeploymentHandler''
     [required PString ''namespace'', required PString ''name'',
      optional PString ''version'', optional PNumber ''replicas'',
      optional PNumber ''min_ready_seconds'', optional PObject ''labels'',
      optional PObject ''annotations'']"

definition rollout_machinedeployment_tool :: ToolRegistration where
  "rollout_machinedeployment_tool =
   tool ''capi_rollout_machinedeployment'' ''CreateRolloutMachineDeploymentHandler''
     [required PString ''namespace'', required PString ''name'',
      optional PString ''reason'']"

definition list_machinesets_tool :: ToolRegistration where
  "list_machinesets_tool =
   tool ''capi_list_machinesets'' ''CreateListMachineSetsHandler''
     [required PString ''namespace'', optional PString ''clusterName'']"

definition get_machineset_tool :: ToolRegistration where
  "get_machineset_tool =
   tool ''capi_get_machineset'' ''CreateGetMachineSetHandler''
     [required PString ''namespace'', required PString ''name'']"

definition drain_node_tool :: ToolRegistration where
  "drain_node_tool =
   tool ''capi_drain_node'' ''CreateDrainNodeHandler''
     [optional PString ''namespace'', optional PString ''machine_name'',
      optional PString ''node_name'', optional PBoolean ''ignore_daemonsets'',
      optional PBoolean ''delete_local_data'', optional PBoolean ''force'',
      optional PNumber ''grace_period_seconds'', optional PNumber ''timeout_seconds'']"

definition cordon_node_tool :: ToolRegistration where
  "cordon_node_tool =
   tool ''capi_cordon_node'' ''CreateCordonNodeHandler''
     [optional PString ''namespace'', optional PString ''machine_name'',
      optional PString ''node_name'', optional PBoolean ''uncordon'']"

definition node_status_tool :: ToolRegistration where
  "node_status_tool =
   tool ''capi_node_status'' ''CreateNodeStatusHandler''
     [optional PString ''namespace'', optional PString ''machine_name'',
      optional PString ''node_name'']"

definition buildMachineTools :: "ToolRegistration list" where
  "buildMachineTools = [
     list_machines_tool, get_machine_tool, delete_machine_tool, remediate_machine_tool,
     list_machinedeployments_tool, create_machinedeployment_tool, scale_machinedeployment_tool,
     update_machinedeployment_tool, rollout_machinedeployment_tool, list_machinesets_tool,
     get_machineset_tool, drain_node_tool, cordon_node_tool, node_status_tool]"

definition list_infrastructure_providers_tool :: ToolRegistration where
  "list_infrastructure_providers_tool =
   tool ''capi_list_infrastructure_providers'' ''CreateListInfrastructureProvidersHandler''
     []"

definition get_provider_config_tool :: ToolRegistration where
  "get_provider_config_tool =
   tool ''capi_get_provider_config'' ''CreateGetProviderConfigHandler''
     [required PString ''provider'']"

definition aws_list_clusters_tool :: ToolRegistration where
  "aws_list_clusters_tool =
   tool ''capi_aws_list_clusters'' ''CreateAWSListClustersHandler''
     [optional PString ''namespace'']"

definition aws_get_cluster_tool :: ToolRegistration where
  "aws_get_cluster_tool =
   tool ''capi_aws_get_cluster'' ''CreateAWSGetClusterHandler''
     [required PString ''namespace'', required PString ''name'']"

definition aws_get_machine_template_tool :: ToolRegistration where
  "aws_get_machine_template_tool =
   tool ''capi_aws_get_machine_template'' ''CreateAWSGetMachineTemplateHandler''
     [required PString ''namespace'', optional PString ''name'']"

definition azure_list_clusters_tool :: ToolRegistration where
  "azure_list_clusters_tool =
   tool ''capi_azure_list_clusters'' ''CreateAzureListClustersHandler''
     [optional PString ''namespace'']"

definition azure_get_cluster_tool :: ToolRegistration where
  "azure_get_cluster_tool =
   tool ''capi_azure_get_cluster'' ''CreateAzureGetClusterHandler''
     [required PString ''namespace'', required PString ''name'']"

definition gcp_list_clusters_tool :: ToolRegistration where
  "gcp_list_clusters_tool =
   tool ''capi_gcp_list_clusters'' ''CreateGCPListClustersHandler''
     [optional PString ''namespace'']"

definition gcp_get_cluster_tool :: ToolRegistration where
  "gcp_get_cluster_tool =
   tool ''capi_gcp_get_cluster'' ''CreateGCPGetClusterHandler''
     [required PString ''namespace'', required PString ''name'']"

definition vsphere_list_clusters_tool :: ToolRegistration where
  "vsphere_list_clusters_tool =
   tool ''capi_vsphere_list_clusters'' ''CreateVSphereListClustersHandler''
     [optional PString ''namespace'']"

definition vsphere_get_cluster_tool :: ToolRegistration where
  "vsphere_get_cluster_tool =
   tool ''capi_vsphere_get_cluster'' ''CreateVSphereGetClusterHandler''
     [required PString ''namespace'', required PString ''name'']"

definition buildProviderTools :: "ToolRegistration list" where
  "buildProviderTools = [
     list_infrastructure_providers_tool, get_provider_config_tool, aws_list_clusters_tool,
     aws_get_cluster_tool, aws_get_machine_template_tool, azure_list_clusters_tool,
     azure_get_cluster_tool, gcp_list_clusters_tool, gcp_get_cluster_tool,
     vsphere_list_clusters_tool, vsphere_get_cluster_tool]"

definition buildTools :: "ToolRegistration list" where
  "buildTools = buildClusterTools @ buildResourceSetTools @ buildMachineTools @ buildProviderTools"

lemmas tool_defs =
  create_cluster_tool_def list_clusters_tool_def get_cluster_tool_def cluster_status_tool_def
  cluster_health_tool_def scale_cluster_tool_def get_kubeconfig_tool_def kubectl_tool_def
  helm_tool_def pause_cluster_tool_def resume_cluster_tool_def delete_cluster_tool_def
  upgrade_cluster_tool_def update_cluster_tool_def move_cluster_tool_def backup_cluster_tool_def
  list_machines_tool_def get_machine_tool_def delete_machine_tool_def remediate_machine_tool_def
  list_machinedeployments_tool_def create_machinedeployment_tool_def
  scale_machinedeployment_tool_def update_machinedeployment_tool_def
  rollout_machinedeployment_tool_def list_machinesets_tool_def get_machineset_tool_def
  drain_node_tool_def cordon_node_tool_def node_status_tool_def
  list_infrastructure_providers_tool_def get_provider_config_tool_def aws_list_clusters_tool_def
  aws_get_cluster_tool_def aws_get_machine_template_tool_def azure_list_clusters_tool_def
  azure_get_cluster_tool_def gcp_list_clusters_tool_def gcp_get_cluster_tool_def
  vsphere_list_clusters_tool_def vsphere_get_cluster_tool_def

text \<open>The loop of \<open>BuildAllTools\<close>: a tool that is left out is skipped with \<open>continue\<close>.\<close>

fun filter_tools :: "WritePolicy \<Rightarrow> ToolRegistration list \<Rightarrow> ToolRegistration list" where
  "filter_tools p [] = []"
| "filter_tools p (reg # regs) =
     (let name = TR_Name reg in
      if IsCredentialTool name \<and> \<not> ExposeKubeconfig p then filter_tools p regs
      else if \<not> IsCredentialTool name \<and> IsMutatingTool name \<and> ReadOnly p then filter_tools p regs
      else reg\<lparr>TR_Annotations := Some (annotationsFor name)\<rparr> # filter_tools p regs)"

definition BuildAllTools :: "WritePolicy \<Rightarrow> ToolRegistration list" where
  "BuildAllTools p = filter_tools p buildTools"

subsection \<open>The classification covers the registry\<close>

lemma tool_names:
  "map TR_Name buildTools = map TR_Name buildClusterTools @ map TR_Name buildResourceSetTools
     @ map TR_Name buildMachineTools @ map TR_Name buildProviderTools"
  by (simp add: buildTools_def)

definition one_class :: "string \<Rightarrow> bool" where
  "one_class n = (if IsReadOnlyTool n then \<not> IsMutatingTool n \<and> \<not> IsCredentialTool n
     else if IsMutatingTool n then \<not> IsCredentialTool n else IsCredentialTool n)"

lemma registry_classified: "list_all one_class (map TR_Name buildTools)"
  by code_simp

lemma registry_distinct: "distinct (map TR_Name buildTools)"
  by code_simp

text \<open>What the documentation of the filter promises, tool by tool.\<close>

definition offered :: "WritePolicy \<Rightarrow> string \<Rightarrow> bool" where
  "offered p n \<longleftrightarrow> IsReadOnlyTool n \<or> IsMutatingTool n \<and> \<not> ReadOnly p
     \<or> IsCredentialTool n \<and> ExposeKubeconfig p"

lemma one_class_offered:
  assumes "one_class n"
  shows "offered p n \<longleftrightarrow> \<not> (IsCredentialTool n \<and> \<not> ExposeKubeconfig p)
     \<and> \<not> (\<not> IsCredentialTool n \<and> IsMutatingTool n \<and> ReadOnly p)"
  using assms by (auto simp: offered_def one_class_def split: if_splits)

lemma filter_tools_names:
  "list_all one_class (map TR_Name regs) \<Longrightarrow>
     map TR_Name (filter_tools p regs) = filter (offered p) (map TR_Name regs)"
  by (induction p regs rule: filter_tools.induct) (simp_all add: Let_def one_class_offered)

lemma filter_tools_sub:
  "r \<in> set (filter_tools p regs) \<Longrightarrow> \<exists>r0 \<in> set regs. TR_Name r = TR_Name r0 \<and> TR_Handler r = TR_Handler r0
     \<and> TR_Params r = TR_Params r0 \<and> TR_Annotations r = Some (annotationsFor (TR_Name r0))"
  by (induction p regs rule: filter_tools.induct) (auto simp: Let_def split: if_splits)

lemma registry_names_set:
  "set (map TR_Name buildTools) = set readOnlyTools \<union> set mutatingTools \<union> set credentialTools"
proof -
  have "list_all (\<lambda>n. List.member (map TR_Name buildTools) n) (readOnlyTools @ mutatingTools @ credentialTools)"
    by code_simp
  then have "set readOnlyTools \<union> set mutatingTools \<union> set credentialTools \<subseteq> set (map TR_Name buildTools)"
    by (auto simp: list_all_iff)
  moreover have "set (map TR_Name buildTools) \<subseteq> set readOnlyTools \<union> set mutatingTools \<union> set credentialTools"
    using registry_classified
    by (auto simp: list_all_iff one_class_def IsReadOnlyTool_def IsMutatingTool_def IsCredentialTool_def
        split: if_splits)
  ultimately show ?thesis by blast
qed

definition annotation_ok :: "string \<Rightarrow> ToolAnnotation \<Rightarrow> bool" where
  "annotation_ok n a \<longleftrightarrow> ReadOnlyHint a = (\<not> IsMutatingTool n)
     \<and> DestructiveHint a = (IsMutatingTool n \<and> \<not> List.member additiveTools n)
     \<and> IdempotentHint a = (\<not> IsMutatingTool n \<or> List.member idempotentWrites n)
     \<and> \<not> OpenWorldHint a"

lemma one_class_annotation:
  assumes "one_class n"
  shows "annotation_ok n (annotationsFor n)"
  using assms by (auto simp: annotation_ok_def annotationsFor_def one_class_def split: if_splits)

lemma write_hints_mutate:
  "list_all (\<lambda>n. IsMutatingTool n \<and> \<not> List.member idempotentWrites n) additiveTools
     \<and> list_all IsMutatingTool idempotentWrites"
  by (rule conjI; code_simp)

subsection \<open>Properties\<close>

text \<open>
  C25. The three classes together name exactly the tools of the registry, no tool twice and each in
  one class, and a server offers exactly the read-only tools, the mutating ones unless it is
  read-only, and the credential ones if kubeconfigs may be exposed, in the registry's order.
\<close>

theorem tools_offered:
  "map TR_Name (BuildAllTools p) = filter (offered p) (map TR_Name buildTools)
   \<and> distinct (map TR_Name buildTools)
   \<and> set (map TR_Name buildTools) = set readOnlyTools \<union> set mutatingTools \<union> set credentialTools
   \<and> list_all one_class (map TR_Name buildTools)"
  using filter_tools_names [OF registry_classified] registry_distinct registry_names_set
    registry_classified
  by (simp add: BuildAllTools_def)

text \<open>
  Every offered tool keeps the registry's name, parameters and handler and carries the hints
  of its class: read-only unless it mutates, destructive if it mutates and does more than create,
  idempotent unless it mutates in a way a repetition would continue.
\<close>

theorem offered_tools_annotated:
  "list_all (\<lambda>r. (\<exists>r0 \<in> set buildTools. TR_Name r = TR_Name r0 \<and> TR_Handler r = TR_Handler r0
        \<and> TR_Params r = TR_Params r0)
      \<and> (\<exists>a. TR_Annotations r = Some a \<and> annotation_ok (TR_Name r) a)) (BuildAllTools p)
   \<and> list_all (\<lambda>n. IsMutatingTool n \<and> \<not> List.member idempotentWrites n) additiveTools
   \<and> list_all IsMutatingTool idempotentWrites"
proof -
  have "annotation_ok (TR_Name r) (annotationsFor (TR_Name r))" if "r \<in> set buildTools" for r
    using that registry_classified one_class_annotation by (auto simp: list_all_iff)
  then have "list_all (\<lambda>r. (\<exists>r0 \<in> set buildTools. TR_Name r = TR_Name r0 \<and> TR_Handler r = TR_Handler r0
        \<and> TR_Params r = TR_Params r0)
      \<and> (\<exists>a. TR_Annotations r = Some a \<and> annotation_ok (TR_Name r) a)) (BuildAllTools p)"
    using filter_tools_sub by (fastforce simp: list_all_iff BuildAllTools_def)
  then show ?thesis using write_hints_mutate by blast
qed


end
