(* ===== verification/Capi_OAuth.thy ===== *)
theory Capi_OAuth
  imports Capi_Bearer
begin

section \<open>The caller's identity (pkg/oauth: config.go, identity.go, server.go)\<close>

text \<open>
  Reading the OAuth configuration from the environment, checking it, decoding the encryption key,
  and resolving the OIDC ID token of a request into its context.  The token store and the user
  that the token validation resolved come from mcp-oauth and are arguments.  Environment values
  and headers are ASCII where they are trimmed or compared without case.
\<close>

subsection \<open>Strings\<close>

definition space :: "char \<Rightarrow> bool" where
  "space c = (let n = of_char c :: nat in n = 32 \<or> 9 \<le> n \<and> n \<le> 13)"

definition TrimSpace :: "string \<Rightarrow> string" where
  "TrimSpace s = rev (dropWhile space (rev (dropWhile space s)))"

subsection \<open>Configuration\<close>

record Config =
  Issuer :: string
  EncryptionKey :: string
  AllowPublicRegistration :: bool
  StorageType :: string
  ValkeyURL :: string
  ValkeyPassword :: string
  ValkeyTLS :: bool
  ValkeyKeyPrefix :: string
  OAuthProvider :: string
  RedirectURL :: string
  GoogleClientID :: string
  GoogleClientSecret :: string
  DexIssuerURL :: string
  DexClientID :: string
  DexClientSecret :: string
  KubernetesAudience :: string
  TrustedAudiences :: "string list"
  AllowPrivateURLs :: bool
  DexCAFile :: string

definition ProviderDex :: string where "ProviderDex = ''dex''"
definition ProviderGoogle :: string where "ProviderGoogle = ''google''"
definition StorageTypeValkey :: string where "StorageTypeValkey = ''valkey''"
definition envTrue :: string where "envTrue = ''true''"

text \<open>The environment is a function to the value of a set variable.\<close>

definition configFromLookup :: "(string \<Rightarrow> string option) \<Rightarrow> Config" where
  "configFromLookup lookup =
     (let get = (\<lambda>k. TrimSpace (case lookup k of None \<Rightarrow> '''' | Some v \<Rightarrow> v));
          cfg = \<lparr>Issuer = get ''MCP_OAUTH_ISSUER'',
            EncryptionKey = get ''MCP_OAUTH_ENCRYPTION_KEY'',
            AllowPublicRegistration = (get ''MCP_OAUTH_ALLOW_PUBLIC_REGISTRATION'' = envTrue),
            StorageType = get ''OAUTH_STORAGE'',
            ValkeyURL = get ''VALKEY_URL'',
            ValkeyPassword = get ''VALKEY_PASSWORD'',
            ValkeyTLS = (get ''VALKEY_TLS_ENABLED'' = envTrue),
            ValkeyKeyPrefix = get ''VALKEY_KEY_PREFIX'',
            OAuthProvider = ToLower (get ''MCP_OAUTH_PROVIDER''),
            RedirectURL = get ''OAUTH_REDIRECT_URL'',
            GoogleClientID = get ''GOOGLE_CLIENT_ID'',
            GoogleClientSecret = get ''GOOGLE_CLIENT_SECRET'',
            DexIssuerURL = get ''DEX_ISSUER_URL'',
            DexClientID = get ''DEX_CLIENT_ID'',
            DexClientSecret = get ''DEX_CLIENT_SECRET'',
            KubernetesAudience = get ''DEX_K8S_AUTHENTICATOR_CLIENT_ID'',
            TrustedAudiences = [],
            AllowPrivateURLs = (get ''MCP_OAUTH_ALLOW_PRIVATE_URLS'' = envTrue),
            DexCAFile = get ''DEX_CA_FILE''\<rparr>;
          cfg = (if OAuthProvider cfg = '''' then cfg\<lparr>OAuthProvider := ProviderDex\<rparr> else cfg);
          cfg = (if RedirectURL cfg = '''' then cfg\<lparr>RedirectURL := get ''DEX_REDIRECT_URL''\<rparr> else cfg)
      in cfg\<lparr>TrustedAudiences := filter (\<lambda>a. a \<noteq> '''')
           (map TrimSpace (split_at (CHR '','') (get ''OAUTH_TRUSTED_AUDIENCES'')))\<rparr>)"

subsection \<open>The encryption key\<close>

definition hex_value :: "char \<Rightarrow> nat option" where
  "hex_value c = (let n = of_char c :: nat in
     if 48 \<le> n \<and> n \<le> 57 then Some (n - 48)
     else if 97 \<le> n \<and> n \<le> 102 then Some (n - 87)
     else if 65 \<le> n \<and> n \<le> 70 then Some (n - 55)
     else None)"

fun hex_DecodeString :: "string \<Rightarrow> string option" where
  "hex_DecodeString [] = Some []"
| "hex_DecodeString [c] = None"
| "hex_DecodeString (c # d # s) =
     (case hex_value c of None \<Rightarrow> None | Some a \<Rightarrow>
      (case hex_value d of None \<Rightarrow> None | Some b \<Rightarrow>
       map_option (\<lambda>r. char_of (a * 16 + b) # r) (hex_DecodeString s)))"

definition base64std_value :: "char \<Rightarrow> nat option" where
  "base64std_value c = (let n = of_char c :: nat in
     if 65 \<le> n \<and> n \<le> 90 then Some (n - 65)
     else if 97 \<le> n \<and> n \<le> 122 then Some (n - 71)
     else if 48 \<le> n \<and> n \<le> 57 then Some (n + 4)
     else if n = 43 then Some 62
     else if n = 47 then Some 63
     else None)"

text \<open>The quantums of four characters; the padding may only end the last one.\<close>

fun std_quantums :: "string \<Rightarrow> nat list option" where
  "std_quantums [] = Some []"
| "std_quantums (c1 # c2 # c3 # c4 # s) =
     (if s = [] \<and> c4 = CHR ''='' then
        those (map base64std_value (if c3 = CHR ''='' then [c1, c2] else [c1, c2, c3]))
      else (case those (map base64std_value [c1, c2, c3, c4]) of
          None \<Rightarrow> None
        | Some vs \<Rightarrow> map_option (\<lambda>r. vs @ r) (std_quantums s)))"
| "std_quantums _ = None"

definition StdEncoding_DecodeString :: "string \<Rightarrow> string option" where
  "StdEncoding_DecodeString s =
     (case std_quantums (filter (\<lambda>c. c \<noteq> CHR 0x0D \<and> c \<noteq> CHR 0x0A) s) of
        None \<Rightarrow> None | Some vs \<Rightarrow> base64_bytes vs)"

text \<open>\<open>corrupt\<close> is the error of the base64 decoder.\<close>

definition decodeKey :: "goerr \<Rightarrow> string \<Rightarrow> goerr + string" where
  "decodeKey corrupt s =
     (case (if length s = 64 then hex_DecodeString s else None) of
        Some b \<Rightarrow> Inr b
      | None \<Rightarrow> (case StdEncoding_DecodeString s of
            None \<Rightarrow> Inl (Errorf ''key must be base64 or hex encoded: %w'' [Fw corrupt])
          | Some b \<Rightarrow> Inr b))"

text \<open>\<open>new_encryptor\<close> is \<open>security.NewEncryptor\<close>; no key is no encryptor.\<close>

definition buildEncryptor :: "goerr \<Rightarrow> (string \<Rightarrow> goerr + 'e) \<Rightarrow> Config \<Rightarrow> goerr + 'e option" where
  "buildEncryptor corrupt new_encryptor cfg =
     (if EncryptionKey cfg = '''' then Inr None
      else (case decodeKey corrupt (EncryptionKey cfg) of
          Inl e \<Rightarrow> Inl (Errorf ''oauth: decode MCP_OAUTH_ENCRYPTION_KEY: %w'' [Fw e])
        | Inr key \<Rightarrow> (case new_encryptor key of
              Inl e \<Rightarrow> Inl (Errorf ''oauth: create encryptor: %w'' [Fw e])
            | Inr enc \<Rightarrow> Inr (Some enc))))"

subsection \<open>Identity of a request\<close>

record UserInfo =
  U_Email :: string
  U_Issuer :: string
  IsExternalIssuer :: bool
  IsSSO :: bool

record request_ctx =
  ctx_user :: "UserInfo option"
  ctx_idToken :: "string option"

record http_request =
  hr_ctx :: request_ctx
  hr_authorization :: string

definition ContextWithIDToken :: "request_ctx \<Rightarrow> string \<Rightarrow> request_ctx" where
  "ContextWithIDToken ctx idToken = ctx\<lparr>ctx_idToken := Some idToken\<rparr>"

text \<open>The pair of the token and whether there is a non-empty one, as an option.\<close>

definition IDTokenFromContext :: "request_ctx \<Rightarrow> string option" where
  "IDTokenFromContext ctx = (case ctx_idToken ctx of
       None \<Rightarrow> None | Some tok \<Rightarrow> if tok \<noteq> '''' then Some tok else None)"

definition UserInfoFromContext :: "request_ctx \<Rightarrow> UserInfo option" where
  "UserInfoFromContext ctx = ctx_user ctx"

definition HTTPContextFunc :: "request_ctx \<Rightarrow> http_request \<Rightarrow> request_ctx" where
  "HTTPContextFunc ctx r =
     (let ctx = (case UserInfoFromContext (hr_ctx r) of None \<Rightarrow> ctx | Some u \<Rightarrow> ctx\<lparr>ctx_user := Some u\<rparr>)
      in (case IDTokenFromContext (hr_ctx r) of None \<Rightarrow> ctx | Some tok \<Rightarrow> ContextWithIDToken ctx tok))"

definition bearerToken :: "http_request \<Rightarrow> string" where
  "bearerToken r = (let h = hr_authorization r in
     if length h > 7 \<and> EqualFold (take 7 h) ''Bearer '' then TrimSpace (drop 7 h) else '''')"

text \<open>
  A token store maps a key to an error, to no token, or to a token, of which only the string
  \<open>id_token\<close> is read (\<open>None\<close> when it is missing or not a string).
\<close>

type_synonym token_store = "string \<Rightarrow> goerr + string option option"

fun found :: "goerr + string option option \<Rightarrow> bool" where
  "found (Inl _) = False"
| "found (Inr None) = False"
| "found (Inr (Some _)) = True"

definition storedIDToken :: "token_store option \<Rightarrow> string \<Rightarrow> UserInfo \<Rightarrow> string" where
  "storedIDToken store accessToken user = (case store of
       None \<Rightarrow> ''''
     | Some get \<Rightarrow>
         let r = get accessToken;
             r = (if \<not> found r \<and> U_Email user \<noteq> '''' then get (U_Email user) else r)
         in (case r of
              Inl _ \<Rightarrow> ''''
            | Inr None \<Rightarrow> ''''
            | Inr (Some extra) \<Rightarrow> (case extra of None \<Rightarrow> '''' | Some idt \<Rightarrow> idt)))"

datatype middleware_outcome = HttpError nat string | ServeNext request_ctx

definition identity :: "token_store option \<Rightarrow> http_request \<Rightarrow> middleware_outcome" where
  "identity store r =
     (case UserInfoFromContext (hr_ctx r) of
        None \<Rightarrow> HttpError 401 ''unauthorized''
      | Some user \<Rightarrow>
          let bearer = bearerToken r in
          if IsExternalIssuer user then HttpError 403 ''forbidden: external-issuer tokens are not supported''
          else
            let idToken = (if IsSSO user then bearer else storedIDToken store bearer user)
            in ServeNext (if idToken \<noteq> '''' then ContextWithIDToken (hr_ctx r) idToken else hr_ctx r))"

subsection \<open>Keys as openssl prints them\<close>

text \<open>The two encodings of a key, as the reference for the decoder.\<close>

definition hex_digit :: "nat \<Rightarrow> char" where
  "hex_digit n = (if n < 10 then char_of (48 + n) else char_of (87 + n))"

fun hex_encode :: "string \<Rightarrow> string" where
  "hex_encode [] = []"
| "hex_encode (c # s) = hex_digit (of_char c div 16) # hex_digit (of_char c mod 16) # hex_encode s"

definition base64_char :: "nat \<Rightarrow> char" where
  "base64_char n = (if n < 26 then char_of (65 + n) else if n < 52 then char_of (71 + n)
     else if n < 62 then char_of (n - 4) else if n = 62 then CHR ''+'' else CHR ''/'')"

fun base64_digits :: "nat list \<Rightarrow> nat list" where
  "base64_digits [] = []"
| "base64_digits [x] = [x div 4, x mod 4 * 16]"
| "base64_digits [x, y] = [x div 4, x mod 4 * 16 + y div 16, y mod 16 * 4]"
| "base64_digits (x # y # z # s) =
     [x div 4, x mod 4 * 16 + y div 16, y mod 16 * 4 + z div 64, z mod 64] @ base64_digits s"

fun pad :: "string \<Rightarrow> string" where
  "pad [] = []"
| "pad [a] = [a]"
| "pad [a, b] = [a, b, CHR ''='', CHR ''='']"
| "pad [a, b, c] = [a, b, c, CHR ''='']"
| "pad (a # b # c # d # s) = [a, b, c, d] @ pad s"

definition base64_encode :: "string \<Rightarrow> string" where
  "base64_encode s = pad (map base64_char (base64_digits (map of_char s)))"

lemma join_parts:
  assumes "b < (m :: nat)"
  shows "(a * m + b) div m = a" and "(a * m + b) mod m = b"
  using assms by simp_all

lemma div_small: "x < m * k \<Longrightarrow> x div m < (k :: nat)"
  by (simp add: less_mult_imp_div_less mult.commute)

lemma hex_value_digit: "n < 16 \<Longrightarrow> hex_value (hex_digit n) = Some n"
  by (simp add: hex_value_def hex_digit_def Let_def of_char_of)

lemma hex_roundtrip: "hex_DecodeString (hex_encode s) = Some s"
proof (induction s)
  case (Cons c s)
  have "(of_char c :: nat) div 16 < 16" and "(of_char c :: nat) mod 16 < 16"
    using nat_of_char_less_256 [of c] by presburger+
  with Cons show ?case by (simp add: hex_value_digit)
qed simp

lemma length_hex: "length (hex_encode s) = 2 * length s"
  by (induction s) simp_all

lemma base64_value_char:
  assumes "n < 64"
  shows "base64std_value (base64_char n) = Some n" and "base64_char n \<noteq> CHR ''=''"
    and "base64_char n \<noteq> CHR 0x0D" and "base64_char n \<noteq> CHR 0x0A"
proof -
  consider "n < 26" | "26 \<le> n" "n < 52" | "52 \<le> n" "n < 62" | "n = 62" | "n = 63"
    using assms by linarith
  then show val: "base64std_value (base64_char n) = Some n"
    by cases (simp_all add: base64std_value_def base64_char_def Let_def of_char_of, arith)
  have "base64std_value (CHR ''='') = None" "base64std_value (CHR 0x0D) = None" "base64std_value (CHR 0x0A) = None"
    by (simp_all add: base64std_value_def Let_def)
  with val show "base64_char n \<noteq> CHR ''=''" "base64_char n \<noteq> CHR 0x0D" "base64_char n \<noteq> CHR 0x0A"
    by (metis option.distinct(1))+
qed

lemma join_bound: "a < m \<Longrightarrow> b < k \<Longrightarrow> a * k + b < m * (k :: nat)"
  using mult_le_mono1 [of "Suc a" m k] by simp

lemma base64_digits_small: "list_all (\<lambda>x. x < 256) xs \<Longrightarrow> list_all (\<lambda>n. n < 64) (base64_digits xs)"
proof (induction xs rule: base64_digits.induct)
  case (3 x y)
  then have "x div 4 < 64" "y div 16 < 16" by (auto intro!: div_small)
  with join_bound [of "x mod 4" 4 "y div 16" 16] join_bound [of "y mod 16" 16 0 4] show ?case by simp
next
  case (4 x y z s)
  then have "x div 4 < 64" "y div 16 < 16" "z div 64 < 4" by (auto intro!: div_small)
  with 4 join_bound [of "x mod 4" 4 "y div 16" 16] join_bound [of "y mod 16" 16 "z div 64" 4]
  show ?case by simp
qed (auto intro!: div_small)

lemma base64_bytes_digits:
  "list_all (\<lambda>x. x < 256) xs \<Longrightarrow> base64_bytes (base64_digits xs) = Some (map char_of xs)"
proof (induction xs rule: base64_digits.induct)
  case (2 x)
  then have "x div 4 * 4 + x mod 4 * 16 div 16 = x" by simp
  then show ?case by simp
next
  case (3 x y)
  then have "y div 16 < 16" by (intro div_small) simp
  with join_parts [OF this, of "x mod 4"] show ?case by simp
next
  case (4 x y z s)
  then have "y div 16 < 16" "z div 64 < 4" by (auto intro!: div_small)
  with join_parts [OF this(1), of "x mod 4"] join_parts [OF this(2), of "y mod 16"]
    4 show ?case by simp
qed simp

lemma quantums_pad:
  "list_all (\<lambda>n. n < 64) ds \<Longrightarrow> length ds mod 4 \<noteq> 1 \<Longrightarrow>
     std_quantums (pad (map base64_char ds)) = Some ds"
proof (induction ds rule: base64_bytes.induct)
  case (5 a b c d r)
  then have "std_quantums (pad (map base64_char r)) = Some r" by simp
  with 5 show ?case by (simp add: base64_value_char)
qed (simp_all add: base64_value_char)

lemma base64_digits_length: "length (base64_digits xs) mod 4 \<noteq> 1"
  by (induction xs rule: base64_digits.induct) simp_all

lemma pad_no_newline:
  "list_all (\<lambda>n. n < 64) ds \<Longrightarrow>
     filter (\<lambda>c. c \<noteq> CHR 0x0D \<and> c \<noteq> CHR 0x0A) (pad (map base64_char ds)) = pad (map base64_char ds)"
  by (induction ds rule: base64_bytes.induct) (simp_all add: base64_value_char)

lemma base64_roundtrip: "StdEncoding_DecodeString (base64_encode s) = Some s"
proof -
  have bytes: "list_all (\<lambda>x. x < 256) (map of_char s :: nat list)"
    by (simp add: list_all_iff)
  note small = base64_digits_small [OF bytes]
  show ?thesis
    unfolding StdEncoding_DecodeString_def base64_encode_def pad_no_newline [OF small]
      quantums_pad [OF small base64_digits_length]
    by (simp add: base64_bytes_digits [OF bytes] comp_def)
qed

lemma length_pad: "length ds mod 4 \<noteq> 1 \<Longrightarrow> length (pad (map base64_char ds)) = 4 * ((length ds + 3) div 4)"
proof (induction ds rule: base64_bytes.induct)
  case (5 a b c d r)
  have "4 * ((4 + n + 3) div 4) = 4 + 4 * ((n + 3) div 4)" for n :: nat by presburger
  from this [of "length r"] 5 show ?case by simp
qed simp_all

lemma length_base64: "length (base64_encode s) = 4 * ((length s + 2) div 3)"
proof -
  have len: "(length (base64_digits xs) + 3) div 4 = (length xs + 2) div 3" for xs
  proof (induction xs rule: base64_digits.induct)
    case (4 x y z s)
    have "m = n \<Longrightarrow> 1 + m = 1 + n" "(k + 4 + 3) div 4 = 1 + (k + 3) div 4"
      "(k + 3 + 2) div 3 = 1 + (k + 2) div 3" for k m n :: nat by presburger+
    with 4 show ?case by (simp add: add.commute add.left_commute)
  qed simp_all
  show ?thesis
    unfolding base64_encode_def length_pad [OF base64_digits_length] len by simp
qed

lemma dropWhile_space_first: "dropWhile P s = x # xs \<Longrightarrow> \<not> P x"
  by (induction s) (auto split: if_splits)

text \<open>A trimmed string has no space at either end.\<close>

lemma TrimSpace_idem: "TrimSpace (TrimSpace s) = TrimSpace s"
proof -
  define u where "u = dropWhile space s"
  define v where "v = rev (dropWhile space (rev u))"
  have "dropWhile space v = v"
  proof (cases v)
    case (Cons x xs)
    have "u = v @ rev (takeWhile space (rev u))"
      unfolding v_def by (metis rev_append rev_rev_ident takeWhile_dropWhile_id)
    with Cons have "dropWhile space s = x # (xs @ rev (takeWhile space (rev u)))" by (simp add: u_def)
    then have "\<not> space x" by (rule dropWhile_space_first)
    with Cons show ?thesis by simp
  qed simp
  moreover have "rev (dropWhile space (rev v)) = v"
    by (simp add: v_def dropWhile_idem)
  ultimately have "TrimSpace v = v" by (simp add: TrimSpace_def)
  then show ?thesis by (simp add: TrimSpace_def v_def u_def)
qed

subsection \<open>Properties\<close>

text \<open>
  C32. A 32-byte key configured in hexadecimal or in base64, as openssl prints one, is decoded to
  the key; and no other text is: a decoded key is the hexadecimal or the base64 reading of the text.
\<close>

theorem encryption_key_roundtrip:
  assumes "length key = 32"
  shows "decodeKey corrupt (hex_encode key) = Inr key \<and> decodeKey corrupt (base64_encode key) = Inr key
     \<and> (decodeKey corrupt s = Inr k \<longrightarrow>
          (length s = 64 \<and> hex_DecodeString s = Some k) \<or> StdEncoding_DecodeString s = Some k)"
  using assms by (auto simp: decodeKey_def length_hex length_base64 hex_roundtrip base64_roundtrip
      split: option.splits if_splits)

theorem encryption_key_roundtrip_witness:
  "decodeKey (Sentinel ErrNoBearerToken) (hex_encode (replicate 32 (CHR 0x41))) = Inr (replicate 32 (CHR 0x41))
   \<and> decodeKey (Sentinel ErrNoBearerToken) (base64_encode (replicate 32 (CHR 0x41))) = Inr (replicate 32 (CHR 0x41))"
  using encryption_key_roundtrip [of "replicate 32 (CHR 0x41)"] by simp

text \<open>
  Whatever the environment, the configuration names a provider (Dex when none is set), its
  trusted audiences are trimmed and non-empty, a flag is on only for the value true, and the old
  name of the redirect URL is read only when the new one is unset or blank.
\<close>

theorem config_from_environment:
  "OAuthProvider (configFromLookup vars) \<noteq> ''''
   \<and> list_all (\<lambda>a. a \<noteq> '''' \<and> TrimSpace a = a) (TrustedAudiences (configFromLookup vars))
   \<and> AllowPublicRegistration (configFromLookup vars)
       = (\<exists>v. vars ''MCP_OAUTH_ALLOW_PUBLIC_REGISTRATION'' = Some v \<and> TrimSpace v = ''true'')
   \<and> RedirectURL (configFromLookup vars) =
       (let v = (case vars ''OAUTH_REDIRECT_URL'' of None \<Rightarrow> '''' | Some v \<Rightarrow> TrimSpace v) in
        if v \<noteq> '''' then v else (case vars ''DEX_REDIRECT_URL'' of None \<Rightarrow> '''' | Some v \<Rightarrow> TrimSpace v))"
proof -
  have empty: "TrimSpace [] = []" by (simp add: TrimSpace_def)
  show ?thesis
    by (auto simp: configFromLookup_def Let_def empty TrimSpace_idem list_all_iff ProviderDex_def envTrue_def
        split: option.splits)
qed

text \<open>
  C39. The middleware serves a request only for an authenticated user whose token was not issued
  externally, and gives it the identity of exactly one source: the bearer itself for single
  sign-on, otherwise the token stored at login; an empty token gives it none.
\<close>

theorem identity_resolution:
  "case identity store r of
     HttpError code _ \<Rightarrow> (case ctx_user (hr_ctx r) of None \<Rightarrow> code = 401 | Some u \<Rightarrow> IsExternalIssuer u \<and> code = 403)
   | ServeNext ctx \<Rightarrow> (\<exists>u. ctx_user (hr_ctx r) = Some u \<and> \<not> IsExternalIssuer u \<and> ctx_user ctx = Some u
       \<and> (let idt = (if IsSSO u then bearerToken r else storedIDToken store (bearerToken r) u) in
          ctx_idToken ctx = (if idt = '''' then ctx_idToken (hr_ctx r) else Some idt)))"
  by (auto simp: identity_def UserInfoFromContext_def Let_def ContextWithIDToken_def
      split: option.split if_splits)


end
