(* ===== verification/Capi_Context.thy ===== *)
theory Capi_Context
  imports Capi_OAuth
begin

section \<open>The client a request is served with (pkg/mcp/handlers/types.go)\<close>

text \<open>
  The server context holds either one static client or the factory of per-caller clients, and the
  write policy that decides which tools are registered.  \<open>sc_Client\<close> is \<open>ServerContext.Client\<close>;
  the factory is the \<open>client_source\<close> of Capi_Bearer.
\<close>

record 'w ServerContext =
  sc_capiClient :: "'w Client option"
  sc_factory :: "'w BearerClientFactory option"
  sc_policy :: WritePolicy

definition NewServerContext :: "'w Client option \<Rightarrow> 'w ServerContext" where
  "NewServerContext capiClient = \<lparr>sc_capiClient = capiClient, sc_factory = None,
     sc_policy = (case capiClient of None \<Rightarrow> no_policy | Some c \<Rightarrow> policy c)\<rparr>"

definition NewCallerIdentityServerContext ::
  "'w BearerClientFactory \<Rightarrow> WritePolicy \<Rightarrow> 'w ServerContext" where
  "NewCallerIdentityServerContext factory p =
     \<lparr>sc_capiClient = None, sc_factory = Some factory, sc_policy = p\<rparr>"

definition sc_Client :: "('k, 'c, 'w) bearer_env \<Rightarrow> int \<Rightarrow> request_ctx \<Rightarrow> 'w ServerContext
    \<Rightarrow> (goerr + 'w Client) \<times> 'w ServerContext" where
  "sc_Client b now ctx sc =
     (case sc_factory sc of
        Some factory \<Rightarrow>
          (case IDTokenFromContext ctx of
             None \<Rightarrow> (Inl (Sentinel ErrNoCallerIdentity), sc)
           | Some token \<Rightarrow> (case ClientFor b now token factory of
                 (r, factory') \<Rightarrow> (r, sc\<lparr>sc_factory := Some factory'\<rparr>)))
      | None \<Rightarrow> (case sc_capiClient sc of
            None \<Rightarrow> (Inl (Errorf ''no CAPI client configured'' []), sc)
          | Some c \<Rightarrow> (Inr c, sc)))"

definition ActsAsCaller :: "'w ServerContext \<Rightarrow> bool" where
  "ActsAsCaller sc = (sc_factory sc \<noteq> None)"

subsection \<open>Properties\<close>

text \<open>
  A server that acts as the caller serves a request without an ID token with the identity
  error and never with a static client, and one with a token with an error or with a client built
  from a token of the same digest that enforces the factory's policy.
\<close>

theorem caller_identity_enforced:
  assumes "sc_factory sc = Some f" and "cache_ok b f"
  shows "case IDTokenFromContext ctx of
       None \<Rightarrow> sc_Client b now ctx sc = (Inl (Sentinel ErrNoCallerIdentity), sc)
     | Some token \<Rightarrow> (case fst (sc_Client b now ctx sc) of
           Inl _ \<Rightarrow> True
         | Inr c \<Rightarrow> owned_key b f (be_digest b token) c \<and> policy c = bf_policy f)"
proof (cases "IDTokenFromContext ctx")
  case None
  with assms(1) show ?thesis by (simp add: sc_Client_def)
next
  case (Some token)
  have "fst (sc_Client b now ctx sc) = fst (ClientFor b now token f)"
    using assms(1) Some by (simp add: sc_Client_def split: prod.split)
  with Some bearer.get_own [OF assms(2), of now token] show ?thesis
    by (auto simp: owned_key_def owned_def dest: built_policy split: sum.split)
qed

text \<open>
  End to end through the middleware: a request whose user is missing or externally issued
  never reaches a tool, and a tool gets a client of a caller only if the middleware resolved a
  non-empty token, whose digest is the one the client was built under.
\<close>

theorem request_reaches_client:
  assumes "identity store r = ServeNext ctx" and "ctx_idToken (hr_ctx r) = None"
    and "fst (sc_Client b now ctx (NewCallerIdentityServerContext f p)) = Inr c" and "cache_ok b f"
  shows "\<exists>u token. ctx_user (hr_ctx r) = Some u \<and> \<not> IsExternalIssuer u \<and> token \<noteq> ''''
     \<and> token = (if IsSSO u then bearerToken r else storedIDToken store (bearerToken r) u)
     \<and> owned_key b f (be_digest b token) c"
proof -
  let ?sc = "NewCallerIdentityServerContext f p"
  have factory: "sc_factory ?sc = Some f" by (simp add: NewCallerIdentityServerContext_def)
  obtain u where u: "ctx_user (hr_ctx r) = Some u" "\<not> IsExternalIssuer u"
    and ctx: "ctx = (let idt = (if IsSSO u then bearerToken r else storedIDToken store (bearerToken r) u)
      in if idt \<noteq> '''' then ContextWithIDToken (hr_ctx r) idt else hr_ctx r)"
    using assms(1) by (auto simp: identity_def UserInfoFromContext_def Let_def split: option.splits if_splits)
  obtain token where tok: "IDTokenFromContext ctx = Some token"
    using assms(3) factory by (auto simp: sc_Client_def split: option.splits)
  then have "token \<noteq> ''''" and "ctx_idToken ctx = Some token"
    by (auto simp: IDTokenFromContext_def split: option.splits if_splits)
  then have "token = (if IsSSO u then bearerToken r else storedIDToken store (bearerToken r) u)"
    using ctx assms(2) by (auto simp: Let_def ContextWithIDToken_def split: if_splits)
  moreover have "fst (ClientFor b now token f) = Inr c"
    using assms(3) factory tok by (simp add: sc_Client_def split: prod.splits)
  then have "owned_key b f (be_digest b token) c" by (rule bearer.get_own [OF assms(4)])
  ultimately show ?thesis using u \<open>token \<noteq> ''''\<close> by blast
qed

subsection \<open>Examples\<close>

definition example_request :: http_request where
  "example_request = \<lparr>hr_ctx = \<lparr>ctx_user = Some \<lparr>U_Email = ''a@b'', U_Issuer = ''dex'',
       IsExternalIssuer = False, IsSSO = True\<rparr>, ctx_idToken = None\<rparr>,
     hr_authorization = ''bearer tok''\<rparr>"

definition example_ctx :: request_ctx where
  "example_ctx = (hr_ctx example_request)\<lparr>ctx_idToken := Some ''tok''\<rparr>"

lemma example_identity: "identity None example_request = ServeNext example_ctx"
  by code_simp

lemma example_served:
  "fst (sc_Client example_bearer 0 example_ctx (NewCallerIdentityServerContext example_factory open_policy))
     = Inr example_built"
  using example_answer
  by (auto simp: sc_Client_def NewCallerIdentityServerContext_def example_ctx_def IDTokenFromContext_def
      split: prod.split)

theorem caller_identity_enforced_witness:
  "case fst (sc_Client example_bearer 0 example_ctx (NewCallerIdentityServerContext example_factory open_policy)) of
     Inl _ \<Rightarrow> True
   | Inr c \<Rightarrow> owned_key example_bearer example_factory (be_digest example_bearer ''tok'') c \<and> policy c = bf_policy example_factory"
  using caller_identity_enforced [where sc = "NewCallerIdentityServerContext example_factory open_policy"
      and ctx = example_ctx and now = 0, OF _ example_factory_ok]
  by (simp add: NewCallerIdentityServerContext_def example_ctx_def IDTokenFromContext_def)

theorem request_reaches_client_witness:
  "\<exists>u token. ctx_user (hr_ctx example_request) = Some u \<and> \<not> IsExternalIssuer u \<and> token \<noteq> ''''
     \<and> token = (if IsSSO u then bearerToken example_request else storedIDToken None (bearerToken example_request) u)
     \<and> owned_key example_bearer example_factory (be_digest example_bearer token) example_built"
  by (rule request_reaches_client [OF example_identity _ example_served example_factory_ok])
    (simp add: example_request_def)

end
