(* ===== verification/Capi_Results.thy ===== *)
theory Capi_Results
  imports Capi_Status "HOL-Library.List_Lexorder" "HOL-Library.Char_ord"
begin

section \<open>Arguments and results of the tools (pkg/mcp/handlers/results.go)\<close>

text \<open>
  What the handlers share: reading a tool call's decoded arguments with Go's type assertions, the
  results a handler may return, and the digests of results.go.  A result that is one JSON document
  is kept as that document: each result struct of the code is the object \<open>json.Marshal\<close> writes for
  it, with its keys in the order of the struct's fields and \<open>omitempty\<close> written out; a map is
  written with its keys sorted.  A string the code formats stays the format with its arguments, as
  errors do.  A result built by a constructor of the mcp-go library stays that constructor.
\<close>

subsection \<open>Documents and results\<close>

datatype doc =
    DBool bool
  | DInt int
  | DStr string
  | DFmt string "goarg list"
  | DArr "doc list"
  | DObj "(string \<times> doc) list"

text \<open>A piece of prose: what one \<open>fmt.Fprintf\<close> or \<open>WriteString\<close> adds to a \<open>strings.Builder\<close>.\<close>

type_synonym piece = "string \<times> goarg list"

text \<open>
  \<open>ToolResultText\<close> carries the \<open>IsError\<close> flag the code may set on it; \<open>TextContent\<close> is a literal
  \<open>mcp.CallToolResult\<close> with prose.
\<close>

datatype CallToolResult =
    ToolResultText doc bool
  | TextContent "piece list"
  | NewToolResultError piece
  | NewToolResultErrorFromErr string goerr

fun IsError :: "CallToolResult \<Rightarrow> bool" where
  "IsError (ToolResultText d e) = e"
| "IsError (TextContent ps) = False"
| "IsError (NewToolResultError p) = True"
| "IsError (NewToolResultErrorFromErr m e) = True"

definition jsonResult :: "doc \<Rightarrow> ('s, CallToolResult) go" where
  "jsonResult v = retE (ToolResultText v False)"

text \<open>\<open>nextCursor\<close> is never set, so it is omitted.\<close>

definition ListResult :: "doc list \<Rightarrow> doc" where
  "ListResult items = DObj [(''items'', DArr items)]"

definition listResult :: "doc list \<Rightarrow> ('s, CallToolResult) go" where
  "listResult items = jsonResult (ListResult items)"

definition WriteString :: "string \<Rightarrow> piece" where
  "WriteString s = (''%s'', [Fs s])"

text \<open>Fields of a document: \<open>omitempty\<close> for a string, a map, a list and a pointer.\<close>

definition omit_str :: "string \<Rightarrow> string \<Rightarrow> (string \<times> doc) list" where
  "omit_str k v = (if v = '''' then [] else [(k, DStr v)])"

definition omit_true :: "string \<Rightarrow> bool \<Rightarrow> (string \<times> doc) list" where
  "omit_true k b = (if b then [(k, DBool True)] else [])"

definition omit_list :: "string \<Rightarrow> doc list \<Rightarrow> (string \<times> doc) list" where
  "omit_list k ds = (if ds = [] then [] else [(k, DArr ds)])"

definition omit_nil :: "string \<Rightarrow> doc option \<Rightarrow> (string \<times> doc) list" where
  "omit_nil k d = (case d of None \<Rightarrow> [] | Some v \<Rightarrow> [(k, v)])"

definition DMap :: "smap \<Rightarrow> doc" where
  "DMap m = DObj (map (\<lambda>(k, v). (k, DStr v)) (sort_key fst m))"

definition omit_map :: "string \<Rightarrow> smap \<Rightarrow> (string \<times> doc) list" where
  "omit_map k m = (if m = [] then [] else [(k, DMap m)])"

definition DInt32 :: "int32 \<Rightarrow> doc" where
  "DInt32 r = DInt (sint r)"

subsection \<open>Reading the arguments\<close>

text \<open>\<open>arguments[k].(T)\<close> with its comma-ok form, for each type the code asserts.\<close>

definition arg_string :: "json gomap \<Rightarrow> string \<Rightarrow> string option" where
  "arg_string args k = (case map_of args k of Some (JStr s) \<Rightarrow> Some s | _ \<Rightarrow> None)"

definition arg_bool :: "json gomap \<Rightarrow> string \<Rightarrow> bool option" where
  "arg_bool args k = (case map_of args k of Some (JBool b) \<Rightarrow> Some b | _ \<Rightarrow> None)"

definition arg_number :: "json gomap \<Rightarrow> string \<Rightarrow> rat option" where
  "arg_number args k = (case map_of args k of Some (JNum r) \<Rightarrow> Some r | _ \<Rightarrow> None)"

definition arg_array :: "json gomap \<Rightarrow> string \<Rightarrow> json list option" where
  "arg_array args k = (case map_of args k of Some (JArr xs) \<Rightarrow> Some xs | _ \<Rightarrow> None)"

definition arg_object :: "json gomap \<Rightarrow> string \<Rightarrow> json gomap option" where
  "arg_object args k = (case map_of args k of Some (JObj m) \<Rightarrow> Some m | _ \<Rightarrow> None)"

text \<open>\<open>x, _ := arguments[k].(T)\<close>.\<close>

definition opt_string :: "json gomap \<Rightarrow> string \<Rightarrow> string" where
  "opt_string args k = (case arg_string args k of None \<Rightarrow> '''' | Some s \<Rightarrow> s)"

definition opt_bool :: "json gomap \<Rightarrow> string \<Rightarrow> bool" where
  "opt_bool args k = (case arg_bool args k of None \<Rightarrow> False | Some b \<Rightarrow> b)"

definition opt_object :: "json gomap \<Rightarrow> string \<Rightarrow> json gomap" where
  "opt_object args k = (case arg_object args k of None \<Rightarrow> [] | Some m \<Rightarrow> m)"

text \<open>The entries of a decoded object that are strings; the loops that skip the others.\<close>

definition string_entries :: "json gomap \<Rightarrow> smap" where
  "string_entries m = List.map_filter (\<lambda>(k, v). case v of JStr s \<Rightarrow> Some (k, s) | _ \<Rightarrow> None) m"

text \<open>The loops that return an error at the first element that is not a string.\<close>

fun string_elements :: "json list \<Rightarrow> string list option" where
  "string_elements [] = Some []"
| "string_elements (JStr s # xs) = (case string_elements xs of None \<Rightarrow> None | Some ss \<Rightarrow> Some (s # ss))"
| "string_elements (_ # xs) = None"

text \<open>
  A float64 converted to an integer type is truncated towards zero; when the result does not fit,
  Go leaves it to the implementation, which is a parameter here, as is the rounding of a float64
  product.
\<close>

record float_impl =
  fi_int32 :: "rat \<Rightarrow> int32"
  fi_int :: "rat \<Rightarrow> 64 word"
  fi_int64 :: "rat \<Rightarrow> int"
  fi_mul :: "rat \<Rightarrow> rat \<Rightarrow> rat"

definition truncate :: "rat \<Rightarrow> int" where
  "truncate r = (if r < 0 then - \<lfloor>- r\<rfloor> else \<lfloor>r\<rfloor>)"

definition to_int32 :: "float_impl \<Rightarrow> rat \<Rightarrow> int32" where
  "to_int32 fi r = (let i = truncate r in
     if - (2 ^ 31) \<le> i \<and> i < 2 ^ 31 then word_of_int i else fi_int32 fi r)"

definition to_int :: "float_impl \<Rightarrow> rat \<Rightarrow> 64 word" where
  "to_int fi r = (let i = truncate r in
     if - (2 ^ 63) \<le> i \<and> i < 2 ^ 63 then word_of_int i else fi_int fi r)"

definition to_int64 :: "float_impl \<Rightarrow> rat \<Rightarrow> int" where
  "to_int64 fi r = (let i = truncate r in
     if - (2 ^ 63) \<le> i \<and> i < 2 ^ 63 then i else fi_int64 fi r)"

subsection \<open>The shape of a handler\<close>

text \<open>
  \<open>capiClient, err := serverCtx.Client(ctx)\<close>, whose error is the handler's own; a required string
  argument; a call of the client whose error becomes a tool result.
\<close>

definition with_client :: "goerr + 'w Client \<Rightarrow> ('w Client \<Rightarrow> ('w, 'a) io) \<Rightarrow> ('w, 'a) io" where
  "with_client cl f = (case cl of Inl e \<Rightarrow> failE e | Inr c \<Rightarrow> f c)"

definition tool_error :: "string \<Rightarrow> ('w, CallToolResult) io" where
  "tool_error msg = retE (NewToolResultError (msg, []))"

definition required_arg :: "json gomap \<Rightarrow> string \<Rightarrow> (string \<Rightarrow> ('w, CallToolResult) io)
    \<Rightarrow> ('w, CallToolResult) io" where
  "required_arg args k f = (case arg_string args k of
       None \<Rightarrow> tool_error (k @ '' argument is required'')
     | Some v \<Rightarrow> if v = '''' then tool_error (k @ '' argument is required'') else f v)"

definition attempt :: "(goerr \<Rightarrow> CallToolResult) \<Rightarrow> ('w, 'a) io \<Rightarrow> ('a \<Rightarrow> ('w, CallToolResult) io)
    \<Rightarrow> ('w, CallToolResult) io" where
  "attempt w m f = bindE (tryE m) (\<lambda>r. case r of Inl e \<Rightarrow> retE (w e) | Inr x \<Rightarrow> f x)"

definition failed :: "string \<Rightarrow> goerr \<Rightarrow> CallToolResult" where
  "failed fmt e = NewToolResultError (fmt, [Fe e])"

subsection \<open>The digests\<close>

definition condition_doc :: "string \<Rightarrow> string \<Rightarrow> string \<Rightarrow> string \<Rightarrow> doc" where
  "condition_doc type status reason message = DObj ([(''type'', DStr type), (''status'', DStr status)]
     @ omit_str ''reason'' reason @ omit_str ''message'' message)"

definition capiConditions :: "Conditions \<Rightarrow> doc list" where
  "capiConditions cs = map (\<lambda>c. condition_doc (Cond_Type c) (Cond_Status c) (Cond_Reason c) (Cond_Message c)) cs"

definition nodeConditions :: "NodeCondition list \<Rightarrow> doc list" where
  "nodeConditions cs = map (\<lambda>c. condition_doc (NC_Type c) (NC_Status c) (NC_Reason c) (NC_Message c)) cs"

definition machineAddresses :: "(string \<times> string) list \<Rightarrow> doc list" where
  "machineAddresses as = map (\<lambda>(t, a). DObj [(''type'', DStr t), (''address'', DStr a)]) as"

definition nodeAddresses :: "(string \<times> string) list \<Rightarrow> doc list" where
  "nodeAddresses as = map (\<lambda>(t, a). DObj [(''type'', DStr t), (''address'', DStr a)]) as"

definition ObjectRef :: "string \<Rightarrow> string \<Rightarrow> string \<Rightarrow> doc" where
  "ObjectRef kind name apiVersion =
     DObj (omit_str ''kind'' kind @ omit_str ''name'' name @ omit_str ''apiVersion'' apiVersion)"

definition objectRef :: "ObjectReference option \<Rightarrow> doc option" where
  "objectRef ref = map_option (\<lambda>r. ObjectRef (Ref_Kind r) (Ref_Name r) (Ref_APIVersion r)) ref"

definition machineReady :: "Machine \<Rightarrow> bool" where
  "machineReady m = list_ex (\<lambda>c. Cond_Type c = ReadyCondition \<and> Cond_Status c = ConditionTrue) (M_Conditions m)"

text \<open>The fields of a \<open>ClusterSummary\<close>; \<open>capi_get_cluster\<close> inlines them.\<close>

definition clusterSummary :: "ClusterStatus \<Rightarrow> (string \<times> doc) list" where
  "clusterSummary st =
     [(''name'', DStr (St_Name st)), (''namespace'', DStr (St_Namespace st))]
     @ omit_str ''phase'' (St_Phase st) @ [(''ready'', DBool (St_Ready st))]
     @ omit_true ''paused'' (St_Paused st)
     @ [(''controlPlaneReady'', DBool (St_ControlPlaneReady st)),
        (''infrastructureReady'', DBool (St_InfraReady st))]
     @ omit_str ''provider'' (provider_string (St_Provider st))
     @ omit_str ''version'' (St_Version st)
     @ [(''totalMachines'', DInt (int (St_TotalMachines st))),
        (''readyMachines'', DInt (int (St_ReadyMachines st)))]
     @ omit_map ''labels'' (UserMetadata (St_Labels st))
     @ omit_map ''annotations'' (UserMetadata (St_Annotations st))
     @ omit_list ''conditions'' (capiConditions (St_Conditions st))"

subsection \<open>Laws of the shared parts\<close>

lemma emits_jsonResult [emits]: "emits P (jsonResult v)"
  by (simp add: jsonResult_def emits)

lemma emits_listResult [emits]: "emits P (listResult v)"
  by (simp add: listResult_def emits)

lemma emits_tool_error [emits]: "emits P (tool_error msg)"
  by (simp add: tool_error_def emits)

lemma emits_with_client [emits]:
  "(\<And>c. cl = Inr c \<Longrightarrow> emits P (f c)) \<Longrightarrow> emits P (with_client cl f)"
  by (cases cl) (simp_all add: with_client_def emits)

lemma emits_required_arg [emits]: "(\<And>v. emits P (f v)) \<Longrightarrow> emits P (required_arg args k f)"
  by (simp add: required_arg_def emits split: option.split)

lemma emits_attempt [emits]:
  assumes "emits P m" and "\<And>x. emits P (f x)"
  shows "emits P (attempt w m f)"
  unfolding attempt_def using assms by (intro emits_bindE emits_tryE emits_sum emits_retE)

end
