(* ===== verification/Capi_ClusterTools.thy ===== *)
theory Capi_ClusterTools
  imports Capi_Results Capi_Exec
begin

section \<open>The cluster tools (pkg/mcp/handlers/cluster.go)\<close>

text \<open>
  One definition per handler, from the outcome of \<open>serverCtx.Client(ctx)\<close> and the decoded arguments
  to the tool result.  An error the handler itself returns is \<open>Inl\<close>; a failed call of the client or
  a bad argument is a result that carries the error.  The result structs are the definitions
  named after them, one argument per field.
\<close>

subsection \<open>capi_create_cluster\<close>

definition parse_machine_deployment :: "float_impl \<Rightarrow> json \<Rightarrow> string + MachineDeploymentSpec" where
  "parse_machine_deployment fi raw = (case raw of
       JObj m \<Rightarrow>
         if opt_string m ''class'' = '''' \<or> opt_string m ''name'' = '''' then
           Inl ''each machine_deployments entry requires class and name''
         else Inr \<lparr>MDS_Class = opt_string m ''class'', MDS_Name = opt_string m ''name'',
           MDS_Replicas = (case arg_number m ''replicas'' of None \<Rightarrow> 0 | Some r \<Rightarrow> to_int32 fi r),
           MDS_Variables = opt_object m ''variables''\<rparr>
     | _ \<Rightarrow> Inl ''each machine_deployments entry must be an object'')"

fun parse_machine_deployments :: "float_impl \<Rightarrow> json list \<Rightarrow> string + MachineDeploymentSpec list" where
  "parse_machine_deployments fi [] = Inr []"
| "parse_machine_deployments fi (raw # raws) = (case parse_machine_deployment fi raw of
       Inl msg \<Rightarrow> Inl msg
     | Inr md \<Rightarrow> (case parse_machine_deployments fi raws of Inl msg \<Rightarrow> Inl msg | Inr mds \<Rightarrow> Inr (md # mds)))"

definition parse_string_list :: "string \<Rightarrow> json list option \<Rightarrow> string + string list" where
  "parse_string_list msg raw = (case raw of
       None \<Rightarrow> Inr []
     | Some xs \<Rightarrow> (case string_elements xs of None \<Rightarrow> Inl msg | Some ss \<Rightarrow> Inr ss))"

definition parse_cluster_network :: "json gomap option \<Rightarrow> string + ClusterNetworkSpec option" where
  "parse_cluster_network raw = (case raw of
       None \<Rightarrow> Inr None
     | Some rawNet \<Rightarrow>
         (case parse_string_list ''cluster_network.pods entries must be strings'' (arg_array rawNet ''pods'') of
            Inl msg \<Rightarrow> Inl msg
          | Inr pods \<Rightarrow>
              (case parse_string_list ''cluster_network.services entries must be strings''
                      (arg_array rawNet ''services'') of
                 Inl msg \<Rightarrow> Inl msg
               | Inr services \<Rightarrow> Inr (Some \<lparr>CNS_Pods = pods, CNS_Services = services,
                   CNS_ServiceDomain = opt_string rawNet ''service_domain''\<rparr>))))"

definition create_cluster_text :: "Cluster \<Rightarrow> CreateClusterOptions \<Rightarrow> piece list" where
  "create_cluster_text cluster opts =
     [(''Cluster %s/%s created from ClusterClass %s.'' @ nl,
         [Fs (Namespace (C_Meta cluster)), Fs (Name (C_Meta cluster)), Fs (CCO_ClusterClass opts)]),
      (''  Kubernetes version: %s'' @ nl, [Fs (CCO_KubernetesVersion opts)]),
      (''  Control plane replicas: %d'' @ nl, [Fd (sint (CCO_ControlPlaneReplicas opts))]),
      (''  Machine deployments: %d'' @ nl, [Fd (int (length (CCO_MachineDeployments opts)))])]
     @ List.map_filter (\<lambda>md. if length (MDS_Variables md) > 0
         then Some (''    %s: %d variable override(s)'' @ nl,
           [Fs (MDS_Name md), Fd (int (length (MDS_Variables md)))]) else None) (CCO_MachineDeployments opts)
     @ (case CCO_ClusterNetwork opts of
          None \<Rightarrow> []
        | Some net \<Rightarrow> [(''  Cluster network: pods=%v services=%v serviceDomain=%q'' @ nl,
            [Fv (CNS_Pods net), Fv (CNS_Services net), Fq (CNS_ServiceDomain net)])])
     @ [WriteString (nl @ ''Use capi_cluster_status to monitor provisioning.'' @ nl)]"

definition CreateCreateClusterHandler :: "(json \<Rightarrow> goerr + string) \<Rightarrow> float_impl
    \<Rightarrow> goerr + 'w Client \<Rightarrow> json gomap \<Rightarrow> ('w, CallToolResult) io" where
  "CreateCreateClusterHandler marshal fi cl arguments =
     with_client cl (\<lambda>capiClient.
     required_arg arguments ''name'' (\<lambda>name.
     required_arg arguments ''namespace'' (\<lambda>namespace.
     required_arg arguments ''cluster_class'' (\<lambda>clusterClass.
     required_arg arguments ''kubernetes_version'' (\<lambda>kubernetesVersion.
     let controlPlaneReplicas = (case arg_number arguments ''control_plane_replicas'' of
           None \<Rightarrow> 1 | Some v \<Rightarrow> to_int32 fi v) in
     case parse_machine_deployments fi (case arg_array arguments ''machine_deployments'' of
           None \<Rightarrow> [] | Some raws \<Rightarrow> raws) of
       Inl msg \<Rightarrow> tool_error msg
     | Inr machineDeployments \<Rightarrow>
     (case parse_cluster_network (arg_object arguments ''cluster_network'') of
       Inl msg \<Rightarrow> tool_error msg
     | Inr clusterNetwork \<Rightarrow>
     let opts = \<lparr>CCO_Name = name, CCO_Namespace = namespace, CCO_ClusterClass = clusterClass,
           CCO_KubernetesVersion = kubernetesVersion, CCO_ControlPlaneReplicas = controlPlaneReplicas,
           CCO_MachineDeployments = machineDeployments, CCO_Variables = opt_object arguments ''variables'',
           CCO_ClusterNetwork = clusterNetwork\<rparr> in
     attempt (NewToolResultErrorFromErr ''failed to create cluster'') (CreateCluster marshal capiClient opts) (\<lambda>cluster.
     retE (TextContent (create_cluster_text cluster opts)))))))))"

subsection \<open>capi_list_clusters, capi_get_cluster and capi_cluster_status\<close>

definition cluster_matches :: "string \<Rightarrow> Cluster \<Rightarrow> bool" where
  "cluster_matches searchLower cluster \<longleftrightarrow>
     sublist searchLower (ToLower (Name (C_Meta cluster)))
     \<or> list_ex (\<lambda>(k, v). sublist searchLower (ToLower v)) (Labels (C_Meta cluster))"

definition machine_key :: "Machine \<Rightarrow> string" where
  "machine_key m = Namespace (M_Meta m) @ ''/'' @ mget (Labels (M_Meta m)) ClusterNameLabel"

definition machines_at :: "Machine list gomap \<Rightarrow> string \<Rightarrow> Machine list" where
  "machines_at g k = (case map_of g k of None \<Rightarrow> [] | Some ms \<Rightarrow> ms)"

fun group_machines :: "Machine list \<Rightarrow> Machine list gomap \<Rightarrow> Machine list gomap" where
  "group_machines [] g = g"
| "group_machines (m # ms) g =
     group_machines ms (AList.update (machine_key m) (machines_at g (machine_key m) @ [m]) g)"

fun list_summaries :: "'w Client \<Rightarrow> Machine list gomap \<Rightarrow> Cluster list \<Rightarrow> ('w, doc list) io" where
  "list_summaries c g [] = retE []"
| "list_summaries c g (cluster # cls) =
     bindE (tryE (GetClusterStatusFromList c cluster
       (machines_at g (Namespace (C_Meta cluster) @ ''/'' @ Name (C_Meta cluster))))) (\<lambda>r.
     bindE (list_summaries c g cls) (\<lambda>items.
     retE (case r of Inl _ \<Rightarrow> items | Inr status \<Rightarrow> DObj (clusterSummary status) # items)))"

definition CreateListClustersHandler ::
  "goerr + 'w Client \<Rightarrow> json gomap \<Rightarrow> ('w, CallToolResult) io" where
  "CreateListClustersHandler cl arguments =
     with_client cl (\<lambda>capiClient.
     let namespace = opt_string arguments ''namespace'';
         search = opt_string arguments ''search'';
         labelSelector = string_entries (opt_object arguments ''label_selector'') in
     attempt (NewToolResultErrorFromErr ''failed to list clusters'')
       (ListClusters capiClient namespace labelSelector) (\<lambda>clusters.
     let clusters = (if search \<noteq> '''' then filter (cluster_matches (ToLower search)) clusters else clusters) in
     attempt (NewToolResultErrorFromErr ''failed to list machines'')
       (ListMachines capiClient namespace '''') (\<lambda>allMachines.
     bindE (list_summaries capiClient (group_machines allMachines []) clusters) listResult)))"

definition getClusterResult :: "(string \<times> doc) list \<Rightarrow> string \<Rightarrow> doc option \<Rightarrow> doc list \<Rightarrow> doc" where
  "getClusterResult summary matchedBy note candidates = DObj (summary
     @ omit_str ''matchedBy'' matchedBy @ omit_nil ''note'' note @ omit_list ''candidates'' candidates)"

fun candidate_summaries :: "'w Client \<Rightarrow> Cluster list \<Rightarrow> ('w, doc list) io" where
  "candidate_summaries c [] = retE []"
| "candidate_summaries c (cluster # cls) =
     bindE (tryE (GetClusterStatus c (Namespace (C_Meta cluster)) (Name (C_Meta cluster)))) (\<lambda>r.
     bindE (candidate_summaries c cls) (\<lambda>ds.
     retE (case r of Inl _ \<Rightarrow> ds | Inr status \<Rightarrow> DObj (clusterSummary status) # ds)))"

definition no_cluster_found :: "string \<Rightarrow> string \<Rightarrow> ('w, CallToolResult) io" where
  "no_cluster_found name namespace = retE (NewToolResultError
     (''failed to get cluster %q: no cluster found by name or label value in namespace %s'', [Fq name, Fs namespace]))"

definition CreateGetClusterHandler ::
  "goerr + 'w Client \<Rightarrow> json gomap \<Rightarrow> ('w, CallToolResult) io" where
  "CreateGetClusterHandler cl arguments =
     with_client cl (\<lambda>capiClient.
     required_arg arguments ''namespace'' (\<lambda>namespace.
     required_arg arguments ''name'' (\<lambda>name.
     bindE (tryE (GetClusterStatus capiClient namespace name)) (\<lambda>r. case r of
       Inr status \<Rightarrow> jsonResult (getClusterResult (clusterSummary status) '''' None [])
     | Inl _ \<Rightarrow>
     bindE (tryE (FindClustersByLabelValue capiClient namespace name)) (\<lambda>r. case r of
       Inl _ \<Rightarrow> no_cluster_found name namespace
     | Inr [] \<Rightarrow> no_cluster_found name namespace
     | Inr [cluster] \<Rightarrow>
         attempt (NewToolResultErrorFromErr ''failed to get cluster status'')
           (GetClusterStatus capiClient (Namespace (C_Meta cluster)) (Name (C_Meta cluster))) (\<lambda>status.
         jsonResult (getClusterResult (clusterSummary status) ''labelValue''
           (Some (DFmt ''No cluster named %q found; matched cluster %s by label value.''
             [Fq name, Fs (Name (C_Meta cluster))])) []))
     | Inr matched \<Rightarrow>
         bindE (candidate_summaries capiClient matched) (\<lambda>candidates.
         jsonResult (getClusterResult [] ''labelValue''
           (Some (DFmt ''No cluster named %q found; %d clusters matched the term in their labels. Specify the exact cluster name.''
             [Fq name, Fd (int (length matched))])) candidates)))))))"

definition CreateClusterStatusHandler ::
  "goerr + 'w Client \<Rightarrow> json gomap \<Rightarrow> ('w, CallToolResult) io" where
  "CreateClusterStatusHandler cl arguments =
     with_client cl (\<lambda>capiClient.
     required_arg arguments ''namespace'' (\<lambda>namespace.
     required_arg arguments ''name'' (\<lambda>name.
     attempt (NewToolResultErrorFromErr ''failed to get cluster status'')
       (GetClusterStatus capiClient namespace name) (\<lambda>status.
     jsonResult (DObj (clusterSummary status))))))"

subsection \<open>capi_cluster_health\<close>

definition strings_doc :: "string list \<Rightarrow> doc" where
  "strings_doc ss = DArr (map DStr ss)"

definition health_recommendations :: "ClusterHealthStatus \<Rightarrow> string list" where
  "health_recommendations health =
     (if \<not> H_Healthy health then
        (if \<not> H_ControlPlaneReady health
         then [''Check control plane pods and logs'', ''Verify API server connectivity''] else [])
        @ (if \<not> H_InfraReady health
           then [''Check infrastructure provider status'', ''Verify cloud resources are provisioned''] else [])
        @ (if \<not> H_WorkersReady health
           then [''Check machine status with capi_list_machines'', ''Review machine deployment events''] else [])
      else [])"

text \<open>Issues and warnings are never nil lists, so they are written as \<open>[]\<close> when empty.\<close>

definition clusterHealthResult :: "string \<Rightarrow> string \<Rightarrow> ClusterHealthStatus \<Rightarrow> doc" where
  "clusterHealthResult namespace name health = DObj (
     [(''namespace'', DStr namespace), (''name'', DStr name), (''healthy'', DBool (H_Healthy health)),
      (''controlPlaneReady'', DBool (H_ControlPlaneReady health)),
      (''infrastructureReady'', DBool (H_InfraReady health)),
      (''workersReady'', DBool (H_WorkersReady health)),
      (''issues'', strings_doc (H_Issues health)), (''warnings'', strings_doc (H_Warnings health))]
     @ omit_list ''recommendations'' (map DStr (health_recommendations health)))"

definition CreateClusterHealthHandler ::
  "goerr + 'w Client \<Rightarrow> json gomap \<Rightarrow> ('w, CallToolResult) io" where
  "CreateClusterHealthHandler cl arguments =
     with_client cl (\<lambda>capiClient.
     required_arg arguments ''namespace'' (\<lambda>namespace.
     required_arg arguments ''name'' (\<lambda>name.
     attempt (NewToolResultErrorFromErr ''failed to get cluster health'')
       (GetClusterHealth capiClient namespace name) (\<lambda>health.
     jsonResult (clusterHealthResult namespace name health)))))"

subsection \<open>capi_scale_cluster\<close>

definition scaleClusterResult :: "string \<Rightarrow> string \<Rightarrow> string \<Rightarrow> goint \<Rightarrow> string \<Rightarrow> doc" where
  "scaleClusterResult namespace name target replicas machineDeployment = DObj (
     [(''namespace'', DStr namespace), (''name'', DStr name), (''target'', DStr target),
      (''replicas'', DInt (sint replicas))]
     @ omit_str ''machineDeployment'' machineDeployment
     @ [(''message'', DFmt ''Cluster %s/%s: %s scaled to %d replicas''
         [Fs namespace, Fs name, Fs target, Fd (sint replicas)])])"

definition CreateScaleClusterHandler ::
  "float_impl \<Rightarrow> goerr + 'w Client \<Rightarrow> json gomap \<Rightarrow> ('w, CallToolResult) io" where
  "CreateScaleClusterHandler fi cl arguments =
     with_client cl (\<lambda>capiClient.
     required_arg arguments ''namespace'' (\<lambda>namespace.
     required_arg arguments ''name'' (\<lambda>name.
     required_arg arguments ''target'' (\<lambda>target.
     case arg_number arguments ''replicas'' of
       None \<Rightarrow> tool_error ''replicas argument is required and must be a number''
     | Some replicas \<Rightarrow>
         let machineDeployment = opt_string arguments ''machineDeployment'' in
         attempt (NewToolResultErrorFromErr ''failed to scale cluster'')
           (ScaleCluster capiClient namespace name target (to_int fi replicas) machineDeployment) (\<lambda>_.
         jsonResult (scaleClusterResult namespace name target (to_int fi replicas) machineDeployment))))))"

subsection \<open>capi_kubectl, capi_helm and capi_get_kubeconfig\<close>

definition exec_arguments :: "json gomap \<Rightarrow> (string list \<Rightarrow> ('w, CallToolResult) io) \<Rightarrow> ('w, CallToolResult) io" where
  "exec_arguments arguments f = (case arg_array arguments ''args'' of
       None \<Rightarrow> tool_error ''args argument is required and must be a non-empty array of strings''
     | Some rawArgs \<Rightarrow>
         if rawArgs = [] then tool_error ''args argument is required and must be a non-empty array of strings''
         else (case string_elements rawArgs of
                 None \<Rightarrow> tool_error ''all elements of args must be strings''
               | Some args \<Rightarrow> f args))"

text \<open>The client returns the output together with the error.\<close>

definition exec_result :: "string \<Rightarrow> string list \<Rightarrow> string \<Rightarrow> string \<times> goerr option \<Rightarrow> ('w, CallToolResult) io" where
  "exec_result cmd args clusterName = (\<lambda>(output, err). case err of
       Some e \<Rightarrow> retE (NewToolResultErrorFromErr
         (cmd @ '' execution failed'' @ nl @ ''output:'' @ nl @ output) e)
     | None \<Rightarrow> retE (TextContent
         [(cmd @ '' %s against cluster %s:'' @ nl @ nl, [Fs (Join args '' ''), Fs clusterName]), WriteString output]))"

definition CreateKubectlHandler ::
  "'w tools \<Rightarrow> goerr + 'w Client \<Rightarrow> json gomap \<Rightarrow> ('w, CallToolResult) io" where
  "CreateKubectlHandler h cl arguments =
     with_client cl (\<lambda>capiClient.
     required_arg arguments ''namespace'' (\<lambda>namespace.
     required_arg arguments ''cluster_name'' (\<lambda>clusterName.
     exec_arguments arguments (\<lambda>args.
     bindE (ExecKubectl h capiClient namespace clusterName args
              (opt_string arguments ''as'') (opt_string arguments ''stdin''))
       (exec_result ''kubectl'' args clusterName)))))"

definition CreateHelmHandler ::
  "'w tools \<Rightarrow> goerr + 'w Client \<Rightarrow> json gomap \<Rightarrow> ('w, CallToolResult) io" where
  "CreateHelmHandler h cl arguments =
     with_client cl (\<lambda>capiClient.
     required_arg arguments ''namespace'' (\<lambda>namespace.
     required_arg arguments ''cluster_name'' (\<lambda>clusterName.
     exec_arguments arguments (\<lambda>args.
     bindE (ExecHelm h capiClient namespace clusterName args) (exec_result ''helm'' args clusterName)))))"

definition kubeconfigResult :: "string \<Rightarrow> string \<Rightarrow> string \<Rightarrow> doc" where
  "kubeconfigResult namespace name kubeconfig = DObj
     [(''namespace'', DStr namespace), (''name'', DStr name), (''kubeconfig'', DStr kubeconfig)]"

definition CreateGetKubeconfigHandler ::
  "goerr + 'w Client \<Rightarrow> json gomap \<Rightarrow> ('w, CallToolResult) io" where
  "CreateGetKubeconfigHandler cl arguments =
     with_client cl (\<lambda>capiClient.
     required_arg arguments ''namespace'' (\<lambda>namespace.
     required_arg arguments ''name'' (\<lambda>name.
     attempt (NewToolResultErrorFromErr ''failed to get kubeconfig'')
       (GetKubeconfig capiClient namespace name) (\<lambda>kubeconfig.
     jsonResult (kubeconfigResult namespace name kubeconfig)))))"

subsection \<open>capi_pause_cluster and capi_resume_cluster\<close>

definition pauseResult :: "string \<Rightarrow> string \<Rightarrow> bool \<Rightarrow> string \<Rightarrow> doc" where
  "pauseResult namespace name paused message = DObj
     [(''namespace'', DStr namespace), (''name'', DStr name), (''paused'', DBool paused),
      (''message'', DStr message)]"

definition CreatePauseClusterHandler ::
  "goerr + 'w Client \<Rightarrow> json gomap \<Rightarrow> ('w, CallToolResult) io" where
  "CreatePauseClusterHandler cl arguments =
     with_client cl (\<lambda>capiClient.
     required_arg arguments ''namespace'' (\<lambda>namespace.
     required_arg arguments ''name'' (\<lambda>name.
     attempt (NewToolResultErrorFromErr ''failed to pause cluster'')
       (PauseCluster capiClient namespace name) (\<lambda>_.
     jsonResult (pauseResult namespace name True
       (''Reconciliation paused: CAPI controllers make no changes to the cluster (no updates, no scaling) ''
        @ ''until capi_resume_cluster is called, so manual operations are safe.''))))))"

definition CreateResumeClusterHandler ::
  "goerr + 'w Client \<Rightarrow> json gomap \<Rightarrow> ('w, CallToolResult) io" where
  "CreateResumeClusterHandler cl arguments =
     with_client cl (\<lambda>capiClient.
     required_arg arguments ''namespace'' (\<lambda>namespace.
     required_arg arguments ''name'' (\<lambda>name.
     attempt (NewToolResultErrorFromErr ''failed to resume cluster'')
       (ResumeCluster capiClient namespace name) (\<lambda>_.
     jsonResult (pauseResult namespace name False
       (''Reconciliation resumed: CAPI controllers manage the cluster again and apply any pending ''
        @ ''updates or scaling.''))))))"

subsection \<open>capi_delete_cluster, capi_upgrade_cluster and capi_update_cluster\<close>

definition deleteClusterResult ::
  "string \<Rightarrow> string \<Rightarrow> bool \<Rightarrow> ClusterStatus \<Rightarrow> string \<Rightarrow> string list \<Rightarrow> doc" where
  "deleteClusterResult namespace name deleted status message recommendations = DObj (
     [(''namespace'', DStr namespace), (''name'', DStr name), (''deleted'', DBool deleted),
      (''cluster'', DObj (clusterSummary status)), (''message'', DStr message)]
     @ omit_list ''recommendations'' (map DStr recommendations))"

definition delete_refused :: "string \<Rightarrow> string \<Rightarrow> ClusterStatus \<Rightarrow> doc" where
  "delete_refused namespace name status = deleteClusterResult namespace name False status
     ''Safety check failed: the cluster is Ready and appears operational. Pass force=true to delete it anyway.''
     [''Back up important data with velero; capi_backup_cluster exports none of the cluster's resources yet'',
      ''Migrate workloads to another cluster'', ''Confirm this is the intended cluster'']"

definition delete_initiated :: "string \<Rightarrow> string \<Rightarrow> ClusterStatus \<Rightarrow> doc" where
  "delete_initiated namespace name status = deleteClusterResult namespace name True status
     (''Deletion initiated. Cleaning up cluster resources, deprovisioning infrastructure and ''
      @ ''processing finalizers can take several minutes; monitor with capi_list_clusters.'') []"

definition CreateDeleteClusterHandler ::
  "goerr + 'w Client \<Rightarrow> json gomap \<Rightarrow> ('w, CallToolResult) io" where
  "CreateDeleteClusterHandler cl arguments =
     with_client cl (\<lambda>capiClient.
     required_arg arguments ''namespace'' (\<lambda>namespace.
     required_arg arguments ''name'' (\<lambda>name.
     attempt (NewToolResultErrorFromErr ''failed to get cluster status'')
       (GetClusterStatus capiClient namespace name) (\<lambda>status.
     if \<not> opt_bool arguments ''force'' \<and> St_Ready status then
       jsonResult (delete_refused namespace name status)
     else
       attempt (NewToolResultErrorFromErr ''failed to delete cluster'')
         (DeleteCluster capiClient namespace name) (\<lambda>_.
       jsonResult (delete_initiated namespace name status))))))"

definition upgradeClusterResult :: "string \<Rightarrow> string \<Rightarrow> string \<Rightarrow> string \<Rightarrow> bool \<Rightarrow> doc" where
  "upgradeClusterResult namespace name previousVersion targetVersion upgradeWorkers = DObj (
     [(''namespace'', DStr namespace), (''name'', DStr name)]
     @ omit_str ''previousVersion'' previousVersion
     @ [(''targetVersion'', DStr targetVersion), (''upgradeWorkers'', DBool upgradeWorkers),
        (''message'', DFmt (''Upgrade initiated. Control plane machines are upgraded first, one at a time; %s. ''
           @ ''The rolling upgrade can take 30-60 minutes and workloads may be rescheduled; monitor with ''
           @ ''capi_cluster_status, capi_cluster_health and capi_list_machines.'')
         [Fs (if upgradeWorkers then ''worker machines are upgraded after the control plane is ready''
              else ''worker machines are not upgraded (upgrade_workers=false)'')])])"

definition CreateUpgradeClusterHandler ::
  "goerr + 'w Client \<Rightarrow> json gomap \<Rightarrow> ('w, CallToolResult) io" where
  "CreateUpgradeClusterHandler cl arguments =
     with_client cl (\<lambda>capiClient.
     required_arg arguments ''namespace'' (\<lambda>namespace.
     required_arg arguments ''name'' (\<lambda>name.
     required_arg arguments ''target_version'' (\<lambda>targetVersion.
     let upgradeWorkers = (case arg_bool arguments ''upgrade_workers'' of None \<Rightarrow> True | Some uw \<Rightarrow> uw) in
     attempt (NewToolResultErrorFromErr ''failed to get cluster status'')
       (GetClusterStatus capiClient namespace name) (\<lambda>status.
     attempt (NewToolResultErrorFromErr ''failed to upgrade cluster'')
       (UpgradeCluster capiClient \<lparr>UCO_Namespace = namespace, UCO_Name = name,
          UCO_TargetVersion = targetVersion, UCO_UpgradeWorkers = upgradeWorkers\<rparr>) (\<lambda>_.
     jsonResult (upgradeClusterResult namespace name (St_Version status) targetVersion upgradeWorkers)))))))"

definition updateClusterResult :: "string \<Rightarrow> string \<Rightarrow> smap \<Rightarrow> smap \<Rightarrow> string \<Rightarrow> doc" where
  "updateClusterResult namespace name labels annotations message = DObj (
     [(''namespace'', DStr namespace), (''name'', DStr name)]
     @ omit_map ''labels'' labels @ omit_map ''annotations'' annotations
     @ [(''message'', DStr message)])"

definition CreateUpdateClusterHandler ::
  "goerr + 'w Client \<Rightarrow> json gomap \<Rightarrow> ('w, CallToolResult) io" where
  "CreateUpdateClusterHandler cl arguments =
     with_client cl (\<lambda>capiClient.
     required_arg arguments ''namespace'' (\<lambda>namespace.
     required_arg arguments ''name'' (\<lambda>name.
     let labelMap = string_entries (opt_object arguments ''labels'');
         annotationMap = string_entries (opt_object arguments ''annotations'') in
     attempt (NewToolResultErrorFromErr ''failed to update cluster'')
       (UpdateCluster capiClient \<lparr>UPO_Namespace = namespace, UPO_Name = name,
          UPO_Labels = labelMap, UPO_Annotations = annotationMap\<rparr>) (\<lambda>cluster.
     jsonResult (updateClusterResult namespace name (UserMetadata (Labels (C_Meta cluster)))
       (UserMetadata (Annotations (C_Meta cluster))) ''Cluster metadata updated'')))))"

subsection \<open>capi_move_cluster and capi_backup_cluster\<close>

definition moveClusterResult ::
  "string \<Rightarrow> string \<Rightarrow> bool \<Rightarrow> string \<Rightarrow> string \<Rightarrow> string list \<Rightarrow> string list \<Rightarrow> string \<Rightarrow> string list \<Rightarrow> doc" where
  "moveClusterResult namespace name dryRun targetKubeconfig targetNamespace steps commands manifest notes = DObj (
     [(''namespace'', DStr namespace), (''name'', DStr name), (''dryRun'', DBool dryRun)]
     @ omit_str ''targetKubeconfig'' targetKubeconfig @ omit_str ''targetNamespace'' targetNamespace
     @ [(''steps'', strings_doc steps), (''commands'', strings_doc commands),
        (''manifest'', DStr manifest), (''notes'', strings_doc notes)])"

definition move_command :: "string \<Rightarrow> string \<Rightarrow> string \<Rightarrow> string" where
  "move_command namespace targetKubeconfig targetNamespace =
     ''clusterctl move --to-kubeconfig=''
     @ (if targetKubeconfig \<noteq> '''' then targetKubeconfig else ''<target-kubeconfig>'')
     @ '' --namespace '' @ namespace
     @ (if targetNamespace \<noteq> '''' \<and> targetNamespace \<noteq> namespace
        then '' --to-namespace '' @ targetNamespace else '''')"

definition move_notes :: "bool \<Rightarrow> string list" where
  "move_notes dryRun =
     (if dryRun then [''dry_run changes nothing: this tool never moves anything, with or without it''] else [])
     @ [''Nothing was moved: run the move command yourself'',
        ''clusterctl move pauses the source cluster and migrates its CAPI resources'',
        ''Ensure network connectivity between the management clusters'',
        ''Provider versions must match on both management clusters'']"

definition CreateMoveClusterHandler ::
  "goerr + 'w Client \<Rightarrow> json gomap \<Rightarrow> ('w, CallToolResult) io" where
  "CreateMoveClusterHandler cl arguments =
     with_client cl (\<lambda>capiClient.
     required_arg arguments ''namespace'' (\<lambda>namespace.
     required_arg arguments ''name'' (\<lambda>name.
     let targetKubeconfig = opt_string arguments ''target_kubeconfig'';
         targetNamespace = opt_string arguments ''target_namespace'';
         dryRun = opt_bool arguments ''dry_run'' in
     attempt (NewToolResultErrorFromErr ''failed to prepare cluster move'')
       (MoveCluster capiClient \<lparr>MVO_Namespace = namespace, MVO_Name = name,
          MVO_TargetKubeconfig = targetKubeconfig, MVO_TargetNamespace = targetNamespace,
          MVO_DryRun = dryRun\<rparr>) (\<lambda>manifest.
     jsonResult (moveClusterResult namespace name dryRun targetKubeconfig targetNamespace
       [''Ensure the target management cluster is ready'',
        ''Install the required providers on the target management cluster'',
        ''Create the target namespace if needed'',
        ''Run clusterctl move (see commands); it pauses the source cluster itself'']
       [move_command namespace targetKubeconfig targetNamespace] manifest (move_notes dryRun))))))"

definition backupClusterResult :: "string \<Rightarrow> string \<Rightarrow> bool \<Rightarrow> string \<Rightarrow> string list \<Rightarrow> doc" where
  "backupClusterResult namespace name includeSecrets backup notes = DObj
     [(''namespace'', DStr namespace), (''name'', DStr name), (''includeSecrets'', DBool includeSecrets),
      (''backup'', DStr backup), (''notes'', strings_doc notes)]"

definition CreateBackupClusterHandler ::
  "goerr + 'w Client \<Rightarrow> json gomap \<Rightarrow> ('w, CallToolResult) io" where
  "CreateBackupClusterHandler cl arguments =
     with_client cl (\<lambda>capiClient.
     required_arg arguments ''namespace'' (\<lambda>namespace.
     required_arg arguments ''name'' (\<lambda>name.
     let includeSecrets = opt_bool arguments ''include_secrets'';
         outputFormat = (if opt_string arguments ''output_format'' = '''' then ''yaml''
           else opt_string arguments ''output_format'') in
     attempt (NewToolResultErrorFromErr ''failed to create cluster backup'')
       (BackupCluster capiClient \<lparr>BKO_Namespace = namespace, BKO_Name = name,
          BKO_IncludeSecrets = includeSecrets, BKO_OutputFormat = outputFormat\<rparr>) (\<lambda>backup.
     jsonResult (backupClusterResult namespace name includeSecrets backup
       ([''A placeholder: no resources are exported, only these instructions (giantswarm/mcp-capi#303)'',
         ''Back up the cluster's resources and workload data with velero'']
        @ (if includeSecrets then
             [''include_secrets passed the credential-export check, but no Secret is exported either'']
           else [])))))))"

subsection \<open>What the cluster tools reach\<close>

lemma list_summaries_reads [emits]: "emits is_read (list_summaries c g cls)"
  by (induction cls) (auto intro!: emits)

lemma candidate_summaries_reads [emits]: "emits is_read (candidate_summaries c cls)"
  by (induction cls) (auto intro!: emits)

lemma exec_arguments_emits [emits]: "(\<And>args. emits P (f args)) \<Longrightarrow> emits P (exec_arguments a f)"
  by (auto simp: exec_arguments_def intro!: emits split: option.split)

lemma exec_result_emits [emits]: "emits P (exec_result cmd args n r)"
  by (auto simp: exec_result_def intro!: emits split: prod.split option.split)

lemma no_cluster_found_emits [emits]: "emits P (no_cluster_found n ns)"
  by (simp add: no_cluster_found_def emits)

text \<open>The tools that only read make only reads, whatever the client.\<close>

lemma cluster_tools_read [emits]:
  "emits is_read (CreateListClustersHandler cl args)"
  "emits is_read (CreateGetClusterHandler cl args)"
  "emits is_read (CreateClusterStatusHandler cl args)"
  "emits is_read (CreateClusterHealthHandler cl args)"
  "emits is_read (CreateMoveClusterHandler cl args)"
  "emits is_read (CreateBackupClusterHandler cl args)"
  "emits is_read (CreateGetKubeconfigHandler cl args)"
  "emits is_read (CreateKubectlHandler h cl args)"
  "emits is_read (CreateHelmHandler h cl args)"
  by (auto simp: CreateListClustersHandler_def CreateGetClusterHandler_def CreateClusterStatusHandler_def
      CreateClusterHealthHandler_def CreateMoveClusterHandler_def CreateBackupClusterHandler_def
      CreateGetKubeconfigHandler_def CreateKubectlHandler_def CreateHelmHandler_def Let_def
      intro!: emits split: list.split)

text \<open>The others make only reads with a read-only client.\<close>

lemma cluster_tools_read_only:
  assumes "\<And>c. cl = Inr c \<Longrightarrow> ReadOnly (policy c)"
  shows "emits is_read (CreateCreateClusterHandler marshal fi cl args)"
    "emits is_read (CreateScaleClusterHandler fi cl args)"
    "emits is_read (CreatePauseClusterHandler cl args)"
    "emits is_read (CreateResumeClusterHandler cl args)"
    "emits is_read (CreateDeleteClusterHandler cl args)"
    "emits is_read (CreateUpgradeClusterHandler cl args)"
    "emits is_read (CreateUpdateClusterHandler cl args)"
  by (auto simp: CreateCreateClusterHandler_def CreateScaleClusterHandler_def CreatePauseClusterHandler_def
      CreateResumeClusterHandler_def CreateDeleteClusterHandler_def CreateUpgradeClusterHandler_def
      CreateUpdateClusterHandler_def Let_def
      intro!: emits assms pause_cluster.read_only_reads resume_cluster.read_only_reads
      delete_cluster.read_only_reads update_cluster.read_only_reads upgrade_cluster.read_only_reads
      CreateCluster_read_only ScaleCluster_read_only)


subsection \<open>Grouping the machines\<close>

text \<open>Grouping by key and looking a key up is filtering by it, in the order of the list.\<close>

lemma machines_at_update: "machines_at (AList.update k ms g) k' = (if k' = k then ms else machines_at g k')"
  by (simp add: machines_at_def update_conv')

lemma machines_at_group: "machines_at (group_machines ms g) k = machines_at g k @ filter (\<lambda>m. machine_key m = k) ms"
  by (induction ms arbitrary: g) (simp_all add: machines_at_update)

lemma machines_at_groups: "machines_at (group_machines ms []) k = filter (\<lambda>m. machine_key m = k) ms"
  unfolding machines_at_group by (simp add: machines_at_def)

lemma split_unique:
  "c \<notin> set a \<Longrightarrow> c \<notin> set a' \<Longrightarrow> a @ c # b = a' @ c # b' \<longleftrightarrow> a = a' \<and> b = b'"
proof (induction a arbitrary: a')
  case Nil
  then show ?case by (cases a') auto
next
  case (Cons x a)
  then show ?case by (cases a') auto
qed

text \<open>The machines of one cluster: those of its namespace that carry its name as their label.\<close>

definition belongs_to :: "Cluster \<Rightarrow> Machine \<Rightarrow> bool" where
  "belongs_to cluster m \<longleftrightarrow> Namespace (M_Meta m) = Namespace (C_Meta cluster)
     \<and> mget (Labels (M_Meta m)) ClusterNameLabel = Name (C_Meta cluster)"

fun list_each :: "'w Client \<Rightarrow> Machine list \<Rightarrow> Cluster list \<Rightarrow> ('w, doc list) io" where
  "list_each c ms [] = retE []"
| "list_each c ms (cluster # cls) =
     bindE (tryE (GetClusterStatusFromList c cluster (filter (belongs_to cluster) ms))) (\<lambda>r.
     bindE (list_each c ms cls) (\<lambda>items.
     retE (case r of Inl _ \<Rightarrow> items | Inr status \<Rightarrow> DObj (clusterSummary status) # items)))"

lemma key_belongs:
  assumes "CHR ''/'' \<notin> set (Namespace (M_Meta m))" and "CHR ''/'' \<notin> set (Namespace (C_Meta cluster))"
  shows "machine_key m = Namespace (C_Meta cluster) @ ''/'' @ Name (C_Meta cluster) \<longleftrightarrow> belongs_to cluster m"
  using split_unique [OF assms] by (simp add: machine_key_def belongs_to_def)

lemma list_summaries_each:
  assumes "list_all (\<lambda>m. CHR ''/'' \<notin> set (Namespace (M_Meta m))) ms"
    and "list_all (\<lambda>cl. CHR ''/'' \<notin> set (Namespace (C_Meta cl))) cls"
  shows "list_summaries c (group_machines ms []) cls = list_each c ms cls"
  using assms(2)
proof (induction cls)
  case (Cons cluster cls)
  have "filter (\<lambda>m. machine_key m = Namespace (C_Meta cluster) @ ''/'' @ Name (C_Meta cluster)) ms
      = filter (belongs_to cluster) ms"
    using assms(1) Cons.prems key_belongs by (intro filter_cong) (auto simp: list_all_iff)
  with Cons show ?case by (simp add: machines_at_groups)
qed simp

subsection \<open>Properties\<close>

text \<open>
  C27. Listing the clusters fetches all machines once, and yet reports each matching cluster, in the
  order of the list, by the status computed from exactly its own machines: those of its namespace
  that carry its name in the cluster label (namespaces contain no slash).
\<close>

theorem list_clusters_by_machines:
  assumes "ListClusters c (opt_string args ''namespace'') (string_entries (opt_object args ''label_selector'')) s
      = (Inr clusters, t)"
    and "ListMachines c (opt_string args ''namespace'') '''' t = (Inr ms, u)"
    and "list_all (\<lambda>m. CHR ''/'' \<notin> set (Namespace (M_Meta m))) ms"
    and "list_all (\<lambda>cl. CHR ''/'' \<notin> set (Namespace (C_Meta cl))) clusters"
  shows "CreateListClustersHandler (Inr c) args s =
     bindE (list_each c ms (filter (\<lambda>cl. opt_string args ''search'' = ''''
         \<or> cluster_matches (ToLower (opt_string args ''search'')) cl) clusters)) listResult u"
proof -
  let ?search = "opt_string args ''search''"
  let ?found = "filter (\<lambda>cl. ?search = '''' \<or> cluster_matches (ToLower ?search) cl) clusters"
  have "list_all (\<lambda>cl. CHR ''/'' \<notin> set (Namespace (C_Meta cl))) ?found" using assms(4) by (simp add: list_all_iff)
  from list_summaries_each [OF assms(3) this]
  have "list_summaries c (group_machines ms []) ?found = list_each c ms ?found" .
  moreover have "(if ?search \<noteq> '''' then filter (cluster_matches (ToLower ?search)) clusters else clusters) = ?found"
    by simp
  ultimately show ?thesis
    using assms(1,2) by (simp add: CreateListClustersHandler_def with_client_def attempt_def Let_def go_simps)
qed

text \<open>
  C18. Without force the delete tool never deletes a cluster that is ready: it reads the status, and
  answers with the refusal, having made only reads; otherwise it is the client's DeleteCluster
  after the same reads, whose error is the tool's; and it reports a deletion only after one.
\<close>

theorem delete_tool_guarded:
  assumes "arg_string args ''namespace'' = Some ns" and "ns \<noteq> ''''"
    and "arg_string args ''name'' = Some n" and "n \<noteq> ''''"
  shows "case GetClusterStatus c ns n s of
     (Inl e, t) \<Rightarrow> CreateDeleteClusterHandler (Inr c) args s
         = (Inr (NewToolResultErrorFromErr ''failed to get cluster status'' e), t) \<and> ran is_read s t
   | (Inr st, t) \<Rightarrow> ran is_read s t \<and> CreateDeleteClusterHandler (Inr c) args s =
        (if St_Ready st \<and> arg_bool args ''force'' \<noteq> Some True
         then (Inr (ToolResultText (delete_refused ns n st) False), t)
         else (case DeleteCluster c ns n t of
             (Inl e, u) \<Rightarrow> (Inr (NewToolResultErrorFromErr ''failed to delete cluster'' e), u)
           | (Inr _, u) \<Rightarrow> (Inr (ToolResultText (delete_initiated ns n st) False), u)))"
proof -
  have force: "opt_bool args ''force'' \<longleftrightarrow> arg_bool args ''force'' = Some True"
    by (auto simp: opt_bool_def split: option.split)
  obtain r t where st: "GetClusterStatus c ns n s = (r, t)" by fastforce
  have "ran is_read s t" using emits_ran [OF status_reads(2) st] .
  with st assms show ?thesis
    by (auto simp: CreateDeleteClusterHandler_def with_client_def required_arg_def attempt_def jsonResult_def
        force go_simps split: sum.split prod.split)
qed

subsection \<open>Examples\<close>

definition tools_world :: world where
  "tools_world = empty_world\<lparr>w_clusters := [(example_cluster ''x'' [])\<lparr>C_ControlPlaneRef := None\<rparr>],
     w_machines := [example_machine ''m'' []]\<rparr>"

definition name_args :: "json gomap" where
  "name_args = [(''namespace'', JStr ''org''), (''name'', JStr ''x'')]"

theorem list_clusters_by_machines_witness:
  "\<exists>clusters ms u. CreateListClustersHandler (Inr (memory_client open_policy)) [] (start tools_world) =
     bindE (list_each (memory_client open_policy) ms clusters) listResult u \<and> length clusters = 1 \<and> length ms = 1"
proof -
  let ?c = "memory_client open_policy" and ?s = "start tools_world"
  obtain clusters t ms u where 1: "ListClusters ?c '''' [] ?s = (Inr clusters, t)" and 2: "ListMachines ?c '''' '''' t = (Inr ms, u)"
    and "length clusters = 1" "length ms = 1" 
    and "list_all (\<lambda>m. CHR ''/'' \<notin> set (Namespace (M_Meta m))) ms"
    and "list_all (\<lambda>cl. CHR ''/'' \<notin> set (Namespace (C_Meta cl))) clusters"
    by (simp add: ListClusters_def ListMachines_def tools_world_def example_simps Let_def)
  with list_clusters_by_machines [where c = ?c and args = "[]" and s = ?s] show ?thesis
    by (fastforce simp: opt_string_def arg_string_def opt_object_def arg_object_def string_entries_def map_filter_def)
qed

theorem delete_tool_guarded_witness:
  "\<exists>st t. GetClusterStatus (memory_client open_policy) ''org'' ''x'' (start tools_world) = (Inr st, t)
     \<and> ran is_read (start tools_world) t"
proof -
  obtain st t where st: "GetClusterStatus (memory_client open_policy) ''org'' ''x'' (start tools_world) = (Inr st, t)"
    by (simp add: GetClusterStatus_def GetCluster_def GetProviderForCluster_def ListMachines_def
        control_plane_version_def tools_world_def example_simps Let_def)
  with delete_tool_guarded [of name_args "''org''" "''x''" "memory_client open_policy" "start tools_world"]
  show ?thesis by (simp add: name_args_def arg_string_def)
qed

end
