(* ===== verification/Capi_MachineTools.thy ===== *)
theory Capi_MachineTools
  imports Capi_Results Capi_Node
begin

section \<open>The machine and node tools (pkg/mcp/handlers/machine.go)\<close>

text \<open>
  One definition per handler, as in Capi_ClusterTools.  Only the drain may fail to return, so its
  handler is a partial function of the session and the others are computations that always return.
\<close>

definition or_empty :: "string option \<Rightarrow> string" where
  "or_empty s = (case s of None \<Rightarrow> '''' | Some v \<Rightarrow> v)"

definition or_zero :: "int32 option \<Rightarrow> int32" where
  "or_zero r = (case r of None \<Rightarrow> 0 | Some v \<Rightarrow> v)"

definition node_ref_name :: "Machine \<Rightarrow> string" where
  "node_ref_name m = (case M_NodeRef m of None \<Rightarrow> '''' | Some r \<Rightarrow> Ref_Name r)"

subsection \<open>Machines\<close>

definition MachineSummary :: "Machine \<Rightarrow> doc" where
  "MachineSummary m = DObj (
     [(''name'', DStr (Name (M_Meta m))), (''namespace'', DStr (Namespace (M_Meta m)))]
     @ omit_str ''clusterName'' (M_ClusterName m) @ omit_str ''phase'' (M_Phase m)
     @ omit_str ''nodeName'' (node_ref_name m) @ omit_str ''providerID'' (or_empty (M_ProviderID m))
     @ omit_str ''version'' (or_empty (M_Version m)) @ [(''ready'', DBool (machineReady m))])"

definition CreateListMachinesHandler ::
  "goerr + 'w Client \<Rightarrow> json gomap \<Rightarrow> ('w, CallToolResult) io" where
  "CreateListMachinesHandler cl arguments =
     with_client cl (\<lambda>capiClient.
     required_arg arguments ''namespace'' (\<lambda>namespace.
     attempt (NewToolResultErrorFromErr ''failed to list machines'')
       (ListMachines capiClient namespace (opt_string arguments ''clusterName'')) (\<lambda>machines.
     listResult (map MachineSummary machines))))"

definition MachineDetail :: "Machine \<Rightarrow> doc" where
  "MachineDetail m = DObj (
     [(''name'', DStr (Name (M_Meta m))), (''namespace'', DStr (Namespace (M_Meta m)))]
     @ omit_str ''clusterName'' (M_ClusterName m) @ omit_str ''phase'' (M_Phase m)
     @ omit_str ''version'' (or_empty (M_Version m)) @ omit_str ''providerID'' (or_empty (M_ProviderID m))
     @ [(''ready'', DBool (machineReady m))]
     @ omit_nil ''node'' (map_option (\<lambda>r. DObj ([(''name'', DStr (Ref_Name r))] @ omit_str ''uid'' (Ref_UID r)))
         (M_NodeRef m))
     @ omit_nil ''bootstrap'' (objectRef (M_BootstrapRef m))
     @ omit_nil ''infrastructure'' (if Ref_Kind (M_InfrastructureRef m) \<noteq> ''''
         then objectRef (Some (M_InfrastructureRef m)) else None)
     @ omit_list ''addresses'' (machineAddresses (M_Addresses m))
     @ omit_list ''conditions'' (capiConditions (M_Conditions m)))"

definition CreateGetMachineHandler ::
  "goerr + 'w Client \<Rightarrow> json gomap \<Rightarrow> ('w, CallToolResult) io" where
  "CreateGetMachineHandler cl arguments =
     with_client cl (\<lambda>capiClient.
     required_arg arguments ''namespace'' (\<lambda>namespace.
     required_arg arguments ''name'' (\<lambda>name.
     attempt (NewToolResultErrorFromErr ''failed to get machine'') (GetMachine capiClient namespace name) (\<lambda>machine.
     jsonResult (MachineDetail machine)))))"

definition deleteMachineResult :: "string \<Rightarrow> string \<Rightarrow> bool \<Rightarrow> doc" where
  "deleteMachineResult namespace name force = DObj
     [(''namespace'', DStr namespace), (''name'', DStr name), (''force'', DBool force),
      (''message'', DStr (''Machine deletion initiated. Deletion is asynchronous: the node is drained, the machine is ''
        @ ''removed from the cluster and its infrastructure is cleaned up. Monitor with capi_get_machine.''))]"

definition CreateDeleteMachineHandler ::
  "goerr + 'w Client \<Rightarrow> json gomap \<Rightarrow> ('w, CallToolResult) io" where
  "CreateDeleteMachineHandler cl arguments =
     with_client cl (\<lambda>capiClient.
     required_arg arguments ''namespace'' (\<lambda>namespace.
     required_arg arguments ''name'' (\<lambda>name.
     let force = opt_bool arguments ''force'' in
     attempt (failed ''Failed to delete machine: %v'')
       (DeleteMachine capiClient \<lparr>DMO_Namespace = namespace, DMO_Name = name, DMO_Force = force\<rparr>) (\<lambda>_.
     jsonResult (deleteMachineResult namespace name force)))))"

definition remediateMachineResult :: "string \<Rightarrow> string \<Rightarrow> string \<Rightarrow> string \<Rightarrow> doc" where
  "remediateMachineResult namespace name phase nodeName = DObj (
     [(''namespace'', DStr namespace), (''name'', DStr name)]
     @ omit_str ''phase'' phase @ omit_str ''nodeName'' nodeName
     @ [(''message'', DStr (''Remediation triggered. The MachineHealthCheck controller processes it according to the ''
        @ ''remediation strategy (machine replacement, reboot or a custom remediation). Monitor with capi_get_machine.''))])"

definition CreateRemediateMachineHandler ::
  "goerr + 'w Client \<Rightarrow> json gomap \<Rightarrow> ('w, CallToolResult) io" where
  "CreateRemediateMachineHandler cl arguments =
     with_client cl (\<lambda>capiClient.
     required_arg arguments ''namespace'' (\<lambda>namespace.
     required_arg arguments ''name'' (\<lambda>name.
     attempt (failed ''Failed to get machine: %v'') (GetMachine capiClient namespace name) (\<lambda>machine.
     attempt (failed ''Failed to remediate machine: %v'') (RemediateMachine capiClient namespace name) (\<lambda>_.
     jsonResult (remediateMachineResult namespace name (M_Phase machine) (node_ref_name machine)))))))"

subsection \<open>MachineDeployments\<close>

definition MachineDeploymentSummary :: "MachineDeployment \<Rightarrow> doc" where
  "MachineDeploymentSummary md = DObj (
     [(''name'', DStr (Name (MD_Meta md))), (''namespace'', DStr (Namespace (MD_Meta md)))]
     @ omit_str ''clusterName'' (MD_ClusterName md) @ omit_str ''phase'' (MD_Phase md)
     @ [(''replicas'', DInt32 (or_zero (MD_Replicas md))), (''readyReplicas'', DInt32 (MD_ReadyReplicas md)),
        (''updatedReplicas'', DInt32 (MD_UpdatedReplicas md)),
        (''availableReplicas'', DInt32 (MD_AvailableReplicas md))]
     @ omit_str ''version'' (or_empty (MD_Version md)))"

definition CreateListMachineDeploymentsHandler ::
  "goerr + 'w Client \<Rightarrow> json gomap \<Rightarrow> ('w, CallToolResult) io" where
  "CreateListMachineDeploymentsHandler cl arguments =
     with_client cl (\<lambda>capiClient.
     required_arg arguments ''namespace'' (\<lambda>namespace.
     attempt (NewToolResultErrorFromErr ''failed to list machine deployments'')
       (ListMachineDeployments capiClient namespace (opt_string arguments ''clusterName'')) (\<lambda>mds.
     listResult (map MachineDeploymentSummary mds))))"

definition createMachineDeploymentResult ::
  "CreateMachineDeploymentOptions \<Rightarrow> int32 option \<Rightarrow> doc" where
  "createMachineDeploymentResult opts minReadySeconds = DObj (
     [(''namespace'', DStr (CMO_Namespace opts)), (''name'', DStr (CMO_Name opts)),
      (''clusterName'', DStr (CMO_ClusterName opts)), (''replicas'', DInt32 (CMO_Replicas opts)),
      (''version'', DStr (CMO_Version opts)),
      (''infrastructure'', ObjectRef (Ref_Kind (CMO_InfrastructureRef opts))
         (Ref_Name (CMO_InfrastructureRef opts)) (Ref_APIVersion (CMO_InfrastructureRef opts))),
      (''bootstrap'', ObjectRef (Ref_Kind (CMO_BootstrapConfigRef opts))
         (Ref_Name (CMO_BootstrapConfigRef opts)) (Ref_APIVersion (CMO_BootstrapConfigRef opts)))]
     @ omit_nil ''minReadySeconds'' (map_option DInt32 minReadySeconds)
     @ [(''message'', DStr (''MachineDeployment created. It requires an existing infrastructure template (e.g. AWSMachineTemplate) ''
        @ ''and bootstrap config template (e.g. KubeadmConfigTemplate). Monitor with capi_list_machines; ''
        @ ''scale with capi_scale_machinedeployment.''))])"

definition reference :: "string \<Rightarrow> string \<Rightarrow> string \<Rightarrow> ObjectReference" where
  "reference kind name apiVersion = \<lparr>Ref_Kind = kind, Ref_Namespace = '''', Ref_Name = name,
     Ref_APIVersion = apiVersion, Ref_UID = ''''\<rparr>"

definition CreateCreateMachineDeploymentHandler ::
  "float_impl \<Rightarrow> goerr + 'w Client \<Rightarrow> json gomap \<Rightarrow> ('w, CallToolResult) io" where
  "CreateCreateMachineDeploymentHandler fi cl arguments =
     with_client cl (\<lambda>capiClient.
     required_arg arguments ''namespace'' (\<lambda>namespace.
     required_arg arguments ''name'' (\<lambda>name.
     required_arg arguments ''cluster_name'' (\<lambda>clusterName.
     let replicas = (case arg_number arguments ''replicas'' of None \<Rightarrow> 1 | Some r \<Rightarrow> to_int32 fi r);
         infraKind = opt_string arguments ''infra_kind''; infraName = opt_string arguments ''infra_name'';
         bootstrapKind = opt_string arguments ''bootstrap_kind'';
         bootstrapName = opt_string arguments ''bootstrap_name'';
         version = (if opt_string arguments ''version'' = '''' then ''v1.29.0''
           else opt_string arguments ''version'');
         opts = \<lparr>CMO_Namespace = namespace, CMO_Name = name, CMO_ClusterName = clusterName,
           CMO_Replicas = replicas,
           CMO_InfrastructureRef = reference infraKind infraName (opt_string arguments ''infra_api_version''),
           CMO_BootstrapConfigRef = reference bootstrapKind bootstrapName
             (opt_string arguments ''bootstrap_api_version''),
           CMO_Version = version, CMO_Labels = [], CMO_NodeDrainTimeout = None,
           CMO_MinReadySeconds = 0\<rparr> in
     if infraKind = '''' \<or> infraName = '''' then tool_error ''infra_kind and infra_name are required''
     else if bootstrapKind = '''' \<or> bootstrapName = '''' then
       tool_error ''bootstrap_kind and bootstrap_name are required''
     else attempt (failed ''Failed to create machine deployment: %v'')
       (CreateMachineDeployment capiClient opts) (\<lambda>md.
     jsonResult (createMachineDeploymentResult opts (MD_MinReadySeconds md)))))))"

text \<open>The replica counts are int32, and so is their difference.\<close>

definition scale_message :: "int32 \<Rightarrow> int32 \<Rightarrow> doc" where
  "scale_message currentReplicas replicas =
     (if sint replicas > sint currentReplicas then
        DFmt ''Scaling up by %d machines: new machines are provisioned, bootstrapped and joined to the cluster. Monitor with capi_list_machines.''
          [Fd (sint (replicas - currentReplicas))]
      else if sint replicas < sint currentReplicas then
        DFmt ''Scaling down by %d machines: nodes are cordoned, drained, removed from the cluster and their infrastructure cleaned up. Monitor with capi_list_machines.''
          [Fd (sint (currentReplicas - replicas))]
      else DStr ''No change: the replica count is unchanged'')"

definition scaleMachineDeploymentResult :: "string \<Rightarrow> string \<Rightarrow> int32 \<Rightarrow> int32 \<Rightarrow> doc" where
  "scaleMachineDeploymentResult namespace name previousReplicas replicas = DObj
     [(''namespace'', DStr namespace), (''name'', DStr name),
      (''previousReplicas'', DInt32 previousReplicas), (''replicas'', DInt32 replicas),
      (''message'', scale_message previousReplicas replicas)]"

definition CreateScaleMachineDeploymentHandler ::
  "float_impl \<Rightarrow> goerr + 'w Client \<Rightarrow> json gomap \<Rightarrow> ('w, CallToolResult) io" where
  "CreateScaleMachineDeploymentHandler fi cl arguments =
     with_client cl (\<lambda>capiClient.
     required_arg arguments ''namespace'' (\<lambda>namespace.
     required_arg arguments ''name'' (\<lambda>name.
     case arg_number arguments ''replicas'' of
       None \<Rightarrow> tool_error ''replicas argument is required''
     | Some replicasFloat \<Rightarrow>
         let replicas = to_int32 fi replicasFloat in
         attempt (failed ''Failed to get machine deployment: %v'')
           (ListMachineDeployments capiClient namespace '''') (\<lambda>mds.
         case find (\<lambda>md. Name (MD_Meta md) = name) mds of
           None \<Rightarrow> retE (NewToolResultError (''Machine deployment %s/%s not found'', [Fs namespace, Fs name]))
         | Some md \<Rightarrow>
             attempt (failed ''Failed to scale machine deployment: %v'')
               (ScaleMachineDeployment capiClient namespace name replicas) (\<lambda>_.
             jsonResult (scaleMachineDeploymentResult namespace name (or_zero (MD_Replicas md)) replicas))))))"

definition updateMachineDeploymentResult :: "string \<Rightarrow> string \<Rightarrow> MachineDeployment \<Rightarrow> doc" where
  "updateMachineDeploymentResult namespace name md = DObj (
     [(''namespace'', DStr namespace), (''name'', DStr name)]
     @ omit_nil ''replicas'' (map_option DInt32 (MD_Replicas md))
     @ omit_str ''version'' (or_empty (MD_Version md))
     @ omit_nil ''minReadySeconds'' (map_option DInt32 (MD_MinReadySeconds md))
     @ [(''readyReplicas'', DInt32 (MD_ReadyReplicas md)), (''updatedReplicas'', DInt32 (MD_UpdatedReplicas md)),
        (''availableReplicas'', DInt32 (MD_AvailableReplicas md)),
        (''message'', DStr ''MachineDeployment updated'')])"

definition CreateUpdateMachineDeploymentHandler ::
  "float_impl \<Rightarrow> goerr + 'w Client \<Rightarrow> json gomap \<Rightarrow> ('w, CallToolResult) io" where
  "CreateUpdateMachineDeploymentHandler fi cl arguments =
     with_client cl (\<lambda>capiClient.
     required_arg arguments ''namespace'' (\<lambda>namespace.
     required_arg arguments ''name'' (\<lambda>name.
     let opts = \<lparr>UMO_Namespace = namespace, UMO_Name = name,
           UMO_Version = (case arg_string arguments ''version'' of None \<Rightarrow> None
             | Some version \<Rightarrow> if version \<noteq> '''' then Some version else None),
           UMO_Replicas = map_option (to_int32 fi) (arg_number arguments ''replicas''),
           UMO_Labels = string_entries (opt_object arguments ''labels''),
           UMO_Annotations = string_entries (opt_object arguments ''annotations''),
           UMO_MinReadySeconds = map_option (to_int32 fi) (arg_number arguments ''min_ready_seconds''),
           UMO_NodeDrainTimeout = None\<rparr> in
     attempt (failed ''Failed to update machine deployment: %v'')
       (UpdateMachineDeployment capiClient opts) (\<lambda>md.
     jsonResult (updateMachineDeploymentResult namespace name md)))))"

definition rolloutMachineDeploymentResult :: "string \<Rightarrow> string \<Rightarrow> string \<Rightarrow> doc" where
  "rolloutMachineDeploymentResult namespace name reason = DObj (
     [(''namespace'', DStr namespace), (''name'', DStr name)] @ omit_str ''reason'' reason
     @ [(''message'', DStr (''Rollout requested: spec.rolloutAfter is set to now, so CAPI replaces every machine as the deployment's ''
        @ ''rollout strategy says. Monitor with capi_list_machines and capi_list_machinedeployments.''))])"

definition CreateRolloutMachineDeploymentHandler ::
  "goerr + 'w Client \<Rightarrow> json gomap \<Rightarrow> ('w, CallToolResult) io" where
  "CreateRolloutMachineDeploymentHandler cl arguments =
     with_client cl (\<lambda>capiClient.
     required_arg arguments ''namespace'' (\<lambda>namespace.
     required_arg arguments ''name'' (\<lambda>name.
     let reason = opt_string arguments ''reason'' in
     attempt (failed ''Failed to trigger rollout: %v'')
       (RolloutMachineDeployment capiClient namespace name reason) (\<lambda>_.
     jsonResult (rolloutMachineDeploymentResult namespace name reason)))))"

subsection \<open>MachineSets\<close>

definition machine_set_counts :: "MachineSet \<Rightarrow> (string \<times> doc) list" where
  "machine_set_counts ms =
     [(''name'', DStr (Name (MS_Meta ms))), (''namespace'', DStr (Namespace (MS_Meta ms)))]
     @ omit_str ''clusterName'' (MS_ClusterName ms)
     @ [(''replicas'', DInt32 (or_zero (MS_Replicas ms))), (''currentReplicas'', DInt32 (MS_CurrentReplicas ms)),
        (''readyReplicas'', DInt32 (MS_ReadyReplicas ms)),
        (''availableReplicas'', DInt32 (MS_AvailableReplicas ms))]"

definition machine_set_infrastructure :: "MachineSet \<Rightarrow> doc option" where
  "machine_set_infrastructure ms = (if Ref_Name (MS_InfrastructureRef ms) \<noteq> ''''
     then objectRef (Some (MS_InfrastructureRef ms)) else None)"

definition MachineSetSummary :: "MachineSet \<Rightarrow> doc" where
  "MachineSetSummary ms = DObj (machine_set_counts ms
     @ omit_nil ''owner'' (map_option (\<lambda>ow. ObjectRef (RefKind ow) (RefName ow) '''')
         (find (\<lambda>ow. RefKind ow = ''MachineDeployment'') (OwnerReferences (MS_Meta ms))))
     @ omit_nil ''infrastructure'' (machine_set_infrastructure ms))"

definition CreateListMachineSetsHandler ::
  "goerr + 'w Client \<Rightarrow> json gomap \<Rightarrow> ('w, CallToolResult) io" where
  "CreateListMachineSetsHandler cl arguments =
     with_client cl (\<lambda>capiClient.
     required_arg arguments ''namespace'' (\<lambda>namespace.
     attempt (NewToolResultErrorFromErr ''failed to list machine sets'')
       (ListMachineSets capiClient namespace (opt_string arguments ''clusterName'')) (\<lambda>machineSets.
     listResult (map MachineSetSummary machineSets))))"

definition MachineSetDetail :: "MachineSet \<Rightarrow> doc" where
  "MachineSetDetail ms = DObj (machine_set_counts ms
     @ omit_str ''failureReason'' (or_empty (MS_FailureReason ms))
     @ omit_str ''failureMessage'' (or_empty (MS_FailureMessage ms))
     @ [(''template'', DObj (omit_str ''version'' (or_empty (MS_Version ms))
          @ omit_nil ''infrastructure'' (machine_set_infrastructure ms)
          @ omit_nil ''bootstrap'' (objectRef (MS_BootstrapRef ms))))]
     @ omit_list ''owners'' (map (\<lambda>ow. ObjectRef (RefKind ow) (RefName ow) '''') (OwnerReferences (MS_Meta ms)))
     @ omit_list ''conditions'' (capiConditions (MS_Conditions ms)))"

definition CreateGetMachineSetHandler ::
  "goerr + 'w Client \<Rightarrow> json gomap \<Rightarrow> ('w, CallToolResult) io" where
  "CreateGetMachineSetHandler cl arguments =
     with_client cl (\<lambda>capiClient.
     required_arg arguments ''namespace'' (\<lambda>namespace.
     required_arg arguments ''name'' (\<lambda>name.
     attempt (NewToolResultErrorFromErr ''failed to get machine set'') (GetMachineSet capiClient namespace name) (\<lambda>ms.
     jsonResult (MachineSetDetail ms)))))"

subsection \<open>Nodes\<close>

text \<open>The options the three node tools share; each sets its own fields on top.\<close>

definition node_options :: "json gomap \<Rightarrow> NodeOperationOptions" where
  "node_options arguments = \<lparr>NO_Namespace = opt_string arguments ''namespace'',
     NO_MachineName = opt_string arguments ''machine_name'', NO_NodeName = opt_string arguments ''node_name'',
     NO_GracePeriodSeconds = None, NO_IgnoreDaemonSets = False, NO_DeleteLocalData = False,
     NO_Force = False, NO_Timeout = 0, NO_Uncordon = False\<rparr>"

definition no_node_named :: "json gomap \<Rightarrow> bool" where
  "no_node_named arguments \<longleftrightarrow> opt_string arguments ''node_name'' = ''''
     \<and> (opt_string arguments ''namespace'' = '''' \<or> opt_string arguments ''machine_name'' = '''')"

definition node_required :: string where
  "node_required = ''either node_name or (namespace and machine_name) must be provided''"

definition drain_node_options :: "float_impl \<Rightarrow> json gomap \<Rightarrow> NodeOperationOptions" where
  "drain_node_options fi arguments = (node_options arguments)
     \<lparr>NO_IgnoreDaemonSets := opt_bool arguments ''ignore_daemonsets'',
      NO_DeleteLocalData := opt_bool arguments ''delete_local_data'',
      NO_Force := opt_bool arguments ''force'',
      NO_GracePeriodSeconds := map_option (to_int64 fi) (arg_number arguments ''grace_period_seconds''),
      NO_Timeout := (case arg_number arguments ''timeout_seconds'' of None \<Rightarrow> 0
        | Some timeoutFloat \<Rightarrow> to_int64 fi (fi_mul fi timeoutFloat 1000000000))\<rparr>"

definition drainNodeResult :: "json gomap \<Rightarrow> DrainResult \<Rightarrow> goerr option \<Rightarrow> doc" where
  "drainNodeResult arguments drained err = DObj (
     [(''nodeName'', DStr (DR_NodeName drained))]
     @ omit_str ''namespace'' (opt_string arguments ''namespace'')
     @ omit_str ''machineName'' (opt_string arguments ''machine_name'')
     @ [(''cordoned'', DBool True), (''drained'', DBool (err = None))]
     @ omit_list ''evicted'' (map DStr (DR_Evicted drained)) @ omit_list ''skipped'' (map DStr (DR_Skipped drained))
     @ [(''message'', case err of
          None \<Rightarrow> DStr ''Node drained: it is cordoned and every evicted pod is gone. Uncordon it with capi_cordon_node to schedule pods on it again.''
        | Some e \<Rightarrow> DFmt ''Drain incomplete, the node stays cordoned: %v'' [Fe e])])"

definition drain_result :: "json gomap \<Rightarrow> DrainResult option \<Rightarrow> goerr option \<Rightarrow> CallToolResult" where
  "drain_result arguments drained err = (case drained of
       None \<Rightarrow> NewToolResultError (''Failed to drain node: %v'',
         [case err of None \<Rightarrow> Fs ''<nil>'' | Some e \<Rightarrow> Fe e])
     | Some d \<Rightarrow> ToolResultText (drainNodeResult arguments d err) (err \<noteq> None))"

definition CreateDrainNodeHandler :: "float_impl \<Rightarrow> goerr + 'w Client \<Rightarrow> json gomap \<Rightarrow> 'w session
    \<Rightarrow> ((goerr + CallToolResult) \<times> 'w session) option" where
  "CreateDrainNodeHandler fi cl arguments s = (case cl of
       Inl e \<Rightarrow> Some (failE e s)
     | Inr capiClient \<Rightarrow>
         if no_node_named arguments then Some (tool_error node_required s)
         else (case DrainNode capiClient (drain_node_options fi arguments) s of
             None \<Rightarrow> None
           | Some ((drained, err), t) \<Rightarrow> Some (Inr (drain_result arguments drained err), t)))"

definition cordonNodeResult :: "string \<Rightarrow> string \<Rightarrow> string \<Rightarrow> bool \<Rightarrow> doc" where
  "cordonNodeResult nodeName namespace machineName uncordon = DObj (
     omit_str ''nodeName'' nodeName @ omit_str ''namespace'' namespace @ omit_str ''machineName'' machineName
     @ [(''unschedulable'', DBool (\<not> uncordon)),
        (''message'', DStr (if uncordon
           then ''Node uncordoned: it is schedulable again and accepts new workloads.''
           else ''Node cordoned: no new pods are scheduled on it while existing pods keep running. Use capi_drain_node to evict pods.''))])"

definition CreateCordonNodeHandler ::
  "goerr + 'w Client \<Rightarrow> json gomap \<Rightarrow> ('w, CallToolResult) io" where
  "CreateCordonNodeHandler cl arguments =
     with_client cl (\<lambda>capiClient.
     if no_node_named arguments then tool_error node_required
     else let opts = (node_options arguments)\<lparr>NO_Uncordon := opt_bool arguments ''uncordon''\<rparr> in
       attempt (failed ''Failed to update node: %v'') (CordonNode capiClient opts) (\<lambda>_.
       jsonResult (cordonNodeResult (NO_NodeName opts) (NO_Namespace opts) (NO_MachineName opts)
         (NO_Uncordon opts))))"

definition quantity_field :: "Quantity gomap \<Rightarrow> string \<Rightarrow> (string \<times> doc) list" where
  "quantity_field l k = (case map_of l k of None \<Rightarrow> []
     | Some q \<Rightarrow> if Q_IsZero q then [] else omit_str k (Q_String q))"

definition nodeResources :: "Quantity gomap \<Rightarrow> doc" where
  "nodeResources l = DObj (quantity_field l ''cpu'' @ quantity_field l ''memory'' @ quantity_field l ''pods'')"

definition NodeInfo :: "NodeSystemInfo \<Rightarrow> doc" where
  "NodeInfo info = DObj (omit_str ''operatingSystem'' (NI_OperatingSystem info)
     @ omit_str ''osImage'' (NI_OSImage info) @ omit_str ''kernelVersion'' (NI_KernelVersion info)
     @ omit_str ''containerRuntimeVersion'' (NI_ContainerRuntimeVersion info)
     @ omit_str ''kubeletVersion'' (NI_KubeletVersion info) @ omit_str ''architecture'' (NI_Architecture info))"

text \<open>The creation time is opaque; how it is printed as RFC 3339 in UTC is a parameter.\<close>

definition NodeStatus :: "(string \<Rightarrow> string) \<Rightarrow> Node \<Rightarrow> doc" where
  "NodeStatus rfc3339 node = DObj (
     [(''name'', DStr (Name (N_Meta node))), (''uid'', DStr (UID (N_Meta node))),
      (''createdAt'', DStr (rfc3339 (CreationTimestamp (N_Meta node)))),
      (''schedulable'', DBool (\<not> N_Unschedulable node))]
     @ omit_str ''providerID'' (N_ProviderID node)
     @ [(''nodeInfo'', NodeInfo (N_NodeInfo node)), (''capacity'', nodeResources (N_Capacity node)),
        (''allocatable'', nodeResources (N_Allocatable node))]
     @ omit_list ''conditions'' (nodeConditions (N_Conditions node))
     @ omit_list ''addresses'' (nodeAddresses (N_Addresses node))
     @ omit_list ''taints'' (map (\<lambda>t. DObj ([(''key'', DStr (Taint_Key t))] @ omit_str ''value'' (Taint_Value t)
         @ [(''effect'', DStr (Taint_Effect t))])) (N_Taints node)))"

definition CreateNodeStatusHandler ::
  "(string \<Rightarrow> string) \<Rightarrow> goerr + 'w Client \<Rightarrow> json gomap \<Rightarrow> ('w, CallToolResult) io" where
  "CreateNodeStatusHandler rfc3339 cl arguments =
     with_client cl (\<lambda>capiClient.
     if no_node_named arguments then tool_error node_required
     else attempt (failed ''Failed to get node status: %v'')
       (GetNodeStatus capiClient (node_options arguments)) (\<lambda>node.
     jsonResult (NodeStatus rfc3339 node)))"

subsection \<open>What the machine and node tools reach\<close>

lemma machine_tools_read [emits]:
  "emits is_read (CreateListMachinesHandler cl args)"
  "emits is_read (CreateGetMachineHandler cl args)"
  "emits is_read (CreateListMachineDeploymentsHandler cl args)"
  "emits is_read (CreateListMachineSetsHandler cl args)"
  "emits is_read (CreateGetMachineSetHandler cl args)"
  "emits is_read (CreateNodeStatusHandler rfc3339 cl args)"
  by (auto simp: CreateListMachinesHandler_def CreateGetMachineHandler_def
      CreateListMachineDeploymentsHandler_def CreateListMachineSetsHandler_def
      CreateGetMachineSetHandler_def CreateNodeStatusHandler_def intro!: emits)

lemma machine_tools_read_only:
  assumes "\<And>c. cl = Inr c \<Longrightarrow> ReadOnly (policy c)"
  shows "emits is_read (CreateDeleteMachineHandler cl args)"
    "emits is_read (CreateRemediateMachineHandler cl args)"
    "emits is_read (CreateCreateMachineDeploymentHandler fi cl args)"
    "emits is_read (CreateScaleMachineDeploymentHandler fi cl args)"
    "emits is_read (CreateUpdateMachineDeploymentHandler fi cl args)"
    "emits is_read (CreateRolloutMachineDeploymentHandler cl args)"
    "emits is_read (CreateCordonNodeHandler cl args)"
  by (auto simp: CreateDeleteMachineHandler_def CreateRemediateMachineHandler_def
      CreateCreateMachineDeploymentHandler_def CreateScaleMachineDeploymentHandler_def
      CreateUpdateMachineDeploymentHandler_def CreateRolloutMachineDeploymentHandler_def
      CreateCordonNodeHandler_def Let_def
      intro!: emits assms delete_machine.read_only_reads remediate_machine.read_only_reads
      CreateMachineDeployment_read_only update_machine_deployment.read_only_reads
      rollout_machine_deployment.read_only_reads scale_machine_deployment.read_only_reads
      CordonNode_read_only)

end
