(* ===== verification/Capi_ProviderTools.thy ===== *)
theory Capi_ProviderTools
  imports Capi_Results
begin

section \<open>The provider tools (pkg/mcp/handlers/provider_*.go)\<close>

text \<open>
  The tools of the AWS, Azure, GCP and vSphere providers are instances of two generic handlers, one
  that lists and one that gets clusters by the kind of their infrastructure; two more tools answer
  from static tables.  The placeholder handlers of these files are registered as no tool and are
  left out.
\<close>

subsection \<open>The generic handlers (provider_common.go)\<close>

definition hasInfrastructureKind :: "Cluster \<Rightarrow> string list \<Rightarrow> bool" where
  "hasInfrastructureKind cluster kinds = (case C_InfrastructureRef cluster of
       None \<Rightarrow> False | Some ref \<Rightarrow> List.member kinds (Ref_Kind ref))"

definition ProviderClusterSummary :: "Cluster \<Rightarrow> doc" where
  "ProviderClusterSummary cluster = DObj (
     [(''name'', DStr (Name (C_Meta cluster))), (''namespace'', DStr (Namespace (C_Meta cluster))),
      (''infrastructureKind'', DStr (case C_InfrastructureRef cluster of None \<Rightarrow> '''' | Some ref \<Rightarrow> Ref_Kind ref))]
     @ omit_str ''phase'' (C_Phase cluster)
     @ [(''infrastructureReady'', DBool (C_InfrastructureReady cluster))])"

definition createProviderListClustersHandler ::
  "string list \<Rightarrow> goerr + 'w Client \<Rightarrow> json gomap \<Rightarrow> ('w, CallToolResult) io" where
  "createProviderListClustersHandler kinds cl arguments =
     with_client cl (\<lambda>capiClient.
     attempt (NewToolResultErrorFromErr ''failed to list clusters'')
       (ListClusters capiClient (opt_string arguments ''namespace'') []) (\<lambda>clusters.
     listResult (map ProviderClusterSummary (filter (\<lambda>c. hasInfrastructureKind c kinds) clusters))))"

text \<open>\<open>article\<close>: "an AWS cluster", "a GCP cluster".\<close>

definition article :: "string \<Rightarrow> string" where
  "article providerName = (if providerName = ''AWS'' \<or> providerName = ''Azure'' then ''n'' else '''')"

definition network_doc :: "ClusterNetwork option \<Rightarrow> doc option" where
  "network_doc network = (case network of
       None \<Rightarrow> None
     | Some n \<Rightarrow>
         let podCIDRs = (case CN_Pods n of None \<Rightarrow> [] | Some b \<Rightarrow> b);
             serviceCIDRs = (case CN_Services n of None \<Rightarrow> [] | Some b \<Rightarrow> b)
         in if podCIDRs \<noteq> [] \<or> serviceCIDRs \<noteq> [] then
              Some (DObj (omit_list ''podCIDRs'' (map DStr podCIDRs)
                @ omit_list ''serviceCIDRs'' (map DStr serviceCIDRs)))
            else None)"

definition ProviderClusterDetail :: "ObjectReference \<Rightarrow> string \<Rightarrow> Cluster \<Rightarrow> doc" where
  "ProviderClusterDetail ref note cluster = DObj (
     [(''name'', DStr (Name (C_Meta cluster))), (''namespace'', DStr (Namespace (C_Meta cluster)))]
     @ omit_str ''phase'' (C_Phase cluster)
     @ [(''infrastructureReady'', DBool (C_InfrastructureReady cluster)),
        (''controlPlaneReady'', DBool (C_ControlPlaneReady cluster)),
        (''infrastructure'', ObjectRef (Ref_Kind ref) (Ref_Name ref) (Ref_APIVersion ref))]
     @ omit_nil ''network'' (network_doc (C_ClusterNetwork cluster))
     @ omit_list ''conditions'' (capiConditions (C_Conditions cluster))
     @ [(''note'', DStr note)])"

text \<open>A cluster that passes the check has a reference; the other branch is the mismatch.\<close>

definition createProviderGetClusterHandler ::
  "string \<Rightarrow> string \<Rightarrow> string list \<Rightarrow> goerr + 'w Client \<Rightarrow> json gomap \<Rightarrow> ('w, CallToolResult) io" where
  "createProviderGetClusterHandler providerName note kinds cl arguments =
     with_client cl (\<lambda>capiClient.
     required_arg arguments ''namespace'' (\<lambda>namespace.
     required_arg arguments ''name'' (\<lambda>name.
     attempt (NewToolResultErrorFromErr ''failed to get cluster'') (GetCluster capiClient namespace name) (\<lambda>cluster.
     case (if hasInfrastructureKind cluster kinds then C_InfrastructureRef cluster else None) of
       None \<Rightarrow> retE (NewToolResultError (''Cluster %s/%s is not a%s %s cluster'',
         [Fs namespace, Fs name, Fs (article providerName), Fs providerName]))
     | Some ref \<Rightarrow> jsonResult (ProviderClusterDetail ref note cluster)))))"

subsection \<open>The providers (provider_aws.go, provider_azure_gcp.go, provider_vsphere.go)\<close>

definition awsClusterNote :: string where
  "awsClusterNote = ''Provider-specific infrastructure details (VPC, subnets, security groups) live on the AWSCluster resource, which this tool does not read.''"

definition azureClusterNote :: string where
  "azureClusterNote = ''Provider-specific infrastructure details (resource group, virtual network, subnets) live on the AzureCluster resource, which this tool does not read.''"

definition gcpClusterNote :: string where
  "gcpClusterNote = ''Provider-specific infrastructure details (VPC, subnets, firewall rules) live on the GCPCluster resource, which this tool does not read.''"

definition vsphereClusterNote :: string where
  "vsphereClusterNote = ''Provider-specific infrastructure details (datacenter, datastore, network, resource pool) live on the VSphereCluster resource, which this tool does not read.''"

definition CreateAWSListClustersHandler ::
  "goerr + 'w Client \<Rightarrow> json gomap \<Rightarrow> ('w, CallToolResult) io" where
  "CreateAWSListClustersHandler = createProviderListClustersHandler [''AWSCluster'', ''AWSManagedCluster'']"

definition CreateAWSGetClusterHandler ::
  "goerr + 'w Client \<Rightarrow> json gomap \<Rightarrow> ('w, CallToolResult) io" where
  "CreateAWSGetClusterHandler =
     createProviderGetClusterHandler ''AWS'' awsClusterNote [''AWSCluster'', ''AWSManagedCluster'']"

definition CreateAzureListClustersHandler ::
  "goerr + 'w Client \<Rightarrow> json gomap \<Rightarrow> ('w, CallToolResult) io" where
  "CreateAzureListClustersHandler = createProviderListClustersHandler [''AzureCluster'', ''AzureManagedCluster'']"

definition CreateAzureGetClusterHandler ::
  "goerr + 'w Client \<Rightarrow> json gomap \<Rightarrow> ('w, CallToolResult) io" where
  "CreateAzureGetClusterHandler =
     createProviderGetClusterHandler ''Azure'' azureClusterNote [''AzureCluster'', ''AzureManagedCluster'']"

definition CreateGCPListClustersHandler ::
  "goerr + 'w Client \<Rightarrow> json gomap \<Rightarrow> ('w, CallToolResult) io" where
  "CreateGCPListClustersHandler = createProviderListClustersHandler [''GCPCluster'', ''GCPManagedCluster'']"

definition CreateGCPGetClusterHandler ::
  "goerr + 'w Client \<Rightarrow> json gomap \<Rightarrow> ('w, CallToolResult) io" where
  "CreateGCPGetClusterHandler =
     createProviderGetClusterHandler ''GCP'' gcpClusterNote [''GCPCluster'', ''GCPManagedCluster'']"

definition CreateVSphereListClustersHandler ::
  "goerr + 'w Client \<Rightarrow> json gomap \<Rightarrow> ('w, CallToolResult) io" where
  "CreateVSphereListClustersHandler = createProviderListClustersHandler [''VSphereCluster'']"

definition CreateVSphereGetClusterHandler ::
  "goerr + 'w Client \<Rightarrow> json gomap \<Rightarrow> ('w, CallToolResult) io" where
  "CreateVSphereGetClusterHandler =
     createProviderGetClusterHandler ''vSphere'' vsphereClusterNote [''VSphereCluster'']"

definition awsMachineTemplateResult :: "string \<Rightarrow> string \<Rightarrow> string \<Rightarrow> doc" where
  "awsMachineTemplateResult namespace name note = DObj
     [(''namespace'', DStr namespace), (''name'', DStr name), (''note'', DStr note)]"

definition awsMachineTemplateSummary :: "MachineDeployment \<Rightarrow> doc" where
  "awsMachineTemplateSummary md = DObj
     [(''name'', DStr (Ref_Name (MD_InfrastructureRef md))),
      (''usedBy'', ObjectRef ''MachineDeployment'' (Name (MD_Meta md)) '''')]"

text \<open>Here a failed list is the handler's own error.\<close>

definition CreateAWSGetMachineTemplateHandler ::
  "goerr + 'w Client \<Rightarrow> json gomap \<Rightarrow> ('w, CallToolResult) io" where
  "CreateAWSGetMachineTemplateHandler cl arguments =
     with_client cl (\<lambda>capiClient.
     required_arg arguments ''namespace'' (\<lambda>namespace.
     let name = opt_string arguments ''name'' in
     if name \<noteq> '''' then jsonResult (awsMachineTemplateResult namespace name
       ''Reading an AWSMachineTemplate (instance type, AMI, security groups, SSH key, IAM profile, user data) requires the AWS provider CRDs and is not implemented.'')
     else
       bindE (wrapE (\<lambda>e. Errorf ''failed to list machine deployments: %w'' [Fw e])
         (ListMachineDeployments capiClient namespace '''')) (\<lambda>mds.
       listResult (map awsMachineTemplateSummary
         (filter (\<lambda>md. Ref_Kind (MD_InfrastructureRef md) = ''AWSMachineTemplate'') mds)))))"

subsection \<open>The static answers (provider_generic.go)\<close>

definition infraAPIV1Beta1 :: string where
  "infraAPIV1Beta1 = ''infrastructure.cluster.x-k8s.io/v1beta1''"

definition infrastructureProvider :: "string \<Rightarrow> string \<Rightarrow> string \<Rightarrow> doc" where
  "infrastructureProvider name apiVersion description = DObj
     [(''name'', DStr name), (''apiVersion'', DStr apiVersion), (''description'', DStr description)]"

definition CreateListInfrastructureProvidersHandler :: "('w, CallToolResult) io" where
  "CreateListInfrastructureProvidersHandler = jsonResult (DObj
     [(''items'', DArr
        [infrastructureProvider ''AWS'' ''infrastructure.cluster.x-k8s.io/v1beta2'' ''Amazon Web Services infrastructure provider'',
         infrastructureProvider ''Azure'' infraAPIV1Beta1 ''Microsoft Azure infrastructure provider'',
         infrastructureProvider ''GCP'' infraAPIV1Beta1 ''Google Cloud Platform infrastructure provider'',
         infrastructureProvider ''vSphere'' infraAPIV1Beta1 ''VMware vSphere infrastructure provider'']),
      (''note'', DStr ''Commonly available providers; the controllers deployed in the management cluster determine which are actually installed.'')])"

definition strings_array :: "string list \<Rightarrow> doc list" where
  "strings_array ss = map DStr ss"

definition providerConfig ::
  "Provider \<Rightarrow> string list \<Rightarrow> string list \<Rightarrow> string list \<Rightarrow> (string \<times> string) list \<Rightarrow> doc" where
  "providerConfig provider credentials requiredSettings optionalSettings resources = DObj (
     [(''provider'', DStr (provider_string provider)), (''requiredCredentials'', DArr (strings_array credentials))]
     @ omit_list ''requiredSettings'' (strings_array requiredSettings)
     @ omit_list ''optionalSettings'' (strings_array optionalSettings)
     @ [(''resources'', DArr (map (\<lambda>(k, d). DObj [(''kind'', DStr k), (''description'', DStr d)]) resources))])"

definition descMachineTemplate :: string where
  "descMachineTemplate = ''Template for creating machines''"

definition providerConfigs :: "(string \<times> doc) list" where
  "providerConfigs =
     [(provider_string ProviderAWS, providerConfig ProviderAWS
         [''AWS_ACCESS_KEY_ID'', ''AWS_SECRET_ACCESS_KEY'', ''AWS_REGION''] []
         [''AWS_SESSION_TOKEN (temporary credentials)'', ''AWS_PROFILE (use a specific profile)'']
         [(''AWSCluster'', ''Manages VPC, subnets, security groups''), (''AWSMachine'', ''Individual EC2 instances''),
          (''AWSMachineTemplate'', descMachineTemplate), (''AWSManagedControlPlane'', ''EKS-based control plane'')]),
      (provider_string ProviderAzure, providerConfig ProviderAzure
         [''AZURE_SUBSCRIPTION_ID'', ''AZURE_TENANT_ID'', ''AZURE_CLIENT_ID'', ''AZURE_CLIENT_SECRET''] []
         [''AZURE_ENVIRONMENT (AzurePublicCloud, AzureGermanCloud, ...)'']
         [(''AzureCluster'', ''Manages resource group, vnet, subnets''), (''AzureMachine'', ''Individual VM instances''),
          (''AzureMachineTemplate'', descMachineTemplate), (''AzureManagedControlPlane'', ''AKS-based control plane'')]),
      (provider_string ProviderGCP, providerConfig ProviderGCP
         [''GOOGLE_APPLICATION_CREDENTIALS (path to service account key)'', ''GCP_PROJECT_ID'', ''GCP_REGION''] []
         [''GCP_NETWORK (custom network name)'']
         [(''GCPCluster'', ''Manages VPC, subnets, firewall rules''), (''GCPMachine'', ''Individual GCE instances''),
          (''GCPMachineTemplate'', descMachineTemplate)]),
      (provider_string ProviderVSphere, providerConfig ProviderVSphere
         [''VSPHERE_SERVER'', ''VSPHERE_USERNAME'', ''VSPHERE_PASSWORD'']
         [''VSPHERE_DATACENTER'', ''VSPHERE_DATASTORE'', ''VSPHERE_NETWORK'', ''VSPHERE_RESOURCE_POOL'']
         [''VSPHERE_FOLDER'', ''VSPHERE_TEMPLATE (VM template to clone)'']
         [(''VSphereCluster'', ''Manages cluster-level settings''), (''VSphereMachine'', ''Individual VM instances''),
          (''VSphereMachineTemplate'', descMachineTemplate)])]"

definition CreateGetProviderConfigHandler :: "json gomap \<Rightarrow> ('w, CallToolResult) io" where
  "CreateGetProviderConfigHandler arguments =
     (let provider = opt_string arguments ''provider'' in
      if provider = '''' then tool_error ''provider argument is required (aws, azure, gcp, vsphere)''
      else (case map_of providerConfigs (ToLower provider) of
          None \<Rightarrow> retE (NewToolResultError
            (''Unknown provider: %s. Supported providers: aws, azure, gcp, vsphere'', [Fs provider]))
        | Some config \<Rightarrow> jsonResult config))"

subsection \<open>What the provider tools reach\<close>

lemma provider_tools_read [emits]:
  "emits is_read (createProviderListClustersHandler kinds cl args)"
  "emits is_read (createProviderGetClusterHandler p note kinds cl args)"
  "emits is_read (CreateAWSGetMachineTemplateHandler cl args)"
  "emits is_read CreateListInfrastructureProvidersHandler"
  "emits is_read (CreateGetProviderConfigHandler args)"
  by (auto simp: createProviderListClustersHandler_def createProviderGetClusterHandler_def
      CreateAWSGetMachineTemplateHandler_def CreateListInfrastructureProvidersHandler_def
      CreateGetProviderConfigHandler_def Let_def intro!: emits)

end
