(* ===== verification/Capi_ResourceSetTools.thy ===== *)
theory Capi_ResourceSetTools
  imports Capi_Results Capi_ResourceSet
begin

section \<open>The ClusterResourceSet tools (pkg/mcp/handlers/resourceset.go)\<close>

text \<open>
  The four handlers and the parser of the \<open>resources\<close> argument.  They answer in prose.
\<close>

subsection \<open>Parsing\<close>

text \<open>
  The two loops over a decoded object whose values must be strings: the error names the first one,
  in iteration order, that is not.
\<close>

fun string_values :: "(string \<Rightarrow> 'e) \<Rightarrow> json gomap \<Rightarrow> 'e + smap" where
  "string_values err [] = Inr []"
| "string_values err ((k, JStr s) # m) =
     (case string_values err m of Inl e \<Rightarrow> Inl e | Inr r \<Rightarrow> Inr ((k, s) # r))"
| "string_values err ((k, _) # m) = Inl (err k)"

definition parse_resource :: "nat \<Rightarrow> json \<Rightarrow> goerr + ClusterResourceSetResourceSpec" where
  "parse_resource i rawRes = (case rawRes of
       JObj m \<Rightarrow>
         let kind = opt_string m ''kind''; name = opt_string m ''name'' in
         if kind = '''' \<or> name = '''' then
           Inl (Errorf ''resources[%d] requires kind and name'' [Fd (int i)])
         else (case string_values (\<lambda>k. Errorf ''resources[%d].data[%q] must be a string'' [Fd (int i), Fq k])
                      (opt_object m ''data'') of
                 Inl e \<Rightarrow> Inl e
               | Inr d \<Rightarrow> Inr \<lparr>RS_Kind = kind, RS_Name = name, RS_Data = d\<rparr>)
     | _ \<Rightarrow> Inl (Errorf ''resources[%d] must be an object'' [Fd (int i)]))"

fun parse_resources :: "nat \<Rightarrow> json list \<Rightarrow> goerr + ClusterResourceSetResourceSpec list" where
  "parse_resources i [] = Inr []"
| "parse_resources i (rawRes # raws) = (case parse_resource i rawRes of
       Inl e \<Rightarrow> Inl e
     | Inr r \<Rightarrow> (case parse_resources (Suc i) raws of Inl e \<Rightarrow> Inl e | Inr rs \<Rightarrow> Inr (r # rs)))"

definition parseResourceSetResources :: "json option \<Rightarrow> goerr + ClusterResourceSetResourceSpec list" where
  "parseResourceSetResources raw = (case raw of
       Some (JArr rawList) \<Rightarrow>
         if rawList = [] then Inl (Errorf ''resources argument is required and must be a non-empty array'' [])
         else parse_resources 0 rawList
     | _ \<Rightarrow> Inl (Errorf ''resources argument is required and must be a non-empty array'' []))"

subsection \<open>The handlers\<close>

definition CreateCreateClusterResourceSetHandler ::
  "goerr + 'w Client \<Rightarrow> json gomap \<Rightarrow> ('w, CallToolResult) io" where
  "CreateCreateClusterResourceSetHandler cl arguments =
     with_client cl (\<lambda>capiClient.
     required_arg arguments ''name'' (\<lambda>name.
     required_arg arguments ''namespace'' (\<lambda>namespace.
     if opt_object arguments ''cluster_selector'' = [] then tool_error ''cluster_selector argument is required''
     else (case string_values (\<lambda>k. (''cluster_selector[%q] must be a string'', [Fq k]))
                  (opt_object arguments ''cluster_selector'') of
       Inl msg \<Rightarrow> retE (NewToolResultError msg)
     | Inr clusterSelector \<Rightarrow>
     (case parseResourceSetResources (map_of arguments ''resources'') of
       Inl err \<Rightarrow> retE (NewToolResultErrorFromErr ''invalid resources'' err)
     | Inr resources \<Rightarrow>
     attempt (NewToolResultErrorFromErr ''failed to create cluster resource set'')
       (CreateClusterResourceSet capiClient \<lparr>RSO_Name = name, RSO_Namespace = namespace,
          RSO_ClusterSelector = clusterSelector, RSO_Strategy = opt_string arguments ''strategy'',
          RSO_Resources = resources\<rparr>) (\<lambda>crs.
     retE (TextContent
       [(''ClusterResourceSet %s/%s created.'' @ nl, [Fs (Namespace (CRS_Meta crs)), Fs (Name (CRS_Meta crs))]),
        (''  Strategy: %s'' @ nl, [Fs (CRS_Strategy crs)]),
        (''  Cluster selector: %v'' @ nl, [Fm (CRS_ClusterSelector crs)]),
        (''  Resources: %d'' @ nl, [Fd (int (length (CRS_Resources crs)))]),
        WriteString (nl @ ''Clusters matching the selector will have these resources applied automatically.'' @ nl),
        WriteString (''Use capi_update_cluster to add the matching label to an existing Cluster.'' @ nl)])))))))"

definition list_entry :: "ClusterResourceSet \<Rightarrow> piece list" where
  "list_entry crs =
     [(''ClusterResourceSet: %s/%s'' @ nl, [Fs (Namespace (CRS_Meta crs)), Fs (Name (CRS_Meta crs))]),
      (''  Strategy: %s'' @ nl, [Fs (CRS_Strategy crs)]),
      (''  Cluster selector: %v'' @ nl, [Fm (CRS_ClusterSelector crs)]),
      (''  Resources: %d'' @ nl @ nl, [Fd (int (length (CRS_Resources crs)))])]"

definition CreateListClusterResourceSetsHandler ::
  "goerr + 'w Client \<Rightarrow> json gomap \<Rightarrow> ('w, CallToolResult) io" where
  "CreateListClusterResourceSetsHandler cl arguments =
     with_client cl (\<lambda>capiClient.
     attempt (NewToolResultErrorFromErr ''failed to list cluster resource sets'')
       (ListClusterResourceSets capiClient (opt_string arguments ''namespace'')) (\<lambda>crss.
     retE (TextContent ((''Found %d ClusterResourceSets:'' @ nl @ nl, [Fd (int (length crss))])
       # concat (map list_entry crss)))))"

definition resource_set_detail :: "ClusterResourceSet \<Rightarrow> piece list" where
  "resource_set_detail crs =
     [(''ClusterResourceSet: %s/%s'' @ nl, [Fs (Namespace (CRS_Meta crs)), Fs (Name (CRS_Meta crs))]),
      (''Strategy: %s'' @ nl, [Fs (CRS_Strategy crs)]),
      (''Cluster selector: %v'' @ nl, [Fm (CRS_ClusterSelector crs)]),
      WriteString (''Resources:'' @ nl)]
     @ map (\<lambda>(k, n). (''  - %s/%s'' @ nl, [Fs k, Fs n])) (CRS_Resources crs)
     @ [(''Observed generation: %d'' @ nl, [Fd (CRS_ObservedGeneration crs)])]
     @ map (\<lambda>cond. (''Condition %s: %s (%s)'' @ nl,
         [Fs (Cond_Type cond), Fs (Cond_Status cond), Fs (Cond_Message cond)])) (CRS_Conditions crs)"

definition CreateGetClusterResourceSetHandler ::
  "goerr + 'w Client \<Rightarrow> json gomap \<Rightarrow> ('w, CallToolResult) io" where
  "CreateGetClusterResourceSetHandler cl arguments =
     with_client cl (\<lambda>capiClient.
     required_arg arguments ''namespace'' (\<lambda>namespace.
     required_arg arguments ''name'' (\<lambda>name.
     attempt (NewToolResultErrorFromErr ''failed to get cluster resource set'')
       (GetClusterResourceSet capiClient namespace name) (\<lambda>crs.
     retE (TextContent (resource_set_detail crs))))))"

definition CreateDeleteClusterResourceSetHandler ::
  "goerr + 'w Client \<Rightarrow> json gomap \<Rightarrow> ('w, CallToolResult) io" where
  "CreateDeleteClusterResourceSetHandler cl arguments =
     with_client cl (\<lambda>capiClient.
     required_arg arguments ''namespace'' (\<lambda>namespace.
     required_arg arguments ''name'' (\<lambda>name.
     attempt (NewToolResultErrorFromErr ''failed to delete cluster resource set'')
       (DeleteClusterResourceSet capiClient namespace name) (\<lambda>_.
     retE (TextContent [(''ClusterResourceSet %s/%s deleted.'' @ nl, [Fs namespace, Fs name])])))))"

subsection \<open>What the tools reach\<close>

lemma resource_set_tools_read [emits]:
  "emits is_read (CreateListClusterResourceSetsHandler cl args)"
  "emits is_read (CreateGetClusterResourceSetHandler cl args)"
  by (auto simp: CreateListClusterResourceSetsHandler_def CreateGetClusterResourceSetHandler_def intro!: emits)

end
