(* ===== verification/Capi_Dispatch.thy ===== *)
theory Capi_Dispatch
  imports Capi_Context Capi_Tools Capi_ClusterTools Capi_MachineTools Capi_ProviderTools
    Capi_ResourceSetTools
begin

section \<open>A tool call from the caller to the API server (pkg/mcp/handlers/registry.go, pkg/mcp/server.go)\<close>

text \<open>
  The registry names a handler for each tool; here the names are bound to the handlers of the four
  tool theories, and a call runs one: it asks the server context for the client of the request and
  passes its answer to the handler.  A server is what is left of that: the sequence of calls by any
  callers to the tools that were registered when it started.
\<close>

subsection \<open>The handlers of the registry\<close>

text \<open>
  What the handlers take from outside the program: the marshalling of a cluster variable, the host,
  the conversions of float64 the language leaves open, and the printing of a time.
\<close>

record 'w handler_env =
  he_marshal :: "json \<Rightarrow> goerr + string"
  he_tools :: "'w tools"
  he_float :: float_impl
  he_rfc3339 :: "string \<Rightarrow> string"

text \<open>
  A handler starts with \<open>serverCtx.Client(ctx)\<close> or never calls it.  Running one may not return:
  the drain polls.
\<close>

datatype 'w tool_handler =
    WithClient "goerr + 'w Client \<Rightarrow> json gomap \<Rightarrow> 'w session \<Rightarrow> ((goerr + CallToolResult) \<times> 'w session) option"
  | WithoutClient "json gomap \<Rightarrow> ('w, CallToolResult) io"

definition returning :: "(goerr + 'w Client \<Rightarrow> json gomap \<Rightarrow> ('w, CallToolResult) io) \<Rightarrow> 'w tool_handler" where
  "returning h = WithClient (\<lambda>cl args s. Some (h cl args s))"

definition cluster_handlers :: "'w handler_env \<Rightarrow> (string \<times> 'w tool_handler) list" where
  "cluster_handlers e = [
     (''CreateCreateClusterHandler'', returning (CreateCreateClusterHandler (he_marshal e) (he_float e))),
     (''CreateListClustersHandler'', returning CreateListClustersHandler),
     (''CreateGetClusterHandler'', returning CreateGetClusterHandler),
     (''CreateClusterStatusHandler'', returning CreateClusterStatusHandler),
     (''CreateClusterHealthHandler'', returning CreateClusterHealthHandler),
     (''CreateScaleClusterHandler'', returning (CreateScaleClusterHandler (he_float e))),
     (''CreateGetKubeconfigHandler'', returning CreateGetKubeconfigHandler),
     (''CreateKubectlHandler'', returning (CreateKubectlHandler (he_tools e))),
     (''CreateHelmHandler'', returning (CreateHelmHandler (he_tools e))),
     (''CreatePauseClusterHandler'', returning CreatePauseClusterHandler),
     (''CreateResumeClusterHandler'', returning CreateResumeClusterHandler),
     (''CreateDeleteClusterHandler'', returning CreateDeleteClusterHandler),
     (''CreateUpgradeClusterHandler'', returning CreateUpgradeClusterHandler),
     (''CreateUpdateClusterHandler'', returning CreateUpdateClusterHandler),
     (''CreateMoveClusterHandler'', returning CreateMoveClusterHandler),
     (''CreateBackupClusterHandler'', returning CreateBackupClusterHandler)]"

definition resource_set_handlers :: "(string \<times> 'w tool_handler) list" where
  "resource_set_handlers = [
     (''CreateCreateClusterResourceSetHandler'', returning CreateCreateClusterResourceSetHandler),
     (''CreateListClusterResourceSetsHandler'', returning CreateListClusterResourceSetsHandler),
     (''CreateGetClusterResourceSetHandler'', returning CreateGetClusterResourceSetHandler),
     (''CreateDeleteClusterResourceSetHandler'', returning CreateDeleteClusterResourceSetHandler)]"

definition machine_handlers :: "'w handler_env \<Rightarrow> (string \<times> 'w tool_handler) list" where
  "machine_handlers e = [
     (''CreateListMachinesHandler'', returning CreateListMachinesHandler),
     (''CreateGetMachineHandler'', returning CreateGetMachineHandler),
     (''CreateDeleteMachineHandler'', returning CreateDeleteMachineHandler),
     (''CreateRemediateMachineHandler'', returning CreateRemediateMachineHandler),
     (''CreateListMachineDeploymentsHandler'', returning CreateListMachineDeploymentsHandler),
     (''CreateCreateMachineDeploymentHandler'', returning (CreateCreateMachineDeploymentHandler (he_float e))),
     (''CreateScaleMachineDeploymentHandler'', returning (CreateScaleMachineDeploymentHandler (he_float e))),
     (''CreateUpdateMachineDeploymentHandler'', returning (CreateUpdateMachineDeploymentHandler (he_float e))),
     (''CreateRolloutMachineDeploymentHandler'', returning CreateRolloutMachineDeploymentHandler),
     (''CreateListMachineSetsHandler'', returning CreateListMachineSetsHandler),
     (''CreateGetMachineSetHandler'', returning CreateGetMachineSetHandler),
     (''CreateDrainNodeHandler'', WithClient (CreateDrainNodeHandler (he_float e))),
     (''CreateCordonNodeHandler'', returning CreateCordonNodeHandler),
     (''CreateNodeStatusHandler'', returning (CreateNodeStatusHandler (he_rfc3339 e)))]"

definition provider_handlers :: "(string \<times> 'w tool_handler) list" where
  "provider_handlers = [
     (''CreateListInfrastructureProvidersHandler'', WithoutClient (\<lambda>_. CreateListInfrastructureProvidersHandler)),
     (''CreateGetProviderConfigHandler'', WithoutClient CreateGetProviderConfigHandler),
     (''CreateAWSListClustersHandler'', returning CreateAWSListClustersHandler),
     (''CreateAWSGetClusterHandler'', returning CreateAWSGetClusterHandler),
     (''CreateAWSGetMachineTemplateHandler'', returning CreateAWSGetMachineTemplateHandler),
     (''CreateAzureListClustersHandler'', returning CreateAzureListClustersHandler),
     (''CreateAzureGetClusterHandler'', returning CreateAzureGetClusterHandler),
     (''CreateGCPListClustersHandler'', returning CreateGCPListClustersHandler),
     (''CreateGCPGetClusterHandler'', returning CreateGCPGetClusterHandler),
     (''CreateVSphereListClustersHandler'', returning CreateVSphereListClustersHandler),
     (''CreateVSphereGetClusterHandler'', returning CreateVSphereGetClusterHandler)]"

definition handlers :: "'w handler_env \<Rightarrow> (string \<times> 'w tool_handler) list" where
  "handlers e = cluster_handlers e @ resource_set_handlers @ machine_handlers e @ provider_handlers"

definition handler_of :: "'w handler_env \<Rightarrow> ToolRegistration \<Rightarrow> 'w tool_handler option" where
  "handler_of e r = map_of (handlers e) (TR_Handler r)"

subsection \<open>One call\<close>

definition run_handler :: "('k, 'c, 'w) bearer_env \<Rightarrow> int \<Rightarrow> request_ctx \<Rightarrow> 'w tool_handler \<Rightarrow> json gomap
    \<Rightarrow> 'w ServerContext \<times> 'w session
    \<Rightarrow> ((goerr + CallToolResult) \<times> 'w ServerContext \<times> 'w session) option" where
  "run_handler b now ctx h args = (\<lambda>(sc, s). case h of
       WithoutClient f \<Rightarrow> (case f args s of (r, t) \<Rightarrow> Some (r, sc, t))
     | WithClient f \<Rightarrow> (case sc_Client b now ctx sc of (cl, sc') \<Rightarrow>
         map_option (\<lambda>(r, t). (r, sc', t)) (f cl args s)))"

text \<open>A call by any caller, at any time, of any tool that is registered.\<close>

inductive tool_call :: "'w handler_env \<Rightarrow> ('k, 'c, 'w) bearer_env \<Rightarrow> ToolRegistration list
    \<Rightarrow> 'w ServerContext \<times> 'w session \<Rightarrow> 'w ServerContext \<times> 'w session \<Rightarrow> bool" for e b regs where
  call: "r \<in> set regs \<Longrightarrow> handler_of e r = Some h \<Longrightarrow>
    run_handler b now ctx h args st = Some (res, st') \<Longrightarrow> tool_call e b regs st st'"

inductive_cases tool_callE: "tool_call e b regs st st'"


subsection \<open>What a handler reaches\<close>

text \<open>The requests of one run of a handler, for a given answer of the server context.\<close>

definition handler_reads :: "goerr + 'w Client \<Rightarrow> 'w tool_handler \<Rightarrow> bool" where
  "handler_reads cl h = (case h of
       WithoutClient f \<Rightarrow> (\<forall>args. emits is_read (f args))
     | WithClient f \<Rightarrow> (\<forall>args s r t. f cl args s = Some (r, t) \<longrightarrow> ran is_read s t))"

lemma handler_reads_returning: "(\<And>args. emits is_read (h cl args)) \<Longrightarrow> handler_reads cl (returning h)"
  by (auto simp: handler_reads_def returning_def intro: emits_ran)

lemma handler_reads_without: "(\<And>args. emits is_read (f args)) \<Longrightarrow> handler_reads cl (WithoutClient f)"
  by (simp add: handler_reads_def)

text \<open>The handlers that write to the API server past the write policy of the client.\<close>

definition ungated_handlers :: "string list" where
  "ungated_handlers = [''CreateCreateClusterResourceSetHandler'', ''CreateDeleteClusterResourceSetHandler'']"

lemma provider_handlers_read [emits]:
  "emits is_read (CreateAWSListClustersHandler cl args)" "emits is_read (CreateAWSGetClusterHandler cl args)"
  "emits is_read (CreateAzureListClustersHandler cl args)" "emits is_read (CreateAzureGetClusterHandler cl args)"
  "emits is_read (CreateGCPListClustersHandler cl args)" "emits is_read (CreateGCPGetClusterHandler cl args)"
  "emits is_read (CreateVSphereListClustersHandler cl args)" "emits is_read (CreateVSphereGetClusterHandler cl args)"
  by (simp_all add: CreateAWSListClustersHandler_def CreateAWSGetClusterHandler_def
      CreateAzureListClustersHandler_def CreateAzureGetClusterHandler_def CreateGCPListClustersHandler_def
      CreateGCPGetClusterHandler_def CreateVSphereListClustersHandler_def CreateVSphereGetClusterHandler_def
      provider_tools_read)

lemma drain_handler_reads:
  assumes "\<And>c. cl = Inr c \<Longrightarrow> ReadOnly (policy c)"
  shows "handler_reads cl (WithClient (CreateDrainNodeHandler fi))"
proof (cases cl)
  case (Inl e)
  then show ?thesis by (auto simp: handler_reads_def CreateDrainNodeHandler_def failE_def)
next
  case (Inr c)
  have "ran is_read s t" if "DrainNode c opts s = Some (r, t)" for opts s r t
    using drain_read_only [OF assms [OF Inr], of opts s] that by auto
  then show ?thesis using Inr
    by (auto simp: handler_reads_def CreateDrainNodeHandler_def tool_error_def retE_def split: if_splits option.splits)
qed

lemma handlers_read_only:
  assumes "\<And>c. cl = Inr c \<Longrightarrow> ReadOnly (policy c)"
  shows "list_all (\<lambda>(n, h). \<not> List.member ungated_handlers n \<longrightarrow> handler_reads cl h) (handlers e)"
  unfolding handlers_def cluster_handlers_def resource_set_handlers_def machine_handlers_def provider_handlers_def
    ungated_handlers_def list_all_append list.pred_inject prod.case
  by (intro conjI impI handler_reads_returning handler_reads_without drain_handler_reads TrueI
      cluster_tools_read cluster_tools_read_only machine_tools_read machine_tools_read_only
      provider_tools_read provider_handlers_read resource_set_tools_read)
    (simp_all add: assms)


subsection \<open>The host is left alone\<close>

text \<open>The read-only tools and the kubeconfig export touch no file and start no process.\<close>

lemma silent_control [silent_intros]:
  "(b \<Longrightarrow> silent m) \<Longrightarrow> (\<not> b \<Longrightarrow> silent n) \<Longrightarrow> silent (if b then m else n)"
  "(\<And>y. silent (f y)) \<Longrightarrow> (\<And>y. silent (g y)) \<Longrightarrow> silent (case z of Inl y \<Rightarrow> f y | Inr y \<Rightarrow> g y)"
  by (simp, cases z) simp_all

lemma silent_shape [silent_intros]:
  "silent (jsonResult v)" "silent (listResult ds)" "silent (tool_error msg)" "silent (no_cluster_found n ns)"
  "(\<And>c. silent (f c)) \<Longrightarrow> silent (with_client cl f)"
  "(\<And>v. silent (g v)) \<Longrightarrow> silent (required_arg args k g)"
  "silent m \<Longrightarrow> (\<And>x. silent (h x)) \<Longrightarrow> silent (attempt w m h)"
  by (auto simp: jsonResult_def listResult_def tool_error_def no_cluster_found_def with_client_def
      required_arg_def attempt_def intro!: silent_intros split: sum.split option.split)

lemma silent_reads [silent_intros]:
  "silent (ListClusters c ns sel)" "silent (FindClustersByLabelValue c ns v)" "silent (GetCluster c ns n)"
  "silent (MoveCluster c mo)" "silent (BackupCluster c bo)" "silent (GetKubeconfig c ns n)"
  "silent (ListMachines c ns cn)" "silent (GetMachine c ns n)" "silent (ListMachineDeployments c ns cn)"
  "silent (ListMachineSets c ns cn)" "silent (GetMachineSet c ns n)" "silent (GetProviderForCluster c ns n)" "silent (GetKubeadmControlPlane c ns n)"
  "silent (resolveNodeName c opts)" "silent (get_node c n)"
  "silent (ListClusterResourceSets c ns)" "silent (GetClusterResourceSet c ns n)"
  by (auto simp: ListClusters_def FindClustersByLabelValue_def GetCluster_def MoveCluster_def BackupCluster_def
      GetKubeconfig_def ListMachines_def GetMachine_def ListMachineDeployments_def ListMachineSets_def
      GetMachineSet_def fetch_cluster_def GetProviderForCluster_def GetKubeadmControlPlane_def resolveNodeName_def get_node_def ListClusterResourceSets_def GetClusterResourceSet_def Let_def
      intro!: silent_intros)

lemma silent_status [silent_intros]:
  "silent (GetClusterStatus c ns n)" "silent (GetClusterStatusFromList c cl ms)"
  "silent (GetClusterHealth c ns n)" "silent (GetNodeStatus c opts)"
  by (auto simp: GetClusterStatus_def GetClusterStatusFromList_def GetClusterHealth_def control_plane_version_def
      GetNodeStatus_def Let_def intro!: silent_intros)

lemma silent_loops [silent_intros]:
  "silent (list_summaries c g cls)" "silent (candidate_summaries c cls)"
  by (induction cls) (auto intro!: silent_intros)

definition quiet_handler :: "'w tool_handler \<Rightarrow> bool" where
  "quiet_handler h = (case h of
       WithoutClient f \<Rightarrow> (\<forall>args. silent (f args))
     | WithClient f \<Rightarrow> (\<forall>cl args s r t. f cl args s = Some (r, t) \<longrightarrow> local_events t = local_events s))"

lemma quiet_returning: "(\<And>cl args. silent (h cl args)) \<Longrightarrow> quiet_handler (returning h)"
  by (auto simp: quiet_handler_def returning_def dest: silentD)

lemma quiet_without: "(\<And>args. silent (f args)) \<Longrightarrow> quiet_handler (WithoutClient f)"
  by (simp add: quiet_handler_def)

lemma cluster_tools_quiet:
  "silent (CreateListClustersHandler cl args)" "silent (CreateGetClusterHandler cl args)"
  "silent (CreateClusterStatusHandler cl args)" "silent (CreateClusterHealthHandler cl args)"
  "silent (CreateMoveClusterHandler cl args)" "silent (CreateBackupClusterHandler cl args)"
  "silent (CreateGetKubeconfigHandler cl args)"
  by (auto simp: CreateListClustersHandler_def CreateGetClusterHandler_def CreateClusterStatusHandler_def
      CreateClusterHealthHandler_def CreateMoveClusterHandler_def CreateBackupClusterHandler_def
      CreateGetKubeconfigHandler_def Let_def intro!: silent_intros split: list.split)

lemma machine_tools_quiet:
  "silent (CreateListMachinesHandler cl args)" "silent (CreateGetMachineHandler cl args)"
  "silent (CreateListMachineDeploymentsHandler cl args)" "silent (CreateListMachineSetsHandler cl args)"
  "silent (CreateGetMachineSetHandler cl args)" "silent (CreateNodeStatusHandler rfc cl args)"
  "silent (CreateListClusterResourceSetsHandler cl args)" "silent (CreateGetClusterResourceSetHandler cl args)"
  by (auto simp: CreateListMachinesHandler_def CreateGetMachineHandler_def
      CreateListMachineDeploymentsHandler_def CreateListMachineSetsHandler_def CreateGetMachineSetHandler_def
      CreateNodeStatusHandler_def CreateListClusterResourceSetsHandler_def
      CreateGetClusterResourceSetHandler_def Let_def intro!: silent_intros)

lemma provider_generic_quiet:
  "silent (createProviderListClustersHandler kinds cl args)"
  "silent (createProviderGetClusterHandler p note kinds cl args)"
  "silent (CreateAWSGetMachineTemplateHandler cl args)"
  "silent CreateListInfrastructureProvidersHandler" "silent (CreateGetProviderConfigHandler args)"
  by (auto simp: createProviderListClustersHandler_def createProviderGetClusterHandler_def
      CreateAWSGetMachineTemplateHandler_def CreateListInfrastructureProvidersHandler_def
      CreateGetProviderConfigHandler_def Let_def intro!: silent_intros)

lemma provider_tools_quiet:
  "silent (CreateAWSListClustersHandler cl args)" "silent (CreateAWSGetClusterHandler cl args)"
  "silent (CreateAzureListClustersHandler cl args)" "silent (CreateAzureGetClusterHandler cl args)"
  "silent (CreateGCPListClustersHandler cl args)" "silent (CreateGCPGetClusterHandler cl args)"
  "silent (CreateVSphereListClustersHandler cl args)" "silent (CreateVSphereGetClusterHandler cl args)"
  by (simp_all add: CreateAWSListClustersHandler_def CreateAWSGetClusterHandler_def
      CreateAzureListClustersHandler_def CreateAzureGetClusterHandler_def CreateGCPListClustersHandler_def
      CreateGCPGetClusterHandler_def CreateVSphereListClustersHandler_def CreateVSphereGetClusterHandler_def
      provider_generic_quiet)


subsection \<open>What a read-only server offers\<close>

definition mutating_handlers :: "string list" where
  "mutating_handlers = map TR_Handler (filter (\<lambda>r. IsMutatingTool (TR_Name r)) buildTools)"

lemma mutating_handlers_simps:
  "mutating_handlers =
     [''CreateCreateClusterHandler'', ''CreateScaleClusterHandler'', ''CreateKubectlHandler'', ''CreateHelmHandler'',
      ''CreatePauseClusterHandler'', ''CreateResumeClusterHandler'', ''CreateDeleteClusterHandler'',
      ''CreateUpgradeClusterHandler'', ''CreateUpdateClusterHandler'', ''CreateCreateClusterResourceSetHandler'',
      ''CreateDeleteClusterResourceSetHandler'', ''CreateDeleteMachineHandler'', ''CreateRemediateMachineHandler'',
      ''CreateCreateMachineDeploymentHandler'', ''CreateScaleMachineDeploymentHandler'',
      ''CreateUpdateMachineDeploymentHandler'', ''CreateRolloutMachineDeploymentHandler'',
      ''CreateDrainNodeHandler'', ''CreateCordonNodeHandler'']"
  by code_simp

lemma ungated_mutate: "List.member ungated_handlers n \<Longrightarrow> List.member mutating_handlers n"
  by (auto simp: ungated_handlers_def mutating_handlers_simps)

lemma handlers_quiet:
  "list_all (\<lambda>(n, h). \<not> List.member mutating_handlers n \<longrightarrow> quiet_handler h) (handlers e)"
  unfolding handlers_def cluster_handlers_def resource_set_handlers_def machine_handlers_def provider_handlers_def
    mutating_handlers_simps list_all_append list.pred_inject prod.case
  by (intro conjI impI quiet_returning quiet_without TrueI
      cluster_tools_quiet machine_tools_quiet provider_generic_quiet provider_tools_quiet) simp_all

lemma handler_table_member: "handler_of e r = Some h \<Longrightarrow> (TR_Handler r, h) \<in> set (handlers e)"
  by (simp add: handler_of_def map_of_SomeD)

text \<open>No two tools share a handler, so a tool that is not mutating has one that is not.\<close>

lemma registry_handlers_distinct: "distinct (map TR_Handler buildTools)"
  by code_simp

lemma not_mutating_handler:
  assumes "r \<in> set buildTools" and "\<not> IsMutatingTool (TR_Name r)"
  shows "\<not> List.member mutating_handlers (TR_Handler r)"
  using assms registry_handlers_distinct by (auto simp: mutating_handlers_def distinct_map inj_on_def)

lemma offered_not_mutating:
  assumes "r \<in> set (BuildAllTools p)" and "ReadOnly p"
  shows "\<not> List.member mutating_handlers (TR_Handler r)"
proof -
  obtain r0 where r0: "r0 \<in> set buildTools" "TR_Name r = TR_Name r0" "TR_Handler r = TR_Handler r0"
    using filter_tools_sub assms(1) unfolding BuildAllTools_def by blast
  have "TR_Name r \<in> set (map TR_Name (BuildAllTools p))" using assms(1) by simp
  then have "offered p (TR_Name r0)"
    using filter_tools_names [OF registry_classified] r0(2) by (auto simp: BuildAllTools_def)
  moreover have "one_class (TR_Name r0)" using registry_classified r0(1) by (auto simp: list_all_iff)
  ultimately have "\<not> IsMutatingTool (TR_Name r0)"
    using assms(2) by (auto simp: offered_def one_class_def split: if_splits)
  with not_mutating_handler r0 show ?thesis by metis
qed

text \<open>Every handler the registry names is one of the table.\<close>

lemma registry_handlers:
  "map TR_Handler buildTools = map fst (handlers e)"
  by (simp add: buildTools_def buildClusterTools_def buildResourceSetTools_def buildMachineTools_def
      buildProviderTools_def handlers_def cluster_handlers_def resource_set_handlers_def machine_handlers_def
      provider_handlers_def tool_defs tool_def)


subsection \<open>A call without a client\<close>

text \<open>A handler that is refused a client returns that error and has done nothing.\<close>

definition needs_client :: "'w tool_handler \<Rightarrow> bool" where
  "needs_client h = (case h of
       WithoutClient f \<Rightarrow> (\<forall>args. emits (\<lambda>_. False) (f args) \<and> silent (f args))
     | WithClient f \<Rightarrow> (\<forall>err args s. f (Inl err) args s = Some (Inl err, s)))"

lemma needs_client_returning:
  "(\<And>err args. h (Inl err) args = failE err) \<Longrightarrow> needs_client (returning h)"
  by (simp add: needs_client_def returning_def failE_def)

lemma needs_client_without:
  "(\<And>args. emits (\<lambda>_. False) (f args)) \<Longrightarrow> (\<And>args. silent (f args)) \<Longrightarrow> needs_client (WithoutClient f)"
  by (simp add: needs_client_def)

lemma with_client_error: "with_client (Inl err) f = failE err"
  by (simp add: with_client_def)

lemma static_tools_no_request:
  "emits (\<lambda>_. False) CreateListInfrastructureProvidersHandler"
  "emits (\<lambda>_. False) (CreateGetProviderConfigHandler args)"
  by (auto simp: CreateListInfrastructureProvidersHandler_def CreateGetProviderConfigHandler_def Let_def intro!: emits)

lemmas handler_defs =
  CreateCreateClusterHandler_def CreateListClustersHandler_def CreateGetClusterHandler_def
  CreateClusterStatusHandler_def CreateClusterHealthHandler_def CreateScaleClusterHandler_def
  CreateGetKubeconfigHandler_def CreateKubectlHandler_def CreateHelmHandler_def CreatePauseClusterHandler_def
  CreateResumeClusterHandler_def CreateDeleteClusterHandler_def CreateUpgradeClusterHandler_def
  CreateUpdateClusterHandler_def CreateMoveClusterHandler_def CreateBackupClusterHandler_def
  CreateCreateClusterResourceSetHandler_def CreateListClusterResourceSetsHandler_def
  CreateGetClusterResourceSetHandler_def CreateDeleteClusterResourceSetHandler_def
  CreateListMachinesHandler_def CreateGetMachineHandler_def CreateDeleteMachineHandler_def
  CreateRemediateMachineHandler_def CreateListMachineDeploymentsHandler_def
  CreateCreateMachineDeploymentHandler_def CreateScaleMachineDeploymentHandler_def
  CreateUpdateMachineDeploymentHandler_def CreateRolloutMachineDeploymentHandler_def
  CreateListMachineSetsHandler_def CreateGetMachineSetHandler_def CreateCordonNodeHandler_def
  CreateNodeStatusHandler_def CreateAWSListClustersHandler_def CreateAWSGetClusterHandler_def
  CreateAWSGetMachineTemplateHandler_def CreateAzureListClustersHandler_def CreateAzureGetClusterHandler_def
  CreateGCPListClustersHandler_def CreateGCPGetClusterHandler_def CreateVSphereListClustersHandler_def
  CreateVSphereGetClusterHandler_def createProviderListClustersHandler_def createProviderGetClusterHandler_def

lemma drain_needs_client: "needs_client (WithClient (CreateDrainNodeHandler fi))"
  by (simp add: needs_client_def CreateDrainNodeHandler_def failE_def)

lemma handlers_need_client: "list_all (\<lambda>(n, h). needs_client h) (handlers e)"
  unfolding handlers_def cluster_handlers_def resource_set_handlers_def machine_handlers_def provider_handlers_def
    list_all_append list.pred_inject prod.case
  by (intro conjI TrueI needs_client_returning needs_client_without drain_needs_client static_tools_no_request
      provider_generic_quiet) (simp_all only: handler_defs with_client_error list.pred_inject)


fun is_static :: "'w tool_handler \<Rightarrow> bool" where
  "is_static (WithoutClient f) = True"
| "is_static (WithClient f) = False"

lemma static_handlers:
  "list_all (\<lambda>(n, h). is_static h =
     List.member [''CreateListInfrastructureProvidersHandler'', ''CreateGetProviderConfigHandler''] n) (handlers e)"
  by (simp add: handlers_def cluster_handlers_def resource_set_handlers_def machine_handlers_def
      provider_handlers_def returning_def)

subsection \<open>An example\<close>

definition example_tools :: "world tools" where
  "example_tools = \<lparr>parse_kubeconfig = (\<lambda>d. Inr ''https://api:6443''), url_hostname = Some,
     create_temp = (\<lambda>w. (Inr ''/tmp/kubeconfig'', w)), write_file = (\<lambda>_ _ w. (None, w)),
     close_file = (\<lambda>_ w. (None, w)), remove_file = (\<lambda>_ w. ((), w)),
     run_process = (\<lambda>_ _ _ w. (('''', None), w))\<rparr>"

definition example_env :: "world handler_env" where
  "example_env = \<lparr>he_marshal = (\<lambda>_. Inr ''null''), he_tools = example_tools,
     he_float = \<lparr>fi_int32 = (\<lambda>_. 0), fi_int = (\<lambda>_. 0), fi_int64 = (\<lambda>_. 0), fi_mul = (*)\<rparr>,
     he_rfc3339 = (\<lambda>t. t)\<rparr>"

lemma get_cluster_registered:
  "get_cluster_tool \<in> set buildTools"
  "handler_of e get_cluster_tool = Some (returning CreateGetClusterHandler)"
  by (simp_all add: get_cluster_tool_def buildTools_def buildClusterTools_def handler_of_def tool_def
      handlers_def cluster_handlers_def)

end
