(* ===== verification/Capi_Schema.thy ===== *)
theory Capi_Schema
  imports Capi_Dispatch
begin

section \<open>The registry's parameters and the handlers (pkg/mcp/handlers/registry.go)\<close>

text \<open>
  The registry publishes the parameters of a tool, with their JSON types and whether they are
  required; mcp-go hands a call's arguments to the handler as they are.  Here the two sides meet:
  every handler refuses a call that its tool's registration does not allow.
\<close>

subsection \<open>Arguments against a registration\<close>

fun has_type :: "param_type \<Rightarrow> json \<Rightarrow> bool" where
  "has_type PString (JStr s) = (s \<noteq> '''')"
| "has_type PNumber (JNum x) = True"
| "has_type PBoolean (JBool b) = True"
| "has_type PArray (JArr xs) = True"
| "has_type PObject (JObj m) = True"
| "has_type _ _ = False"

definition provided :: "json gomap \<Rightarrow> tool_param \<Rightarrow> bool" where
  "provided args p = (case map_of args (TP_Name p) of None \<Rightarrow> False | Some v \<Rightarrow> has_type (TP_Type p) v)"

lemma provided_iff:
  "provided args (required PString k) \<longleftrightarrow> opt_string args k \<noteq> ''''"
  "provided args (required PNumber k) \<longleftrightarrow> arg_number args k \<noteq> None"
  "provided args (required PArray k) \<longleftrightarrow> arg_array args k \<noteq> None"
  "provided args (required PObject k) \<longleftrightarrow> arg_object args k \<noteq> None"
  by (auto simp: provided_def required_def opt_string_def arg_string_def arg_number_def arg_array_def
      arg_object_def split: option.split json.split)

definition rejects :: "('w, CallToolResult) io \<Rightarrow> bool" where
  "rejects m \<longleftrightarrow> (\<forall>s. \<exists>r. m s = (Inr r, s) \<and> IsError r)"

definition answered_error :: "goerr + CallToolResult \<Rightarrow> bool" where
  "answered_error r = (case r of Inl _ \<Rightarrow> True | Inr res \<Rightarrow> IsError res)"

definition rejecting :: "json gomap \<Rightarrow> 'w tool_handler \<Rightarrow> bool" where
  "rejecting args h = (case h of
       WithoutClient f \<Rightarrow> rejects (f args)
     | WithClient f \<Rightarrow> (\<forall>cl s. \<exists>r. f cl args s = Some (r, s) \<and> answered_error r))"

lemma rejects_error: "rejects (tool_error msg)" "rejects (retE (NewToolResultError p))"
  "rejects (retE (NewToolResultErrorFromErr m e))"
  by (simp_all add: rejects_def tool_error_def retE_def)

text \<open>\<open>unless ok m\<close>: the computation is a rejection unless the arguments are \<open>ok\<close>.\<close>

definition unless :: "bool \<Rightarrow> ('w, CallToolResult) io \<Rightarrow> bool" where
  "unless ok m \<longleftrightarrow> ok \<or> rejects m"

named_theorems unless_intros \<open>handlers that reject what they do not accept\<close>

lemma unless_ok: "ok \<Longrightarrow> unless ok m"
  by (simp add: unless_def)

lemma unless_client [unless_intros]: "unless ok (f c) \<Longrightarrow> unless ok (with_client (Inr c) f)"
  by (simp add: with_client_def)

lemma unless_required [unless_intros]:
  "(\<And>v. opt_string args k \<noteq> '''' \<Longrightarrow> unless ok (f v)) \<Longrightarrow> unless ok (required_arg args k f)"
  by (auto simp: unless_def required_arg_def opt_string_def rejects_error split: option.split)

lemma unless_number [unless_intros]:
  "(\<And>x. arg_number args k \<noteq> None \<Longrightarrow> unless ok (f x)) \<Longrightarrow>
     unless ok (case arg_number args k of None \<Rightarrow> tool_error msg | Some x \<Rightarrow> f x)"
  by (auto simp: unless_def rejects_error split: option.split)

lemma unless_error [unless_intros]: "(\<not> b \<Longrightarrow> unless ok m) \<Longrightarrow> unless ok (if b then tool_error msg else m)"
  by (simp add: unless_def rejects_error)

lemma unless_arguments [unless_intros]:
  "(\<And>xs. arg_array args ''args'' \<noteq> None \<Longrightarrow> unless ok (f xs)) \<Longrightarrow> unless ok (exec_arguments args f)"
  by (auto simp: unless_def exec_arguments_def rejects_error split: option.split)

lemma unless_object [unless_intros]:
  "(arg_object args k \<noteq> None \<Longrightarrow> unless ok m) \<Longrightarrow> unless ok (if opt_object args k = [] then tool_error msg else m)"
  by (cases "arg_object args k") (simp_all add: unless_def rejects_error opt_object_def)

lemma unless_selector [unless_intros]:
  "(\<And>y. unless ok (f y)) \<Longrightarrow> unless ok (case z of Inl msg \<Rightarrow> retE (NewToolResultError msg) | Inr y \<Rightarrow> f y)"
  by (auto simp: unless_def rejects_error split: sum.split)

lemma unless_resources [unless_intros]:
  "(\<And>y. arg_array args ''resources'' \<noteq> None \<Longrightarrow> unless ok (f y)) \<Longrightarrow>
     unless ok (case parseResourceSetResources (map_of args ''resources'') of
         Inl e \<Rightarrow> retE (NewToolResultErrorFromErr m e) | Inr y \<Rightarrow> f y)"
  by (auto simp: unless_def rejects_error parseResourceSetResources_def arg_array_def
      split: sum.split option.splits json.splits)

lemma rejecting_without: "unless ok (f args) \<Longrightarrow> ok \<or> rejecting args (WithoutClient f)"
  by (auto simp: unless_def rejecting_def)

lemma rejecting_returning:
  assumes "\<And>c. unless ok (h (Inr c) args)" and "\<And>e. h (Inl e) args = failE e"
  shows "ok \<or> rejecting args (returning h)"
proof -
  have "\<exists>r. h cl args s = (r, s) \<and> answered_error r" if "\<not> ok" for cl s
    using assms that by (cases cl) (force simp: unless_def rejects_def answered_error_def failE_def)+
  then show ?thesis by (auto simp: rejecting_def returning_def)
qed

text \<open>A tool checks what its registration requires.\<close>

definition enforces :: "ToolRegistration \<Rightarrow> string \<times> 'w tool_handler \<Rightarrow> bool" where
  "enforces r = (\<lambda>(n, h). n = TR_Handler r
     \<and> (\<forall>args. list_all (provided args) (filter TP_Required (TR_Params r)) \<or> rejecting args h))"

lemma enforces_tool:
  "enforces (tool n hn ps) (hn, h) \<longleftrightarrow>
     (\<forall>args. list_all (provided args) (filter TP_Required ps) \<or> rejecting args h)"
  by (simp add: enforces_def tool_def)

lemma required_flag: "TP_Required (required t n) = True" "TP_Required (optional t n) = False"
  by (simp_all add: required_def optional_def)

lemmas enforces_unfold = enforces_tool required_flag filter.simps if_True if_False list.pred_inject provided_iff

lemma provider_config_enforce: "unless (opt_string args ''provider'' \<noteq> []) (CreateGetProviderConfigHandler args)"
  unfolding CreateGetProviderConfigHandler_def Let_def by (intro unless_error unless_ok)

lemma tools_enforce: "list_all2 enforces buildTools (handlers e)"
  unfolding buildTools_def buildClusterTools_def buildResourceSetTools_def buildMachineTools_def
    buildProviderTools_def handlers_def cluster_handlers_def resource_set_handlers_def machine_handlers_def
    provider_handlers_def tool_defs append.simps list.rel_inject enforces_unfold
  by (intro conjI allI list.rel_intros;
    ((rule disjI1, simp; fail) | (rule rejecting_without, simp add: provider_config_enforce; fail) |
     (rule rejecting_returning, simp only: handler_defs Let_def, (rule unless_intros)+, rule unless_ok, simp,
      simp only: handler_defs with_client_error)))

lemma list_all2_keyed:
  "list_all2 P xs ys \<Longrightarrow> map f xs = map fst ys \<Longrightarrow> distinct (map fst ys) \<Longrightarrow> x \<in> set xs
     \<Longrightarrow> map_of ys (f x) = Some y \<Longrightarrow> P x (f x, y)"
proof (induction xs ys rule: list_all2_induct)
  case (Cons z zs w ws)
  obtain v where w: "w = (f z, v)" using Cons.prems(1) by (cases w) simp
  show ?case
  proof (cases "x = z")
    case True
    with Cons.hyps(1) Cons.prems(4) w show ?thesis by simp
  next
    case False
    then have x: "x \<in> set zs" using Cons.prems(3) by simp
    have "map f zs = map fst ws" using Cons.prems(1) by simp
    with x have "f x \<in> set (map fst ws)" by (metis imageI list.set_map)
    moreover have "f z \<notin> set (map fst ws)" using Cons.prems(2) w by simp
    ultimately have "f x \<noteq> f z" by metis
    with Cons x w show ?thesis by simp
  qed
qed simp

subsection \<open>Properties\<close>

text \<open>
  C17. The handlers enforce the registry: a call of a tool that lacks a required argument, or has it
  with another JSON type or as an empty string, is answered with an error, and has made no request
  to the API server and done nothing on the host, whatever the other arguments are.
\<close>

theorem required_arguments_enforced:
  assumes "r \<in> set buildTools" and "handler_of e r = Some h"
    and "\<not> list_all (provided args) (filter TP_Required (TR_Params r))"
  shows "\<exists>res sc'. run_handler b now ctx h args (sc, s) = Some (res, sc', s) \<and> answered_error res"
proof -
  have "enforces r (TR_Handler r, h)"
    using list_all2_keyed [OF tools_enforce registry_handlers, of e r h] assms(1,2) registry_handlers_distinct
    by (simp add: registry_handlers [of e] handler_of_def)
  then have reject: "rejecting args h" using assms(3) by (auto simp: enforces_def)
  show ?thesis
  proof (cases h)
    case (WithClient f)
    obtain cl sc' where "sc_Client b now ctx sc = (cl, sc')" by fastforce
    moreover obtain res where "f cl args s = Some (res, s)" "answered_error res"
      using reject WithClient by (auto simp: rejecting_def)
    ultimately show ?thesis using WithClient by (simp add: run_handler_def)
  next
    case (WithoutClient f)
    then obtain res where "f args s = (Inr res, s)" "IsError res"
      using reject by (auto simp: rejecting_def rejects_def)
    then show ?thesis using WithoutClient by (simp add: run_handler_def answered_error_def)
  qed
qed

theorem required_arguments_enforced_witness:
  "\<exists>res sc'. run_handler example_bearer 0 example_ctx (returning CreateGetClusterHandler)
       [(''namespace'', JStr ''org''), (''name'', JNum 1)] (NewServerContext None, start empty_world)
     = Some (res, sc', start empty_world) \<and> answered_error res"
proof (rule required_arguments_enforced [OF get_cluster_registered])
  show "\<not> list_all (provided [(''namespace'', JStr ''org''), (''name'', JNum 1)])
      (filter TP_Required (TR_Params get_cluster_tool))"
    by (simp add: get_cluster_tool_def tool_def required_flag provided_iff opt_string_def arg_string_def)
qed


end
