(* ===== verification/Capi_OAuthServer.thy ===== *)
theory Capi_OAuthServer
  imports Capi_OAuth
begin

section \<open>The OAuth 2.1 server (pkg/oauth/server.go)\<close>

text \<open>
  Construction of the OAuth server from its configuration: the identity provider, the certificate
  pool, the token store and its encryption, and the middleware an MCP handler is wrapped in.  The
  libraries (mcp-oauth, crypto/x509, the file system) are the record \<open>oauth_libs\<close>, over the types
  of certificate pools, providers, encryptors, token stores and servers, of which nothing is known.
  What the construction leaves behind is a trace of the stores that were opened and released.
\<close>

subsection \<open>The libraries\<close>

text \<open>The HTTP client of a Dex provider; the second demands TLS 1.2 or newer.\<close>

datatype 'r http_client =
    PrivateIPAllowedHTTPClient int "'r option"
  | RootCAsHTTPClient int 'r

record 'r dex_config =
  DX_IssuerURL :: string
  DX_ClientID :: string
  DX_ClientSecret :: string
  DX_RedirectURL :: string
  DX_Scopes :: "string list"
  DX_HTTPClient :: "'r http_client option"

record google_config =
  GC_ClientID :: string
  GC_ClientSecret :: string
  GC_RedirectURL :: string
  GC_Scopes :: "string list"

text \<open>\<open>VC_TLS\<close> is whether a TLS configuration (of at least 1.2) is set; an empty prefix is unset.\<close>

record valkey_config =
  VC_Address :: string
  VC_Password :: string
  VC_KeyPrefix :: string
  VC_TLS :: bool

record 'r oauth_server_config =
  OC_Issuer :: string
  OC_AllowPublicClientRegistration :: bool
  OC_AllowRefreshTokenRotation :: bool
  OC_TrustedAudiences :: "string list"
  OC_JWKSRootCAs :: "'r option"
  OC_AllowPrivateIPJWKS :: bool

record ('r, 'p, 'e, 's, 'o) oauth_libs =
  os_ReadFile :: "string \<Rightarrow> goerr + string"
  SystemCertPool :: "goerr + 'r"
  NewCertPool :: 'r
  AppendCertsFromPEM :: "'r \<Rightarrow> string \<Rightarrow> 'r option"
  dex_NewProvider :: "'r dex_config \<Rightarrow> goerr + 'p"
  google_NewProvider :: "google_config \<Rightarrow> goerr + 'p"
  base64_error :: goerr
  NewEncryptor :: "string \<Rightarrow> goerr + 'e"
  valkey_New :: "valkey_config \<Rightarrow> 'e option \<Rightarrow> goerr + 's"
  memory_New :: "'e option \<Rightarrow> 's"
  mcpoauth_NewServer :: "'p \<Rightarrow> 's \<Rightarrow> 'r oauth_server_config \<Rightarrow> goerr + 'o"

subsection \<open>Identity providers\<close>

definition loadRootCAs :: "('r, 'p, 'e, 's, 'o) oauth_libs \<Rightarrow> string \<Rightarrow> goerr + 'r option" where
  "loadRootCAs l caFile =
     (if caFile = '''' then Inr None
      else (case os_ReadFile l caFile of
          Inl e \<Rightarrow> Inl (Errorf ''read CA file %s: %w'' [Fs caFile, Fw e])
        | Inr pem \<Rightarrow>
            let pool = (case SystemCertPool l of Inl _ \<Rightarrow> NewCertPool l | Inr p \<Rightarrow> p)
            in (case AppendCertsFromPEM l pool pem of
                  None \<Rightarrow> Inl (Errorf ''parse CA certificate from %s'' [Fs caFile])
                | Some p \<Rightarrow> Inr (Some p))))"

definition dex_scopes :: "Config \<Rightarrow> string list" where
  "dex_scopes cfg = [''openid'', ''profile'', ''email'', ''groups'', ''offline_access'']
     @ (if KubernetesAudience cfg \<noteq> '''' then [''audience:server:client_id:'' @ KubernetesAudience cfg] else [])"

definition newDexProvider :: "('r, 'p, 'e, 's, 'o) oauth_libs \<Rightarrow> Config \<Rightarrow> goerr + 'p \<times> 'r option" where
  "newDexProvider l cfg =
     (if DexIssuerURL cfg = '''' \<or> DexClientID cfg = '''' \<or> DexClientSecret cfg = '''' then
        Inl (Errorf ''oauth: DEX_ISSUER_URL, DEX_CLIENT_ID and DEX_CLIENT_SECRET must be set for MCP_OAUTH_PROVIDER=%s''
          [Fs ProviderDex])
      else (case loadRootCAs l (DexCAFile cfg) of
          Inl e \<Rightarrow> Inl (Errorf ''oauth: %w'' [Fw e])
        | Inr rootCAs \<Rightarrow>
            let dexCfg = \<lparr>DX_IssuerURL = DexIssuerURL cfg, DX_ClientID = DexClientID cfg,
                  DX_ClientSecret = DexClientSecret cfg, DX_RedirectURL = RedirectURL cfg,
                  DX_Scopes = dex_scopes cfg,
                  DX_HTTPClient = (if AllowPrivateURLs cfg
                    then Some (PrivateIPAllowedHTTPClient (30 * second) rootCAs)
                    else map_option (RootCAsHTTPClient (30 * second)) rootCAs)\<rparr>
            in (case dex_NewProvider l dexCfg of
                  Inl e \<Rightarrow> Inl (Errorf ''oauth: create Dex provider: %w'' [Fw e])
                | Inr p \<Rightarrow> Inr (p, rootCAs))))"

definition newGoogleProvider :: "('r, 'p, 'e, 's, 'o) oauth_libs \<Rightarrow> Config \<Rightarrow> goerr + 'p" where
  "newGoogleProvider l cfg =
     (if GoogleClientID cfg = '''' \<or> GoogleClientSecret cfg = '''' then
        Inl (Errorf ''oauth: GOOGLE_CLIENT_ID and GOOGLE_CLIENT_SECRET must be set for MCP_OAUTH_PROVIDER=%s''
          [Fs ProviderGoogle])
      else (case google_NewProvider l \<lparr>GC_ClientID = GoogleClientID cfg,
                  GC_ClientSecret = GoogleClientSecret cfg, GC_RedirectURL = RedirectURL cfg,
                  GC_Scopes = [''openid'', ''email'', ''profile'']\<rparr> of
          Inl e \<Rightarrow> Inl (Errorf ''oauth: create Google provider: %w'' [Fw e])
        | Inr p \<Rightarrow> Inr p))"

subsection \<open>The token store\<close>

text \<open>The function that releases a store, and the trace: which stores were opened, with which encryptor.\<close>

datatype 's cleanup = CloseValkey 's | StopMemory 's

datatype ('e, 's) store_event = Opened 's "'e option" | CleanedUp 's

definition run_cleanup :: "'s cleanup \<Rightarrow> (('e, 's) store_event list, unit) go" where
  "run_cleanup c = (\<lambda>tr. (Inr (), tr @ [CleanedUp (case c of CloseValkey s \<Rightarrow> s | StopMemory s \<Rightarrow> s)]))"

definition opened :: "'s \<Rightarrow> 'e option \<Rightarrow> (('e, 's) store_event list, unit) go" where
  "opened s enc = (\<lambda>tr. (Inr (), tr @ [Opened s enc]))"

definition newStore :: "('r, 'p, 'e, 's, 'o) oauth_libs \<Rightarrow> Config \<Rightarrow> 'e option
    \<Rightarrow> (('e, 's) store_event list, 's \<times> 's cleanup) go" where
  "newStore l cfg enc =
     (if StorageType cfg = StorageTypeValkey then
        (if ValkeyURL cfg = '''' then
           failE (Errorf ''oauth: VALKEY_URL must be set when OAUTH_STORAGE=valkey'' [])
         else (case valkey_New l \<lparr>VC_Address = ValkeyURL cfg, VC_Password = ValkeyPassword cfg,
                     VC_KeyPrefix = ValkeyKeyPrefix cfg, VC_TLS = ValkeyTLS cfg\<rparr> enc of
             Inl e \<Rightarrow> failE (Errorf ''oauth: connect to Valkey at %s: %w'' [Fs (ValkeyURL cfg), Fw e])
           | Inr s \<Rightarrow> bindE (opened s enc) (\<lambda>_. retE (s, CloseValkey s))))
      else bindE (opened (memory_New l enc) enc) (\<lambda>_. retE (memory_New l enc, StopMemory (memory_New l enc))))"

subsection \<open>The server\<close>

record ('s, 'o) OAuthServer =
  oa_server :: 'o
  oa_cleanup :: "'s cleanup option"

definition newServerWithProvider :: "('r, 'p, 'e, 's, 'o) oauth_libs \<Rightarrow> 'p \<Rightarrow> Config \<Rightarrow> 'r option
    \<Rightarrow> (('e, 's) store_event list, ('s, 'o) OAuthServer) go" where
  "newServerWithProvider l provider cfg rootCAs =
     (case buildEncryptor (base64_error l) (NewEncryptor l) cfg of
        Inl e \<Rightarrow> failE e
      | Inr enc \<Rightarrow>
          bindE (newStore l cfg enc) (\<lambda>(store, cleanup).
          let serverCfg = \<lparr>OC_Issuer = Issuer cfg,
                OC_AllowPublicClientRegistration = AllowPublicRegistration cfg,
                OC_AllowRefreshTokenRotation = True, OC_TrustedAudiences = TrustedAudiences cfg,
                OC_JWKSRootCAs = rootCAs, OC_AllowPrivateIPJWKS = AllowPrivateURLs cfg\<rparr>
          in case mcpoauth_NewServer l provider store serverCfg of
               Inl e \<Rightarrow> bindE (run_cleanup cleanup) (\<lambda>_. failE (Errorf ''oauth: create server: %w'' [Fw e]))
             | Inr srv \<Rightarrow> retE \<lparr>oa_server = srv, oa_cleanup = Some cleanup\<rparr>))"

definition oauth_NewServer :: "('r, 'p, 'e, 's, 'o) oauth_libs \<Rightarrow> Config
    \<Rightarrow> (('e, 's) store_event list, ('s, 'o) OAuthServer) go" where
  "oauth_NewServer l cfg =
     (if Issuer cfg = '''' then failE (Errorf ''oauth: MCP_OAUTH_ISSUER must be set'' [])
      else if RedirectURL cfg = '''' then failE (Errorf ''oauth: OAUTH_REDIRECT_URL must be set'' [])
      else if OAuthProvider cfg = '''' \<or> OAuthProvider cfg = ProviderDex then
        (case newDexProvider l cfg of
           Inl e \<Rightarrow> failE e
         | Inr (provider, rootCAs) \<Rightarrow> newServerWithProvider l provider cfg rootCAs)
      else if OAuthProvider cfg = ProviderGoogle then
        (case newGoogleProvider l cfg of
           Inl e \<Rightarrow> failE e
         | Inr provider \<Rightarrow> newServerWithProvider l provider cfg None)
      else failE (Errorf ''oauth: unsupported MCP_OAUTH_PROVIDER %q (supported: %s, %s)''
        [Fq (OAuthProvider cfg), Fs ProviderDex, Fs ProviderGoogle]))"

definition oauth_Close :: "('s, 'o) OAuthServer \<Rightarrow> (('e, 's) store_event list, unit) go" where
  "oauth_Close s = (case oa_cleanup s of None \<Rightarrow> retE () | Some c \<Rightarrow> run_cleanup c)"

text \<open>
  \<open>validate\<close> is the token validation of mcp-oauth: it answers a request itself or passes it on with
  the caller in its context.
\<close>

definition Protect :: "(http_request \<Rightarrow> (nat \<times> string) + http_request) \<Rightarrow> token_store option
    \<Rightarrow> http_request \<Rightarrow> middleware_outcome" where
  "Protect validate store r = (case validate r of
       Inl (code, msg) \<Rightarrow> HttpError code msg
     | Inr r' \<Rightarrow> identity store r')"


subsection \<open>The store a server owns\<close>

definition encryptor_of :: "('r, 'p, 'e, 's, 'o) oauth_libs \<Rightarrow> Config \<Rightarrow> 'e option \<Rightarrow> bool" where
  "encryptor_of l cfg enc \<longleftrightarrow>
     (if EncryptionKey cfg = '''' then enc = None
      else (\<exists>key x. decodeKey (base64_error l) (EncryptionKey cfg) = Inr key
        \<and> NewEncryptor l key = Inr x \<and> enc = Some x))"

lemma buildEncryptor_of: "buildEncryptor (base64_error l) (NewEncryptor l) cfg = Inr enc \<Longrightarrow> encryptor_of l cfg enc"
  by (auto simp: buildEncryptor_def encryptor_of_def split: if_splits sum.splits)

text \<open>What a construction does to the trace: nothing, open a store and release it, or open it and keep it.\<close>

definition store_kept :: "('r, 'p, 'e, 's, 'o) oauth_libs \<Rightarrow> Config \<Rightarrow> ('e, 's) store_event list
    \<Rightarrow> (goerr + ('s, 'o) OAuthServer) \<times> ('e, 's) store_event list \<Rightarrow> bool" where
  "store_kept l cfg tr out = (case out of
       (Inl e, tr') \<Rightarrow> tr' = tr \<or> (\<exists>s enc. encryptor_of l cfg enc \<and> tr' = tr @ [Opened s enc, CleanedUp s])
     | (Inr srv, tr') \<Rightarrow> (\<exists>s enc. tr' = tr @ [Opened s enc] \<and> encryptor_of l cfg enc
         \<and> oauth_Close srv tr' = (Inr (), tr' @ [CleanedUp s])))"

lemma store_kept_fail: "store_kept l cfg tr (failE e tr)"
  by (simp add: store_kept_def failE_def)

lemma newStore_cases:
  "(\<exists>e. newStore l cfg enc tr = (Inl e, tr))
   \<or> (\<exists>s c. newStore l cfg enc tr = (Inr (s, c), tr @ [Opened s enc]) \<and> c \<in> {CloseValkey s, StopMemory s})"
  by (auto simp: newStore_def opened_def go_simps split: sum.split)

lemma newServerWithProvider_store: "store_kept l cfg tr (newServerWithProvider l p cfg ca tr)"
proof (cases "buildEncryptor (base64_error l) (NewEncryptor l) cfg")
  case (Inl e)
  then show ?thesis by (simp add: newServerWithProvider_def store_kept_fail)
next
  case (Inr enc)
  consider e where "newStore l cfg enc tr = (Inl e, tr)"
    | s c where "newStore l cfg enc tr = (Inr (s, c), tr @ [Opened s enc])" "c \<in> {CloseValkey s, StopMemory s}"
    using newStore_cases by metis
  then show ?thesis
  proof cases
    case 1
    then show ?thesis by (simp add: newServerWithProvider_def Inr bindE_Inl store_kept_def)
  next
    case 2
    with buildEncryptor_of [OF Inr] show ?thesis
      by (auto simp: newServerWithProvider_def Inr bindE_Inr [where m = "newStore l cfg enc", OF 2(1)] Let_def store_kept_def oauth_Close_def
          run_cleanup_def go_simps split: sum.split)
  qed
qed

text \<open>
  The construction never leaks a store: on an error every store it opened has been released again,
  and a server that was built owns exactly one, opened with the encryptor of the configured key
  (none only when no key is configured), which closing the server releases.
\<close>

lemma oauth_server_owns_its_store:
  "store_kept l cfg tr (oauth_NewServer l cfg tr)"
  unfolding oauth_NewServer_def
  by (auto simp: store_kept_fail newServerWithProvider_store split: sum.split prod.split)

end
