(* ===== verification/Capi_Mux.thy ===== *)
theory Capi_Mux
  imports Capi_OAuth "HOL-Library.Sublist"
begin

section \<open>The patterns of a ServeMux (net/http)\<close>

text \<open>
  \<open>http.ServeMux.Handle\<close>, which the transports (pkg/mcp/transport.go) call with the endpoints of the
  flags, panics on a pattern it cannot parse and on one that conflicts with a mounted pattern.  Both
  rules of the standard library are written out here: the syntax of patterns, with their methods,
  hosts and wildcards, and the relation between the sets of requests two patterns match.  Strings
  are bytes, and a wildcard is a Go identifier of ASCII letters, digits and underscores.
\<close>

subsection \<open>Paths\<close>

text \<open>\<open>path.Clean\<close> of a rooted path: empty and dot elements go, a double dot takes its parent along.\<close>

fun clean_elements :: "string list \<Rightarrow> string list \<Rightarrow> string list" where
  "clean_elements [] acc = rev acc"
| "clean_elements (e # es) acc =
     (if e = '''' \<or> e = ''.'' then clean_elements es acc
      else if e = ''..'' then clean_elements es (drop 1 acc)
      else clean_elements es (e # acc))"

definition ends_in_slash :: "string \<Rightarrow> bool" where
  "ends_in_slash p \<longleftrightarrow> p \<noteq> '''' \<and> last p = CHR ''/''"

definition cleanPath :: "string \<Rightarrow> string" where
  "cleanPath path = (if path = '''' then ''/'' else
     let p = (if prefix ''/'' path then path else ''/'' @ path);
         np = ''/'' @ Join (clean_elements (split_at (CHR ''/'') p) []) ''/''
     in if ends_in_slash p \<and> np \<noteq> ''/'' then np @ ''/'' else np)"

subsection \<open>Parsing a pattern\<close>

text \<open>A literal path element, a wildcard, or one that takes the rest of the path.\<close>

record segment =
  seg_s :: string
  seg_wild :: bool
  seg_multi :: bool

record pattern =
  pt_method :: string
  pt_host :: string
  pt_segments :: "segment list"

definition lit_segment :: "string \<Rightarrow> segment" where
  "lit_segment s = \<lparr>seg_s = s, seg_wild = False, seg_multi = False\<rparr>"

definition ascii_letter :: "char \<Rightarrow> bool" where
  "ascii_letter c = (let n = of_char c :: nat in 65 \<le> n \<and> n \<le> 90 \<or> 97 \<le> n \<and> n \<le> 122)"

definition ascii_digit :: "char \<Rightarrow> bool" where
  "ascii_digit c = (let n = of_char c :: nat in 48 \<le> n \<and> n \<le> 57)"

definition isValidWildcardName :: "string \<Rightarrow> bool" where
  "isValidWildcardName s = (case s of
       [] \<Rightarrow> False
     | c # cs \<Rightarrow> (ascii_letter c \<or> c = CHR ''_'')
         \<and> list_all (\<lambda>c. ascii_letter c \<or> ascii_digit c \<or> c = CHR ''_'') cs)"

definition validMethod :: "string \<Rightarrow> bool" where
  "validMethod m \<longleftrightarrow> m \<noteq> '''' \<and> list_all (\<lambda>c. ascii_letter c \<or> ascii_digit c
     \<or> List.member [33, 35, 36, 37, 38, 39, 42, 43, 45, 46, 94, 95, 96, 124, 126] (of_char c :: nat)) m"

text \<open>\<open>url.PathUnescape\<close>; a literal with an invalid escape is taken as it is.\<close>

fun PathUnescape :: "string \<Rightarrow> string option" where
  "PathUnescape [] = Some []"
| "PathUnescape (c # s) =
     (if c = CHR ''%'' then
        (case s of
           a # b # r \<Rightarrow> (case (hex_value a, hex_value b) of
               (Some x, Some y) \<Rightarrow> map_option ((#) (char_of (x * 16 + y))) (PathUnescape r)
             | _ \<Rightarrow> None)
         | _ \<Rightarrow> None)
      else map_option ((#) c) (PathUnescape s))"

definition pathUnescape :: "string \<Rightarrow> string" where
  "pathUnescape s = (case PathUnescape s of None \<Rightarrow> s | Some u \<Rightarrow> u)"

text \<open>The elements of a path after its first slash; an empty last one is the trailing slash.\<close>

definition CutSuffix :: "string \<Rightarrow> string \<Rightarrow> string \<times> bool" where
  "CutSuffix s suf = (if suffix suf s then (take (length s - length suf) s, True) else (s, False))"

fun parse_segments :: "string list \<Rightarrow> string list \<Rightarrow> segment list option" where
  "parse_segments seen [] = Some []"
| "parse_segments seen (seg # rest) =
     (if seg = '''' \<and> rest = [] then Some [\<lparr>seg_s = '''', seg_wild = True, seg_multi = True\<rparr>]
      else if CHR ''{'' \<notin> set seg then
        map_option ((#) (lit_segment (pathUnescape seg))) (parse_segments seen rest)
      else if hd seg \<noteq> CHR ''{'' \<or> last seg \<noteq> CHR ''}'' then None
      else let inner = butlast (tl seg) in
        if inner = ''$'' then (if rest = [] then Some [lit_segment ''/''] else None)
        else let (name, multi) = CutSuffix inner ''...'' in
          if multi \<and> rest \<noteq> [] then None
          else if \<not> isValidWildcardName name then None
          else if List.member seen name then None
          else map_option ((#) \<lparr>seg_s = name, seg_wild = True, seg_multi = multi\<rparr>)
            (parse_segments (name # seen) rest))"

definition blank :: "char \<Rightarrow> bool" where
  "blank c \<longleftrightarrow> c = CHR '' '' \<or> c = CHR 0x09"

definition parsePattern :: "string \<Rightarrow> pattern option" where
  "parsePattern s =
     (let head = takeWhile (\<lambda>c. \<not> blank c) s;
          found = (head \<noteq> s);
          method = (if found then head else '''');
          rest = (if found then dropWhile blank (drop (length head + 1) s) else s);
          host = takeWhile (\<lambda>c. c \<noteq> CHR ''/'') rest;
          path = drop (length host) rest
      in if s = '''' then None
         else if method \<noteq> '''' \<and> \<not> validMethod method then None
         else if path = '''' then None
         else if CHR ''{'' \<in> set host then None
         else if method \<noteq> '''' \<and> method \<noteq> ''CONNECT'' \<and> path \<noteq> cleanPath path then None
         else map_option (\<lambda>segs. \<lparr>pt_method = method, pt_host = host, pt_segments = segs\<rparr>)
           (parse_segments [] (split_at (CHR ''/'') (tl path))))"

subsection \<open>Conflicts\<close>

datatype relationship = Equivalent | MoreGeneral | MoreSpecific | Disjoint | Overlaps

definition combineRelationships :: "relationship \<Rightarrow> relationship \<Rightarrow> relationship" where
  "combineRelationships r1 r2 = (case r1 of
       Equivalent \<Rightarrow> r2
     | Disjoint \<Rightarrow> Disjoint
     | Overlaps \<Rightarrow> if r2 = Disjoint then Disjoint else Overlaps
     | MoreGeneral \<Rightarrow> (case r2 of Equivalent \<Rightarrow> MoreGeneral | MoreSpecific \<Rightarrow> Overlaps | _ \<Rightarrow> r2)
     | MoreSpecific \<Rightarrow> (case r2 of Equivalent \<Rightarrow> MoreSpecific | MoreGeneral \<Rightarrow> Overlaps | _ \<Rightarrow> r2))"

definition compareMethods :: "string \<Rightarrow> string \<Rightarrow> relationship" where
  "compareMethods m1 m2 =
     (if m1 = m2 then Equivalent
      else if m1 = '''' then MoreGeneral
      else if m2 = '''' then MoreSpecific
      else if m1 = ''GET'' \<and> m2 = ''HEAD'' then MoreGeneral
      else if m2 = ''GET'' \<and> m1 = ''HEAD'' then MoreSpecific
      else Disjoint)"

definition compareSegments :: "segment \<Rightarrow> segment \<Rightarrow> relationship" where
  "compareSegments s1 s2 =
     (if seg_multi s1 \<and> seg_multi s2 then Equivalent
      else if seg_multi s1 then MoreGeneral
      else if seg_multi s2 then MoreSpecific
      else if seg_wild s1 \<and> seg_wild s2 then Equivalent
      else if seg_wild s1 then (if seg_s s2 = ''/'' then Disjoint else MoreGeneral)
      else if seg_wild s2 then (if seg_s s1 = ''/'' then Disjoint else MoreSpecific)
      else if seg_s s1 = seg_s s2 then Equivalent
      else Disjoint)"

text \<open>The loop over corresponding segments; the flags say which pattern ends in a multi wildcard.\<close>

fun compare_loop :: "bool \<Rightarrow> bool \<Rightarrow> relationship \<Rightarrow> segment list \<Rightarrow> segment list \<Rightarrow> relationship" where
  "compare_loop m1 m2 rel (a # as) (b # bs) =
     (let rel' = combineRelationships rel (compareSegments a b)
      in if rel' = Disjoint then Disjoint else compare_loop m1 m2 rel' as bs)"
| "compare_loop m1 m2 rel [] [] = rel"
| "compare_loop m1 m2 rel [] (b # bs) = (if m1 then combineRelationships rel MoreGeneral else Disjoint)"
| "compare_loop m1 m2 rel (a # as) [] = (if m2 then combineRelationships rel MoreSpecific else Disjoint)"

definition ends_multi :: "segment list \<Rightarrow> bool" where
  "ends_multi segs \<longleftrightarrow> segs \<noteq> [] \<and> seg_multi (last segs)"

definition comparePaths :: "segment list \<Rightarrow> segment list \<Rightarrow> relationship" where
  "comparePaths p1 p2 =
     (if length p1 \<noteq> length p2 \<and> \<not> ends_multi p1 \<and> \<not> ends_multi p2 then Disjoint
      else compare_loop (ends_multi p1) (ends_multi p2) Equivalent p1 p2)"

definition comparePathsAndMethods :: "pattern \<Rightarrow> pattern \<Rightarrow> relationship" where
  "comparePathsAndMethods p1 p2 =
     (let mrel = compareMethods (pt_method p1) (pt_method p2)
      in if mrel = Disjoint then Disjoint
         else combineRelationships mrel (comparePaths (pt_segments p1) (pt_segments p2)))"

definition conflictsWith :: "pattern \<Rightarrow> pattern \<Rightarrow> bool" where
  "conflictsWith p1 p2 \<longleftrightarrow> pt_host p1 = pt_host p2
     \<and> (comparePathsAndMethods p1 p2 = Equivalent \<or> comparePathsAndMethods p1 p2 = Overlaps)"

text \<open>Whether \<open>Handle\<close> takes a pattern when the patterns \<open>mounted\<close> are there already.\<close>

definition mountable :: "string list \<Rightarrow> string \<Rightarrow> bool" where
  "mountable mounted s = (case parsePattern s of
       None \<Rightarrow> False
     | Some p \<Rightarrow> \<not> list_ex (\<lambda>m. case parsePattern m of None \<Rightarrow> False | Some q \<Rightarrow> conflictsWith p q) mounted)"

subsection \<open>Facts about patterns\<close>

text \<open>Every pattern matches what it matches, so none can be mounted twice.\<close>

lemma compareSegments_refl [simp]: "compareSegments s s = Equivalent"
  by (simp add: compareSegments_def)

lemma combine_Equivalent [simp]: "combineRelationships Equivalent r = r"
  by (simp add: combineRelationships_def)

lemma compare_loop_refl: "compare_loop m1 m2 Equivalent segs segs = Equivalent"
  by (induction segs) simp_all

lemma conflictsWith_refl: "conflictsWith p p"
  by (simp add: conflictsWith_def comparePathsAndMethods_def compareMethods_def comparePaths_def compare_loop_refl)

lemma mountable_once: "List.member mounted s \<Longrightarrow> \<not> mountable mounted s"
  by (auto simp: mountable_def list_ex_iff conflictsWith_refl split: option.split)

text \<open>
  Literal patterns: elements without wildcards, the last of which may be the rest of the path.  Two of
  them are equal, or disjoint, or one is more general.
\<close>

fun literal_segments :: "segment list \<Rightarrow> bool" where
  "literal_segments [] = True"
| "literal_segments [s] = (s = \<lparr>seg_s = '''', seg_wild = True, seg_multi = True\<rparr> \<or> (\<exists>w. s = lit_segment w))"
| "literal_segments (s # segs) = ((\<exists>w. s = lit_segment w) \<and> literal_segments segs)"

lemma literal_segments_Cons:
  "literal_segments (s # segs) \<longleftrightarrow> (\<exists>w. s = lit_segment w) \<and> literal_segments segs
     \<or> s = \<lparr>seg_s = '''', seg_wild = True, seg_multi = True\<rparr> \<and> segs = []"
  by (cases segs) auto

lemma ends_multi_Cons [simp]: "ends_multi (s # segs) = (if segs = [] then seg_multi s else ends_multi segs)"
  by (simp add: ends_multi_def)

lemma ends_multi_Nil [simp]: "\<not> ends_multi []"
  by (simp add: ends_multi_def)

lemma literal_compare:
  "literal_segments as \<Longrightarrow> literal_segments bs \<Longrightarrow> as \<noteq> bs \<Longrightarrow>
     compare_loop (ends_multi as) (ends_multi bs) Equivalent as bs \<in> {MoreGeneral, MoreSpecific, Disjoint}"
proof (induction as arbitrary: bs)
  case Nil
  then show ?case by (cases bs) auto
next
  case (Cons a as)
  show ?case
  proof (cases bs)
    case Nil
    then show ?thesis by simp
  next
    case (Cons b bs')
    let ?multi = "\<lparr>seg_s = '''', seg_wild = True, seg_multi = True\<rparr>"
    consider v w where "a = lit_segment v" "b = lit_segment w" "literal_segments as" "literal_segments bs'"
      | w where "a = lit_segment w" "b = ?multi" "bs' = []"
      | w where "a = ?multi" "as = []" "b = lit_segment w"
      | "a = ?multi" "as = []" "b = ?multi" "bs' = []"
      using Cons.prems(1,2) unfolding \<open>bs = b # bs'\<close> literal_segments_Cons by blast
    then show ?thesis
    proof cases
      case 1
      have flags: "ends_multi (a # as) = ends_multi as" "ends_multi (b # bs') = ends_multi bs'"
        by (simp_all add: 1 lit_segment_def)
      show ?thesis
      proof (cases "v = w")
        case True
        then have "as \<noteq> bs'" using Cons.prems(3) \<open>bs = b # bs'\<close> 1 by simp
        then show ?thesis using Cons.IH [OF 1(3,4)] True unfolding \<open>bs = b # bs'\<close> flags
          by (simp add: 1 Let_def)
      next
        case False
        then show ?thesis unfolding \<open>bs = b # bs'\<close> by (simp add: 1 compareSegments_def lit_segment_def)
      qed
    next
      case 2
      then show ?thesis unfolding \<open>bs = b # bs'\<close>
        by (cases as) (simp_all add: compareSegments_def combineRelationships_def lit_segment_def)
    next
      case 3
      then show ?thesis unfolding \<open>bs = b # bs'\<close>
        by (cases bs') (simp_all add: compareSegments_def combineRelationships_def lit_segment_def)
    next
      case 4
      then show ?thesis using Cons.prems(3) \<open>bs = b # bs'\<close> by simp
    qed
  qed
qed

text \<open>The paths without a method, a wildcard or an escape parse to their elements.\<close>

definition literal_path :: "string \<Rightarrow> bool" where
  "literal_path p \<longleftrightarrow> prefix ''/'' p \<and> list_all (\<lambda>c. c \<noteq> CHR ''{'' \<and> c \<noteq> CHR ''%'' \<and> \<not> blank c) p"

fun path_segments :: "string list \<Rightarrow> segment list" where
  "path_segments [] = []"
| "path_segments (w # ws) =
     (if w = '''' \<and> ws = [] then [\<lparr>seg_s = '''', seg_wild = True, seg_multi = True\<rparr>]
      else lit_segment w # path_segments ws)"

lemma PathUnescape_plain: "CHR ''%'' \<notin> set s \<Longrightarrow> PathUnescape s = Some s"
  by (induction s) auto

lemma parse_plain:
  "(\<And>w. w \<in> set ws \<Longrightarrow> CHR ''{'' \<notin> set w \<and> CHR ''%'' \<notin> set w) \<Longrightarrow> parse_segments seen ws = Some (path_segments ws)"
  by (induction ws) (auto simp: pathUnescape_def PathUnescape_plain)

lemma path_segments_literal: "literal_segments (path_segments ws)"
proof (induction ws)
  case (Cons w ws)
  then show ?case by (auto simp: literal_segments_Cons)
qed simp

lemma path_segments_inject: "path_segments vs = path_segments ws \<Longrightarrow> vs = ws"
proof (induction vs arbitrary: ws)
  case Nil
  then show ?case by (cases ws) (auto split: if_splits)
next
  case (Cons v vs)
  then show ?case by (cases ws) (auto simp: lit_segment_def split: if_splits)
qed

lemma split_at_nonempty [simp]: "split_at c s \<noteq> []"
  by (cases s) (auto split: list.split)

lemma Join_split_at: "Join (split_at c s) [c] = s"
proof (induction s)
  case (Cons x s)
  then show ?case
    by (cases "split_at c s"; cases "tl (split_at c s)") auto
qed simp

lemma split_at_inject: "split_at c s = split_at c t \<Longrightarrow> s = t"
  by (metis Join_split_at)

lemma split_at_elements: "w \<in> set (split_at c s) \<Longrightarrow> set w \<subseteq> set s"
  by (induction s arbitrary: w) (fastforce split: if_splits list.splits)+

lemma parse_literal:
  assumes "literal_path p"
  shows "parsePattern p = Some \<lparr>pt_method = '''', pt_host = '''', pt_segments = path_segments (split_at (CHR ''/'') (tl p))\<rparr>"
proof -
  obtain r where p: "p = CHR ''/'' # r" using assms by (auto simp: literal_path_def prefix_def)
  have "takeWhile (\<lambda>c. \<not> blank c) p = p"
    using assms by (auto simp: literal_path_def list_all_iff takeWhile_eq_all_conv)
  moreover have "CHR ''{'' \<notin> set w \<and> CHR ''%'' \<notin> set w" if "w \<in> set (split_at (CHR ''/'') r)" for w
    using split_at_elements [OF that] assms by (auto simp: literal_path_def list_all_iff p)
  then have "parse_segments [] (split_at (CHR ''/'') r) = Some (path_segments (split_at (CHR ''/'') r))"
    by (rule parse_plain)
  ultimately show ?thesis by (simp add: parsePattern_def p)
qed

text \<open>Literal paths can be mounted side by side exactly when they differ.\<close>

lemma mountable_literal:
  assumes "literal_path p" and "list_all literal_path mounted"
  shows "mountable mounted p \<longleftrightarrow> \<not> List.member mounted p"
proof -
  have conf: "conflictsWith a b \<longleftrightarrow> p = q" if lit: "literal_path q" "parsePattern p = Some a" "parsePattern q = Some b" for a b q
  proof (cases "p = q")
    case True
    then show ?thesis using lit conflictsWith_refl by simp
  next
    case False
    obtain r where p: "p = CHR ''/'' # r" using assms(1) by (auto simp: literal_path_def prefix_def)
    obtain r' where q: "q = CHR ''/'' # r'" using lit(1) by (auto simp: literal_path_def prefix_def)
    note r = p q
    have "path_segments (split_at (CHR ''/'') r) \<noteq> path_segments (split_at (CHR ''/'') r')"
      using False r path_segments_inject split_at_inject by blast
    from literal_compare [OF path_segments_literal path_segments_literal this] show ?thesis
      using lit parse_literal [OF assms(1)] parse_literal [OF lit(1)] False
      by (auto simp: r conflictsWith_def comparePathsAndMethods_def compareMethods_def comparePaths_def split: if_splits)
  qed
  obtain a where a: "parsePattern p = Some a" using parse_literal [OF assms(1)] by blast
  have "(case parsePattern m of None \<Rightarrow> False | Some q \<Rightarrow> conflictsWith a q) \<longleftrightarrow> p = m" if "m \<in> set mounted" for m
  proof -
    have m: "literal_path m" using assms(2) that by (simp add: list_all_iff)
    then show ?thesis using conf [OF m a] parse_literal [OF m] by simp
  qed
  then show ?thesis by (auto simp: mountable_def a list_ex_iff)
qed

text \<open>An element with an opening brace that is not a wildcard from its first to its last byte does not parse.\<close>

definition stray_brace :: "string \<Rightarrow> bool" where
  "stray_brace w \<longleftrightarrow> CHR ''{'' \<in> set w \<and> (hd w \<noteq> CHR ''{'' \<or> last w \<noteq> CHR ''}'')"

lemma parse_stray_brace: "w \<in> set ws \<Longrightarrow> stray_brace w \<Longrightarrow> parse_segments seen ws = None"
proof (induction ws arbitrary: seen)
  case (Cons v ws)
  then show ?case by (cases "v = w") (auto simp: stray_brace_def Let_def split: prod.split)
qed simp

lemma mountable_stray_brace:
  assumes "prefix ''/'' p" and "CHR '' '' \<notin> set p" and "w \<in> set (split_at (CHR ''/'') (tl p))" and "stray_brace w"
  shows "\<not> mountable mounted p"
proof -
  obtain r where p: "p = CHR ''/'' # r" using assms(1) by (auto simp: prefix_def)
  have "parsePattern p = None"
  proof (cases "takeWhile (\<lambda>c. \<not> blank c) p = p")
    case True
    then show ?thesis using assms(3) parse_stray_brace [OF _ assms(4)] by (simp add: parsePattern_def p)
  next
    case False
    have "\<not> validMethod (CHR ''/'' # m)" for m
      by (simp add: validMethod_def ascii_letter_def ascii_digit_def)
    with False show ?thesis by (simp add: parsePattern_def p blank_def)
  qed
  then show ?thesis by (simp add: mountable_def)
qed

text \<open>Some patterns that do not parse, and two that do without matching the same requests alike.\<close>

lemma example_patterns:
  "parsePattern ''/{x'' = None" "parsePattern '''' = None" "parsePattern ''/a/{x}/{x}'' = None"
  "parsePattern ''/mcp'' \<noteq> None" "\<not> mountable [''/mcp''] ''/mcp''" "mountable [''/mcp''] ''/mcp/''"
  "mountable [''/mcp''] ''/{id}''" "\<not> mountable [''/{id}''] ''/{name}''" "\<not> mountable [''/{a}/x''] ''/x/{b}''"
  by code_simp+

end
