(* ===== verification/Capi_Server.thy ===== *)
theory Capi_Server
  imports Capi_Dispatch Capi_OAuthServer Capi_Mux
begin

section \<open>The server and its transports (pkg/mcp: types.go, server.go, transport.go)\<close>

text \<open>
  A server is built from its options: they are checked, the server context and the OAuth server are
  built, and the tools of the context's policy are registered.  It then runs on one transport; the
  HTTP transports mount their endpoints in a ServeMux.  Loggers, the input and output of the stdio
  transport and the plumbing of signals are left out; what the network and the client libraries
  answer is a parameter.
\<close>

subsection \<open>Options\<close>

text \<open>\<open>TransportType\<close> is a string type in the code too, so any string may be given.\<close>

definition TransportStdio :: string where "TransportStdio = ''stdio''"
definition TransportSSE :: string where "TransportSSE = ''sse''"
definition TransportStreamableHTTP :: string where "TransportStreamableHTTP = ''streamable-http''"

record ServerOptions =
  so_KubeconfigPath :: string
  so_Transport :: string
  so_HTTPAddr :: string
  so_SSEEndpoint :: string
  so_MessageEndpoint :: string
  so_HTTPEndpoint :: string
  so_ServerName :: string
  so_ServerVersion :: string
  so_OAuth :: "Config option"
  so_CallerIdentity :: bool
  so_ReadOnly :: bool
  so_GitOpsGuard :: bool
  so_ExposeKubeconfig :: bool

definition so_WritePolicy :: "ServerOptions \<Rightarrow> WritePolicy" where
  "so_WritePolicy op = \<lparr>ReadOnly = so_ReadOnly op, GitOpsGuard = so_GitOpsGuard op,
     ExposeKubeconfig = so_ExposeKubeconfig op\<rparr>"

definition DefaultServerOptions :: ServerOptions where
  "DefaultServerOptions = \<lparr>so_KubeconfigPath = '''', so_Transport = TransportStdio, so_HTTPAddr = '':8080'',
     so_SSEEndpoint = ''/sse'', so_MessageEndpoint = ''/message'', so_HTTPEndpoint = ''/mcp'',
     so_ServerName = ''mcp-capi'', so_ServerVersion = ''0.1.0'', so_OAuth = None, so_CallerIdentity = False,
     so_ReadOnly = False, so_GitOpsGuard = False, so_ExposeKubeconfig = False\<rparr>"

definition validateOptions :: "ServerOptions \<Rightarrow> goerr option" where
  "validateOptions opts =
     (if so_CallerIdentity opts \<and> so_OAuth opts = None then
        Some (Errorf ''caller identity requires OAuth to be enabled'' [])
      else if so_OAuth opts \<noteq> None \<and> so_Transport opts = TransportStdio then
        Some (Errorf ''OAuth is not supported with the stdio transport'' [])
      else None)"

subsection \<open>The server context\<close>

text \<open>What the process finds around it: client-go, the service variables and the CA of a pod.\<close>

record ('k, 'c, 'w) process_env =
  pe_source :: config_source
  pe_libs :: "('k, 'c, 'w) libs"
  pe_service_host :: string
  pe_service_port :: string
  pe_ca_stat :: "goerr option"

definition InitializeProviders :: "('k, 'c, 'w) libs \<Rightarrow> goerr option" where
  "InitializeProviders l = (case add_control_plane_types l of
       Some e \<Rightarrow> Some (Errorf ''failed to add KubeadmControlPlane to scheme: %w'' [Fw e])
     | None \<Rightarrow> None)"

text \<open>A failure to initialise the providers is only logged; a failed client is formatted with \<open>%v\<close>.\<close>

definition newServerContext :: "('k, 'c, 'w) process_env \<Rightarrow> ServerOptions \<Rightarrow> goerr + 'w ServerContext" where
  "newServerContext pe opts =
     (let p = so_WritePolicy opts in
      if so_CallerIdentity opts then
        (case (if so_KubeconfigPath opts \<noteq> ''''
               then NewBearerClientFactoryFromKubeconfig (pe_source pe) (so_KubeconfigPath opts)
               else NewInClusterBearerClientFactory (pe_service_host pe) (pe_service_port pe) (pe_ca_stat pe)) of
           Inl e \<Rightarrow> Inl (Errorf ''failed to prepare caller-identity Kubernetes access: %w'' [Fw e])
         | Inr factory \<Rightarrow> Inr (NewCallerIdentityServerContext (SetWritePolicy p factory) p))
      else
        (case NewClient (pe_source pe) (pe_libs pe) (so_KubeconfigPath opts) [WithWritePolicy p] of
           Inl e \<Rightarrow> Inl (Errorf ''failed to create CAPI client: %v'' [Fe e])
         | Inr capiClient \<Rightarrow> (case InitializeProviders (pe_libs pe) of
               Some _ \<Rightarrow> Inr (NewServerContext (Some capiClient))
             | None \<Rightarrow> Inr (NewServerContext (Some capiClient)))))"

subsection \<open>The server\<close>

record ('w, 's, 'o) Server =
  sv_options :: ServerOptions
  sv_context :: "'w ServerContext"
  sv_oauth :: "('s, 'o) OAuthServer option"
  sv_tools :: "ToolRegistration list"

definition Shutdown :: "('w, 's, 'o) Server \<Rightarrow> (('e, 's) store_event list, ('w, 's, 'o) Server) go" where
  "Shutdown s = (case sv_oauth s of
       None \<Rightarrow> retE s
     | Some oa \<Rightarrow> bindE (oauth_Close oa) (\<lambda>_. retE (s\<lparr>sv_oauth := None\<rparr>)))"

text \<open>\<open>AddTool\<close> for each tool the registration function returns, in order.\<close>

definition RegisterTools :: "('w ServerContext \<Rightarrow> goerr + ToolRegistration list) \<Rightarrow> ('w, 's, 'o) Server
    \<Rightarrow> goerr + ('w, 's, 'o) Server" where
  "RegisterTools registerFunc s = (case registerFunc (sv_context s) of
       Inl e \<Rightarrow> Inl e
     | Inr tools \<Rightarrow> Inr (s\<lparr>sv_tools := sv_tools s @ tools\<rparr>))"

definition NewServer :: "('k, 'c, 'w) process_env \<Rightarrow> ('r, 'p, 'e, 's, 'o) oauth_libs \<Rightarrow> ServerOptions
    \<Rightarrow> (('e, 's) store_event list, ('w, 's, 'o) Server) go" where
  "NewServer pe ol opts =
     bindE (checkE (validateOptions opts)) (\<lambda>_.
     case newServerContext pe opts of
       Inl e \<Rightarrow> failE e
     | Inr serverCtx \<Rightarrow>
         bindE (case so_OAuth opts of
             None \<Rightarrow> retE None
           | Some cfg \<Rightarrow> bindE (oauth_NewServer ol cfg) (\<lambda>oa. retE (Some oa))) (\<lambda>oauthSrv.
         let s = \<lparr>sv_options = opts, sv_context = serverCtx, sv_oauth = oauthSrv, sv_tools = []\<rparr> in
         case RegisterTools (\<lambda>sc. Inr (BuildAllTools (sc_policy sc))) s of
           Inl e \<Rightarrow> bindE (Shutdown s) (\<lambda>_. failE (Errorf ''failed to register tools: %w'' [Fw e]))
         | Inr s' \<Rightarrow> retE s'))"


subsection \<open>The transports\<close>

text \<open>
  What a mux serves: the MCP handlers of mcp-go, bare or wrapped by \<open>Protect\<close>, and the routes of
  the OAuth library, whose patterns for an MCP path are the parameter \<open>oauth_patterns\<close>.  Mounting a
  pattern that does not parse, or that conflicts with one that is there, panics, which is \<open>None\<close>.
\<close>

datatype endpoint = SSEHandler | MessageHandler | StreamableHTTPHandler

datatype served = OAuthRoute | Unprotected endpoint | Protected endpoint

type_synonym mux = "(string \<times> served) list"

definition mux_Handle :: "string \<Rightarrow> served \<Rightarrow> mux option \<Rightarrow> mux option" where
  "mux_Handle pattern h m = (case m of
       None \<Rightarrow> None
     | Some routes \<Rightarrow> if mountable (map fst routes) pattern then Some (routes @ [(pattern, h)]) else None)"

definition RegisterRoutes :: "(string \<Rightarrow> string list) \<Rightarrow> string \<Rightarrow> mux option \<Rightarrow> mux option" where
  "RegisterRoutes oauth_patterns mcpPath m = fold (\<lambda>p. mux_Handle p OAuthRoute) (oauth_patterns mcpPath) m"

definition maxBodyBytes :: int where "maxBodyBytes = 2 ^ 20"

text \<open>
  How serving ends: the context is done and the drain of the connections succeeds or fails, or
  \<open>Serve\<close> returns, with an error that is or is not \<open>http.ErrServerClosed\<close>.  A bounded handler
  refuses a body longer than the bound.
\<close>

datatype serve_end = CtxDone "goerr option" | ServeReturned "goerr option" bool

record network =
  net_Listen :: "string \<Rightarrow> goerr option"
  net_end :: serve_end
  stdio_Listen :: "goerr option"

definition serveWithShutdown :: "network \<Rightarrow> string \<Rightarrow> string \<Rightarrow> goerr option" where
  "serveWithShutdown net addr name =
     (case net_Listen net addr of
        Some e \<Rightarrow> Some (Errorf ''listen on %s: %w'' [Fs addr, Fw e])
      | None \<Rightarrow> (case net_end net of
            CtxDone (Some e) \<Rightarrow> Some (Errorf ''error shutting down %s server: %w'' [Fs name, Fw e])
          | CtxDone None \<Rightarrow> None
          | ServeReturned (Some e) was_closed \<Rightarrow>
              if was_closed then None else Some (Errorf ''%s server stopped with error: %w'' [Fs name, Fw e])
          | ServeReturned None was_closed \<Rightarrow> None))"

datatype run_result = RunPanic | RunReturned "goerr option"

definition RunStdioServer :: "network \<Rightarrow> run_result" where
  "RunStdioServer net = RunReturned (case stdio_Listen net of
       None \<Rightarrow> None | Some e \<Rightarrow> Some (Errorf ''server stopped with error: %w'' [Fw e]))"

definition sse_mux :: "(string \<Rightarrow> string list) \<Rightarrow> string \<Rightarrow> string \<Rightarrow> bool \<Rightarrow> mux option" where
  "sse_mux oauth_patterns sseEndpoint messageEndpoint oauth =
     (if oauth then
        mux_Handle messageEndpoint (Protected MessageHandler)
          (mux_Handle sseEndpoint (Protected SSEHandler)
            (RegisterRoutes oauth_patterns sseEndpoint (Some [])))
      else
        mux_Handle messageEndpoint (Unprotected MessageHandler)
          (mux_Handle sseEndpoint (Unprotected SSEHandler) (Some [])))"

definition http_mux :: "(string \<Rightarrow> string list) \<Rightarrow> string \<Rightarrow> bool \<Rightarrow> mux option" where
  "http_mux oauth_patterns path oauth =
     (if oauth then
        mux_Handle path (Protected StreamableHTTPHandler)
          (RegisterRoutes oauth_patterns path (Some []))
      else mux_Handle path (Unprotected StreamableHTTPHandler) (Some []))"

definition RunSSEServer :: "(string \<Rightarrow> string list) \<Rightarrow> network \<Rightarrow> string \<Rightarrow> string \<Rightarrow> string \<Rightarrow> bool \<Rightarrow> run_result" where
  "RunSSEServer oauth_patterns net addr sseEndpoint messageEndpoint oauth =
     (case sse_mux oauth_patterns sseEndpoint messageEndpoint oauth of
        None \<Rightarrow> RunPanic
      | Some m \<Rightarrow> RunReturned (serveWithShutdown net addr ''SSE''))"

definition RunStreamableHTTPServer :: "(string \<Rightarrow> string list) \<Rightarrow> network \<Rightarrow> string \<Rightarrow> string \<Rightarrow> bool \<Rightarrow> run_result" where
  "RunStreamableHTTPServer oauth_patterns net addr path oauth =
     (case http_mux oauth_patterns path oauth of
        None \<Rightarrow> RunPanic
      | Some m \<Rightarrow> RunReturned (serveWithShutdown net addr ''HTTP''))"

text \<open>The switch of \<open>Run\<close>, and the deferred \<open>Shutdown\<close>, which runs on a panic too.\<close>

definition run_transport :: "(string \<Rightarrow> string list) \<Rightarrow> network \<Rightarrow> ('w, 's, 'o) Server \<Rightarrow> run_result" where
  "run_transport oauth_patterns net s =
     (let opts = sv_options s; oauth = (sv_oauth s \<noteq> None) in
      if so_Transport opts = TransportStdio then RunStdioServer net
      else if so_Transport opts = TransportSSE then
        RunSSEServer oauth_patterns net (so_HTTPAddr opts) (so_SSEEndpoint opts) (so_MessageEndpoint opts) oauth
      else if so_Transport opts = TransportStreamableHTTP then
        RunStreamableHTTPServer oauth_patterns net (so_HTTPAddr opts) (so_HTTPEndpoint opts) oauth
      else RunReturned (Some (Errorf
        ''unsupported transport type: %s (supported: stdio, sse, streamable-http)'' [Fs (so_Transport opts)])))"

definition Run :: "(string \<Rightarrow> string list) \<Rightarrow> network \<Rightarrow> ('w, 's, 'o) Server
    \<Rightarrow> (('e, 's) store_event list, run_result) go" where
  "Run oauth_patterns net s =
     (let result = run_transport oauth_patterns net s in bindE (Shutdown s) (\<lambda>_. retE result))"

text \<open>
  What serves the MCP requests of a server: the mux of its transport, none on stdio.  The context
  function copies the identity the middleware resolved into the context of the tool call.
\<close>

definition server_mux :: "(string \<Rightarrow> string list) \<Rightarrow> ('w, 's, 'o) Server \<Rightarrow> mux option" where
  "server_mux oauth_patterns s =
     (let opts = sv_options s; oauth = (sv_oauth s \<noteq> None) in
      if so_Transport opts = TransportSSE then
        sse_mux oauth_patterns (so_SSEEndpoint opts) (so_MessageEndpoint opts) oauth
      else if so_Transport opts = TransportStreamableHTTP then
        http_mux oauth_patterns (so_HTTPEndpoint opts) oauth
      else Some [])"

definition tool_context :: "('w, 's, 'o) Server \<Rightarrow> request_ctx \<Rightarrow> http_request \<Rightarrow> request_ctx" where
  "tool_context s ctx r = (case sv_oauth s of None \<Rightarrow> ctx | Some _ \<Rightarrow> HTTPContextFunc ctx r)"


subsection \<open>What a server keeps\<close>

text \<open>
  The context of a server that enforces a policy: the static client carries it, and the factory's
  cache is sound and its clients are built with it.
\<close>

definition context_ok :: "('k, 'c, 'w) bearer_env \<Rightarrow> WritePolicy \<Rightarrow> 'w ServerContext \<Rightarrow> bool" where
  "context_ok b p sc \<longleftrightarrow> sc_policy sc = p
     \<and> (case sc_capiClient sc of None \<Rightarrow> True | Some c \<Rightarrow> policy c = p)
     \<and> (case sc_factory sc of None \<Rightarrow> True | Some f \<Rightarrow> cache_ok b f \<and> bf_policy f = p)"

lemma ClientFor_config: "bf_policy (snd (ClientFor b now token f)) = bf_policy f"
  by (simp add: ClientFor_def cache_store_def Let_def split: option.split sum.split)

lemma context_ok_Client:
  assumes ok: "context_ok b p sc" and run: "sc_Client b now ctx sc = (r, sc')"
  shows "context_ok b p sc'" and "r = Inr c \<Longrightarrow> policy c = p"
proof -
  have "context_ok b p sc' \<and> (\<forall>c. r = Inr c \<longrightarrow> policy c = p)"
  proof (cases "sc_factory sc")
    case None
    with ok run show ?thesis by (auto simp: sc_Client_def context_ok_def split: option.splits)
  next
    case (Some f)
    with ok have f: "cache_ok b f" "bf_policy f = p" by (simp_all add: context_ok_def)
    show ?thesis
    proof (cases "IDTokenFromContext ctx")
      case None
      with Some run ok show ?thesis by (auto simp: sc_Client_def)
    next
      case (Some token)
      obtain q f' where cf: "ClientFor b now token f = (q, f')" by fastforce
      have "cache_ok b f'" using bearer.get_ok [OF f(1), of now token] cf by simp
      moreover have "bf_policy f' = p" using ClientFor_config [of b now token f] cf f(2) by simp
      moreover have "policy c = p" if "q = Inr c" for c
        using bearer.get_own [OF f(1), of now token c] cf that f(2)
        by (auto simp: owned_key_def owned_def dest: built_policy)
      ultimately show ?thesis
        using run ok Some \<open>sc_factory sc = Some f\<close> cf by (auto simp: sc_Client_def context_ok_def)
    qed
  qed
  then show "context_ok b p sc'" and "r = Inr c \<Longrightarrow> policy c = p" by simp_all
qed

lemma run_handler_cases:
  assumes "run_handler b now ctx h args (sc, s) = Some (res, sc', t)"
  obtains f where "h = WithoutClient f" "sc' = sc" "f args s = (res, t)"
  | f cl where "h = WithClient f" "sc_Client b now ctx sc = (cl, sc')" "f cl args s = Some (res, t)"
  using assms by (auto simp: run_handler_def split: tool_handler.splits prod.splits)

lemma tool_call_ok:
  assumes "tool_call e b regs (sc, s) (sc', t)" and "context_ok b p sc"
  shows "context_ok b p sc'"
  using assms(1)
proof (cases rule: tool_call.cases)
  case (call r h now ctx args res)
  from call(3) show ?thesis
    by (cases rule: run_handler_cases) (use assms(2) context_ok_Client(1) in auto)
qed

text \<open>A call to a tool that a read-only server offers only reads, and does nothing on the host.\<close>

lemma read_only_call:
  assumes "tool_call e b (BuildAllTools p) (sc, s) (sc', t)" and "context_ok b p sc" and "ReadOnly p"
  shows "ran is_read s t \<and> local_events t = local_events s"
  using assms(1)
proof (cases rule: tool_call.cases)
  case (call r h now ctx args res)
  have quiet: "\<not> List.member mutating_handlers (TR_Handler r)" using offered_not_mutating call(1) assms(3) by blast
  then have gated: "\<not> List.member ungated_handlers (TR_Handler r)" using ungated_mutate by blast
  have host: "quiet_handler h"
    using handlers_quiet handler_table_member [OF call(2)] quiet by (fastforce simp: list_all_iff)
  have reads: "handler_reads cl h" if "\<And>c. cl = Inr c \<Longrightarrow> ReadOnly (policy c)" for cl
    using handlers_read_only [where e = e, OF that] handler_table_member [OF call(2)] gated
    by (fastforce simp: list_all_iff)
  from call(3) show ?thesis
  proof (cases rule: run_handler_cases)
    case (1 f)
    with host reads [of "Inl (Sentinel ErrNoBearerToken)"] show ?thesis
      by (auto simp: quiet_handler_def handler_reads_def dest: silentD emits_ran)
  next
    case (2 f cl)
    have "handler_reads cl h"
      using reads context_ok_Client(2) [OF assms(2) 2(2)] assms(3) by blast
    with host 2 show ?thesis by (auto simp: quiet_handler_def handler_reads_def)
  qed
qed

lemma reachable_context_ok:
  "(tool_call e b regs)\<^sup>*\<^sup>* (sc, s) (sc', t) \<Longrightarrow> context_ok b p sc \<Longrightarrow> context_ok b p sc'"
  by (induction "(sc', t)" arbitrary: sc' t rule: rtranclp_induct) (use tool_call_ok in fastforce)+

lemma read_only_calls:
  assumes "(tool_call e b (BuildAllTools p))\<^sup>*\<^sup>* (sc, s) (sc', t)" and "context_ok b p sc" and "ReadOnly p"
  shows "ran is_read s t \<and> local_events t = local_events s"
  using assms(1)
proof (induction "(sc', t)" arbitrary: sc' t rule: rtranclp_induct)
  case (step y)
  obtain sc1 u where y: "y = (sc1, u)" by fastforce
  from step y have "ran is_read s u \<and> local_events u = local_events s" by simp
  moreover have "context_ok b p sc1" using reachable_context_ok step(1) assms(2) unfolding y by blast
  ultimately show ?case
    using read_only_call [of e b p sc1 u] step(2) y assms(3) by (auto intro: ran_trans)
qed simp


subsection \<open>What is built\<close>

lemma NewClient_policy: "NewClient src l kc [WithWritePolicy p] = Inr c \<Longrightarrow> policy c = p"
  by (auto simp: NewClient_def NewClientFromConfig_def WithWritePolicy_def split: sum.splits option.splits)

lemma new_factory_ok:
  "NewBearerClientFactoryFromKubeconfig src path = Inr f \<Longrightarrow> cache_ok b (SetWritePolicy p f)"
  "NewInClusterBearerClientFactory host port st = Inr f' \<Longrightarrow> cache_ok b (SetWritePolicy p f')"
  by (auto simp: NewBearerClientFactoryFromKubeconfig_def NewInClusterBearerClientFactory_def
      NewBearerClientFactory_def SetWritePolicy_def cache_ok_def split: sum.splits if_splits option.splits)

lemma newServerContext_ok:
  assumes "newServerContext pe opts = Inr sc"
  shows "context_ok b (so_WritePolicy opts) sc" and "ActsAsCaller sc = so_CallerIdentity opts"
proof -
  have "context_ok b (so_WritePolicy opts) sc \<and> ActsAsCaller sc = so_CallerIdentity opts"
  proof (cases "so_CallerIdentity opts")
    case True
    with assms obtain f where "cache_ok b (SetWritePolicy (so_WritePolicy opts) f)"
      and "sc = NewCallerIdentityServerContext (SetWritePolicy (so_WritePolicy opts) f) (so_WritePolicy opts)"
      using new_factory_ok by (fastforce simp: newServerContext_def Let_def split: sum.splits if_splits)
    with True show ?thesis
      by (simp add: context_ok_def NewCallerIdentityServerContext_def ActsAsCaller_def SetWritePolicy_def)
  next
    case False
    with assms obtain c where "policy c = so_WritePolicy opts" and "sc = NewServerContext (Some c)"
      by (auto simp: newServerContext_def Let_def dest: NewClient_policy split: sum.splits option.splits)
    with False show ?thesis by (simp add: context_ok_def NewServerContext_def ActsAsCaller_def)
  qed
  then show "context_ok b (so_WritePolicy opts) sc" and "ActsAsCaller sc = so_CallerIdentity opts" by simp_all
qed

lemma NewServer_built:
  assumes "NewServer pe ol opts tr = (Inr sv, tr')"
  shows "validateOptions opts = None" and "newServerContext pe opts = Inr (sv_context sv)"
    and "sv_options sv = opts" and "sv_tools sv = BuildAllTools (sc_policy (sv_context sv))"
    and "(sv_oauth sv = None) = (so_OAuth opts = None)"
proof -
  have "validateOptions opts = None \<and> newServerContext pe opts = Inr (sv_context sv)
    \<and> sv_options sv = opts \<and> sv_tools sv = BuildAllTools (sc_policy (sv_context sv))
    \<and> (sv_oauth sv = None) = (so_OAuth opts = None)"
    using assms
    by (auto simp: NewServer_def RegisterTools_def Let_def go_simps split: option.splits sum.splits prod.splits)
  then show "validateOptions opts = None" and "newServerContext pe opts = Inr (sv_context sv)"
    and "sv_options sv = opts" and "sv_tools sv = BuildAllTools (sc_policy (sv_context sv))"
    and "(sv_oauth sv = None) = (so_OAuth opts = None)" by simp_all
qed

text \<open>With OAuth nothing but the library's own routes is served without the middleware.\<close>

fun route_guarded :: "served \<Rightarrow> bool" where
  "route_guarded (Unprotected ep) = False"
| "route_guarded _ = True"

definition guarded :: "mux option \<Rightarrow> bool" where
  "guarded m = (case m of None \<Rightarrow> True | Some routes \<Rightarrow> list_all (\<lambda>(p, h). route_guarded h) routes)"

lemma guarded_Handle: "guarded m \<Longrightarrow> route_guarded h \<Longrightarrow> guarded (mux_Handle p h m)"
  by (auto simp: mux_Handle_def guarded_def split: option.split)

lemma guarded_fold: "guarded m \<Longrightarrow> guarded (fold (\<lambda>p. mux_Handle p OAuthRoute) ps m)"
  by (induction ps arbitrary: m) (simp_all add: guarded_Handle)

lemma server_mux_guarded: "sv_oauth s \<noteq> None \<Longrightarrow> guarded (server_mux pats s)"
proof -
  have "guarded (Some [])" by (simp add: guarded_def)
  moreover assume "sv_oauth s \<noteq> None"
  ultimately show ?thesis
    by (auto simp: server_mux_def sse_mux_def http_mux_def RegisterRoutes_def Let_def
        intro!: guarded_Handle guarded_fold)
qed

lemma sc_Client_mode: "ActsAsCaller (snd (sc_Client b now ctx sc)) = ActsAsCaller sc"
  by (auto simp: sc_Client_def ActsAsCaller_def split: option.split prod.split)

lemma reachable_acts_as_caller:
  "(tool_call e b regs)\<^sup>*\<^sup>* (sc, s) (sc', t) \<Longrightarrow> ActsAsCaller sc \<Longrightarrow> ActsAsCaller sc'"
proof (induction "(sc', t)" arbitrary: sc' t rule: rtranclp_induct)
  case (step y)
  obtain sc1 u where y: "y = (sc1, u)" by fastforce
  from step(2) [unfolded y] show ?case
  proof (cases rule: tool_call.cases)
    case (call r h now ctx args res)
    from call(3) show ?thesis
      by (cases rule: run_handler_cases) (use step y sc_Client_mode [of b now ctx sc1] in auto)
  qed
qed simp

lemma emits_nothing:
  assumes "emits (\<lambda>_. False) m" and "m s = (r, t)"
  shows "requests t = requests s"
proof -
  obtain rs where "requests t = requests s @ rs" "list_all (\<lambda>_. False) rs" by (rule emitsD [OF assms])
  then show ?thesis by (cases rs) simp_all
qed

subsection \<open>The caller of a request\<close>

lemma identity_token:
  assumes "identity store r = ServeNext ctx" and "ctx_idToken (hr_ctx r) = None"
  obtains u where "ctx_user (hr_ctx r) = Some u" and "\<not> IsExternalIssuer u"
    and "\<And>tok. IDTokenFromContext ctx = Some tok \<Longrightarrow>
      tok \<noteq> '''' \<and> tok = (if IsSSO u then bearerToken r else storedIDToken store (bearerToken r) u)"
  using assms
  by (auto simp: identity_def UserInfoFromContext_def Let_def IDTokenFromContext_def ContextWithIDToken_def
      split: option.splits if_splits)

lemma context_token:
  assumes "ctx_idToken base = None" and "IDTokenFromContext (HTTPContextFunc base r) = Some tok"
  shows "IDTokenFromContext (hr_ctx r) = Some tok"
  using assms
  by (auto simp: HTTPContextFunc_def Let_def IDTokenFromContext_def ContextWithIDToken_def
      split: option.splits if_splits)

text \<open>A client handed out in caller-identity mode is owned by the digest of the request's token.\<close>

lemma Client_owned:
  assumes "sc_factory sc = Some f" and "cache_ok b f" and "fst (sc_Client b now ctx sc) = Inr c"
  obtains token where "IDTokenFromContext ctx = Some token" and "owned_key b f (be_digest b token) c"
proof -
  obtain token where token: "IDTokenFromContext ctx = Some token"
    using assms(1,3) by (auto simp: sc_Client_def split: option.splits)
  with assms(1,3) have "fst (ClientFor b now token f) = Inr c" by (simp add: sc_Client_def split: prod.splits)
  then show ?thesis using that token bearer.get_own [OF assms(2)] by blast
qed

definition as_caller :: "('k, 'c, 'w) bearer_env \<Rightarrow> token_store option \<Rightarrow> http_request
    \<Rightarrow> 'w BearerClientFactory \<Rightarrow> 'w Client \<Rightarrow> bool" where
  "as_caller b store r f c \<longleftrightarrow> (\<exists>u token. ctx_user (hr_ctx r) = Some u \<and> \<not> IsExternalIssuer u
     \<and> token \<noteq> '''' \<and> token = (if IsSSO u then bearerToken r else storedIDToken store (bearerToken r) u)
     \<and> owned_key b f (be_digest b token) c)"

lemma request_client_as_caller:
  assumes "identity store r = ServeNext ctx" and "ctx_idToken (hr_ctx r) = None" and "ctx_idToken base = None"
    and "sc_factory sc = Some f" and "cache_ok b f"
    and "fst (sc_Client b now (HTTPContextFunc base (q\<lparr>hr_ctx := ctx\<rparr>)) sc) = Inr c"
  shows "as_caller b store r f c"
proof -
  obtain token where token: "IDTokenFromContext (HTTPContextFunc base (q\<lparr>hr_ctx := ctx\<rparr>)) = Some token"
    and own: "owned_key b f (be_digest b token) c"
    using Client_owned [OF assms(4-6)] by blast
  have "IDTokenFromContext ctx = Some token" using context_token [OF assms(3) token] by simp
  with identity_token [OF assms(1,2)] own show ?thesis unfolding as_caller_def by metis
qed

lemma server_reads:
  assumes "NewServer pe ol opts tr = (Inr sv, tr')" and "so_ReadOnly opts"
    and "(tool_call e b (sv_tools sv))\<^sup>*\<^sup>* (sv_context sv, s) (sc, t)"
  shows "ran is_read s t \<and> local_events t = local_events s \<and> context_ok b (so_WritePolicy opts) sc"
proof -
  note built = NewServer_built [OF assms(1)]
  have ok: "context_ok b (so_WritePolicy opts) (sv_context sv)" by (rule newServerContext_ok(1) [OF built(2)])
  then have "sv_tools sv = BuildAllTools (so_WritePolicy opts)" using built(4) by (simp add: context_ok_def)
  moreover have "ReadOnly (so_WritePolicy opts)" using assms(2) by (simp add: so_WritePolicy_def)
  ultimately show ?thesis
    using read_only_calls [of e b "so_WritePolicy opts"] reachable_context_ok [OF assms(3) ok] assms(3) ok by simp
qed

subsection \<open>Properties\<close>

text \<open>
  C1. A server started read-only makes, over any sequence of calls by any callers to the tools it
  offers, with any arguments, only reads of its management cluster, and it writes no file and
  starts no process on its host; its context goes on enforcing the policy of the options.
\<close>

theorem read_only_server_reads:
  assumes "NewServer pe ol opts tr = (Inr sv, tr')" and "so_ReadOnly opts"
    and "(tool_call e b (sv_tools sv))\<^sup>*\<^sup>* (sv_context sv, s) (sc, t)"
  shows "ran is_read s t \<and> local_events t = local_events s \<and> context_ok b (so_WritePolicy opts) sc"
  by (rule server_reads [OF assms])

text \<open>
  A server started in caller-identity mode runs on HTTP with the OAuth middleware before every MCP
  handler, and whatever was called before, a request that passes the middleware is served, if with
  a client at all, with one that was built from a token of the same digest as that of the caller
  the middleware resolved, under the policy of the options.
\<close>

theorem server_acts_as_caller:
  assumes "NewServer pe ol opts tr = (Inr sv, tr')" and "so_CallerIdentity opts"
    and "(tool_call e b (sv_tools sv))\<^sup>*\<^sup>* (sv_context sv, s) (sc, t)"
    and "validate q = Inr r" and "ctx_idToken (hr_ctx r) = None" and "ctx_idToken base = None"
  shows "so_Transport opts \<noteq> TransportStdio \<and> guarded (server_mux pats sv)
     \<and> (\<exists>f. sc_factory sc = Some f
         \<and> (case Protect validate store q of
              HttpError code msg \<Rightarrow> True
            | ServeNext ctx \<Rightarrow> (case fst (sc_Client b now (tool_context sv base (q\<lparr>hr_ctx := ctx\<rparr>)) sc) of
                  Inl e \<Rightarrow> True
                | Inr c \<Rightarrow> as_caller b store r f c \<and> policy c = so_WritePolicy opts)))"
proof -
  note built = NewServer_built [OF assms(1)]
  have oauth: "so_OAuth opts \<noteq> None" "so_Transport opts \<noteq> TransportStdio"
    using built(1) assms(2) by (auto simp: validateOptions_def split: if_splits)
  then have sv: "sv_oauth sv \<noteq> None" using built(5) by simp
  have ok: "context_ok b (so_WritePolicy opts) sc"
    by (rule reachable_context_ok [OF assms(3) newServerContext_ok(1) [OF built(2)]])
  have "ActsAsCaller (sv_context sv)" using newServerContext_ok(2) [OF built(2)] assms(2) by simp
  then have "ActsAsCaller sc" by (rule reachable_acts_as_caller [OF assms(3)])
  then obtain f where f: "sc_factory sc = Some f" by (auto simp: ActsAsCaller_def)
  have cache: "cache_ok b f" using ok f by (simp add: context_ok_def)
  have "as_caller b store r f c \<and> policy c = so_WritePolicy opts"
    if "Protect validate store q = ServeNext ctx"
      and "fst (sc_Client b now (tool_context sv base (q\<lparr>hr_ctx := ctx\<rparr>)) sc) = Inr c" for ctx c
  proof
    have "identity store r = ServeNext ctx" using that(1) assms(4) by (simp add: Protect_def)
    moreover have "tool_context sv base (q\<lparr>hr_ctx := ctx\<rparr>) = HTTPContextFunc base (q\<lparr>hr_ctx := ctx\<rparr>)"
      using sv by (auto simp: tool_context_def)
    ultimately show "as_caller b store r f c"
      using request_client_as_caller [OF _ assms(5,6) f cache] that(2) by simp
    show "policy c = so_WritePolicy opts" using context_ok_Client(2) [OF ok] that(2) by (metis prod.collapse)
  qed
  then show ?thesis
    using oauth(2) server_mux_guarded [OF sv] f by (auto split: middleware_outcome.split sum.split)
qed

text \<open>
  C7. A server that acts as the caller does nothing for nobody: a call of any tool by a request
  without an ID token returns, with the identity error for every tool but the two that answer from
  static tables, and leaves the API server, the host, and the cache of clients as they were.
\<close>

theorem no_identity_no_request:
  assumes "handler_of e r = Some h" and "ActsAsCaller sc" and "IDTokenFromContext ctx = None"
  shows "\<exists>res t. run_handler b now ctx h args (sc, s) = Some (res, sc, t)
     \<and> requests t = requests s \<and> local_events t = local_events s
     \<and> (res = Inl (Sentinel ErrNoCallerIdentity) \<and> t = s
        \<or> List.member [''CreateListInfrastructureProvidersHandler'', ''CreateGetProviderConfigHandler''] (TR_Handler r))"
proof -
  have client: "sc_Client b now ctx sc = (Inl (Sentinel ErrNoCallerIdentity), sc)"
    using assms(2,3) by (auto simp: sc_Client_def ActsAsCaller_def)
  have member: "(TR_Handler r, h) \<in> set (handlers e)" by (rule handler_table_member [OF assms(1)])
  then have needs: "needs_client h" using handlers_need_client by (fastforce simp: list_all_iff)
  show ?thesis
  proof (cases h)
    case (WithClient f)
    with needs client show ?thesis by (simp add: run_handler_def needs_client_def)
  next
    case (WithoutClient f)
    obtain res t where ft: "f args s = (res, t)" by fastforce
    have "requests t = requests s"
      using needs WithoutClient emits_nothing [where m = "f args", OF _ ft] by (simp add: needs_client_def)
    moreover have "local_events t = local_events s"
      using needs WithoutClient ft silentD by (fastforce simp: needs_client_def)
    moreover have "List.member [''CreateListInfrastructureProvidersHandler'', ''CreateGetProviderConfigHandler''] (TR_Handler r)"
      using static_handlers member WithoutClient by (fastforce simp: list_all_iff)
    ultimately show ?thesis using WithoutClient ft by (simp add: run_handler_def)
  qed
qed

subsection \<open>Examples\<close>

definition example_process :: "(unit, unit, world) process_env" where
  "example_process = \<lparr>pe_source = \<lparr>BuildConfigFromFlags = (\<lambda>_. Inl (Errorf ''none'' [])),
       InClusterConfig = Inr (restConfig example_factory ''''), KubeconfigEnv = '''', HomeDir = '''',
       FileExists = (\<lambda>_. False)\<rparr>,
     pe_libs = example_libs, pe_service_host = ''10.0.0.1'', pe_service_port = ''443'', pe_ca_stat = None\<rparr>"

definition example_oauth_libs :: "(unit, unit, unit, nat, unit) oauth_libs" where
  "example_oauth_libs = \<lparr>os_ReadFile = (\<lambda>_. Inr ''pem''), SystemCertPool = Inr (), NewCertPool = (),
     AppendCertsFromPEM = (\<lambda>_ _. Some ()), dex_NewProvider = (\<lambda>_. Inr ()), google_NewProvider = (\<lambda>_. Inr ()),
     base64_error = Errorf ''corrupt'' [], NewEncryptor = (\<lambda>_. Inr ()), valkey_New = (\<lambda>_ _. Inr 1),
     memory_New = (\<lambda>_. 0), mcpoauth_NewServer = (\<lambda>_ _ _. Inr ())\<rparr>"

definition example_oauth_config :: Config where
  "example_oauth_config = (configFromLookup (\<lambda>_. None))\<lparr>Issuer := ''https://mcp'',
     RedirectURL := ''https://mcp/oauth/callback'', DexIssuerURL := ''https://dex'', DexClientID := ''mcp'',
     DexClientSecret := ''x''\<rparr>"

definition read_only_options :: ServerOptions where
  "read_only_options = DefaultServerOptions\<lparr>so_ReadOnly := True\<rparr>"

definition caller_options :: ServerOptions where
  "caller_options = DefaultServerOptions\<lparr>so_Transport := TransportStreamableHTTP,
     so_OAuth := Some example_oauth_config, so_CallerIdentity := True, so_GitOpsGuard := True\<rparr>"

lemma read_only_server_built:
  "\<exists>sv tr. NewServer example_process example_oauth_libs read_only_options [] = (Inr sv, tr)"
  by (simp add: NewServer_def read_only_options_def DefaultServerOptions_def validateOptions_def
      newServerContext_def NewClient_def loadConfig_def example_process_def NewClientFromConfig_def
      example_libs_def newScheme_def RegisterTools_def go_simps Let_def split: option.split)

lemma caller_server_built:
  "\<exists>sv tr. NewServer example_process example_oauth_libs caller_options [] = (Inr sv, tr)"
  by (simp add: NewServer_def caller_options_def DefaultServerOptions_def validateOptions_def
      TransportStdio_def TransportStreamableHTTP_def newServerContext_def example_process_def
      NewInClusterBearerClientFactory_def oauth_NewServer_def example_oauth_config_def configFromLookup_def
      newDexProvider_def loadRootCAs_def newServerWithProvider_def buildEncryptor_def newStore_def
      StorageTypeValkey_def opened_def TrimSpace_def ToLower_def example_oauth_libs_def RegisterTools_def go_simps
      Let_def split: option.split)

lemma get_cluster_offered:
  "get_cluster_tool\<lparr>TR_Annotations := Some (annotationsFor ''capi_get_cluster'')\<rparr> \<in> set (BuildAllTools p)"
  "handler_of e (get_cluster_tool\<lparr>TR_Annotations := a\<rparr>) = Some (returning CreateGetClusterHandler)"
proof -
  have names: "IsReadOnlyTool ''capi_get_cluster''" "\<not> IsCredentialTool ''capi_get_cluster''"
    "\<not> IsMutatingTool ''capi_get_cluster''" by code_simp+
  have "r \<in> set regs \<Longrightarrow> TR_Name r = ''capi_get_cluster'' \<Longrightarrow>
      r\<lparr>TR_Annotations := Some (annotationsFor (TR_Name r))\<rparr> \<in> set (filter_tools p regs)" for r regs
    using names by (induction p regs rule: filter_tools.induct) (auto simp: Let_def)
  from this [OF get_cluster_registered(1)]
  show "get_cluster_tool\<lparr>TR_Annotations := Some (annotationsFor ''capi_get_cluster'')\<rparr> \<in> set (BuildAllTools p)"
    by (simp add: BuildAllTools_def get_cluster_tool_def tool_def)
  show "handler_of e (get_cluster_tool\<lparr>TR_Annotations := a\<rparr>) = Some (returning CreateGetClusterHandler)"
    using get_cluster_registered(2) by (simp add: handler_of_def)
qed

lemma mutating_tool_offered:
  assumes "r \<in> set buildTools" and "\<not> IsCredentialTool (TR_Name r)" and "\<not> ReadOnly p"
  shows "r\<lparr>TR_Annotations := Some (annotationsFor (TR_Name r))\<rparr> \<in> set (BuildAllTools p)"
proof -
  have "r \<in> set regs \<Longrightarrow> r\<lparr>TR_Annotations := Some (annotationsFor (TR_Name r))\<rparr> \<in> set (filter_tools p regs)" for regs
    using assms(2,3) by (induction p regs rule: filter_tools.induct) (auto simp: Let_def)
  then show ?thesis using assms(1) by (simp add: BuildAllTools_def)
qed

lemma example_call:
  assumes "regs = BuildAllTools p"
  shows "\<exists>sc' t. tool_call example_env example_bearer regs (sc, s) (sc', t)"
proof -
  obtain res sc' t where "run_handler example_bearer 0 example_ctx (returning CreateGetClusterHandler) []
      (sc, s) = Some (res, sc', t)"
    by (fastforce simp: run_handler_def returning_def split: prod.split)
  with tool_call.call [OF get_cluster_offered(1) get_cluster_offered(2)] assms show ?thesis by blast
qed

theorem read_only_server_reads_witness:
  "\<exists>sv tr sc t. NewServer example_process example_oauth_libs read_only_options [] = (Inr sv, tr)
     \<and> tool_call example_env example_bearer (sv_tools sv) (sv_context sv, start empty_world) (sc, t)
     \<and> ran is_read (start empty_world) t \<and> local_events t = []"
proof -
  obtain sv tr where sv: "NewServer example_process example_oauth_libs read_only_options [] = (Inr sv, tr)"
    using read_only_server_built by blast
  obtain sc t where call: "tool_call example_env example_bearer (sv_tools sv) (sv_context sv, start empty_world) (sc, t)"
    using example_call [OF NewServer_built(4) [OF sv]] by blast
  have "so_ReadOnly read_only_options" by (simp add: read_only_options_def)
  moreover have "(tool_call example_env example_bearer (sv_tools sv))\<^sup>*\<^sup>* (sv_context sv, start empty_world) (sc, t)"
    using call by (rule r_into_rtranclp)
  ultimately have "ran is_read (start empty_world) t \<and> local_events t = local_events (start empty_world)"
    using read_only_server_reads [OF sv] by blast
  moreover have "local_events (start empty_world) = []" by (simp add: start_def)
  ultimately show ?thesis using sv call by metis
qed

theorem server_acts_as_caller_witness:
  "\<exists>sv tr. NewServer example_process example_oauth_libs caller_options [] = (Inr sv, tr)
     \<and> guarded (server_mux (\<lambda>_. [''/oauth/token'']) sv) \<and> sc_factory (sv_context sv) \<noteq> None"
proof -
  obtain sv tr where sv: "NewServer example_process example_oauth_libs caller_options [] = (Inr sv, tr)"
    using caller_server_built by blast
  have "so_CallerIdentity caller_options" by (simp add: caller_options_def)
  from server_acts_as_caller [OF sv this rtranclp.rtrancl_refl [of "tool_call example_env example_bearer (sv_tools sv)"],
      of Inr example_request example_request "hr_ctx example_request" "\<lambda>_. [''/oauth/token'']" None 0] sv
  show ?thesis by (auto simp: example_request_def)
qed

theorem no_identity_no_request_witness:
  "\<exists>res t. run_handler example_bearer 0 (hr_ctx example_request) (returning CreateGetClusterHandler) []
       (NewCallerIdentityServerContext example_factory open_policy, start empty_world)
     = Some (res, NewCallerIdentityServerContext example_factory open_policy, t)
   \<and> requests t = [] \<and> res = Inl (Sentinel ErrNoCallerIdentity)"
  using no_identity_no_request [OF get_cluster_registered(2), where b = example_bearer and now = 0
      and sc = "NewCallerIdentityServerContext example_factory open_policy"
      and ctx = "hr_ctx example_request" and args = "[]" and s = "start empty_world"]
  by (simp add: ActsAsCaller_def NewCallerIdentityServerContext_def IDTokenFromContext_def example_request_def
      get_cluster_tool_def tool_def start_def)

end
