(* ===== verification/Capi_Net.thy ===== *)
theory Capi_Net
  imports Capi_Bearer "HOL-Library.Sublist"
begin

section \<open>The standard library behind the serve flags (net, strconv)\<close>

text \<open>
  \<open>net.SplitHostPort\<close>, \<open>strconv.Atoi\<close> and the validity check of \<open>net.ParseIP\<close>, which the checks of
  the listen address (cmd/serve.go) call.  Their errors are the texts the library builds.
\<close>

subsection \<open>Numbers\<close>

definition digit :: "char \<Rightarrow> bool" where
  "digit c = (let n = of_char c :: nat in 48 \<le> n \<and> n \<le> 57)"

definition digit_value :: "char \<Rightarrow> int" where
  "digit_value c = int (of_char c) - 48"

datatype num_error = ErrSyntax | ErrRange

definition num_error_text :: "num_error \<Rightarrow> string" where
  "num_error_text e = (case e of ErrSyntax \<Rightarrow> ''invalid syntax'' | ErrRange \<Rightarrow> ''value out of range'')"

text \<open>\<open>ParseUint\<close> in base 10, which stops at the first bad digit or overflow of 64 bits.\<close>

fun parse_digits :: "int \<Rightarrow> string \<Rightarrow> num_error + int" where
  "parse_digits n [] = Inr n"
| "parse_digits n (c # s) =
     (if \<not> digit c then Inl ErrSyntax
      else if n * 10 + digit_value c \<ge> 2 ^ 64 then Inl ErrRange
      else parse_digits (n * 10 + digit_value c) s)"

definition ParseUint :: "string \<Rightarrow> num_error + int" where
  "ParseUint s = (if s = '''' then Inl ErrSyntax else parse_digits 0 s)"

definition signed :: "bool \<Rightarrow> num_error + int \<Rightarrow> num_error + int" where
  "signed neg r = (case r of
       Inl e \<Rightarrow> Inl e
     | Inr n \<Rightarrow> if neg then (if n > 2 ^ 63 then Inl ErrRange else Inr (- n))
         else (if n \<ge> 2 ^ 63 then Inl ErrRange else Inr n))"

definition Atoi :: "string \<Rightarrow> goerr + int" where
  "Atoi s = (case (case s of
         [] \<Rightarrow> Inl ErrSyntax
       | c # r \<Rightarrow> if c = CHR ''+'' then signed False (ParseUint r)
           else if c = CHR ''-'' then signed True (ParseUint r)
           else signed False (ParseUint s)) of
       Inl e \<Rightarrow> Inl (Errorf ''strconv.%s: parsing %q: %s'' [Fs ''Atoi'', Fq s, Fs (num_error_text e)])
     | Inr n \<Rightarrow> Inr n)"

subsection \<open>Host and port\<close>

text \<open>The text before and after the last \<open>c\<close>.\<close>

definition split_last :: "char \<Rightarrow> string \<Rightarrow> (string \<times> string) option" where
  "split_last c s = (if List.member s c
     then Some (rev (tl (dropWhile (\<lambda>x. x \<noteq> c) (rev s))), rev (takeWhile (\<lambda>x. x \<noteq> c) (rev s)))
     else None)"

definition addrErr :: "string \<Rightarrow> string \<Rightarrow> goerr + 'a" where
  "addrErr addr why = Inl (Errorf ''address %s: %s'' [Fs addr, Fs why])"

text \<open>
  A bracketed host ends at the first bracket, which the last colon must follow.
\<close>

definition SplitHostPort :: "string \<Rightarrow> goerr + string \<times> string" where
  "SplitHostPort hostport =
     (case split_last (CHR '':'') hostport of
        None \<Rightarrow> addrErr hostport ''missing port in address''
      | Some (pre, port) \<Rightarrow>
          if prefix ''['' hostport then
            (if \<not> List.member hostport (CHR '']'') then addrErr hostport ''missing ']' in address''
             else
               let inside = takeWhile (\<lambda>c. c \<noteq> CHR '']'') hostport;
                   after = drop (length inside + 1) hostport
               in if after = '''' then addrErr hostport ''missing port in address''
                  else if length pre \<noteq> length inside + 1 then
                    (if prefix '':'' after then addrErr hostport ''too many colons in address''
                     else addrErr hostport ''missing port in address'')
                  else if List.member (drop 1 hostport) (CHR ''['') then addrErr hostport ''unexpected '[' in address''
                  else if List.member after (CHR '']'') then addrErr hostport ''unexpected ']' in address''
                  else Inr (drop 1 inside, port))
          else if List.member pre (CHR '':'') then addrErr hostport ''too many colons in address''
          else if List.member hostport (CHR ''['') then addrErr hostport ''unexpected '[' in address''
          else if List.member hostport (CHR '']'') then addrErr hostport ''unexpected ']' in address''
          else Inr (pre, port))"

subsection \<open>Addresses\<close>

definition ipv4_octet :: "string \<Rightarrow> bool" where
  "ipv4_octet s \<longleftrightarrow> s \<noteq> '''' \<and> list_all digit s \<and> (length s = 1 \<or> \<not> prefix ''0'' s)
     \<and> foldl (\<lambda>n c. n * 10 + digit_value c) 0 s \<le> 255"

definition ipv4 :: "string \<Rightarrow> bool" where
  "ipv4 s = (case split_at (CHR ''.'') s of [a, b, c, d] \<Rightarrow> list_all ipv4_octet [a, b, c, d] | _ \<Rightarrow> False)"

definition hexadecimal :: "char \<Rightarrow> bool" where
  "hexadecimal c = (let n = of_char c :: nat in
     48 \<le> n \<and> n \<le> 57 \<or> 97 \<le> n \<and> n \<le> 102 \<or> 65 \<le> n \<and> n \<le> 70)"

text \<open>
  The loop over the groups: \<open>i\<close> bytes are filled, and \<open>ellipsis\<close> is whether a double colon was seen.
  The address is good if the text is used up and either fills 16 bytes or has an ellipsis that
  stands for at least one group.
\<close>

definition ipv6_complete :: "nat \<Rightarrow> bool \<Rightarrow> bool" where
  "ipv6_complete i ellipsis = (if i < 16 then ellipsis else \<not> ellipsis)"

function ipv6_groups :: "string \<Rightarrow> nat \<Rightarrow> bool \<Rightarrow> bool" where
  "ipv6_groups s i ellipsis =
     (if i \<ge> 16 then s = '''' \<and> ipv6_complete i ellipsis
      else
        let group = takeWhile hexadecimal s; rest = dropWhile hexadecimal s
        in if group = '''' \<or> length group > 4 then False
           else if prefix ''.'' rest then
             (ellipsis \<or> i = 12) \<and> i + 4 \<le> 16 \<and> ipv4 s \<and> ipv6_complete (i + 4) ellipsis
           else if rest = '''' then ipv6_complete (i + 2) ellipsis
           else if \<not> prefix '':'' rest \<or> length rest = 1 then False
           else if prefix ''::'' rest then
             (if ellipsis then False
              else if length rest = 2 then ipv6_complete (i + 2) True
              else ipv6_groups (drop 2 rest) (i + 2) True)
           else ipv6_groups (drop 1 rest) (i + 2) ellipsis)"
  by pat_completeness auto
termination
  by (relation "measure (\<lambda>(s, i, e). 16 - i)") auto

definition ipv6 :: "string \<Rightarrow> bool" where
  "ipv6 s = (if prefix ''::'' s
     then length s = 2 \<or> ipv6_groups (drop 2 s) 0 True else ipv6_groups s 0 False)"

text \<open>An address with a zone is no IP.\<close>

definition ParseIP :: "string \<Rightarrow> bool" where
  "ParseIP s = (case find (\<lambda>c. c = CHR ''.'' \<or> c = CHR '':'' \<or> c = CHR ''%'') s of
       None \<Rightarrow> False
     | Some c \<Rightarrow> if c = CHR ''.'' then ipv4 s
         else if c = CHR '':'' then \<not> List.member s (CHR ''%'') \<and> ipv6 s else False)"

declare ipv6_groups.simps [simp del]


subsection \<open>Round trips\<close>

lemma digit_char: "d < 10 \<Longrightarrow> digit (char_of (48 + d))" "d < 10 \<Longrightarrow> digit_value (char_of (48 + d)) = int d"
  by (simp_all add: digit_def digit_value_def Let_def of_char_of)

lemma parse_digits_append:
  "parse_digits n s = Inr m \<Longrightarrow> parse_digits n (s @ t) = parse_digits m t"
  by (induction n s rule: parse_digits.induct) (auto split: if_splits)

lemma parse_nat_string: "n < 2 ^ 64 \<Longrightarrow> parse_digits 0 (nat_string n) = Inr (int n)"
proof (induction n rule: nat_string.induct)
  case (1 n)
  show ?case
  proof (cases "n < 10")
    case True
    then show ?thesis by (simp add: nat_string.simps [of n] digit_char)
  next
    case False
    with 1 have "parse_digits 0 (nat_string (n div 10)) = Inr (int (n div 10))" by auto
    moreover have "int (n div 10) * 10 + int (n mod 10) = int n" by presburger
    ultimately show ?thesis
      using False "1.prems" by (simp add: nat_string.simps [of n] parse_digits_append digit_char)
  qed
qed


lemma nat_string_digits: "list_all digit (nat_string n) \<and> nat_string n \<noteq> ''''"
proof (induction n rule: nat_string.induct)
  case (1 n)
  then show ?case by (auto simp: nat_string.simps [of n] digit_char)
qed

lemma digit_not: "digit c \<Longrightarrow> c \<noteq> CHR ''+'' \<and> c \<noteq> CHR ''-'' \<and> c \<noteq> CHR '':'' \<and> c \<noteq> CHR ''['' \<and> c \<noteq> CHR '']''"
  by (auto simp: digit_def)

lemma Atoi_nat_string:
  assumes "n < 2 ^ 63"
  shows "Atoi (nat_string n) = Inr (int n)"
proof (cases "nat_string n")
  case Nil
  with nat_string_digits [of n] show ?thesis by simp
next
  case (Cons c s)
  then have "c \<noteq> CHR ''+''" "c \<noteq> CHR ''-''" using nat_string_digits [of n] digit_not [of c] by auto
  moreover have "ParseUint (nat_string n) = Inr (int n)"
    using nat_string_digits [of n] parse_nat_string [of n] assms by (simp add: ParseUint_def)
  ultimately show ?thesis using Cons assms by (simp add: Atoi_def signed_def)
qed

lemma until_char:
  assumes "c \<notin> set p"
  shows "takeWhile (\<lambda>x. x \<noteq> c) (p @ c # q) = p" and "dropWhile (\<lambda>x. x \<noteq> c) (p @ c # q) = c # q"
  using assms by (induction p) auto

lemma split_last_append: "c \<notin> set p \<Longrightarrow> split_last c (h @ c # p) = Some (h, p)"
  using until_char [of c "rev p" "rev h"] by (simp add: split_last_def)

text \<open>A host without brackets and a port without colon and brackets come back from their join.\<close>

lemma SplitHostPort_join:
  assumes "CHR ''['' \<notin> set host" and "CHR '']'' \<notin> set host"
    and "CHR '':'' \<notin> set port" and "CHR ''['' \<notin> set port" and "CHR '']'' \<notin> set port"
  shows "SplitHostPort (join_host_port host port) = Inr (host, port)"
proof (cases "List.member host (CHR '':'')")
  case True
  let ?pre = "CHR ''['' # host @ [CHR '']'']"
  have joined: "join_host_port host port = ?pre @ CHR '':'' # port" using True by (simp add: join_host_port_def)
  have inside: "takeWhile (\<lambda>c. c \<noteq> CHR '']'') (?pre @ CHR '':'' # port) = CHR ''['' # host"
    using assms(2) until_char(1) [of "CHR '']''" "CHR ''['' # host" "CHR '':'' # port"] by simp
  show ?thesis
    unfolding joined SplitHostPort_def split_last_append [OF assms(3)] inside Let_def
    using assms by (simp add: prefix_def)
next
  case False
  then have joined: "join_host_port host port = host @ CHR '':'' # port" by (simp add: join_host_port_def)
  have "\<not> prefix ''['' (host @ CHR '':'' # port)" using assms(1) by (cases host) (auto simp: prefix_def)
  with False assms show ?thesis
    unfolding joined SplitHostPort_def split_last_append [OF assms(3)] by simp
qed

end
