(* ===== verification/Capi_Command.thy ===== *)
theory Capi_Command
  imports Capi_Server Capi_Net "HOL-Library.Multiset"
begin

section \<open>The commands (cmd/serve.go, cmd/selfupdate.go, cmd/version.go, pkg/project/project.go)\<close>

text \<open>
  The serve command checks its flags, turns them into a configuration and then into server options,
  builds the server and runs it; the self-update command replaces the binary.  Parsing the command
  line is cobra's and starts here at the parsed flags.
\<close>

subsection \<open>The version of the build\<close>

definition dev :: string where "dev = ''dev''"
definition devel :: string where "devel = ''(devel)''"

text \<open>The main module version of the build info, if there is any; the three identifiers are linker flags.\<close>

definition buildInfoVersion :: "string option \<Rightarrow> string" where
  "buildInfoVersion info = (case info of
       None \<Rightarrow> ''''
     | Some v \<Rightarrow> if v \<noteq> '''' \<and> v \<noteq> devel then v else '''')"

definition project_Version :: "string \<Rightarrow> string \<Rightarrow> string option \<Rightarrow> string" where
  "project_Version version gitSHA info =
     (if version \<noteq> dev \<and> version \<noteq> '''' then version
      else let v = buildInfoVersion info in
        if v \<noteq> '''' then v
        else if gitSHA \<noteq> dev then gitSHA
        else dev)"

subsection \<open>Checking the flags of serve\<close>

definition validTransports :: "string list" where
  "validTransports = [''stdio'', ''sse'', ''streamable-http'']"

definition validateHTTPAddr :: "string \<Rightarrow> goerr option" where
  "validateHTTPAddr addr =
     (if addr = '''' then Some (Errorf ''address cannot be empty'' [])
      else (case SplitHostPort addr of
          Inl err \<Rightarrow> Some (Errorf ''invalid address format: %w'' [Fw err])
        | Inr (host, portStr) \<Rightarrow>
            let port_error = (if portStr \<noteq> '''' then
                  (case Atoi portStr of
                     Inl err \<Rightarrow> Some (Errorf ''invalid port number: %w'' [Fw err])
                   | Inr port \<Rightarrow> if port < 1 \<or> port > 65535 then
                         Some (Errorf ''port number must be between 1 and 65535, got: %d'' [Fd port])
                       else None)
                  else None)
            in (case port_error of
                  Some e \<Rightarrow> Some e
                | None \<Rightarrow> if host \<noteq> '''' \<and> \<not> ParseIP host \<and> host \<noteq> ''localhost'' then
                      Some (Errorf ''invalid host address: %s'' [Fs host])
                    else None)))"

definition validateEndpointPath :: "string \<Rightarrow> goerr option" where
  "validateEndpointPath path =
     (if path = '''' then Some (Errorf ''endpoint path cannot be empty'' [])
      else if \<not> prefix ''/'' path then Some (Errorf ''endpoint path must start with '/', got: %s'' [Fs path])
      else if sublist '' '' path then Some (Errorf ''endpoint path cannot contain spaces, got: %s'' [Fs path])
      else None)"

fun validate_endpoints :: "(string \<times> string) list \<Rightarrow> goerr option" where
  "validate_endpoints [] = None"
| "validate_endpoints ((name, path) # eps) = (case validateEndpointPath path of
       Some err \<Rightarrow> Some (Errorf ''invalid %s: %w'' [Fs name, Fw err])
     | None \<Rightarrow> validate_endpoints eps)"

text \<open>Go ranges over a map in any order: \<open>range_map\<close> is the order of this run.\<close>

definition validateServeFlags :: "((string \<times> string) list \<Rightarrow> (string \<times> string) list) \<Rightarrow> string \<Rightarrow> string
    \<Rightarrow> string \<Rightarrow> string \<Rightarrow> string \<Rightarrow> goerr option" where
  "validateServeFlags range_map transport httpAddr sseEndpoint messageEndpoint httpEndpoint =
     (if \<not> List.member validTransports transport then
        Some (Errorf ''unsupported transport type: %s (supported: %s)''
          [Fs transport, Fs (Join validTransports '', '')])
      else (case (if transport \<noteq> ''stdio'' then validateHTTPAddr httpAddr else None) of
          Some err \<Rightarrow> Some (Errorf ''invalid http-addr: %w'' [Fw err])
        | None \<Rightarrow> validate_endpoints (range_map [(''sse-endpoint'', sseEndpoint),
            (''message-endpoint'', messageEndpoint), (''http-endpoint'', httpEndpoint)])))"

subsection \<open>Running the server\<close>

record ServeConfig =
  cf_KubeconfigPath :: string
  cf_Transport :: string
  cf_HTTPAddr :: string
  cf_SSEEndpoint :: string
  cf_MessageEndpoint :: string
  cf_HTTPEndpoint :: string
  cf_OAuth :: "Config option"
  cf_DownstreamOAuth :: bool
  cf_ReadOnly :: bool
  cf_GitOpsGuard :: bool
  cf_ExposeKubeconfig :: bool
  cf_Debug :: bool

definition serverName :: string where "serverName = ''mcp-capi''"

definition serve_options :: "string \<Rightarrow> ServeConfig \<Rightarrow> ServerOptions" where
  "serve_options version cfg = \<lparr>so_KubeconfigPath = cf_KubeconfigPath cfg, so_Transport = cf_Transport cfg,
     so_HTTPAddr = cf_HTTPAddr cfg, so_SSEEndpoint = cf_SSEEndpoint cfg,
     so_MessageEndpoint = cf_MessageEndpoint cfg, so_HTTPEndpoint = cf_HTTPEndpoint cfg,
     so_ServerName = serverName, so_ServerVersion = version, so_OAuth = cf_OAuth cfg,
     so_CallerIdentity = cf_DownstreamOAuth cfg, so_ReadOnly = cf_ReadOnly cfg,
     so_GitOpsGuard = cf_GitOpsGuard cfg, so_ExposeKubeconfig = cf_ExposeKubeconfig cfg\<rparr>"

text \<open>What the process is run in.\<close>

record ('k, 'c, 'w, 'r, 'p, 'e, 's, 'o) serve_env =
  sn_process :: "('k, 'c, 'w) process_env"
  sn_oauth :: "('r, 'p, 'e, 's, 'o) oauth_libs"
  sn_patterns :: "string \<Rightarrow> string list"
  sn_network :: network
  sn_version :: string
  sn_vars :: "string \<Rightarrow> string option"
  sn_range :: "(string \<times> string) list \<Rightarrow> (string \<times> string) list"

definition RunServe :: "('k, 'c, 'w, 'r, 'p, 'e, 's, 'o) serve_env \<Rightarrow> ServeConfig
    \<Rightarrow> (('e, 's) store_event list, run_result) go" where
  "RunServe sn cfg =
     (if cf_DownstreamOAuth cfg \<and> cf_OAuth cfg = None then
        failE (Errorf ''invalid configuration: --downstream-oauth requires --enable-oauth'' [])
      else if cf_OAuth cfg \<noteq> None \<and> cf_Transport cfg = TransportStdio then
        failE (Errorf ''invalid configuration: --enable-oauth is not supported with the stdio transport'' [])
      else
        bindE (wrapE (\<lambda>e. Errorf ''failed to create server: %w'' [Fw e])
          (NewServer (sn_process sn) (sn_oauth sn) (serve_options (sn_version sn) cfg))) (\<lambda>srv.
        Run (sn_patterns sn) (sn_network sn) srv))"

text \<open>The flags with their defaults, and what the command does with them.\<close>

record serve_flags =
  fl_transport :: string
  fl_httpAddr :: string
  fl_sseEndpoint :: string
  fl_messageEndpoint :: string
  fl_httpEndpoint :: string
  fl_kubeconfig :: string
  fl_enableOAuth :: bool
  fl_downstreamOAuth :: bool
  fl_readOnly :: bool
  fl_gitopsGuard :: bool
  fl_exposeKubeconfig :: bool
  fl_debug :: bool

definition default_flags :: serve_flags where
  "default_flags = \<lparr>fl_transport = ''stdio'', fl_httpAddr = '':8080'', fl_sseEndpoint = ''/sse'',
     fl_messageEndpoint = ''/message'', fl_httpEndpoint = ''/mcp'', fl_kubeconfig = '''',
     fl_enableOAuth = False, fl_downstreamOAuth = False, fl_readOnly = True, fl_gitopsGuard = True,
     fl_exposeKubeconfig = False, fl_debug = False\<rparr>"

definition serve_config :: "(string \<Rightarrow> string option) \<Rightarrow> serve_flags \<Rightarrow> ServeConfig" where
  "serve_config vars f = \<lparr>cf_KubeconfigPath = fl_kubeconfig f, cf_Transport = fl_transport f,
     cf_HTTPAddr = fl_httpAddr f, cf_SSEEndpoint = fl_sseEndpoint f,
     cf_MessageEndpoint = fl_messageEndpoint f, cf_HTTPEndpoint = fl_httpEndpoint f,
     cf_OAuth = (if fl_enableOAuth f then Some (configFromLookup vars) else None),
     cf_DownstreamOAuth = fl_downstreamOAuth f, cf_ReadOnly = fl_readOnly f,
     cf_GitOpsGuard = fl_gitopsGuard f, cf_ExposeKubeconfig = fl_exposeKubeconfig f,
     cf_Debug = fl_debug f\<rparr>"

definition serve_RunE :: "('k, 'c, 'w, 'r, 'p, 'e, 's, 'o) serve_env \<Rightarrow> serve_flags
    \<Rightarrow> (('e, 's) store_event list, run_result) go" where
  "serve_RunE sn f =
     (case validateServeFlags (sn_range sn) (fl_transport f) (fl_httpAddr f) (fl_sseEndpoint f)
             (fl_messageEndpoint f) (fl_httpEndpoint f) of
        Some err \<Rightarrow> failE (Errorf ''invalid configuration: %w'' [Fw err])
      | None \<Rightarrow> RunServe sn (serve_config (sn_vars sn) f))"

text \<open>
  \<open>Execute\<close> adds the serve command when the program has no argument, so an invocation with only
  flags does not start the server; \<open>version\<close> prints one line.
\<close>

definition Execute_args :: "string list \<Rightarrow> string list" where
  "Execute_args args = (if length args = 1 then args @ [''serve''] else args)"

definition version_text :: "string \<Rightarrow> piece" where
  "version_text version = (''mcp-capi version %s'' @ nl, [Fs version])"

text \<open>Without flags the server is started on stdio, read-only and without handing out kubeconfigs.\<close>

lemma default_options:
  "so_WritePolicy (serve_options v (serve_config vars default_flags))
     = \<lparr>ReadOnly = True, GitOpsGuard = True, ExposeKubeconfig = False\<rparr>
   \<and> so_OAuth (serve_options v (serve_config vars default_flags)) = None
   \<and> validateOptions (serve_options v (serve_config vars default_flags)) = None"
  by (simp add: so_WritePolicy_def serve_options_def serve_config_def default_flags_def validateOptions_def)

subsection \<open>Self-update\<close>

definition githubRepoSlug :: string where "githubRepoSlug = ''giantswarm/mcp-capi''"

text \<open>
  The update libraries: the updater (built with the validator of the repository's signature
  bundles), the latest release of the repository, whether an error is the one of a missing bundle,
  the path of the executable, and the installation, which verifies the download and renames it over
  the executable, or fails.
\<close>

record 'rel update_libs =
  ul_NewUpdater :: "goerr option"
  ul_DetectLatest :: "string \<Rightarrow> goerr + 'rel option"
  ul_missing_bundle :: "goerr \<Rightarrow> bool"
  ul_GreaterThan :: "'rel \<Rightarrow> string \<Rightarrow> bool"
  ul_Version :: "'rel \<Rightarrow> string"
  ul_PublishedAt :: "'rel \<Rightarrow> string"
  ul_ReleaseNotes :: "'rel \<Rightarrow> string"
  ul_Executable :: "goerr + string"
  ul_Install :: "'rel \<Rightarrow> string \<Rightarrow> goerr option"

record 'rel update_state =
  us_out :: "piece list"
  us_installed :: "('rel \<times> string) list"

definition print :: "piece \<Rightarrow> ('rel update_state, unit) go" where
  "print p = (\<lambda>s. (Inr (), s\<lparr>us_out := us_out s @ [p]\<rparr>))"

definition install :: "'rel update_libs \<Rightarrow> 'rel \<Rightarrow> string \<Rightarrow> ('rel update_state, unit) go" where
  "install l rel exe = (case ul_Install l rel exe of
       Some e \<Rightarrow> failE e
     | None \<Rightarrow> (\<lambda>s. (Inr (), s\<lparr>us_installed := us_installed s @ [(rel, exe)]\<rparr>)))"

definition runSelfUpdate :: "'rel update_libs \<Rightarrow> string \<Rightarrow> ('rel update_state, unit) go" where
  "runSelfUpdate l currentVersion =
     (if currentVersion = '''' \<or> currentVersion = ''dev'' then
        failE (Errorf ''cannot self-update a development version'' [])
      else
        bindE (print (''Current version: %s'' @ nl, [Fs currentVersion])) (\<lambda>_.
        bindE (print (''Checking for updates...'' @ nl, [])) (\<lambda>_.
        bindE (checkE (map_option (\<lambda>e. Errorf ''failed to create updater: %w'' [Fw e]) (ul_NewUpdater l))) (\<lambda>_.
        case ul_DetectLatest l githubRepoSlug of
          Inl e \<Rightarrow>
            if ul_missing_bundle l e then failE (Errorf
              ''the latest release of %s has no signature bundle for this platform's binary, so it cannot be verified; refusing to install it: %w''
              [Fs githubRepoSlug, Fw e])
            else failE (Errorf ''error detecting latest version: %w'' [Fw e])
        | Inr None \<Rightarrow> failE (Errorf ''latest release for %s could not be found'' [Fs githubRepoSlug])
        | Inr (Some latest) \<Rightarrow>
            if \<not> ul_GreaterThan l latest currentVersion then
              print (''Current version is the latest.'' @ nl, [])
            else
              bindE (print (''Found newer version: %s (published at %s)'' @ nl,
                [Fs (ul_Version l latest), Fs (ul_PublishedAt l latest)])) (\<lambda>_.
              bindE (print (''Release notes:'' @ nl @ ''%s'' @ nl, [Fs (ul_ReleaseNotes l latest)])) (\<lambda>_.
              case ul_Executable l of
                Inl e \<Rightarrow> failE (Errorf ''could not locate executable path: %w'' [Fw e])
              | Inr exe \<Rightarrow>
                  bindE (print (''Updating %s to version %s...'' @ nl, [Fs exe, Fs (ul_Version l latest)])) (\<lambda>_.
                  bindE (wrapE (\<lambda>e. Errorf ''update failed, %s is unchanged: %w'' [Fs exe, Fw e])
                    (install l latest exe)) (\<lambda>_.
                  print (''Verified the signature and updated to version %s'' @ nl,
                    [Fs (ul_Version l latest)])))))))))"

subsection \<open>Facts about the checks\<close>

definition endpoint_path :: "string \<Rightarrow> bool" where
  "endpoint_path path \<longleftrightarrow> (\<exists>rest. path = ''/'' @ rest) \<and> CHR '' '' \<notin> set path"

lemma sublist_char: "sublist [c] s \<longleftrightarrow> c \<in> set s"
  by (metis in_set_conv_decomp sublist_def append_Cons append_Nil)

lemma validateEndpointPath_None: "validateEndpointPath path = None \<longleftrightarrow> endpoint_path path"
  by (auto simp: validateEndpointPath_def endpoint_path_def sublist_char prefix_def)

lemma validate_endpoints_None:
  "validate_endpoints eps = None \<longleftrightarrow> (\<forall>ep \<in> set eps. endpoint_path (snd ep))"
  by (induction eps rule: validate_endpoints.induct)
    (simp_all add: validateEndpointPath_None [symmetric] split: option.split)

lemma nat_string_no_colon:
  "CHR '':'' \<notin> set (nat_string n) \<and> CHR ''['' \<notin> set (nat_string n) \<and> CHR '']'' \<notin> set (nat_string n)"
  using nat_string_digits [of n] digit_not by (auto simp: list_all_iff)

subsection \<open>Properties\<close>

text \<open>
  C34. The flags of serve are accepted exactly when the transport is one of the three, the listen address
  is well formed unless the transport is stdio, and every endpoint is an absolute path without a
  space; in whichever order the endpoints are checked.
\<close>

theorem serve_flags_checked:
  assumes "mset (range_map [(''sse-endpoint'', sse), (''message-endpoint'', msg), (''http-endpoint'', http)])
    = mset [(''sse-endpoint'', sse), (''message-endpoint'', msg), (''http-endpoint'', http)]"
  shows "validateServeFlags range_map transport addr sse msg http = None \<longleftrightarrow>
     List.member validTransports transport \<and> (transport = ''stdio'' \<or> validateHTTPAddr addr = None)
     \<and> endpoint_path sse \<and> endpoint_path msg \<and> endpoint_path http"
proof -
  have "set (range_map [(''sse-endpoint'', sse), (''message-endpoint'', msg), (''http-endpoint'', http)])
      = {(''sse-endpoint'', sse), (''message-endpoint'', msg), (''http-endpoint'', http)}"
    using arg_cong [OF assms, of set_mset] by simp
  then show ?thesis by (auto simp: validateServeFlags_def validate_endpoints_None split: option.splits)
qed

text \<open>
  The address made of a host and a port number, the host in brackets if it has a colon, is accepted
  exactly for the ports 1 to 65535 and for an empty host, localhost or an IP address, never for
  another host name.
\<close>

theorem http_addr_bounds:
  assumes "CHR ''['' \<notin> set host" and "CHR '']'' \<notin> set host" and "port < 2 ^ 63"
  shows "validateHTTPAddr (join_host_port host (nat_string port)) = None \<longleftrightarrow>
     1 \<le> port \<and> port \<le> 65535 \<and> (host = '''' \<or> host = ''localhost'' \<or> ParseIP host)"
proof -
  have "SplitHostPort (join_host_port host (nat_string port)) = Inr (host, nat_string port)"
    using SplitHostPort_join [OF assms(1,2)] nat_string_no_colon by blast
  moreover have "join_host_port host (nat_string port) \<noteq> ''''" by (simp add: join_host_port_def)
  moreover have "nat_string port \<noteq> ''''" using nat_string_digits by blast
  ultimately show ?thesis
    using Atoi_nat_string [OF assms(3)] by (auto simp: validateHTTPAddr_def Let_def split: option.split if_splits)
qed

text \<open>
  C35. Endpoint paths on which the SSE transport panics pass the checks of the flags: two equal ones,
  and one with a brace that opens no wildcard.  Without OAuth, literal paths (no brace, escape or tab)
  make it panic exactly when they are equal.
\<close>

theorem equal_endpoints_panic:
  assumes "mset (range_map [(''sse-endpoint'', p), (''message-endpoint'', q), (''http-endpoint'', http)])
    = mset [(''sse-endpoint'', p), (''message-endpoint'', q), (''http-endpoint'', http)]"
    and "validateHTTPAddr addr = None" and "endpoint_path p" and "endpoint_path q" and "endpoint_path http"
    and "sv_oauth s = None" and "so_Transport (sv_options s) = TransportSSE"
    and "so_SSEEndpoint (sv_options s) = p" and "so_MessageEndpoint (sv_options s) = q"
  shows "validateServeFlags range_map ''sse'' addr p q http = None
     \<and> (p = q \<longrightarrow> run_transport pats net s = RunPanic)
     \<and> (list_ex stray_brace (split_at (CHR ''/'') (tl p) @ split_at (CHR ''/'') (tl q)) \<longrightarrow> run_transport pats net s = RunPanic)
     \<and> (literal_path p \<and> literal_path q \<longrightarrow> (run_transport pats net s = RunPanic \<longleftrightarrow> p = q))"
proof -
  have "validate_endpoints (range_map [(''sse-endpoint'', p), (''message-endpoint'', q), (''http-endpoint'', http)]) = None"
    using arg_cong [OF assms(1), of set_mset] assms(3-5) by (simp add: validate_endpoints_None)
  then have "validateServeFlags range_map ''sse'' addr p q http = None"
    using assms(2) by (simp add: validateServeFlags_def validTransports_def)
  moreover have panic: "run_transport pats net s = RunPanic \<longleftrightarrow> \<not> mountable [] p \<or> \<not> mountable [p] q"
    using assms(6-9) by (simp add: run_transport_def TransportStdio_def TransportSSE_def RunSSEServer_def
        sse_mux_def mux_Handle_def Let_def)
  moreover have "p = q \<longrightarrow> \<not> mountable [p] q" using mountable_once [of "[q]" q] by simp
  moreover have "list_ex stray_brace (split_at (CHR ''/'') (tl p)) \<longrightarrow> \<not> mountable [] p"
    using mountable_stray_brace [of p] assms(3) by (auto simp: list_ex_iff endpoint_path_def prefix_def)
  moreover have "list_ex stray_brace (split_at (CHR ''/'') (tl q)) \<longrightarrow> \<not> mountable [p] q"
    using mountable_stray_brace [of q] assms(4) by (auto simp: list_ex_iff endpoint_path_def prefix_def)
  moreover have "literal_path p \<and> literal_path q \<longrightarrow> (mountable [] p \<and> (mountable [p] q \<longleftrightarrow> p \<noteq> q))"
    using mountable_literal [of p "[]"] mountable_literal [of q "[p]"] by auto
  ultimately show ?thesis by auto
qed

subsection \<open>The token store of a run\<close>

definition released :: "('r, 'p, 'e, 's, 'o) oauth_libs \<Rightarrow> Config option \<Rightarrow> ('e, 's) store_event list
    \<Rightarrow> ('e, 's) store_event list \<Rightarrow> bool" where
  "released ol oauth tr tr' \<longleftrightarrow> tr' = tr \<or> (\<exists>cfg s enc. oauth = Some cfg \<and> encryptor_of ol cfg enc
     \<and> tr' = tr @ [Opened s enc, CleanedUp s])"

text \<open>Shutting down what \<open>NewServer\<close> built, or the failure of building it, releases the store.\<close>

lemma NewServer_released:
  assumes "NewServer pe ol opts tr = (r, tr')"
  shows "case r of Inl e \<Rightarrow> released ol (so_OAuth opts) tr tr'
     | Inr sv \<Rightarrow> \<exists>sv' tr''. Shutdown sv tr' = (Inr sv', tr'') \<and> released ol (so_OAuth opts) tr tr''"
proof (cases "validateOptions opts")
  case (Some e)
  with assms show ?thesis by (auto simp: NewServer_def released_def go_simps)
next
  case valid: None
  show ?thesis
  proof (cases "newServerContext pe opts")
    case (Inl e)
    with valid assms show ?thesis by (auto simp: NewServer_def released_def go_simps)
  next
    case ctx: (Inr sc)
    show ?thesis
    proof (cases "so_OAuth opts")
      case None
      with valid ctx assms show ?thesis
        by (auto simp: NewServer_def RegisterTools_def Shutdown_def released_def Let_def go_simps)
    next
      case (Some cfg)
      obtain q tr1 where q: "oauth_NewServer ol cfg tr = (q, tr1)" by fastforce
      have kept: "store_kept ol cfg tr (q, tr1)" using oauth_server_owns_its_store [of ol cfg tr] q by simp
      with valid ctx Some q assms show ?thesis
        by (cases q) (auto simp: NewServer_def RegisterTools_def Shutdown_def released_def store_kept_def
            Let_def go_simps split: prod.splits)
    qed
  qed
qed

lemma Run_releases:
  assumes "Shutdown sv tr = (Inr sv', tr')"
  shows "Run pats net sv tr = (Inr (run_transport pats net sv), tr')"
  using assms by (simp add: Run_def Let_def go_simps)

text \<open>
  Whatever happens in a run of serve - bad flags, a failed construction, a transport that fails,
  panics or is stopped - at most one token store is opened, only with OAuth enabled, with the
  encryptor of the configured key, and it is released again before the command ends.
\<close>

theorem serve_releases_token_store:
  "released (sn_oauth sn) (if fl_enableOAuth f then Some (configFromLookup (sn_vars sn)) else None)
     tr (snd (serve_RunE sn f tr))"
proof -
  have none: "released ol oauth tr tr" for ol :: "('a, 'b, 'c, 'd, 'e) oauth_libs" and oauth and tr :: "('c, 'd) store_event list"
    by (simp add: released_def)
  let ?cfg = "serve_config (sn_vars sn) f"
  have oauth: "so_OAuth (serve_options v ?cfg) = (if fl_enableOAuth f then Some (configFromLookup (sn_vars sn)) else None)" for v
    by (simp add: serve_options_def serve_config_def)
  obtain r tr' where ns: "NewServer (sn_process sn) (sn_oauth sn) (serve_options (sn_version sn) ?cfg) tr = (r, tr')"
    by fastforce
  show ?thesis
  proof (cases r)
    case (Inl e)
    with NewServer_released [OF ns] ns none oauth show ?thesis
      by (auto simp: serve_RunE_def RunServe_def go_simps split: option.split)
  next
    case (Inr sv)
    with NewServer_released [OF ns] obtain sv' tr'' where sd: "Shutdown sv tr' = (Inr sv', tr'')"
      and rel: "released (sn_oauth sn) (so_OAuth (serve_options (sn_version sn) ?cfg)) tr tr''" by auto
    from Run_releases [OF sd] ns Inr rel none oauth show ?thesis
      by (auto simp: serve_RunE_def RunServe_def go_simps split: option.split)
  qed
qed

definition update_due :: "'rel update_libs \<Rightarrow> string \<Rightarrow> 'rel \<Rightarrow> string \<Rightarrow> bool" where
  "update_due l v rel exe \<longleftrightarrow> v \<noteq> [] \<and> v \<noteq> dev \<and> ul_NewUpdater l = None
     \<and> ul_DetectLatest l githubRepoSlug = Inr (Some rel) \<and> ul_GreaterThan l rel v
     \<and> ul_Executable l = Inr exe \<and> ul_Install l rel exe = None"


subsection \<open>Examples\<close>

lemma example_paths: "endpoint_path ''/sse''" "endpoint_path ''/message''" "endpoint_path ''/mcp''"
  by (auto simp: endpoint_path_def)

theorem serve_flags_checked_witness:
  "validateServeFlags rev ''stdio'' '''' ''/sse'' ''/message'' ''/mcp'' = None"
  using serve_flags_checked [of rev "''/sse''" "''/message''" "''/mcp''" "''stdio''" "''''"] example_paths
  by (simp add: validTransports_def)

lemma example_addr: "join_host_port ''::1'' (nat_string 8080) = ''[::1]:8080''"
  by (simp add: join_host_port_def nat_string.simps char_of_def bit_Suc_0_iff)

lemma example_ip: "ParseIP ''::1''"
  by (simp add: ParseIP_def ipv6_def ipv6_groups.simps hexadecimal_def ipv6_complete_def)

theorem http_addr_bounds_witness: "validateHTTPAddr ''[::1]:8080'' = None"
  using http_addr_bounds [of "''::1''" 8080] example_ip by (simp add: example_addr)

lemma example_listen: "validateHTTPAddr '':8080'' = None"
proof -
  have "SplitHostPort '':8080'' = Inr ([], ''8080'')"
    using SplitHostPort_join [of "[]" "''8080''"] by (simp add: join_host_port_def)
  moreover have "Atoi ''8080'' = Inr 8080"
    by (simp add: Atoi_def ParseUint_def digit_def digit_value_def signed_def)
  ultimately show ?thesis by (simp add: validateHTTPAddr_def)
qed

definition example_sse_server :: "string \<Rightarrow> string \<Rightarrow> (unit, unit, unit) Server" where
  "example_sse_server p q = \<lparr>sv_options = read_only_options\<lparr>so_Transport := TransportSSE,
     so_SSEEndpoint := p, so_MessageEndpoint := q\<rparr>, sv_context = NewServerContext None, sv_oauth = None, sv_tools = []\<rparr>"

definition example_network :: network where
  "example_network = \<lparr>net_Listen = (\<lambda>_. None), net_end = CtxDone None, stdio_Listen = None\<rparr>"

lemma example_sse_options:
  "sv_oauth (example_sse_server p q) = None" "so_Transport (sv_options (example_sse_server p q)) = TransportSSE"
  "so_SSEEndpoint (sv_options (example_sse_server p q)) = p" "so_MessageEndpoint (sv_options (example_sse_server p q)) = q"
  by (simp_all add: example_sse_server_def)

lemma example_literal_paths: "literal_path ''/sse''" "literal_path ''/message''" "stray_brace ''{x''"
  by code_simp+

theorem equal_endpoints_panic_witness:
  "validateServeFlags rev ''sse'' '':8080'' ''/sse'' ''/sse'' ''/mcp'' = None
   \<and> run_transport (\<lambda>_. []) example_network (example_sse_server ''/sse'' ''/sse'') = RunPanic
   \<and> validateServeFlags rev ''sse'' '':8080'' ''/sse'' ''/{x'' ''/mcp'' = None
   \<and> run_transport (\<lambda>_. []) example_network (example_sse_server ''/sse'' ''/{x'') = RunPanic
   \<and> run_transport (\<lambda>_. []) example_network (example_sse_server ''/sse'' ''/message'') \<noteq> RunPanic"
proof -
  have paths: "endpoint_path ''/{x''" "endpoint_path ''/message''" by (simp_all add: endpoint_path_def)
  note panic = equal_endpoints_panic [where range_map = rev and http = "''/mcp''" and addr = "'':8080''"
      and s = "example_sse_server p q" and p = p and q = q and net = example_network and pats = "\<lambda>_. []" for p q,
      simplified example_sse_options]
  show ?thesis
    using panic [of "''/sse''" "''/sse''"] panic [of "''/sse''" "''/{x''"] panic [of "''/sse''" "''/message''"]
      example_paths paths example_listen example_literal_paths
    by simp
qed

end
