(* ===== verification/Capi_Store.thy ===== *)
theory Capi_Store
  imports Capi_Node Capi_Status Capi_ResourceSet Capi_Exec
begin

section \<open>Invariants of the API server under the client's operations\<close>

text \<open>
  A small Hoare logic over the state behind the API server.  \<open>maintains I m\<close> says that \<open>m\<close> keeps
  \<open>I\<close>, whatever its outcome, and \<open>yields I m Q\<close> that a result it returns satisfies \<open>Q\<close> too; the
  rules are the collection \<open>maintains\<close>.

  What a server promises is a \<open>shield\<close>: under \<open>I\<close> the objects it hands out have metadata that
  \<open>sees\<close> allows, and \<open>I\<close> survives reads, creations, evictions, updates to metadata that are \<open>writable\<close>
  and deletions of metadata that are \<open>deletable\<close>.  The locale \<open>shielded\<close> is the contract between
  a shield and the write policy; in it every operation of the client keeps \<open>I\<close>.
\<close>

named_theorems maintains \<open>operations that keep an invariant of the API server\<close>

subsection \<open>Triples\<close>

definition maintains :: "('w \<Rightarrow> bool) \<Rightarrow> ('w, 'a) io \<Rightarrow> bool" where
  "maintains I m \<longleftrightarrow> (\<forall>s. I (env s) \<longrightarrow> I (env (snd (m s))))"

definition yields :: "('w \<Rightarrow> bool) \<Rightarrow> ('w, 'a) io \<Rightarrow> ('a \<Rightarrow> bool) \<Rightarrow> bool" where
  "yields I m Q \<longleftrightarrow> (\<forall>s r t. I (env s) \<longrightarrow> m s = (r, t) \<longrightarrow>
     I (env t) \<and> (case r of Inl _ \<Rightarrow> True | Inr x \<Rightarrow> Q x))"

lemma maintainsD: "maintains I m \<Longrightarrow> m s = (r, t) \<Longrightarrow> I (env s) \<Longrightarrow> I (env t)"
  unfolding maintains_def by (metis snd_conv)

lemma maintainsI: "(\<And>s r t. m s = (r, t) \<Longrightarrow> I (env s) \<Longrightarrow> I (env t)) \<Longrightarrow> maintains I m"
  unfolding maintains_def by (metis prod.collapse)

lemma yields_maintains: "yields I m Q \<Longrightarrow> maintains I m"
  by (rule maintainsI) (auto simp: yields_def)

lemma yieldsD: "yields I m Q \<Longrightarrow> m s = (Inr x, t) \<Longrightarrow> I (env s) \<Longrightarrow> I (env t) \<and> Q x"
  unfolding yields_def by fastforce

lemma maintains_basic [maintains]:
  "maintains I (retE x)" "maintains I (failE e)" "maintains I (checkE g)"
  by (simp_all add: maintains_def retE_def failE_def checkE_def split: option.split)

lemma maintains_yield_bindE:
  assumes "yields I m Q" and "\<And>x. Q x \<Longrightarrow> maintains I (f x)"
  shows "maintains I (bindE m f)"
proof (rule maintainsI)
  fix s r t assume run: "bindE m f s = (r, t)" and s: "I (env s)"
  from run show "I (env t)"
  proof (cases rule: bindE_cases)
    case (err e)
    then show ?thesis using maintainsD [OF yields_maintains [OF assms(1)]] s by blast
  next
    case (ok x u)
    with yieldsD [OF assms(1)] s have "I (env u)" "Q x" by blast+
    with maintainsD [OF assms(2)] ok show ?thesis by blast
  qed
qed

lemma yields_any: "maintains I m \<Longrightarrow> yields I m (\<lambda>_. True)"
  unfolding yields_def by (auto dest: maintainsD split: sum.split)

lemma maintains_bindE [maintains]:
  "maintains I m \<Longrightarrow> (\<And>x. maintains I (f x)) \<Longrightarrow> maintains I (bindE m f)"
  by (rule maintains_yield_bindE [OF yields_any])

lemma maintains_wrapE [maintains]: "maintains I m \<Longrightarrow> maintains I (wrapE w m)"
  by (auto intro!: maintainsI elim!: wrapE_cases dest: maintainsD)

lemma maintains_tryE [maintains]: "maintains I m \<Longrightarrow> maintains I (tryE m)"
  by (auto intro!: maintainsI elim!: tryE_cases dest: maintainsD)

lemma maintains_forE: "(\<And>x. x \<in> set xs \<Longrightarrow> maintains I (f x)) \<Longrightarrow> maintains I (forE xs f)"
  by (induction xs) (auto intro!: maintains)

lemma maintains_control [maintains]:
  "(b \<Longrightarrow> maintains I m) \<Longrightarrow> (\<not> b \<Longrightarrow> maintains I n) \<Longrightarrow> maintains I (if b then m else n)"
  "(x = None \<Longrightarrow> maintains I m) \<Longrightarrow> (\<And>y. x = Some y \<Longrightarrow> maintains I (f y)) \<Longrightarrow>
     maintains I (case x of None \<Rightarrow> m | Some y \<Rightarrow> f y)"
  "(\<And>e. z = Inl e \<Longrightarrow> maintains I (g e)) \<Longrightarrow> (\<And>y. z = Inr y \<Longrightarrow> maintains I (h y)) \<Longrightarrow>
     maintains I (case z of Inl e \<Rightarrow> g e | Inr y \<Rightarrow> h y)"
  by (simp, cases x, simp_all, cases z, simp_all)

lemma maintains_liftE [maintains]: "maintains I (liftE r)"
  by (simp add: liftE_def maintains split: sum.split)

lemma maintains_outside: "(\<And>w. I w \<Longrightarrow> I (snd (f w))) \<Longrightarrow> maintains I (outside f)"
  by (simp add: maintains_def outside_def split: prod.split) (metis snd_conv)

lemma maintains_on_host: "(\<And>w. I w \<Longrightarrow> I (snd (f w))) \<Longrightarrow> maintains I (on_host ev f)"
  by (simp add: maintains_def on_host_def split: prod.split) (metis snd_conv)

lemma maintains_api: "(\<And>w. I w \<Longrightarrow> I (snd (f w))) \<Longrightarrow> maintains I (api rq f)"
  by (simp add: maintains_def api_def split: prod.split) (metis snd_conv)

lemma yields_wrapE: "yields I m Q \<Longrightarrow> yields I (wrapE w m) Q"
  unfolding yields_def by (auto elim!: wrapE_cases split: sum.splits)

subsection \<open>What the server promises\<close>

record shield =
  sees :: "string \<Rightarrow> objmeta \<Rightarrow> bool"
  writable :: "string \<Rightarrow> objmeta \<Rightarrow> bool"
  deletable :: "string \<Rightarrow> objmeta \<Rightarrow> bool"

definition upholds_resource :: "('w \<Rightarrow> bool) \<Rightarrow> shield \<Rightarrow> string \<Rightarrow> ('o \<Rightarrow> objmeta) \<Rightarrow> ('w, 'o) resource \<Rightarrow> bool" where
  "upholds_resource I S kind m r \<longleftrightarrow> (\<forall>w. I w \<longrightarrow>
     (\<forall>ns n. I (snd (RGet r ns n w)) \<and> (case fst (RGet r ns n w) of Inl _ \<Rightarrow> True | Inr x \<Rightarrow> sees S kind (m x)))
   \<and> (\<forall>opts. I (snd (RList r opts w))
        \<and> (case fst (RList r opts w) of Inl _ \<Rightarrow> True | Inr xs \<Rightarrow> list_all (\<lambda>x. sees S kind (m x)) xs))
   \<and> (\<forall>x. I (snd (RCreate r x w))
        \<and> (writable S kind (m x) \<longrightarrow> I (snd (RUpdate r x w)))
        \<and> (deletable S kind (m x) \<longrightarrow> I (snd (RDelete r x w)))))"

definition upholds :: "('w \<Rightarrow> bool) \<Rightarrow> shield \<Rightarrow> 'w kube \<Rightarrow> bool" where
  "upholds I S k \<longleftrightarrow> upholds_resource I S ''Cluster'' C_Meta (k_clusters k)
   \<and> upholds_resource I S ''Machine'' M_Meta (k_machines k)
   \<and> upholds_resource I S ''MachineDeployment'' MD_Meta (k_machinedeployments k)
   \<and> upholds_resource I S ''MachineSet'' MS_Meta (k_machinesets k)
   \<and> upholds_resource I S ''KubeadmControlPlane'' KCP_Meta (k_controlplanes k)
   \<and> upholds_resource I S ''ClusterClass'' CC_Meta (k_clusterclasses k)
   \<and> upholds_resource I S ''Node'' N_Meta (k_nodes k)
   \<and> upholds_resource I S ''Pod'' P_Meta (k_pods k)
   \<and> upholds_resource I S ''Secret'' Sec_Meta (k_secrets k)
   \<and> upholds_resource I S ''ConfigMap'' CM_Meta (k_configmaps k)
   \<and> upholds_resource I S ''ClusterResourceSet'' CRS_Meta (k_resourcesets k)
   \<and> (\<forall>w. I w \<longrightarrow> (\<forall>ns n g. I (snd (k_evict k ns n g w))) \<and> I (snd (k_now k w))
        \<and> (\<forall>d. I (snd (k_timer k d w))) \<and> I (snd (k_poll k w)))"

text \<open>A client of such a server that enforces a policy.\<close>

definition client_upholds :: "('w \<Rightarrow> bool) \<Rightarrow> shield \<Rightarrow> WritePolicy \<Rightarrow> 'w Client \<Rightarrow> bool" where
  "client_upholds I S p c \<longleftrightarrow> upholds I S (Kube c) \<and> policy c = p"

text \<open>The host operations keep the invariant: kubectl and helm talk to another API server.\<close>

definition host_upholds :: "('w \<Rightarrow> bool) \<Rightarrow> 'w tools \<Rightarrow> bool" where
  "host_upholds I h \<longleftrightarrow> (\<forall>w. I w \<longrightarrow> I (snd (create_temp h w)) \<and> (\<forall>p d. I (snd (write_file h p d w)))
     \<and> (\<forall>p. I (snd (close_file h p w))) \<and> (\<forall>p. I (snd (remove_file h p w)))
     \<and> (\<forall>b as i. I (snd (run_process h b as i w))))"

lemma client_upholds_policy: "client_upholds I S p c \<Longrightarrow> policy c = p"
  by (simp add: client_upholds_def)

named_theorems upheld \<open>the promises of a server, kind by kind\<close>

lemma client_upholdsD [upheld]:
  assumes "client_upholds I S p c"
  shows "upholds_resource I S ''Cluster'' C_Meta (k_clusters (Kube c))"
    "upholds_resource I S ''Machine'' M_Meta (k_machines (Kube c))"
    "upholds_resource I S ''MachineDeployment'' MD_Meta (k_machinedeployments (Kube c))"
    "upholds_resource I S ''MachineSet'' MS_Meta (k_machinesets (Kube c))"
    "upholds_resource I S ''KubeadmControlPlane'' KCP_Meta (k_controlplanes (Kube c))"
    "upholds_resource I S ''ClusterClass'' CC_Meta (k_clusterclasses (Kube c))"
    "upholds_resource I S ''Node'' N_Meta (k_nodes (Kube c))"
    "upholds_resource I S ''Pod'' P_Meta (k_pods (Kube c))"
    "upholds_resource I S ''Secret'' Sec_Meta (k_secrets (Kube c))"
    "upholds_resource I S ''ConfigMap'' CM_Meta (k_configmaps (Kube c))"
    "upholds_resource I S ''ClusterResourceSet'' CRS_Meta (k_resourcesets (Kube c))"
  using assms by (simp_all add: client_upholds_def upholds_def)

lemma client_upholds_env:
  assumes "client_upholds I S p c" and "I w"
  shows "I (snd (k_evict (Kube c) ns n g w))" "I (snd (k_now (Kube c) w))"
    "I (snd (k_timer (Kube c) d w))" "I (snd (k_poll (Kube c) w))"
  using assms by (simp_all add: client_upholds_def upholds_def)

lemma maintains_now [maintains]:
  assumes "client_upholds I S p c"
  shows "maintains I (outside (k_now (Kube c)))" "maintains I (outside (k_timer (Kube c) d))"
  by (rule maintains_outside, rule client_upholds_env [OF assms], assumption)+

lemma maintains_rget [maintains]: "upholds_resource I S kind m r \<Longrightarrow> maintains I (rget r k ns n)"
  unfolding rget_def by (rule maintains_api) (simp add: upholds_resource_def)

lemma maintains_rlist [maintains]: "upholds_resource I S kind m r \<Longrightarrow> maintains I (rlist r k opts)"
  unfolding rlist_def by (rule maintains_api) (simp add: upholds_resource_def)

lemma maintains_rcreate [maintains]: "upholds_resource I S kind m r \<Longrightarrow> maintains I (rcreate r k m' x)"
  unfolding rcreate_def by (rule maintains_api) (simp add: upholds_resource_def)

lemma maintains_rupdate:
  "upholds_resource I S kind m r \<Longrightarrow> writable S kind (m x) \<Longrightarrow> maintains I (rupdate r k m' x)"
  unfolding rupdate_def by (rule maintains_api) (simp add: upholds_resource_def)

lemma maintains_rdelete:
  "upholds_resource I S kind m r \<Longrightarrow> deletable S kind (m x) \<Longrightarrow> maintains I (rdelete r k m' x)"
  unfolding rdelete_def by (rule maintains_api) (simp add: upholds_resource_def)

lemma yields_api:
  assumes "\<And>w. I w \<Longrightarrow> I (snd (f w)) \<and> (case fst (f w) of Inl _ \<Rightarrow> True | Inr x \<Rightarrow> Q x)"
  shows "yields I (api rq f) Q"
  unfolding yields_def
proof (intro allI impI)
  fix s r t assume "I (env s)" and run: "api rq f s = (r, t)"
  from assms [OF this(1)] run show "I (env t) \<and> (case r of Inl _ \<Rightarrow> True | Inr x \<Rightarrow> Q x)"
    by (cases "f (env s)") (auto simp: api_def)
qed

lemma yields_rget: "upholds_resource I S kind m r \<Longrightarrow> yields I (rget r k ns n) (\<lambda>x. sees S kind (m x))"
  unfolding rget_def by (rule yields_api) (simp add: upholds_resource_def)

lemma yields_rlist:
  "upholds_resource I S kind m r \<Longrightarrow> yields I (rlist r k opts) (\<lambda>xs. list_all (\<lambda>x. sees S kind (m x)) xs)"
  unfolding rlist_def by (rule yields_api) (simp add: upholds_resource_def)

lemma maintains_host:
  assumes "host_upholds I h"
  shows "maintains I (os_create_temp h)" "maintains I (os_write h p d)" "maintains I (os_close h p)"
    "maintains I (os_remove h p)" "maintains I (os_run h b as i)"
  unfolding os_create_temp_def os_write_def os_close_def os_remove_def os_run_def
  using assms by (auto simp: host_upholds_def intro!: maintains maintains_on_host)


subsection \<open>The reads of the client\<close>

lemma reads_maintain [maintains]:
  assumes "client_upholds I S p c"
  shows "maintains I (ListMachines c ns cn)" "maintains I (GetMachine c ns n)"
    "maintains I (ListMachineDeployments c ns cn)" "maintains I (GetMachineDeployment c ns n)"
    "maintains I (ListMachineSets c ns cn)" "maintains I (GetMachineSet c ns n)"
    "maintains I (ListClusters c ns sel)" "maintains I (FindClustersByLabelValue c ns v)"
    "maintains I (GetCluster c ns n)" "maintains I (fetch_cluster c ns n)"
    "maintains I (MoveCluster c mo)" "maintains I (BackupCluster c bo)"
    "maintains I (GetProviderForCluster c ns n)" "maintains I (GetKubeadmControlPlane c ns n)"
    "maintains I (readKubeconfig c ns n)" "maintains I (GetKubeconfig c ns n)"
    "maintains I (resolveNodeName c opts)" "maintains I (get_node c n)"
    "maintains I (list_node_pods c n)"
    "maintains I (ListClusterResourceSets c ns)" "maintains I (GetClusterResourceSet c ns n)"
  unfolding ListMachines_def GetMachine_def ListMachineDeployments_def GetMachineDeployment_def
    ListMachineSets_def GetMachineSet_def ListClusters_def FindClustersByLabelValue_def GetCluster_def
    fetch_cluster_def MoveCluster_def BackupCluster_def GetProviderForCluster_def GetKubeadmControlPlane_def
    readKubeconfig_def GetKubeconfig_def resolveNodeName_def get_node_def list_node_pods_def
    ListClusterResourceSets_def GetClusterResourceSet_def Let_def
  by (rule maintains upheld assms)+

lemma status_maintains [maintains]:
  assumes "client_upholds I S p c"
  shows "maintains I (control_plane_version c ns cl st)" "maintains I (GetClusterStatus c ns n)"
    "maintains I (GetClusterStatusFromList c cl ms)" "maintains I (GetClusterHealth c ns n)"
    "maintains I (GetNodeStatus c opts)" "maintains I (resolveMachineDeploymentTopologyName c ns n)"
  unfolding GetClusterHealth_def GetClusterStatus_def GetClusterStatusFromList_def control_plane_version_def
    GetNodeStatus_def resolveMachineDeploymentTopologyName_def Let_def
  by (rule maintains upheld assms)+

lemma exec_maintains [maintains]:
  assumes "client_upholds I S p c" and "host_upholds I h"
  shows "maintains I (ExecKubectl h c ns n args imp stdin)" "maintains I (ExecHelm h c ns n args)"
  unfolding exec_shapes cli_shape_def resolveWorkloadKubeconfigFile_def kubeconfig_file_def
  by (rule maintains maintains_host upheld assms | simp only: split_paired_all prod.case)+

subsection \<open>What the mutating operations fetch\<close>

named_theorems fetched \<open>the metadata a fetch may return\<close>

lemma fetches [fetched]:
  assumes "client_upholds I S p c"
  shows "yields I (fetch_cluster c ns n) (\<lambda>x. sees S ''Cluster'' (C_Meta x))"
    "yields I (GetCluster c ns n) (\<lambda>x. sees S ''Cluster'' (C_Meta x))"
    "yields I (GetMachineDeployment c ns n) (\<lambda>x. sees S ''MachineDeployment'' (MD_Meta x))"
    "yields I (ListMachineDeployments c ns cn) (\<lambda>xs. list_all (\<lambda>x. sees S ''MachineDeployment'' (MD_Meta x)) xs)"
    "yields I (GetKubeadmControlPlane c ns n) (\<lambda>x. sees S ''KubeadmControlPlane'' (KCP_Meta x))"
    "yields I (get_node c n) (\<lambda>x. sees S ''Node'' (N_Meta x))"
    "yields I (rget (k_machines (Kube c)) k ns n) (\<lambda>x. sees S ''Machine'' (M_Meta x))"
    "yields I (rget (k_controlplanes (Kube c)) k ns n) (\<lambda>x. sees S ''KubeadmControlPlane'' (KCP_Meta x))"
  unfolding fetch_cluster_def GetCluster_def GetMachineDeployment_def ListMachineDeployments_def
    GetKubeadmControlPlane_def get_node_def
  by (rule yields_wrapE yields_rget yields_rlist upheld assms)+

context gated_write
begin

text \<open>A gated operation keeps an invariant if the acting on what passes the gate does.\<close>

lemma kept:
  assumes "yields I (fetch c) (\<lambda>x. sees S kind (meta x))"
    and "\<And>x. sees S kind (meta x) \<Longrightarrow> gate (policy c) kind (meta x) = None \<Longrightarrow> maintains I (act c x)"
  shows "maintains I (op c)"
  unfolding shape
proof (rule maintains_yield_bindE [OF assms(1)])
  show "maintains I (bindE (checkE (gate (policy c) kind (meta x))) (\<lambda>_. act c x))"
    if "sees S kind (meta x)" for x
    using assms(2) [OF that] by (cases "gate (policy c) kind (meta x)") (simp_all add: maintains)
qed

end

subsection \<open>The loops of a drain\<close>

lemma evict_call_maintains:
  assumes "client_upholds I S p c"
  shows "maintains I (evict_call c g pod)"
  unfolding evict_call_def by (rule maintains_api) (rule client_upholds_env(1) [OF assms])

lemma evict_round_maintains:
  assumes c: "client_upholds I S p c"
  shows "evict_round c g pods ev rf s = (x, t) \<Longrightarrow> I (env s) \<Longrightarrow> I (env t)"
proof (induction pods arbitrary: ev rf s)
  case (Cons pod pods)
  obtain r u where call: "evict_call c g pod s = (r, u)" by fastforce
  have "I (env u)" using maintainsD [OF evict_call_maintains [OF c] call Cons.prems(2)] .
  then show ?case using Cons call by (auto split: sum.splits if_splits)
qed simp

lemma evict_loop_maintains:
  assumes c: "client_upholds I S p c" and run: "evict_loop c g ev pods s = Some (y, t)" and s: "I (env s)"
  shows "I (env t)"
proof -
  have "\<forall>y t. z = (y, t) \<longrightarrow> client_upholds I S p c \<longrightarrow> I (env s) \<longrightarrow> I (env t)"
    if "evict_loop c g ev pods s = Some z" for z
  proof (rule evict_loop.raw_induct [OF _ that], goal_cases)
    case (1 loop c g ev pods s z)
    obtain ev1 rf1 err1 u where round: "evict_round c g pods ev [] s = ((ev1, rf1, err1), u)"
      by (metis surj_pair)
    obtain ok w where poll: "k_poll (Kube c) (env u) = (ok, w)" by fastforce
    show ?case
    proof (intro allI impI)
      fix y t assume z: "z = (y, t)" and c: "client_upholds I S p c" and s: "I (env s)"
      have u: "I (env u)" by (rule evict_round_maintains [OF c round s])
      have w: "I w" using client_upholds_env(4) [OF c u] poll by simp
      show "I (env t)"
      proof (cases "err1 = None \<and> rf1 \<noteq> [] \<and> ok")
        case False
        with 1(2) u w z show ?thesis by (auto simp: round poll split: option.splits if_splits)
      next
        case True
        with 1(2) have "loop c g ev1 rf1 (u\<lparr>env := w\<rparr>) = Some z" by (simp add: round poll)
        from 1(1) [OF this] z c w show ?thesis by simp
      qed
    qed
  qed
  with run c s show ?thesis by blast
qed

lemma wait_round_maintains:
  assumes c: "client_upholds I S p c"
  shows "wait_round c pods rem s = (x, t) \<Longrightarrow> I (env s) \<Longrightarrow> I (env t)"
proof (induction pods arbitrary: rem s)
  case (Cons pod pods)
  obtain r u where call: "rget (k_pods (Kube c)) ''Pod'' (Namespace (P_Meta pod)) (Name (P_Meta pod)) s = (r, u)"
    by fastforce
  have "I (env u)" using maintainsD [OF maintains_rget [OF client_upholdsD(8) [OF c]] call Cons.prems(2)] .
  then show ?case using Cons call by (auto split: sum.splits if_splits)
qed simp

lemma wait_maintains:
  assumes c: "client_upholds I S p c" and run: "waitForPodsGone c pods s = Some (y, t)" and s: "I (env s)"
  shows "I (env t)"
proof -
  have "\<forall>y t. z = (y, t) \<longrightarrow> client_upholds I S p c \<longrightarrow> I (env s) \<longrightarrow> I (env t)"
    if "waitForPodsGone c pods s = Some z" for z
  proof (rule waitForPodsGone.raw_induct [OF _ that], goal_cases)
    case (1 loop c pods s z)
    obtain rem1 err1 u where round: "wait_round c pods [] s = ((rem1, err1), u)"
      by (metis surj_pair)
    obtain ok w where poll: "k_poll (Kube c) (env u) = (ok, w)" by fastforce
    show ?case
    proof (intro allI impI)
      fix y t assume z: "z = (y, t)" and c: "client_upholds I S p c" and s: "I (env s)"
      have u: "I (env u)" by (rule wait_round_maintains [OF c round s])
      have w: "I w" using client_upholds_env(4) [OF c u] poll by simp
      show "I (env t)"
      proof (cases "err1 = None \<and> rem1 \<noteq> [] \<and> ok")
        case False
        with 1(2) u w z show ?thesis by (auto simp: round poll split: option.splits if_splits)
      next
        case True
        with 1(2) have "loop c rem1 (u\<lparr>env := w\<rparr>) = Some z" by (simp add: round poll)
        from 1(1) [OF this] z c w show ?thesis by simp
      qed
    qed
  qed
  with run c s show ?thesis by blast
qed

subsection \<open>The contract between a shield and the policy\<close>

text \<open>
  An update that passed the policy's check and keeps the object's key and labels is writable (a
  MachineDeployment's labels may change too), a deletion that passed it is deletable, and the
  objects the policy does not guard are free.
\<close>

locale shielded =
  fixes p :: WritePolicy and S :: shield
  assumes update_kept: "sees S kind m \<Longrightarrow> CheckUpdate p kind m = None \<Longrightarrow>
      Namespace m' = Namespace m \<Longrightarrow> Name m' = Name m \<Longrightarrow> Labels m' = Labels m \<Longrightarrow> writable S kind m'"
    and delete_ok: "sees S kind m \<Longrightarrow> CheckDelete p kind m = None \<Longrightarrow> deletable S kind m"
    and relabel_md: "sees S ''MachineDeployment'' m \<Longrightarrow> CheckUpdate p ''MachineDeployment'' m = None \<Longrightarrow>
      Namespace m' = Namespace m \<Longrightarrow> Name m' = Name m \<Longrightarrow> writable S ''MachineDeployment'' m'"
    and free: "writable S ''Secret'' m" "writable S ''ConfigMap'' m" "deletable S ''ClusterResourceSet'' m"
begin

lemma update_maintains:
  assumes "upholds_resource I S kind f r" and "sees S kind m" and "CheckUpdate p kind m = None"
    and "Namespace (f x) = Namespace m" "Name (f x) = Name m" "Labels (f x) = Labels m"
  shows "maintains I (rupdate r k f' x)"
  by (rule maintains_rupdate [OF assms(1)]) (rule update_kept [OF assms(2-6)])

lemma delete_maintains:
  assumes "upholds_resource I S kind f r" and "sees S kind (f x)" and "CheckDelete p kind (f x) = None"
  shows "maintains I (rdelete r k f' x)"
  by (rule maintains_rdelete [OF assms(1)]) (rule delete_ok [OF assms(2,3)])

lemmas object_defs = set_annotation_def delete_annotation_def rollout_md_def Let_def

lemma cluster_ops_maintain [maintains]:
  assumes c: "client_upholds I S p c"
  shows "maintains I (PauseCluster c ns n)" "maintains I (ResumeCluster c ns n)"
    "maintains I (DeleteCluster c ns n)"
proof -
  note c_p = client_upholds_policy [OF c]
  show "maintains I (PauseCluster c ns n)"
    by (rule pause_cluster.kept [OF fetches(1) [OF c]])
      (rule maintains update_maintains client_upholdsD [OF c] | simp add: c_p object_defs)+
  show "maintains I (ResumeCluster c ns n)"
    by (rule resume_cluster.kept [OF fetches(1) [OF c]])
      (rule maintains update_maintains client_upholdsD [OF c] | simp add: c_p object_defs)+
  show "maintains I (DeleteCluster c ns n)"
    by (rule delete_cluster.kept [OF fetches(1) [OF c]])
      (rule maintains delete_maintains client_upholdsD [OF c] | simp add: c_p)+
qed

lemma create_ops_maintain [maintains]:
  assumes "client_upholds I S p c"
  shows "maintains I (CreateCluster marshal c co)" "maintains I (CreateMachineDeployment c mo)"
  unfolding CreateCluster_def CreateMachineDeployment_def
  by (rule maintains upheld assms)+

lemma machine_ops_maintain [maintains]:
  assumes c: "client_upholds I S p c"
  shows "maintains I (DeleteMachine c dmo)" "maintains I (RemediateMachine c ns n)"
proof -
  note c_p = client_upholds_policy [OF c]
  show "maintains I (DeleteMachine c dmo)"
    by (rule delete_machine.kept [OF yields_wrapE [OF fetches(7) [OF c]]])
      (rule maintains delete_maintains client_upholdsD [OF c] | simp add: c_p)+
  show "maintains I (RemediateMachine c ns n)"
    by (rule remediate_machine.kept [OF yields_wrapE [OF fetches(7) [OF c]]])
      (rule maintains update_maintains client_upholdsD [OF c] c | simp add: c_p object_defs)+
qed

lemma relabel_maintains:
  assumes "upholds_resource I S ''MachineDeployment'' MD_Meta r" and "sees S ''MachineDeployment'' m"
    and "CheckUpdate p ''MachineDeployment'' m = None"
    and "Namespace (MD_Meta x) = Namespace m" "Name (MD_Meta x) = Name m"
  shows "maintains I (rupdate r k f' x)"
  by (rule maintains_rupdate [OF assms(1)]) (rule relabel_md [OF assms(2-5)])

lemma md_ops_maintain [maintains]:
  assumes c: "client_upholds I S p c"
  shows "maintains I (UpdateMachineDeployment c umo)" "maintains I (RolloutMachineDeployment c ns n why)"
    "maintains I (ScaleMachineDeployment c ns n r)" "maintains I (ScaleControlPlane c ns n r)"
proof -
  note c_p = client_upholds_policy [OF c]
  show "maintains I (UpdateMachineDeployment c umo)"
    by (rule update_machine_deployment.kept [OF yields_wrapE [OF fetches(3) [OF c]]])
      (rule maintains relabel_maintains client_upholdsD [OF c] | simp add: c_p update_md_def update_metadata_def)+
  show "maintains I (RolloutMachineDeployment c ns n why)"
    by (rule rollout_machine_deployment.kept [OF yields_wrapE [OF fetches(3) [OF c]]])
      (rule maintains update_maintains client_upholdsD [OF c] c | simp add: c_p object_defs)+
  show "maintains I (ScaleMachineDeployment c ns n r)"
    by (rule scale_machine_deployment.kept [OF fetches(3) [OF c]])
      (rule maintains update_maintains client_upholdsD [OF c] | simp add: c_p)+
  show "maintains I (ScaleControlPlane c ns n r)"
    by (rule scale_control_plane.kept [OF fetches(5) [OF c]])
      (rule maintains update_maintains client_upholdsD [OF c] | simp add: c_p)+
qed

text \<open>A check of an object that was seen, before an update of it.\<close>

lemma checked_update_maintains:
  assumes "sees S kind m" and "CheckUpdate p kind m = None \<Longrightarrow> maintains I act"
  shows "maintains I (bindE (checkE (CheckUpdate p kind m)) (\<lambda>_. act))"
  using assms(2) by (cases "CheckUpdate p kind m") (simp_all add: maintains)

lemma upgrade_maintains [maintains]:
  assumes c: "client_upholds I S p c"
  shows "maintains I (UpgradeCluster c opts)"
proof -
  note c_p = client_upholds_policy [OF c]
  have control_plane: "maintains I (upgrade_control_plane c v cl)" for v cl
    unfolding upgrade_control_plane_def c_p
    by (rule maintains maintains_yield_bindE [OF yields_wrapE [OF fetches(8) [OF c]]] checked_update_maintains
        update_maintains client_upholdsD [OF c] | simp)+
  have worker: "maintains I (upgrade_worker c v md)" if "sees S ''MachineDeployment'' (MD_Meta md)" for v md
    unfolding upgrade_worker_def c_p
    by (rule maintains checked_update_maintains [OF that] update_maintains client_upholdsD [OF c] that | simp)+
  have workers: "maintains I (forE mds (upgrade_worker c v))"
    if "list_all (\<lambda>x. sees S ''MachineDeployment'' (MD_Meta x)) mds" for v mds
    using that worker by (intro maintains_forE) (simp add: list_all_iff)
  show ?thesis
    by (rule upgrade_cluster.kept [OF fetches(1) [OF c]])
      (rule maintains_yield_bindE [OF yields_wrapE [OF fetches(4) [OF c]]] workers maintains control_plane | assumption)+
qed

lemma scale_maintains [maintains]:
  assumes c: "client_upholds I S p c"
  shows "maintains I (ScaleCluster c ns n target replicas md)"
proof -
  note c_p = client_upholds_policy [OF c]
  have "maintains I (scaled_topology c cl t target r md)" for cl t r
    unfolding scaled_topology_def Let_def by (rule maintains c)+
  then have topology: "maintains I (scaleClusterTopology c cl t target r md)"
    if "sees S ''Cluster'' (C_Meta cl)" for cl t r
    unfolding scaleClusterTopology_def c_p
    by (intro checked_update_maintains [OF that] maintains_bindE maintains_wrapE maintains_basic
        update_maintains [OF client_upholdsD(1) [OF c] that]) simp_all
  show ?thesis
    unfolding ScaleCluster_def Let_def
    by (rule maintains_control(1) maintains_yield_bindE [OF fetches(2) [OF c]] topology maintains c | assumption)+
qed

lemma cordon_maintains [maintains]:
  assumes c: "client_upholds I S p c"
  shows "maintains I (setUnschedulable c n b)" "maintains I (CordonNode c opts)"
proof -
  show set: "maintains I (setUnschedulable c n b)" for n b
    by (rule cordon.kept [OF fetches(6) [OF c]])
      (rule maintains update_maintains client_upholdsD [OF c] | simp add: client_upholds_policy [OF c])+
  show "maintains I (CordonNode c opts)"
    unfolding CordonNode_def by (rule maintains c set)+
qed

lemma resource_set_ops_maintain [maintains]:
  assumes c: "client_upholds I S p c"
  shows "maintains I (CreateClusterResourceSet c opts)" "maintains I (DeleteClusterResourceSet c ns n)"
proof -
  have secret: "maintains I (rupdate (k_secrets (Kube c)) k f x)"
    and config: "maintains I (rupdate (k_configmaps (Kube c)) k f' y)" for k f x f' y
    by (rule maintains_rupdate [OF client_upholdsD(9) [OF c]] maintains_rupdate [OF client_upholdsD(10) [OF c]]
        free)+
  have "maintains I (write_resource c ns r)" for ns r
    unfolding write_resource_def createOrUpdateResourceSetSecret_def createOrUpdateResourceSetConfigMap_def
    by (rule maintains secret config client_upholdsD [OF c])+
  then show "maintains I (CreateClusterResourceSet c opts)"
    unfolding CreateClusterResourceSet_def
    by (intro maintains_control maintains_basic maintains_bindE maintains_wrapE maintains_forE
        maintains_rcreate [OF client_upholdsD(11) [OF c]])
  have "maintains I (rdelete (k_resourcesets (Kube c)) k f x)" for k f x
    by (rule maintains_rdelete [OF client_upholdsD(11) [OF c]]) (rule free)
  then show "maintains I (DeleteClusterResourceSet c ns n)"
    unfolding DeleteClusterResourceSet_def
    by (intro maintains_bindE maintains_wrapE reads_maintain [OF c])
qed

text \<open>The drain, whose loops may not return: what holds at its end if it does.\<close>

lemma drain_maintains:
  assumes c: "client_upholds I S p c" and run: "DrainNode c opts s = Some (r, t)" and s: "I (env s)"
  shows "I (env t)"
proof -
  obtain res err where r: "r = (res, err)" by fastforce
  have cordon: "I (env s1)" if "cordon_node c opts s = (q, s1)" for q s1
  proof -
    have "maintains I (cordon_node c opts)" unfolding cordon_node_def by (rule maintains c)+
    then show ?thesis using that s by (rule maintainsD)
  qed
  have listed: "I (env u)" if "cordon_node c opts s = (Inr n, s1)" "timed_list c d n s1 = (q, u)" for n s1 d q u
  proof -
    have "maintains I (timed_list c d n)" unfolding timed_list_def by (rule maintains c)+
    then show ?thesis using that(2) cordon [OF that(1)] by (rule maintainsD)
  qed
  from run [unfolded r] show ?thesis
  proof (cases rule: DrainNode_cases)
    case (evicting n s1 pods u ev sk evd eerr v)
    have "I (env v)" using evict_loop_maintains [OF c] evicting(4) listed evicting(1,2) unfolding evictPods_def by blast
    then show ?thesis using wait_maintains [OF c] evicting(5) by (auto simp: drain_end_def split: option.splits)
  qed (use cordon listed in auto)
qed

end

text \<open>A shield that also lets the labels of a Cluster that passed the check change.\<close>

locale relabelled = shielded +
  assumes relabel_cluster: "sees S ''Cluster'' m \<Longrightarrow> CheckUpdate p ''Cluster'' m = None \<Longrightarrow>
      Namespace m' = Namespace m \<Longrightarrow> Name m' = Name m \<Longrightarrow> writable S ''Cluster'' m'"
begin

lemma update_cluster_maintains [maintains]:
  assumes c: "client_upholds I S p c"
  shows "maintains I (UpdateCluster c opts)"
proof (rule update_cluster.kept [OF fetches(1) [OF c]])
  fix cl :: Cluster assume cl: "sees S ''Cluster'' (C_Meta cl)" "CheckUpdate (policy c) ''Cluster'' (C_Meta cl) = None"
  have "writable S ''Cluster'' (update_metadata l a (C_Meta cl))" for l a
    by (rule relabel_cluster [OF cl(1)])
      (use cl(2) client_upholds_policy [OF c] in \<open>simp_all add: update_metadata_def\<close>)
  then show "maintains I (wrapE w (rupdate (k_clusters (Kube c)) k C_Meta
      (cl\<lparr>C_Meta := update_metadata l a (C_Meta cl)\<rparr>)))" for w k l a
    by (intro maintains_wrapE maintains_rupdate [OF client_upholdsD(1) [OF c]]) simp
qed

end

end
