(* ===== verification/Capi_Shield.thy ===== *)
theory Capi_Shield
  imports Capi_Server Capi_Store
begin

section \<open>Invariants of the API server over whole runs of a server\<close>

text \<open>
  The tool handlers keep what the client operations keep, so a server keeps an invariant of the
  state behind its API server over any sequence of tool calls.  Two shields instantiate the
  contract of Capi_Store: one for an object whose deletion is prevented by a label, one for an object
  that belongs to a GitOps tool.
\<close>

subsection \<open>Handlers\<close>

lemma maintains_shape [maintains]:
  "maintains I (jsonResult v)" "maintains I (listResult ds)" "maintains I (tool_error msg)"
  "maintains I (no_cluster_found n ns)" "maintains I (exec_result cmd as n r)"
  "(\<And>c. cl = Inr c \<Longrightarrow> maintains I (f c)) \<Longrightarrow> maintains I (with_client cl f)"
  "(\<And>v. maintains I (g v)) \<Longrightarrow> maintains I (required_arg args k g)"
  "(\<And>as. maintains I (f' as)) \<Longrightarrow> maintains I (exec_arguments args f')"
  "maintains I m \<Longrightarrow> (\<And>x. maintains I (h x)) \<Longrightarrow> maintains I (attempt w m h)"
  by (auto simp: jsonResult_def listResult_def tool_error_def no_cluster_found_def exec_result_def with_client_def
      required_arg_def exec_arguments_def attempt_def intro!: maintains split: sum.split option.split prod.split)

lemma maintains_list_case [maintains]:
  "maintains I a \<Longrightarrow> (\<And>y ys. maintains I (b y ys)) \<Longrightarrow> maintains I (case xs of [] \<Rightarrow> a | y # ys \<Rightarrow> b y ys)"
  by (cases xs) simp_all

lemma summaries_maintain [maintains]:
  assumes c: "client_upholds I S p c"
  shows "maintains I (list_summaries c g cls)" "maintains I (candidate_summaries c cls)"
  by (induction cls; simp; (rule maintains c | assumption)+)+

definition handler_keeps :: "('w \<Rightarrow> bool) \<Rightarrow> goerr + 'w Client \<Rightarrow> 'w tool_handler \<Rightarrow> bool" where
  "handler_keeps I cl h = (case h of
       WithoutClient f \<Rightarrow> (\<forall>args. maintains I (f args))
     | WithClient f \<Rightarrow> (\<forall>args s r t. f cl args s = Some (r, t) \<longrightarrow> I (env s) \<longrightarrow> I (env t)))"

lemma handler_keeps_returning: "(\<And>args. maintains I (h cl args)) \<Longrightarrow> handler_keeps I cl (returning h)"
  by (auto simp: handler_keeps_def returning_def dest: maintainsD)

lemma handler_keeps_without: "(\<And>args. maintains I (f args)) \<Longrightarrow> handler_keeps I cl (WithoutClient f)"
  by (simp add: handler_keeps_def)

text \<open>A client that keeps the invariant, if there is one.\<close>

definition answer_upholds :: "('w \<Rightarrow> bool) \<Rightarrow> shield \<Rightarrow> WritePolicy \<Rightarrow> goerr + 'w Client \<Rightarrow> bool" where
  "answer_upholds I S p cl = (case cl of Inl _ \<Rightarrow> True | Inr c \<Rightarrow> client_upholds I S p c)"

lemma answer_upholdsD: "answer_upholds I S p cl \<Longrightarrow> cl = Inr c \<Longrightarrow> client_upholds I S p c"
  by (simp add: answer_upholds_def)

lemma reading_handlers_keep:
  assumes c: "answer_upholds I S p cl" and h: "host_upholds I h"
  shows "maintains I (CreateListClustersHandler cl args)" "maintains I (CreateGetClusterHandler cl args)"
    "maintains I (CreateClusterStatusHandler cl args)" "maintains I (CreateClusterHealthHandler cl args)"
    "maintains I (CreateMoveClusterHandler cl args)" "maintains I (CreateBackupClusterHandler cl args)"
    "maintains I (CreateGetKubeconfigHandler cl args)" "maintains I (CreateKubectlHandler h cl args)"
    "maintains I (CreateHelmHandler h cl args)"
    "maintains I (CreateListMachinesHandler cl args)" "maintains I (CreateGetMachineHandler cl args)"
    "maintains I (CreateListMachineDeploymentsHandler cl args)" "maintains I (CreateListMachineSetsHandler cl args)"
    "maintains I (CreateGetMachineSetHandler cl args)" "maintains I (CreateNodeStatusHandler rfc cl args)"
    "maintains I (CreateListClusterResourceSetsHandler cl args)"
    "maintains I (CreateGetClusterResourceSetHandler cl args)"
    "maintains I (CreateAWSListClustersHandler cl args)" "maintains I (CreateAWSGetClusterHandler cl args)"
    "maintains I (CreateAzureListClustersHandler cl args)" "maintains I (CreateAzureGetClusterHandler cl args)"
    "maintains I (CreateGCPListClustersHandler cl args)" "maintains I (CreateGCPGetClusterHandler cl args)"
    "maintains I (CreateVSphereListClustersHandler cl args)" "maintains I (CreateVSphereGetClusterHandler cl args)"
    "maintains I (CreateAWSGetMachineTemplateHandler cl args)"
    "maintains I CreateListInfrastructureProvidersHandler" "maintains I (CreateGetProviderConfigHandler args)"
  unfolding handler_defs CreateListInfrastructureProvidersHandler_def CreateGetProviderConfigHandler_def Let_def
  by (rule maintains h answer_upholdsD [OF c] | assumption)+


context shielded
begin

lemma writing_handlers_keep:
  assumes c: "answer_upholds I S p cl"
  shows "maintains I (CreateCreateClusterHandler marshal fi cl args)" "maintains I (CreateScaleClusterHandler fi cl args)"
    "maintains I (CreatePauseClusterHandler cl args)" "maintains I (CreateResumeClusterHandler cl args)"
    "maintains I (CreateDeleteClusterHandler cl args)" "maintains I (CreateUpgradeClusterHandler cl args)"
    "maintains I (CreateCreateClusterResourceSetHandler cl args)"
    "maintains I (CreateDeleteClusterResourceSetHandler cl args)"
    "maintains I (CreateDeleteMachineHandler cl args)" "maintains I (CreateRemediateMachineHandler cl args)"
    "maintains I (CreateCreateMachineDeploymentHandler fi cl args)"
    "maintains I (CreateScaleMachineDeploymentHandler fi cl args)"
    "maintains I (CreateUpdateMachineDeploymentHandler fi cl args)"
    "maintains I (CreateRolloutMachineDeploymentHandler cl args)" "maintains I (CreateCordonNodeHandler cl args)"
  unfolding handler_defs Let_def by (rule maintains answer_upholdsD [OF c] | assumption)+

lemma drain_handler_keeps:
  assumes c: "answer_upholds I S p cl"
  shows "handler_keeps I cl (WithClient (CreateDrainNodeHandler fi))"
  using drain_maintains [OF answer_upholdsD [OF c]]
  by (auto simp: handler_keeps_def CreateDrainNodeHandler_def tool_error_def retE_def failE_def
      split: sum.splits if_splits option.splits)

text \<open>Every handler but the one that edits the labels of a Cluster keeps the invariant.\<close>

lemma handlers_keep:
  assumes c: "answer_upholds I S p cl" and h: "host_upholds I (he_tools e)"
    and "upd \<Longrightarrow> \<forall>args. maintains I (CreateUpdateClusterHandler cl args)"
  shows "list_all (\<lambda>(n, h). n \<noteq> ''CreateUpdateClusterHandler'' \<or> upd \<longrightarrow> handler_keeps I cl h) (handlers e)"
  unfolding handlers_def cluster_handlers_def resource_set_handlers_def machine_handlers_def provider_handlers_def
    list_all_append list.pred_inject prod.case
  by (intro conjI impI TrueI handler_keeps_returning handler_keeps_without drain_handler_keeps [OF c]
      reading_handlers_keep [OF c h] writing_handlers_keep [OF c]) (use assms(3) in simp_all)

end

context relabelled
begin

lemma update_handler_keeps:
  assumes c: "answer_upholds I S p cl"
  shows "maintains I (CreateUpdateClusterHandler cl args)"
  unfolding handler_defs Let_def by (rule maintains answer_upholdsD [OF c] | assumption)+

end

subsection \<open>Clients and runs\<close>

text \<open>
  The clients of a server context all talk to the servers the client libraries make; \<open>K\<close> is what is
  known of every one of those.
\<close>

definition libs_make :: "('w kube \<Rightarrow> bool) \<Rightarrow> ('k, 'c, 'w) libs \<Rightarrow> bool" where
  "libs_make K l \<longleftrightarrow> (\<forall>k c. K (server_of l k c))"

definition context_kube :: "('w kube \<Rightarrow> bool) \<Rightarrow> 'w ServerContext \<Rightarrow> bool" where
  "context_kube K sc \<longleftrightarrow> (case sc_capiClient sc of None \<Rightarrow> True | Some c \<Rightarrow> K (Kube c))"

lemma NewClientFromConfig_kube:
  "libs_make K l \<Longrightarrow> NewClientFromConfig l cfg [WithWritePolicy p] = Inr c \<Longrightarrow> K (Kube c)"
  by (auto simp: NewClientFromConfig_def WithWritePolicy_def libs_make_def split: sum.splits option.splits)

lemma NewClient_kube: "libs_make K l \<Longrightarrow> NewClient src l kc [WithWritePolicy p] = Inr c \<Longrightarrow> K (Kube c)"
  by (auto simp: NewClient_def dest: NewClientFromConfig_kube split: sum.splits)

lemma owned_kube: "libs_make K (be_libs b) \<Longrightarrow> owned_key b f key c \<Longrightarrow> K (Kube c)"
  by (auto simp: owned_key_def owned_def build_client_def dest: NewClientFromConfig_kube)

lemma newServerContext_kube:
  "libs_make K (pe_libs pe) \<Longrightarrow> newServerContext pe opts = Inr sc \<Longrightarrow> context_kube K sc"
  by (auto simp: newServerContext_def Let_def NewServerContext_def NewCallerIdentityServerContext_def
      context_kube_def dest: NewClient_kube split: sum.splits option.splits if_splits)

lemma sc_Client_kube:
  assumes "context_ok b p sc" and "context_kube K sc" and "libs_make K (be_libs b)"
    and "sc_Client b now ctx sc = (cl, sc')"
  shows "context_kube K sc'" and "cl = Inr c \<Longrightarrow> K (Kube c)"
proof -
  show "context_kube K sc'"
    using assms(2,4) by (auto simp: sc_Client_def context_kube_def split: option.splits prod.splits)
  assume cl: "cl = Inr c"
  show "K (Kube c)"
  proof (cases "sc_factory sc")
    case None
    with assms(2,4) cl show ?thesis by (auto simp: sc_Client_def context_kube_def split: option.splits)
  next
    case (Some f)
    with assms(1) have "cache_ok b f" by (simp add: context_ok_def)
    with Some assms(4) cl obtain token where "owned_key b f (be_digest b token) c"
      by (metis Client_owned fst_conv)
    with assms(3) show ?thesis by (rule owned_kube)
  qed
qed

lemma call_kube:
  assumes "tool_call e b regs (sc, s) (sc', t)" and "context_ok b p sc" and "context_kube K sc"
    and "libs_make K (be_libs b)"
  shows "context_kube K sc'"
  using assms(1)
proof (cases rule: tool_call.cases)
  case (call r h now ctx args res)
  from call(3) show ?thesis
    by (cases rule: run_handler_cases) (use assms(2-4) sc_Client_kube(1) in auto)
qed

lemma reachable_kube:
  assumes "(tool_call e b regs)\<^sup>*\<^sup>* (sc, s) (sc', t)" and "context_ok b p sc" and "context_kube K sc"
    and "libs_make K (be_libs b)"
  shows "context_kube K sc'"
  using assms(1)
proof (induction "(sc', t)" arbitrary: sc' t rule: rtranclp_induct)
  case (step y)
  obtain sc1 u where y: "y = (sc1, u)" by fastforce
  from step(3) [OF y] step(2) reachable_context_ok assms(2,4) step(1) show ?case
    unfolding y using call_kube by blast
qed (rule assms(3))

text \<open>A run of calls keeps what every handler it may reach keeps.\<close>

lemma calls_keep:
  assumes keep: "\<And>cl r h. answer_upholds I S p cl \<Longrightarrow> r \<in> set regs \<Longrightarrow> handler_of e r = Some h \<Longrightarrow> handler_keeps I cl h"
    and libs: "libs_make (upholds I S) (be_libs b)"
    and run: "(tool_call e b regs)\<^sup>*\<^sup>* (sc, s) (sc', t)"
    and ok: "context_ok b p sc" and kube: "context_kube (upholds I S) sc" and s: "I (env s)"
  shows "I (env t)"
  using run
proof (induction "(sc', t)" arbitrary: sc' t rule: rtranclp_induct)
  case (step y)
  obtain sc1 u where y: "y = (sc1, u)" by fastforce
  from step(3) [OF y] have u: "I (env u)" .
  have ok1: "context_ok b p sc1" using reachable_context_ok step(1) ok unfolding y by blast
  have kube1: "context_kube (upholds I S) sc1" by (rule reachable_kube [OF step(1) [unfolded y] ok kube libs])
  from step(2) [unfolded y] show ?case
  proof (cases rule: tool_call.cases)
    case (call r h now ctx args res)
    from call(3) show ?thesis
    proof (cases rule: run_handler_cases)
      case (1 f)
      have "answer_upholds I S p (Inl (Sentinel ErrNoBearerToken))" by (simp add: answer_upholds_def)
      from keep [OF this call(1,2)] 1 u show ?thesis by (auto simp: handler_keeps_def dest: maintainsD)
    next
      case (2 f cl)
      have "answer_upholds I S p cl"
        using sc_Client_kube(2) [OF ok1 kube1 libs 2(2)] context_ok_Client(2) [OF ok1 2(2)]
        by (auto simp: answer_upholds_def client_upholds_def split: sum.split)
      from keep [OF this call(1,2)] 2 u show ?thesis by (auto simp: handler_keeps_def)
    qed
  qed
qed (use s in simp)

text \<open>What a server that was built starts with.\<close>

lemma server_context:
  assumes "NewServer pe ol opts tr = (Inr sv, tr')" and "libs_make K (pe_libs pe)"
  shows "context_ok b (so_WritePolicy opts) (sv_context sv)" and "context_kube K (sv_context sv)"
  using newServerContext_ok(1) newServerContext_kube [OF assms(2)] NewServer_built(2) [OF assms(1)] by blast+

lemma server_keeps:
  assumes new: "NewServer pe ol opts tr = (Inr sv, tr')"
    and libs: "libs_make (upholds I S) (pe_libs pe)" "libs_make (upholds I S) (be_libs b)"
    and keep: "\<And>cl r h. answer_upholds I S (so_WritePolicy opts) cl \<Longrightarrow> r \<in> set regs \<Longrightarrow>
        handler_of e r = Some h \<Longrightarrow> handler_keeps I cl h"
    and run: "(tool_call e b regs)\<^sup>*\<^sup>* (sv_context sv, s) (sc, t)" and s: "I (env s)"
  shows "I (env t)"
  by (rule calls_keep [OF _ libs(2) run server_context [OF new libs(1)] s]) (rule keep)

subsection \<open>Every call returns\<close>

text \<open>Only the drain may fail to return, and it does not where its deadline bounds the polls.\<close>

definition handler_returns :: "goerr + 'w Client \<Rightarrow> 'w tool_handler \<Rightarrow> bool" where
  "handler_returns cl h = (case h of WithoutClient f \<Rightarrow> True | WithClient f \<Rightarrow> (\<forall>args s. f cl args s \<noteq> None))"

lemma returning_returns: "handler_returns cl (returning h)" "handler_returns cl (WithoutClient f)"
  by (simp_all add: handler_returns_def returning_def)

lemma drain_returns:
  assumes "\<And>c. cl = Inr c \<Longrightarrow> deadline_bounds (Kube c) m"
  shows "handler_returns cl (WithClient (CreateDrainNodeHandler fi))"
proof (cases cl)
  case (Inr c)
  have "DrainNode c opts s \<noteq> None" for opts s
    using drain_terminates [OF assms [OF Inr], of opts s] by auto
  with Inr show ?thesis by (auto simp: handler_returns_def CreateDrainNodeHandler_def split: option.split)
qed (simp add: handler_returns_def CreateDrainNodeHandler_def)

lemma handlers_return:
  assumes "\<And>c. cl = Inr c \<Longrightarrow> deadline_bounds (Kube c) m"
  shows "list_all (\<lambda>(n, h). handler_returns cl h) (handlers e)"
  unfolding handlers_def cluster_handlers_def resource_set_handlers_def machine_handlers_def provider_handlers_def
    list_all_append list.pred_inject prod.case
  by (intro conjI TrueI returning_returns drain_returns [OF assms]) simp_all

text \<open>The one tool that may edit the labels of a Cluster.\<close>

definition label_tool :: "ToolRegistration \<Rightarrow> bool" where
  "label_tool r \<longleftrightarrow> TR_Name r = ''capi_update_cluster''"

lemma label_tool_handler:
  assumes "r \<in> set (BuildAllTools p)" and "TR_Handler r = ''CreateUpdateClusterHandler''"
  shows "label_tool r"
proof -
  have "list_all (\<lambda>r. TR_Handler r = ''CreateUpdateClusterHandler'' \<longrightarrow> TR_Name r = ''capi_update_cluster'') buildTools"
    by code_simp
  with assms show ?thesis
    using filter_tools_sub [of r p buildTools] by (auto simp: list_all_iff BuildAllTools_def label_tool_def)
qed

context shielded
begin

text \<open>The calls to every tool but that one keep the invariant.\<close>

lemma tools_keep:
  assumes "answer_upholds I S p cl" and "host_upholds I (he_tools e)"
    and "r \<in> set (BuildAllTools q)" and "\<not> label_tool r" and "handler_of e r = Some h"
  shows "handler_keeps I cl h"
proof -
  have "TR_Handler r \<noteq> ''CreateUpdateClusterHandler''" using label_tool_handler [OF assms(3)] assms(4) by blast
  then show ?thesis
    using handlers_keep [OF assms(1,2), of False] handler_table_member [OF assms(5)]
    by (fastforce simp: list_all_iff)
qed

end

context relabelled
begin

lemma all_tools_keep:
  assumes "answer_upholds I S p cl" and "host_upholds I (he_tools e)" and "handler_of e r = Some h"
  shows "handler_keeps I cl h"
  using handlers_keep [OF assms(1,2), of True] update_handler_keeps [OF assms(1)] handler_table_member [OF assms(3)]
  by (fastforce simp: list_all_iff)

end

subsection \<open>The deletion protection\<close>

definition covers :: "string list \<Rightarrow> string \<Rightarrow> string \<Rightarrow> string \<Rightarrow> string \<Rightarrow> objmeta \<Rightarrow> bool" where
  "covers kinds kind0 ns n kind m \<longleftrightarrow> List.member kinds kind0 \<and> kind = kind0 \<and> Namespace m = ns \<and> Name m = n"

text \<open>
  The object of the key carries the label whenever it is read, and goes on existing and carrying it
  unless it is written without the label or deleted.
\<close>

definition deletion_shield :: "string \<Rightarrow> string \<Rightarrow> string \<Rightarrow> shield" where
  "deletion_shield kind0 ns n = (let hit = covers [''Cluster'', ''Machine''] kind0 ns n in
     \<lparr>sees = (\<lambda>kind m. hit kind m \<longrightarrow> protected m), writable = (\<lambda>kind m. hit kind m \<longrightarrow> protected m),
      deletable = (\<lambda>kind m. \<not> hit kind m)\<rparr>)"

lemma delete_unlabelled: "CheckDelete p k m = None \<Longrightarrow> PreventDeletionLabel \<notin> dom (map_of (Labels m))"
  using remove_gate.delete_gate_passes [of p k m] by (auto simp: protected_def)

interpretation deletion: shielded p "deletion_shield kind0 ns n"
  for p kind0 ns n
  by unfold_locales
    (auto simp: deletion_shield_def covers_def Let_def protected_def dest: delete_unlabelled)

interpretation machine_deletion: relabelled p "deletion_shield ''Machine'' ns n"
  for p ns n
  by unfold_locales (simp add: deletion_shield_def covers_def Let_def)

subsection \<open>The GitOps guard\<close>

text \<open>
  The object of the key carries an ownership marker whenever it is read; nothing is promised of a
  write or a deletion of that key.
\<close>

definition guarded_kinds :: "string list" where
  "guarded_kinds = [''Cluster'', ''Machine'', ''MachineDeployment'', ''KubeadmControlPlane'', ''Node'']"

definition owned_shield :: "string \<Rightarrow> string \<Rightarrow> string \<Rightarrow> shield" where
  "owned_shield kind0 ns n = (let hit = covers guarded_kinds kind0 ns n in
     \<lparr>sees = (\<lambda>kind m. hit kind m \<longrightarrow> managed m), writable = (\<lambda>kind m. \<not> hit kind m),
      deletable = (\<lambda>kind m. \<not> hit kind m)\<rparr>)"

interpretation gitops: relabelled "p\<lparr>GitOpsGuard := True\<rparr>" "owned_shield kind0 ns n"
  for p kind0 ns n
  by unfold_locales
    (auto simp: owned_shield_def covers_def guarded_kinds_def Let_def
      dest: update_gate.gate_passes remove_gate.gate_passes)

subsection \<open>Properties\<close>

text \<open>
  C2. A server started with the GitOps guard leaves the objects of a GitOps tool alone over any
  sequence of calls, by any callers, to any of its tools: whatever holds of the state behind the API
  server as long as an owned Cluster, Machine, MachineDeployment, KubeadmControlPlane or Node is neither
  written nor deleted goes on holding.
\<close>

theorem gitops_guard_holds:
  assumes "NewServer pe ol opts tr = (Inr sv, tr')" and "so_GitOpsGuard opts"
    and "libs_make (upholds I (owned_shield kind ns n)) (pe_libs pe)"
    and "libs_make (upholds I (owned_shield kind ns n)) (be_libs b)" and "host_upholds I (he_tools e)"
    and "(tool_call e b (sv_tools sv))\<^sup>*\<^sup>* (sv_context sv, s) (sc, t)" and "I (env s)"
  shows "I (env t)"
proof (rule server_keeps [OF assms(1,3,4) _ assms(6,7)])
  have p: "(so_WritePolicy opts)\<lparr>GitOpsGuard := True\<rparr> = so_WritePolicy opts"
    using assms(2) by (simp add: so_WritePolicy_def)
  show "handler_keeps I cl h"
    if "answer_upholds I (owned_shield kind ns n) (so_WritePolicy opts) cl" "handler_of e r = Some h" for cl r h
    using gitops.all_tools_keep [of I kind ns n "so_WritePolicy opts", unfolded p] that assms(5) by blast
qed


text \<open>
  The object of a key is stored with metadata that satisfies \<open>P\<close>, in what \<open>view\<close> shows of the
  state behind the API server; and the tools over which the label that prevents deletion holds.
\<close>

definition stored :: "('w \<Rightarrow> string \<Rightarrow> string \<Rightarrow> string \<Rightarrow> objmeta option) \<Rightarrow> string \<Rightarrow> string \<Rightarrow> string
    \<Rightarrow> (objmeta \<Rightarrow> bool) \<Rightarrow> 'w \<Rightarrow> bool" where
  "stored view kind ns n P w \<longleftrightarrow> (case view w kind ns n of None \<Rightarrow> False | Some m \<Rightarrow> P m)"

definition deletion_tools :: "string \<Rightarrow> ToolRegistration list \<Rightarrow> ToolRegistration list" where
  "deletion_tools kind regs = (if kind = ''Machine'' then regs else filter (\<lambda>r. \<not> label_tool r) regs)"

text \<open>
  C3. A Cluster or Machine that carries the label that prevents its deletion survives any sequence of
  tool calls with any arguments, forced ones included, and goes on carrying the label: a Machine
  whatever is called, a Cluster as long as capi_update_cluster is not.
\<close>

theorem protected_object_survives:
  assumes "NewServer pe ol opts tr = (Inr sv, tr')"
    and "libs_make (upholds (stored view kind ns n protected) (deletion_shield kind ns n)) (pe_libs pe)"
    and "libs_make (upholds (stored view kind ns n protected) (deletion_shield kind ns n)) (be_libs b)"
    and "host_upholds (stored view kind ns n protected) (he_tools e)"
    and "(tool_call e b (deletion_tools kind (sv_tools sv)))\<^sup>*\<^sup>* (sv_context sv, s) (sc, t)"
    and "stored view kind ns n protected (env s)"
  shows "stored view kind ns n protected (env t)"
proof (rule server_keeps [OF assms(1-3) _ assms(5,6)])
  let ?I = "stored view kind ns n protected"
  fix cl r h
  assume cl: "answer_upholds ?I (deletion_shield kind ns n) (so_WritePolicy opts) cl"
    and r: "r \<in> set (deletion_tools kind (sv_tools sv))" and h: "handler_of e r = Some h"
  show "handler_keeps ?I cl h"
  proof (cases "kind = ''Machine''")
    case True
    with machine_deletion.all_tools_keep cl assms(4) h show ?thesis by blast
  next
    case False
    with r have "r \<in> set (BuildAllTools (sc_policy (sv_context sv)))" "\<not> label_tool r"
      using NewServer_built(4) [OF assms(1)] by (auto simp: deletion_tools_def)
    with deletion.tools_keep cl assms(4) h show ?thesis by blast
  qed
qed


subsection \<open>Examples\<close>

text \<open>The one object of a key in the memory of the example server.\<close>

definition only :: "('o \<Rightarrow> objmeta) \<Rightarrow> 'o list \<Rightarrow> string \<Rightarrow> string \<Rightarrow> objmeta option" where
  "only f xs ns n = (case filter (at_key f ns n) xs of [x] \<Rightarrow> Some (f x) | _ \<Rightarrow> None)"

definition world_view :: "world \<Rightarrow> string \<Rightarrow> string \<Rightarrow> string \<Rightarrow> objmeta option" where
  "world_view w kind ns n = (if kind = ''Cluster'' then only C_Meta (w_clusters w) ns n
     else if kind = ''Machine'' then only M_Meta (w_machines w) ns n else None)"

lemma only_Some:
  "only f xs ns n = Some m \<longleftrightarrow> (\<exists>x. filter (at_key f ns n) xs = [x] \<and> m = f x)"
  by (auto simp: only_def split: list.splits)

lemma find_filter_hd: "find P xs = (case filter P xs of [] \<Rightarrow> None | x # _ \<Rightarrow> Some x)"
  by (induction xs) auto

text \<open>Where the key is looked up in another list, nothing that happens to this one matters.\<close>

lemma mem_other:
  assumes "\<And>g w. I (upd g w) = I w" and "\<And>m. sees S kind m"
  shows "upholds_resource I S kind f (mem f sel upd)"
  using assms by (auto simp: upholds_resource_def calls_run list_all_iff split: option.split)

lemma none_upholds: "(\<And>m. sees S kind m) \<Longrightarrow> upholds_resource I S kind f none"
  by (auto simp: upholds_resource_def none_def)

lemma filter_key_update:
  "filter (at_key f ns n) (map (\<lambda>y. if at_key f (Namespace (f x)) (Name (f x)) y then x else y) xs)
    = (if at_key f ns n x then map (\<lambda>_. x) (filter (at_key f ns n) xs) else filter (at_key f ns n) xs)"
  unfolding at_key_def by (induction xs) auto

lemma filter_key_delete:
  "\<not> at_key f ns n x \<Longrightarrow>
   filter (at_key f ns n) (filter (\<lambda>y. \<not> at_key f (Namespace (f x)) (Name (f x)) y) xs) = filter (at_key f ns n) xs"
  unfolding at_key_def by (induction xs) auto

text \<open>The list that holds the key keeps its one object, whose metadata satisfies \<open>P\<close>.\<close>

lemma mem_upholds:
  assumes I: "\<And>w. I w \<longleftrightarrow> (\<exists>m. only f (sel w) ns n = Some m \<and> P m)"
    and lens: "\<And>g w. sel (upd g w) = g (sel w)"
    and S: "\<And>m. Namespace m = ns \<Longrightarrow> Name m = n \<Longrightarrow> P m \<Longrightarrow> sees S kind m"
      "\<And>m. \<not> (Namespace m = ns \<and> Name m = n) \<Longrightarrow> sees S kind m"
      "\<And>m. writable S kind m \<Longrightarrow> Namespace m = ns \<Longrightarrow> Name m = n \<Longrightarrow> P m"
      "\<And>m. deletable S kind m \<Longrightarrow> \<not> (Namespace m = ns \<and> Name m = n)"
  shows "upholds_resource I S kind f (mem f sel upd)"
  unfolding upholds_resource_def
proof (intro allI impI)
  fix w assume "I w"
  then obtain y where y: "filter (at_key f ns n) (sel w) = [y]" "P (f y)" by (auto simp: I only_Some)
  then have key: "Namespace (f y) = ns" "Name (f y) = n" by (auto simp: at_key_def dest: filter_eq_ConsD)
  have seen: "sees S kind (f x)" if "x \<in> set (sel w)" for x
  proof (cases "at_key f ns n x")
    case True
    with that have "x \<in> set (filter (at_key f ns n) (sel w))" by simp
    with y key S(1) show ?thesis by simp
  qed (use S(2) in \<open>auto simp: at_key_def\<close>)
  have get: "find (at_key f a b) (sel w) = Some x \<Longrightarrow> sees S kind (f x)" for a b x
    using seen by (auto simp: find_Some_iff)
  show "(\<forall>ns n. I (snd (RGet (mem f sel upd) ns n w)) \<and> (case fst (RGet (mem f sel upd) ns n w) of Inl _ \<Rightarrow> True | Inr x \<Rightarrow> sees S kind (f x)))
   \<and> (\<forall>opts. I (snd (RList (mem f sel upd) opts w))
        \<and> (case fst (RList (mem f sel upd) opts w) of Inl _ \<Rightarrow> True | Inr xs \<Rightarrow> list_all (\<lambda>x. sees S kind (f x)) xs))
   \<and> (\<forall>x. I (snd (RCreate (mem f sel upd) x w))
        \<and> (writable S kind (f x) \<longrightarrow> I (snd (RUpdate (mem f sel upd) x w)))
        \<and> (deletable S kind (f x) \<longrightarrow> I (snd (RDelete (mem f sel upd) x w))))"
  proof (intro conjI allI impI)
    fix x
    have "\<not> at_key f ns n x" if "\<not> list_ex (at_key f (Namespace (f x)) (Name (f x))) (sel w)"
      using that y key by (auto simp: at_key_def list_ex_iff filter_eq_Cons_iff)
    with y \<open>I w\<close> show "I (snd (RCreate (mem f sel upd) x w))" by (simp add: calls_run I lens only_Some)
    show "I (snd (RUpdate (mem f sel upd) x w))" if "writable S kind (f x)"
      using y S(3) [OF that] by (auto simp: calls_run I lens only_Some filter_key_update) (simp add: at_key_def)
    show "I (snd (RDelete (mem f sel upd) x w))" if "deletable S kind (f x)"
    proof -
      have "\<not> at_key f ns n x" using S(4) [OF that] by (auto simp: at_key_def)
      with y show ?thesis by (simp add: calls_run I lens only_Some filter_key_delete del: filter_filter)
    qed
  qed (use \<open>I w\<close> seen get in \<open>auto simp: calls_run list_all_iff split: option.split\<close>)
qed

text \<open>An invariant of one Cluster in the memory, under a shield that is about that Cluster only.\<close>

lemma memory_upholds:
  assumes "\<And>m. Namespace m = ns \<Longrightarrow> Name m = n \<Longrightarrow> P m \<Longrightarrow> sees S ''Cluster'' m"
    and "\<And>kind m. \<not> (kind = ''Cluster'' \<and> Namespace m = ns \<and> Name m = n) \<Longrightarrow> sees S kind m"
    and "\<And>m. writable S ''Cluster'' m \<Longrightarrow> Namespace m = ns \<Longrightarrow> Name m = n \<Longrightarrow> P m"
    and "\<And>m. deletable S ''Cluster'' m \<Longrightarrow> \<not> (Namespace m = ns \<and> Name m = n)"
  shows "libs_make (upholds (stored world_view ''Cluster'' ns n P) S) example_libs"
proof -
  let ?I = "stored world_view ''Cluster'' ns n P"
  have I: "?I w \<longleftrightarrow> (\<exists>m. only C_Meta (w_clusters w) ns n = Some m \<and> P m)" for w
    by (auto simp: stored_def world_view_def split: option.split)
  have other: "sees S kind m" if "kind \<noteq> ''Cluster''" for kind m using assms(2) that by blast
  have "upholds_resource ?I S ''Cluster'' C_Meta (mem C_Meta w_clusters w_clusters_update)"
    by (rule mem_upholds [OF I]) (use assms in auto)
  moreover have "upholds_resource ?I S ''Machine'' M_Meta (mem M_Meta w_machines w_machines_update)"
    "upholds_resource ?I S ''MachineDeployment'' MD_Meta (mem MD_Meta w_machinedeployments w_machinedeployments_update)"
    "upholds_resource ?I S ''KubeadmControlPlane'' KCP_Meta (mem KCP_Meta w_controlplanes w_controlplanes_update)"
    "upholds_resource ?I S ''Node'' N_Meta (mem N_Meta w_nodes w_nodes_update)"
    "upholds_resource ?I S ''Pod'' P_Meta (mem P_Meta w_pods w_pods_update)"
    "upholds_resource ?I S ''Secret'' Sec_Meta (mem Sec_Meta w_secrets w_secrets_update)"
    by (rule mem_other; simp add: I other)+
  moreover have "upholds_resource ?I S ''MachineSet'' MS_Meta none" "upholds_resource ?I S ''ClusterClass'' CC_Meta none"
    "upholds_resource ?I S ''ConfigMap'' CM_Meta none" "upholds_resource ?I S ''ClusterResourceSet'' CRS_Meta none"
    by (rule none_upholds; simp add: other)+
  ultimately show ?thesis
    by (simp add: libs_make_def example_libs_def upholds_def memory_def I)
qed

lemma example_host: "host_upholds I (he_tools example_env)"
  by (simp add: host_upholds_def example_env_def example_tools_def)

text \<open>The deletion of a Cluster by a server that is not read-only.\<close>

definition forced_delete :: "json gomap" where
  "forced_delete = [(''namespace'', JStr ''org''), (''name'', JStr ''demo''), (''force'', JBool True)]"

definition guarded_options :: ServerOptions where
  "guarded_options = DefaultServerOptions\<lparr>so_GitOpsGuard := True\<rparr>"

lemma guarded_server_built:
  "\<exists>sv tr. NewServer example_process example_oauth_libs guarded_options [] = (Inr sv, tr)
     \<and> sv_tools sv = BuildAllTools (so_WritePolicy guarded_options)"
  by (simp add: NewServer_def guarded_options_def DefaultServerOptions_def validateOptions_def
      newServerContext_def NewClient_def loadConfig_def example_process_def NewClientFromConfig_def
      example_libs_def newScheme_def RegisterTools_def go_simps Let_def NewServerContext_def WithWritePolicy_def
      split: option.split)

text \<open>The registration of the tool as the server offers it.\<close>

definition offered_delete :: ToolRegistration where
  "offered_delete = delete_cluster_tool\<lparr>TR_Annotations := Some (annotationsFor ''capi_delete_cluster'')\<rparr>"

lemma offered_delete:
  "offered_delete \<in> set (BuildAllTools (so_WritePolicy guarded_options))"
  "handler_of e offered_delete = Some (returning CreateDeleteClusterHandler)"
  "\<not> label_tool offered_delete"
proof -
  have "delete_cluster_tool \<in> set buildTools"
    by (simp add: delete_cluster_tool_def buildTools_def buildClusterTools_def)
  moreover have "TR_Name delete_cluster_tool = ''capi_delete_cluster''"
    by (simp add: delete_cluster_tool_def tool_def)
  moreover have "\<not> IsCredentialTool ''capi_delete_cluster''" by code_simp
  ultimately show "offered_delete \<in> set (BuildAllTools (so_WritePolicy guarded_options))"
    using mutating_tool_offered [of delete_cluster_tool "so_WritePolicy guarded_options"]
    by (simp add: offered_delete_def so_WritePolicy_def guarded_options_def DefaultServerOptions_def)
  show "handler_of e offered_delete = Some (returning CreateDeleteClusterHandler)" "\<not> label_tool offered_delete"
    by (simp_all add: offered_delete_def delete_cluster_tool_def handler_of_def tool_def label_tool_def
        handlers_def cluster_handlers_def)
qed

text \<open>The forced deletion is called, whatever comes of it.\<close>

lemma forced_delete_called:
  assumes "offered_delete \<in> set regs"
  obtains sc' t where "tool_call example_env example_bearer regs (sc, s) (sc', t)"
    and "(tool_call example_env example_bearer regs)\<^sup>*\<^sup>* (sc, s) (sc', t)"
proof -
  obtain res sc' t where "run_handler example_bearer 0 example_ctx (returning CreateDeleteClusterHandler)
      forced_delete (sc, s) = Some (res, sc', t)"
    by (fastforce simp: run_handler_def returning_def split: prod.split)
  then have "tool_call example_env example_bearer regs (sc, s) (sc', t)"
    by (rule tool_call.call [OF assms offered_delete(2)])
  then show ?thesis using that by (blast intro: r_into_rtranclp)
qed

definition protected_world :: world where
  "protected_world = empty_world\<lparr>w_clusters := [example_cluster ''demo'' [(PreventDeletionLabel, ''true'')]]\<rparr>"

definition owned_world :: world where
  "owned_world = empty_world\<lparr>w_clusters := [example_cluster ''demo'' [(fluxKustomizationNameLabel, ''apps'')]]\<rparr>"

theorem protected_object_survives_witness:
  "\<exists>sv tr sc t. NewServer example_process example_oauth_libs guarded_options [] = (Inr sv, tr)
     \<and> tool_call example_env example_bearer (deletion_tools ''Cluster'' (sv_tools sv))
         (sv_context sv, start protected_world) (sc, t)
     \<and> stored world_view ''Cluster'' ''org'' ''demo'' protected (env t)"
proof -
  obtain sv tr where sv: "NewServer example_process example_oauth_libs guarded_options [] = (Inr sv, tr)"
    and tools: "sv_tools sv = BuildAllTools (so_WritePolicy guarded_options)"
    using guarded_server_built by blast
  have "offered_delete \<in> set (deletion_tools ''Cluster'' (sv_tools sv))"
    using offered_delete(1,3) tools by (simp add: deletion_tools_def)
  then obtain sc t where call: "tool_call example_env example_bearer (deletion_tools ''Cluster'' (sv_tools sv))
      (sv_context sv, start protected_world) (sc, t)"
    and run: "(tool_call example_env example_bearer (deletion_tools ''Cluster'' (sv_tools sv)))\<^sup>*\<^sup>*
      (sv_context sv, start protected_world) (sc, t)"
    by (rule forced_delete_called)
  let ?I = "stored world_view ''Cluster'' ''org'' ''demo'' protected"
  have libs: "libs_make (upholds ?I (deletion_shield ''Cluster'' ''org'' ''demo'')) example_libs"
    by (rule memory_upholds) (auto simp: deletion_shield_def covers_def Let_def)
  have "?I (env (start protected_world))"
    by (simp add: stored_def world_view_def only_def protected_world_def protected_def example_simps)
  moreover have "pe_libs example_process = example_libs" "be_libs example_bearer = example_libs"
    by (simp_all add: example_process_def example_bearer_def)
  ultimately have "?I (env t)"
    using protected_object_survives [OF sv _ _ example_host run] libs by simp
  with sv call show ?thesis by blast
qed

theorem gitops_guard_holds_witness:
  "\<exists>sv tr sc t. NewServer example_process example_oauth_libs guarded_options [] = (Inr sv, tr)
     \<and> tool_call example_env example_bearer (sv_tools sv) (sv_context sv, start owned_world) (sc, t)
     \<and> world_view (env t) ''Cluster'' ''org'' ''demo'' = Some (C_Meta (example_cluster ''demo'' [(fluxKustomizationNameLabel, ''apps'')]))"
proof -
  let ?m = "C_Meta (example_cluster ''demo'' [(fluxKustomizationNameLabel, ''apps'')])"
  obtain sv tr where sv: "NewServer example_process example_oauth_libs guarded_options [] = (Inr sv, tr)"
    and tools: "sv_tools sv = BuildAllTools (so_WritePolicy guarded_options)"
    using guarded_server_built by blast
  have "offered_delete \<in> set (sv_tools sv)" using offered_delete(1) tools by simp
  then obtain sc t where call: "tool_call example_env example_bearer (sv_tools sv)
      (sv_context sv, start owned_world) (sc, t)"
    and run: "(tool_call example_env example_bearer (sv_tools sv))\<^sup>*\<^sup>* (sv_context sv, start owned_world) (sc, t)"
    by (rule forced_delete_called)
  let ?I = "stored world_view ''Cluster'' ''org'' ''demo'' (\<lambda>m. m = ?m)"
  have "managed ?m"
    by (simp add: managed_def first_marker_def marker_order_def example_cluster_def meta_def mget_def)
  then have libs: "libs_make (upholds ?I (owned_shield ''Cluster'' ''org'' ''demo'')) example_libs"
    by (intro memory_upholds) (auto simp: owned_shield_def covers_def guarded_kinds_def Let_def)
  have "?I (env (start owned_world))"
    by (simp add: stored_def world_view_def only_def owned_world_def example_simps)
  moreover have "pe_libs example_process = example_libs" "be_libs example_bearer = example_libs"
    "so_GitOpsGuard guarded_options"
    by (simp_all add: example_process_def example_bearer_def guarded_options_def)
  ultimately have "?I (env t)"
    using gitops_guard_holds [OF sv _ _ _ example_host run] libs by simp
  then have "world_view (env t) ''Cluster'' ''org'' ''demo'' = Some ?m"
    by (simp add: stored_def split: option.splits)
  with sv call show ?thesis by blast
qed


end
