(* ===== verification/Capi_Footprint.thy ===== *)
theory Capi_Footprint
  imports Capi_Server
begin

section \<open>What each tool may ask of the API server\<close>

text \<open>
  The footprint of a tool: the verbs and kinds of the requests it can make, whatever its arguments,
  the client and the answers.  It is the permission a caller needs for the tool, and what a reader
  can check a role against.  The collection \<open>reach\<close> has the footprints of the client's operations.
\<close>

type_synonym effect = "verb \<times> string"

definition allows :: "effect list \<Rightarrow> request \<Rightarrow> bool" where
  "allows es q \<longleftrightarrow> List.member es (rq_verb q, rq_kind q)"

definition covered :: "effect list \<Rightarrow> effect list \<Rightarrow> bool" where
  "covered es fs \<longleftrightarrow> list_all (List.member es) fs"

named_theorems reach \<open>the requests of an operation, by verb and kind\<close>

lemma covered_simps [simp]: "covered es []" "covered es (f # fs) \<longleftrightarrow> List.member es f \<and> covered es fs"
  by (simp_all add: covered_def)

lemma allows_simp [simp]: "allows es (Request v k ns n) = List.member es (v, k)"
  by (simp add: allows_def)

subsection \<open>The operations of the client\<close>

lemma reach_ListClusters [reach]:
  shows
    "covered es [(VList, ''Cluster'')] \<Longrightarrow> emits (allows es) (ListClusters c ns sel)"
    "covered es [(VList, ''Cluster'')] \<Longrightarrow> emits (allows es) (FindClustersByLabelValue c ns v)"
    "covered es [(VGet, ''Cluster'')] \<Longrightarrow> emits (allows es) (GetCluster c ns n)"
    "covered es [(VGet, ''Cluster'')] \<Longrightarrow> emits (allows es) (fetch_cluster c ns n)"
    "covered es [(VGet, ''Cluster'')] \<Longrightarrow> emits (allows es) (MoveCluster c mo)"
    "covered es [(VGet, ''Cluster'')] \<Longrightarrow> emits (allows es) (BackupCluster c bo)"
    "covered es [(VGet, ''Cluster'')] \<Longrightarrow> emits (allows es) (GetProviderForCluster c ns n)"
  unfolding ListClusters_def FindClustersByLabelValue_def GetCluster_def fetch_cluster_def MoveCluster_def BackupCluster_def GetProviderForCluster_def Let_def
  by (rule emits reach | simp)+

lemma reach_ListMachines [reach]:
  shows
    "covered es [(VList, ''Machine'')] \<Longrightarrow> emits (allows es) (ListMachines c ns cn)"
    "covered es [(VGet, ''Machine'')] \<Longrightarrow> emits (allows es) (GetMachine c ns n)"
    "covered es [(VList, ''MachineDeployment'')] \<Longrightarrow> emits (allows es) (ListMachineDeployments c ns cn)"
    "covered es [(VGet, ''MachineDeployment'')] \<Longrightarrow> emits (allows es) (GetMachineDeployment c ns n)"
    "covered es [(VList, ''MachineSet'')] \<Longrightarrow> emits (allows es) (ListMachineSets c ns cn)"
    "covered es [(VGet, ''MachineSet'')] \<Longrightarrow> emits (allows es) (GetMachineSet c ns n)"
    "covered es [(VGet, ''KubeadmControlPlane'')] \<Longrightarrow> emits (allows es) (GetKubeadmControlPlane c ns n)"
  unfolding ListMachines_def GetMachine_def ListMachineDeployments_def GetMachineDeployment_def ListMachineSets_def GetMachineSet_def GetKubeadmControlPlane_def
  by (rule emits reach | simp)+

lemma reach_ListClusterResourceSets [reach]:
  shows
    "covered es [(VList, ''ClusterResourceSet'')] \<Longrightarrow> emits (allows es) (ListClusterResourceSets c ns)"
    "covered es [(VGet, ''ClusterResourceSet'')] \<Longrightarrow> emits (allows es) (GetClusterResourceSet c ns n)"
    "covered es [(VGet, ''Node'')] \<Longrightarrow> emits (allows es) (get_node c n)"
    "covered es [(VList, ''Pod'')] \<Longrightarrow> emits (allows es) (list_node_pods c n)"
    "covered es [(VGet, ''Machine'')] \<Longrightarrow> emits (allows es) (resolveNodeName c opts)"
  unfolding ListClusterResourceSets_def GetClusterResourceSet_def get_node_def list_node_pods_def resolveNodeName_def
  by (rule emits reach | simp)+

lemma reach_control_plane_version [reach]:
  shows
    "covered es [(VGet, ''KubeadmControlPlane'')] \<Longrightarrow> emits (allows es) (control_plane_version c ns cl st)"
    "covered es [(VGet, ''KubeadmControlPlane'')] \<Longrightarrow> emits (allows es) (GetClusterStatusFromList c cl ms)"
    "covered es [(VGet, ''Machine''), (VGet, ''Node'')] \<Longrightarrow> emits (allows es) (GetNodeStatus c opts)"
    "covered es [(VGet, ''Cluster''), (VGet, ''Secret'')] \<Longrightarrow> emits (allows es) (readKubeconfig c ns n)"
    "covered es [(VGet, ''Cluster''), (VGet, ''Secret'')] \<Longrightarrow> emits (allows es) (GetKubeconfig c ns n)"
    "covered es [(VGet, ''MachineDeployment'')] \<Longrightarrow> emits (allows es) (resolveMachineDeploymentTopologyName c ns n)"
  unfolding GetClusterStatusFromList_def control_plane_version_def GetNodeStatus_def readKubeconfig_def GetKubeconfig_def resolveMachineDeploymentTopologyName_def Let_def
  by (rule emits reach | simp)+

lemma reach_GetClusterStatus [reach]:
  shows
    "covered es [(VGet, ''Cluster''), (VList, ''Machine''), (VGet, ''KubeadmControlPlane'')] \<Longrightarrow> emits (allows es) (GetClusterStatus c ns n)"
    "covered es [(VGet, ''Cluster''), (VList, ''Machine''), (VGet, ''KubeadmControlPlane'')] \<Longrightarrow> emits (allows es) (GetClusterHealth c ns n)"
  unfolding GetClusterHealth_def GetClusterStatus_def Let_def
  by (rule emits reach | simp)+

lemma reach_ExecKubectl [reach]:
  shows
    "covered es [(VGet, ''Cluster''), (VGet, ''Secret'')] \<Longrightarrow> emits (allows es) (ExecKubectl h c ns n args imp stdin)"
    "covered es [(VGet, ''Cluster''), (VGet, ''Secret'')] \<Longrightarrow> emits (allows es) (ExecHelm h c ns n args)"
  unfolding os_create_temp_def os_write_def os_close_def os_remove_def os_run_def exec_shapes cli_shape_def resolveWorkloadKubeconfigFile_def kubeconfig_file_def
  by (rule emits reach | simp only: split_paired_all prod.case | simp)+

lemma reach_PauseCluster [reach]:
  shows
    "covered es [(VGet, ''Cluster''), (VUpdate, ''Cluster'')] \<Longrightarrow> emits (allows es) (PauseCluster c ns n)"
    "covered es [(VGet, ''Cluster''), (VUpdate, ''Cluster'')] \<Longrightarrow> emits (allows es) (ResumeCluster c ns n)"
    "covered es [(VGet, ''Cluster''), (VUpdate, ''Cluster'')] \<Longrightarrow> emits (allows es) (UpdateCluster c uo)"
    "covered es [(VGet, ''Cluster''), (VDelete, ''Cluster'')] \<Longrightarrow> emits (allows es) (DeleteCluster c ns n)"
    "covered es [(VGet, ''ClusterClass''), (VCreate, ''Cluster'')] \<Longrightarrow> emits (allows es) (CreateCluster marshal c co)"
  unfolding PauseCluster_def ResumeCluster_def UpdateCluster_def DeleteCluster_def CreateCluster_def
  by (rule emits reach | simp)+

lemma reach_DeleteMachine [reach]:
  shows
    "covered es [(VGet, ''Machine''), (VDelete, ''Machine'')] \<Longrightarrow> emits (allows es) (DeleteMachine c dmo)"
    "covered es [(VGet, ''Machine''), (VUpdate, ''Machine'')] \<Longrightarrow> emits (allows es) (RemediateMachine c ns n)"
    "covered es [(VCreate, ''MachineDeployment'')] \<Longrightarrow> emits (allows es) (CreateMachineDeployment c cmo)"
    "covered es [(VGet, ''MachineDeployment''), (VUpdate, ''MachineDeployment'')] \<Longrightarrow> emits (allows es) (UpdateMachineDeployment c umo)"
    "covered es [(VGet, ''MachineDeployment''), (VUpdate, ''MachineDeployment'')] \<Longrightarrow> emits (allows es) (RolloutMachineDeployment c ns n why)"
    "covered es [(VGet, ''MachineDeployment''), (VUpdate, ''MachineDeployment'')] \<Longrightarrow> emits (allows es) (ScaleMachineDeployment c ns n r)"
    "covered es [(VGet, ''KubeadmControlPlane''), (VUpdate, ''KubeadmControlPlane'')] \<Longrightarrow> emits (allows es) (ScaleControlPlane c ns n r)"
  unfolding DeleteMachine_def RemediateMachine_def CreateMachineDeployment_def UpdateMachineDeployment_def RolloutMachineDeployment_def ScaleMachineDeployment_def ScaleControlPlane_def
  by (rule emits reach | simp)+

lemma reach_UpgradeCluster [reach]:
  shows
    "covered es [(VGet, ''Cluster''), (VGet, ''KubeadmControlPlane''), (VUpdate, ''KubeadmControlPlane''), (VList, ''MachineDeployment''), (VUpdate, ''MachineDeployment'')] \<Longrightarrow> emits (allows es) (UpgradeCluster c ug)"
    "covered es [(VGet, ''Cluster''), (VUpdate, ''Cluster''), (VGet, ''KubeadmControlPlane''), (VUpdate, ''KubeadmControlPlane''), (VGet, ''MachineDeployment''), (VUpdate, ''MachineDeployment'')] \<Longrightarrow> emits (allows es) (ScaleCluster c ns n target rs md)"
  unfolding UpgradeCluster_def upgrade_control_plane_def upgrade_worker_def ScaleCluster_def scaleClusterTopology_def scaled_topology_def Let_def
  by (rule emits reach | simp)+

lemma reach_setUnschedulable [reach]:
  shows
    "covered es [(VGet, ''Node''), (VUpdate, ''Node'')] \<Longrightarrow> emits (allows es) (setUnschedulable c n b)"
    "covered es [(VGet, ''Machine''), (VGet, ''Node''), (VUpdate, ''Node'')] \<Longrightarrow> emits (allows es) (CordonNode c opts)"
  unfolding CordonNode_def setUnschedulable_def
  by (rule emits reach | simp)+

lemma reach_CreateClusterResourceSet [reach]:
  shows
    "covered es [(VCreate, ''Secret''), (VGet, ''Secret''), (VUpdate, ''Secret''), (VCreate, ''ConfigMap''), (VGet, ''ConfigMap''), (VUpdate, ''ConfigMap''), (VCreate, ''ClusterResourceSet'')] \<Longrightarrow> emits (allows es) (CreateClusterResourceSet c ro)"
    "covered es [(VGet, ''ClusterResourceSet''), (VDelete, ''ClusterResourceSet'')] \<Longrightarrow> emits (allows es) (DeleteClusterResourceSet c ns n)"
  unfolding CreateClusterResourceSet_def DeleteClusterResourceSet_def write_resource_def createOrUpdateResourceSetSecret_def createOrUpdateResourceSetConfigMap_def
  by (rule emits reach | simp)+

subsection \<open>The footprints of the tools\<close>

definition footprints :: "(string \<times> effect list) list" where
  "footprints = [
     (''CreateCreateClusterHandler'', [(VGet, ''ClusterClass''), (VCreate, ''Cluster'')]),
     (''CreateListClustersHandler'', [(VList, ''Cluster''), (VList, ''Machine''), (VGet, ''KubeadmControlPlane'')]),
     (''CreateGetClusterHandler'', [(VGet, ''Cluster''), (VList, ''Machine''), (VGet, ''KubeadmControlPlane''), (VList, ''Cluster'')]),
     (''CreateClusterStatusHandler'', [(VGet, ''Cluster''), (VList, ''Machine''), (VGet, ''KubeadmControlPlane'')]),
     (''CreateClusterHealthHandler'', [(VGet, ''Cluster''), (VList, ''Machine''), (VGet, ''KubeadmControlPlane'')]),
     (''CreateScaleClusterHandler'', [(VGet, ''Cluster''), (VUpdate, ''Cluster''), (VGet, ''KubeadmControlPlane''), (VUpdate, ''KubeadmControlPlane''), (VGet, ''MachineDeployment''), (VUpdate, ''MachineDeployment'')]),
     (''CreateGetKubeconfigHandler'', [(VGet, ''Cluster''), (VGet, ''Secret'')]),
     (''CreateKubectlHandler'', [(VGet, ''Cluster''), (VGet, ''Secret'')]),
     (''CreateHelmHandler'', [(VGet, ''Cluster''), (VGet, ''Secret'')]),
     (''CreatePauseClusterHandler'', [(VGet, ''Cluster''), (VUpdate, ''Cluster'')]),
     (''CreateResumeClusterHandler'', [(VGet, ''Cluster''), (VUpdate, ''Cluster'')]),
     (''CreateDeleteClusterHandler'', [(VGet, ''Cluster''), (VList, ''Machine''), (VGet, ''KubeadmControlPlane''), (VDelete, ''Cluster'')]),
     (''CreateUpgradeClusterHandler'', [(VGet, ''Cluster''), (VList, ''Machine''), (VGet, ''KubeadmControlPlane''), (VUpdate, ''KubeadmControlPlane''), (VList, ''MachineDeployment''), (VUpdate, ''MachineDeployment'')]),
     (''CreateUpdateClusterHandler'', [(VGet, ''Cluster''), (VUpdate, ''Cluster'')]),
     (''CreateMoveClusterHandler'', [(VGet, ''Cluster'')]),
     (''CreateBackupClusterHandler'', [(VGet, ''Cluster'')]),
     (''CreateCreateClusterResourceSetHandler'', [(VCreate, ''Secret''), (VGet, ''Secret''), (VUpdate, ''Secret''), (VCreate, ''ConfigMap''), (VGet, ''ConfigMap''), (VUpdate, ''ConfigMap''), (VCreate, ''ClusterResourceSet'')]),
     (''CreateListClusterResourceSetsHandler'', [(VList, ''ClusterResourceSet'')]),
     (''CreateGetClusterResourceSetHandler'', [(VGet, ''ClusterResourceSet'')]),
     (''CreateDeleteClusterResourceSetHandler'', [(VGet, ''ClusterResourceSet''), (VDelete, ''ClusterResourceSet'')]),
     (''CreateListMachinesHandler'', [(VList, ''Machine'')]),
     (''CreateGetMachineHandler'', [(VGet, ''Machine'')]),
     (''CreateDeleteMachineHandler'', [(VGet, ''Machine''), (VDelete, ''Machine'')]),
     (''CreateRemediateMachineHandler'', [(VGet, ''Machine''), (VUpdate, ''Machine'')]),
     (''CreateListMachineDeploymentsHandler'', [(VList, ''MachineDeployment'')]),
     (''CreateCreateMachineDeploymentHandler'', [(VCreate, ''MachineDeployment'')]),
     (''CreateScaleMachineDeploymentHandler'', [(VList, ''MachineDeployment''), (VGet, ''MachineDeployment''), (VUpdate, ''MachineDeployment'')]),
     (''CreateUpdateMachineDeploymentHandler'', [(VGet, ''MachineDeployment''), (VUpdate, ''MachineDeployment'')]),
     (''CreateRolloutMachineDeploymentHandler'', [(VGet, ''MachineDeployment''), (VUpdate, ''MachineDeployment'')]),
     (''CreateListMachineSetsHandler'', [(VList, ''MachineSet'')]),
     (''CreateGetMachineSetHandler'', [(VGet, ''MachineSet'')]),
     (''CreateDrainNodeHandler'', [(VGet, ''Machine''), (VGet, ''Node''), (VUpdate, ''Node''), (VList, ''Pod''), (VEvict, ''Pod''), (VGet, ''Pod'')]),
     (''CreateCordonNodeHandler'', [(VGet, ''Machine''), (VGet, ''Node''), (VUpdate, ''Node'')]),
     (''CreateNodeStatusHandler'', [(VGet, ''Machine''), (VGet, ''Node'')]),
     (''CreateListInfrastructureProvidersHandler'', []),
     (''CreateGetProviderConfigHandler'', []),
     (''CreateAWSListClustersHandler'', [(VList, ''Cluster'')]),
     (''CreateAWSGetClusterHandler'', [(VGet, ''Cluster'')]),
     (''CreateAWSGetMachineTemplateHandler'', [(VList, ''MachineDeployment'')]),
     (''CreateAzureListClustersHandler'', [(VList, ''Cluster'')]),
     (''CreateAzureGetClusterHandler'', [(VGet, ''Cluster'')]),
     (''CreateGCPListClustersHandler'', [(VList, ''Cluster'')]),
     (''CreateGCPGetClusterHandler'', [(VGet, ''Cluster'')]),
     (''CreateVSphereListClustersHandler'', [(VList, ''Cluster'')]),
     (''CreateVSphereGetClusterHandler'', [(VGet, ''Cluster'')])]"

lemma reach_loops [reach]:
  "covered es [(VGet, ''KubeadmControlPlane'')] \<Longrightarrow> emits (allows es) (list_summaries c g cls)"
  "covered es [(VGet, ''Cluster''), (VList, ''Machine''), (VGet, ''KubeadmControlPlane'')] \<Longrightarrow>
     emits (allows es) (candidate_summaries c cls)"
  by (induction cls) (simp_all, (rule emits reach | simp)+)

lemma emits_list_case [emits]:
  "emits P a \<Longrightarrow> (\<And>y ys. emits P (b y ys)) \<Longrightarrow> emits P (case xs of [] \<Rightarrow> a | y # ys \<Rightarrow> b y ys)"
  by (cases xs) simp_all

text \<open>The handlers, each within its entry of the table.\<close>

lemma cluster_handler_reach:
  "emits (allows [(VGet, ''ClusterClass''), (VCreate, ''Cluster'')]) (CreateCreateClusterHandler marshal fi cl args)"
  "emits (allows [(VList, ''Cluster''), (VList, ''Machine''), (VGet, ''KubeadmControlPlane'')]) (CreateListClustersHandler cl args)"
  "emits (allows [(VGet, ''Cluster''), (VList, ''Machine''), (VGet, ''KubeadmControlPlane''), (VList, ''Cluster'')]) (CreateGetClusterHandler cl args)"
  "emits (allows [(VGet, ''Cluster''), (VList, ''Machine''), (VGet, ''KubeadmControlPlane'')]) (CreateClusterStatusHandler cl args)"
  "emits (allows [(VGet, ''Cluster''), (VList, ''Machine''), (VGet, ''KubeadmControlPlane'')]) (CreateClusterHealthHandler cl args)"
  "emits (allows [(VGet, ''Cluster''), (VUpdate, ''Cluster''), (VGet, ''KubeadmControlPlane''), (VUpdate, ''KubeadmControlPlane''), (VGet, ''MachineDeployment''), (VUpdate, ''MachineDeployment'')]) (CreateScaleClusterHandler fi cl args)"
  "emits (allows [(VGet, ''Cluster''), (VGet, ''Secret'')]) (CreateGetKubeconfigHandler cl args)"
  "emits (allows [(VGet, ''Cluster''), (VGet, ''Secret'')]) (CreateKubectlHandler h cl args)"
  "emits (allows [(VGet, ''Cluster''), (VGet, ''Secret'')]) (CreateHelmHandler h cl args)"
  "emits (allows [(VGet, ''Cluster''), (VUpdate, ''Cluster'')]) (CreatePauseClusterHandler cl args)"
  "emits (allows [(VGet, ''Cluster''), (VUpdate, ''Cluster'')]) (CreateResumeClusterHandler cl args)"
  "emits (allows [(VGet, ''Cluster''), (VList, ''Machine''), (VGet, ''KubeadmControlPlane''), (VDelete, ''Cluster'')]) (CreateDeleteClusterHandler cl args)"
  "emits (allows [(VGet, ''Cluster''), (VList, ''Machine''), (VGet, ''KubeadmControlPlane''), (VUpdate, ''KubeadmControlPlane''), (VList, ''MachineDeployment''), (VUpdate, ''MachineDeployment'')]) (CreateUpgradeClusterHandler cl args)"
  "emits (allows [(VGet, ''Cluster''), (VUpdate, ''Cluster'')]) (CreateUpdateClusterHandler cl args)"
  "emits (allows [(VGet, ''Cluster'')]) (CreateMoveClusterHandler cl args)"
  "emits (allows [(VGet, ''Cluster'')]) (CreateBackupClusterHandler cl args)"
  unfolding handler_defs Let_def
  by (rule emits reach | simp)+

lemma resource_set_handler_reach:
  "emits (allows [(VCreate, ''Secret''), (VGet, ''Secret''), (VUpdate, ''Secret''), (VCreate, ''ConfigMap''), (VGet, ''ConfigMap''), (VUpdate, ''ConfigMap''), (VCreate, ''ClusterResourceSet'')]) (CreateCreateClusterResourceSetHandler cl args)"
  "emits (allows [(VList, ''ClusterResourceSet'')]) (CreateListClusterResourceSetsHandler cl args)"
  "emits (allows [(VGet, ''ClusterResourceSet'')]) (CreateGetClusterResourceSetHandler cl args)"
  "emits (allows [(VGet, ''ClusterResourceSet''), (VDelete, ''ClusterResourceSet'')]) (CreateDeleteClusterResourceSetHandler cl args)"
  unfolding handler_defs Let_def
  by (rule emits reach | simp)+

lemma machine_handler_reach:
  "emits (allows [(VList, ''Machine'')]) (CreateListMachinesHandler cl args)"
  "emits (allows [(VGet, ''Machine'')]) (CreateGetMachineHandler cl args)"
  "emits (allows [(VGet, ''Machine''), (VDelete, ''Machine'')]) (CreateDeleteMachineHandler cl args)"
  "emits (allows [(VGet, ''Machine''), (VUpdate, ''Machine'')]) (CreateRemediateMachineHandler cl args)"
  "emits (allows [(VList, ''MachineDeployment'')]) (CreateListMachineDeploymentsHandler cl args)"
  "emits (allows [(VCreate, ''MachineDeployment'')]) (CreateCreateMachineDeploymentHandler fi cl args)"
  "emits (allows [(VList, ''MachineDeployment''), (VGet, ''MachineDeployment''), (VUpdate, ''MachineDeployment'')]) (CreateScaleMachineDeploymentHandler fi cl args)"
  "emits (allows [(VGet, ''MachineDeployment''), (VUpdate, ''MachineDeployment'')]) (CreateUpdateMachineDeploymentHandler fi cl args)"
  "emits (allows [(VGet, ''MachineDeployment''), (VUpdate, ''MachineDeployment'')]) (CreateRolloutMachineDeploymentHandler cl args)"
  "emits (allows [(VList, ''MachineSet'')]) (CreateListMachineSetsHandler cl args)"
  "emits (allows [(VGet, ''MachineSet'')]) (CreateGetMachineSetHandler cl args)"
  "emits (allows [(VGet, ''Machine''), (VGet, ''Node''), (VUpdate, ''Node'')]) (CreateCordonNodeHandler cl args)"
  "emits (allows [(VGet, ''Machine''), (VGet, ''Node'')]) (CreateNodeStatusHandler rfc cl args)"
  unfolding handler_defs Let_def
  by (rule emits reach | simp)+

lemma provider_handler_reach:
  "emits (allows []) CreateListInfrastructureProvidersHandler"
  "emits (allows []) (CreateGetProviderConfigHandler args)"
  "emits (allows [(VList, ''Cluster'')]) (CreateAWSListClustersHandler cl args)"
  "emits (allows [(VGet, ''Cluster'')]) (CreateAWSGetClusterHandler cl args)"
  "emits (allows [(VList, ''MachineDeployment'')]) (CreateAWSGetMachineTemplateHandler cl args)"
  "emits (allows [(VList, ''Cluster'')]) (CreateAzureListClustersHandler cl args)"
  "emits (allows [(VGet, ''Cluster'')]) (CreateAzureGetClusterHandler cl args)"
  "emits (allows [(VList, ''Cluster'')]) (CreateGCPListClustersHandler cl args)"
  "emits (allows [(VGet, ''Cluster'')]) (CreateGCPGetClusterHandler cl args)"
  "emits (allows [(VList, ''Cluster'')]) (CreateVSphereListClustersHandler cl args)"
  "emits (allows [(VGet, ''Cluster'')]) (CreateVSphereGetClusterHandler cl args)"
  unfolding handler_defs CreateListInfrastructureProvidersHandler_def CreateGetProviderConfigHandler_def Let_def
  by (rule emits reach | simp)+

subsection \<open>The drain\<close>

lemma drain_reach:
  assumes "DrainNode c opts s = Some (r, t)"
    and cov: "covered es [(VGet, ''Machine''), (VGet, ''Node''), (VUpdate, ''Node''), (VList, ''Pod''), (VEvict, ''Pod''), (VGet, ''Pod'')]"
  shows "ran (allows es) s t"
proof -
  obtain res err where r: "r = (res, err)" by fastforce
  have "emits (allows es) (cordon_node c opts)" for opts
    unfolding cordon_node_def using cov by (rule_tac emits reach | simp)+
  note cordon = emits_ran [OF this]
  have "emits (allows es) (timed_list c d n)" for d n
    unfolding timed_list_def using cov by (rule_tac emits reach | simp)+
  note listing = emits_ran [OF this]
  have pods: "evicts ps q \<Longrightarrow> allows es q" "pod_read q \<Longrightarrow> allows es q" for ps q
    using cov by (auto simp: evicts_def eviction_def allows_def pod_read_def)
  from assms(1) [unfolded r] show ?thesis
  proof (cases rule: DrainNode_cases)
    case (evicting n s1 pods u ev sk evd eerr v)
    have "ran (allows es) s s1" by (rule cordon [OF evicting(1)])
    also have "ran (allows es) s1 u" by (rule listing [OF evicting(2)])
    also have "ran (allows es) u v"
      by (rule ran_mono [OF evictPods_result(1) [OF evicting(4)]]) (rule pods)
    also have "ran (allows es) v t"
      by (rule ran_mono [OF drain_end_result(1) [OF evicting(5)]]) (rule pods)
    finally show ?thesis .
  qed (use cordon listing ran_trans in blast)+
qed

subsection \<open>Every handler stays within the table\<close>

definition handler_within :: "effect list \<Rightarrow> 'w tool_handler \<Rightarrow> bool" where
  "handler_within es h = (case h of
       WithoutClient f \<Rightarrow> (\<forall>args. emits (allows es) (f args))
     | WithClient f \<Rightarrow> (\<forall>cl args s r t. f cl args s = Some (r, t) \<longrightarrow> ran (allows es) s t))"

lemma within_returning: "(\<And>cl args. emits (allows es) (h cl args)) \<Longrightarrow> handler_within es (returning h)"
  by (auto simp: handler_within_def returning_def intro: emits_ran)

lemma within_without: "(\<And>args. emits (allows es) (f args)) \<Longrightarrow> handler_within es (WithoutClient f)"
  by (simp add: handler_within_def)

lemma within_drain: "handler_within [(VGet, ''Machine''), (VGet, ''Node''), (VUpdate, ''Node''), (VList, ''Pod''), (VEvict, ''Pod''), (VGet, ''Pod'')] (WithClient (CreateDrainNodeHandler fi))"
  unfolding handler_within_def CreateDrainNodeHandler_def
  by (auto simp: tool_error_def retE_def failE_def intro!: drain_reach split: sum.splits if_splits option.splits)

text \<open>The table lists the handlers in the order of the registry.\<close>

lemma handlers_within:
  "list_all2 (\<lambda>(n, h) (m, es). n = m \<and> handler_within es h) (handlers e) footprints"
  unfolding handlers_def cluster_handlers_def resource_set_handlers_def machine_handlers_def provider_handlers_def
    footprints_def append_Cons append_Nil list_all2_Cons list_all2_Nil prod.case
  by (intro conjI refl TrueI within_returning within_without within_drain
      cluster_handler_reach resource_set_handler_reach machine_handler_reach provider_handler_reach)

lemma list_all2_map_of:
  "list_all2 (\<lambda>(n, h) (m, es). n = m \<and> P h es) xs ys \<Longrightarrow> map_of xs n = Some h \<Longrightarrow>
     \<exists>es. map_of ys n = Some es \<and> P h es"
  by (induction xs ys rule: list_all2_induct) (auto split: if_splits)

lemma handler_footprint:
  assumes "handler_of e r = Some h"
  obtains es where "map_of footprints (TR_Handler r) = Some es" and "handler_within es h"
  using list_all2_map_of [OF handlers_within] assms unfolding handler_of_def by blast

lemma within_run:
  assumes "handler_within es h" and "run_handler b now ctx h args (sc, s) = Some (res, sc', t)"
  shows "ran (allows es) s t"
  using assms(2)
  by (cases rule: run_handler_cases) (use assms(1) in \<open>auto simp: handler_within_def intro: emits_ran\<close>)

subsection \<open>Properties\<close>

lemma classes_match_footprints:
  "list_all (\<lambda>r. case map_of footprints (TR_Handler r) of
       None \<Rightarrow> False
     | Some es \<Rightarrow> IsMutatingTool (TR_Name r)
         = (list_ex (\<lambda>(v, k). verb_writes v) es \<or> List.member [''capi_kubectl'', ''capi_helm''] (TR_Name r))) buildTools"
  by code_simp

text \<open>
  C10. Whatever its caller, its arguments and the answers of the API server, a call of an offered tool
  makes only requests of the verbs and kinds of the tool's footprint; and a tool is classified as
  mutating exactly when its footprint has a write or it runs a command against a workload cluster.
\<close>

theorem tool_footprints:
  assumes "r \<in> set (BuildAllTools p)" and "handler_of e r = Some h"
    and "run_handler b now ctx h args (sc, s) = Some (res, sc', t)"
  shows "\<exists>es. map_of footprints (TR_Handler r) = Some es \<and> ran (allows es) s t
     \<and> IsMutatingTool (TR_Name r)
         = (list_ex (\<lambda>(v, k). verb_writes v) es \<or> List.member [''capi_kubectl'', ''capi_helm''] (TR_Name r))"
proof -
  obtain es where es: "map_of footprints (TR_Handler r) = Some es" "handler_within es h"
    using handler_footprint [OF assms(2)] by blast
  obtain r0 where "r0 \<in> set buildTools" "TR_Name r = TR_Name r0" "TR_Handler r = TR_Handler r0"
    using filter_tools_sub assms(1) unfolding BuildAllTools_def by blast
  with classes_match_footprints es(1) have "IsMutatingTool (TR_Name r)
      = (list_ex (\<lambda>(v, k). verb_writes v) es \<or> List.member [''capi_kubectl'', ''capi_helm''] (TR_Name r))"
    by (fastforce simp: list_all_iff)
  with es(1) within_run [OF es(2) assms(3)] show ?thesis by blast
qed

text \<open>The tools whose footprint has a request for Secrets.\<close>

definition secret_tools :: "string list" where
  "secret_tools = [''capi_kubectl'', ''capi_helm'', ''capi_get_kubeconfig'', ''capi_create_cluster_resource_set'']"

definition reads_secrets :: "ToolRegistration \<Rightarrow> bool" where
  "reads_secrets r \<longleftrightarrow> List.member secret_tools (TR_Name r)"

lemma secret_footprints:
  "list_all (\<lambda>r. List.member secret_tools (TR_Name r)
     \<or> (case map_of footprints (TR_Handler r) of None \<Rightarrow> False | Some es \<Rightarrow> list_all (\<lambda>(v, k). k \<noteq> ''Secret'') es)) buildTools"
  by code_simp

lemma secretless_footprint:
  assumes "r \<in> set (BuildAllTools p)" and "\<not> reads_secrets r" and "map_of footprints (TR_Handler r) = Some es"
  shows "allows es q \<Longrightarrow> rq_kind q \<noteq> ''Secret''"
  using secret_footprints filter_tools_sub [of r p buildTools] assms
  by (fastforce simp: list_all_iff BuildAllTools_def reads_secrets_def allows_def)

text \<open>
  C11. A server that may not expose kubeconfigs does not offer the tool that returns one, and over any
  sequence of calls to its tools other than kubectl, helm and the creation of resource sets it makes no
  request for a Secret of any name.
\<close>

theorem secrets_unread:
  assumes "\<not> ExposeKubeconfig p"
    and "(tool_call e b (filter (\<lambda>r. \<not> List.member [''capi_kubectl'', ''capi_helm'', ''capi_create_cluster_resource_set''] (TR_Name r))
            (BuildAllTools p)))\<^sup>*\<^sup>* (sc, s) (sc', t)"
  shows "ran (\<lambda>q. rq_kind q \<noteq> ''Secret'') s t \<and> \<not> List.member (map TR_Name (BuildAllTools p)) ''capi_get_kubeconfig''"
proof
  have "\<not> offered p ''capi_get_kubeconfig''"
  proof -
    have "\<not> IsReadOnlyTool ''capi_get_kubeconfig'' \<and> \<not> IsMutatingTool ''capi_get_kubeconfig''" by code_simp
    with assms(1) show ?thesis by (simp add: offered_def)
  qed
  then show unoffered: "\<not> List.member (map TR_Name (BuildAllTools p)) ''capi_get_kubeconfig''"
    using filter_tools_names [OF registry_classified, of p] by (simp add: BuildAllTools_def)
  show "ran (\<lambda>q. rq_kind q \<noteq> ''Secret'') s t"
    using assms(2)
  proof (induction "(sc', t)" arbitrary: sc' t rule: rtranclp_induct)
    case (step y)
    obtain sc1 u where y: "y = (sc1, u)" by fastforce
    from step y have "ran (\<lambda>q. rq_kind q \<noteq> ''Secret'') s u" by simp
    also from step(2) [unfolded y] have "ran (\<lambda>q. rq_kind q \<noteq> ''Secret'') u t"
    proof (cases rule: tool_call.cases)
      case (call r h now ctx args res)
      have r: "r \<in> set (BuildAllTools p)" using call(1) by simp
      then have "TR_Name r \<in> set (map TR_Name (BuildAllTools p))" by simp
      with unoffered have "TR_Name r \<noteq> ''capi_get_kubeconfig''" by auto
      with call(1) have nosec: "\<not> reads_secrets r" by (auto simp: reads_secrets_def secret_tools_def)
      obtain es where es: "map_of footprints (TR_Handler r) = Some es" "handler_within es h"
        using handler_footprint [OF call(2)] by blast
      have "ran (allows es) u t" by (rule within_run [OF es(2) call(3)])
      then show ?thesis by (rule ran_mono) (rule secretless_footprint [OF r nosec es(1)])
    qed
    finally show ?case .
  qed simp
qed

subsection \<open>Examples\<close>

definition offered_get :: ToolRegistration where
  "offered_get = get_cluster_tool\<lparr>TR_Annotations := Some (annotationsFor ''capi_get_cluster'')\<rparr>"

lemma offered_get:
  "offered_get \<in> set (BuildAllTools p)" "handler_of e offered_get = Some (returning CreateGetClusterHandler)"
  "TR_Name offered_get = ''capi_get_cluster''" "TR_Handler offered_get = ''CreateGetClusterHandler''"
  unfolding offered_get_def using get_cluster_offered by (auto simp: get_cluster_tool_def tool_def)

lemma get_runs:
  obtains res sc' t where "run_handler example_bearer 0 example_ctx (returning CreateGetClusterHandler) args (sc, s)
      = Some (res, sc', t)"
  by (fastforce simp: run_handler_def returning_def split: prod.split)

definition offered_pause :: ToolRegistration where
  "offered_pause = pause_cluster_tool\<lparr>TR_Annotations := Some (annotationsFor ''capi_pause_cluster'')\<rparr>"

lemma offered_pause:
  "offered_pause \<in> set (BuildAllTools open_policy)"
  "handler_of e offered_pause = Some (returning CreatePauseClusterHandler)"
  "TR_Name offered_pause = ''capi_pause_cluster''" "TR_Handler offered_pause = ''CreatePauseClusterHandler''"
proof -
  have "pause_cluster_tool \<in> set buildTools" by (simp add: buildTools_def buildClusterTools_def)
  moreover have name: "TR_Name pause_cluster_tool = ''capi_pause_cluster''" by (simp add: pause_cluster_tool_def tool_def)
  moreover have "\<not> IsCredentialTool ''capi_pause_cluster''" by code_simp
  ultimately show "offered_pause \<in> set (BuildAllTools open_policy)"
    using mutating_tool_offered [of pause_cluster_tool open_policy] by (simp add: offered_pause_def open_policy_def)
  show "handler_of e offered_pause = Some (returning CreatePauseClusterHandler)"
    by (simp add: offered_pause_def pause_cluster_tool_def tool_def handler_of_def handlers_def cluster_handlers_def)
  show "TR_Name offered_pause = ''capi_pause_cluster''" "TR_Handler offered_pause = ''CreatePauseClusterHandler''"
    by (simp_all add: offered_pause_def pause_cluster_tool_def tool_def)
qed

definition pause_world :: world where
  "pause_world = empty_world\<lparr>w_clusters := [example_cluster ''demo'' []]\<rparr>"

lemma pause_runs:
  obtains res sc' t where "run_handler example_bearer 0 example_ctx (returning CreatePauseClusterHandler)
      [(''namespace'', JStr ''org''), (''name'', JStr ''demo'')]
      (NewServerContext (Some (memory_client open_policy)), start pause_world) = Some (res, sc', t)"
    and "requests t = [Request VGet ''Cluster'' ''org'' ''demo'', Request VUpdate ''Cluster'' ''org'' ''demo'']"
  by (simp add: run_handler_def returning_def sc_Client_def NewServerContext_def CreatePauseClusterHandler_def
      with_client_def required_arg_def arg_string_def attempt_def PauseCluster_def pause_world_def example_simps
      fetch_cluster_def CheckUpdate_def policy_check_def ManagedBy_def marker_defs set_annotation_def jsonResult_def
      Let_def del: mhas_iff)

theorem tool_footprints_witness:
  "\<exists>res sc' t. run_handler example_bearer 0 example_ctx (returning CreatePauseClusterHandler)
       [(''namespace'', JStr ''org''), (''name'', JStr ''demo'')]
       (NewServerContext (Some (memory_client open_policy)), start pause_world) = Some (res, sc', t)
     \<and> requests t = [Request VGet ''Cluster'' ''org'' ''demo'', Request VUpdate ''Cluster'' ''org'' ''demo'']
     \<and> list_all (allows [(VGet, ''Cluster''), (VUpdate, ''Cluster'')]) (requests t)
     \<and> IsMutatingTool ''capi_pause_cluster''"
proof -
  obtain res sc' t where run: "run_handler example_bearer 0 example_ctx (returning CreatePauseClusterHandler)
      [(''namespace'', JStr ''org''), (''name'', JStr ''demo'')]
      (NewServerContext (Some (memory_client open_policy)), start pause_world) = Some (res, sc', t)"
    and made: "requests t = [Request VGet ''Cluster'' ''org'' ''demo'', Request VUpdate ''Cluster'' ''org'' ''demo'']"
    by (rule pause_runs)
  from tool_footprints [OF offered_pause(1,2) run]
  have "ran (allows [(VGet, ''Cluster''), (VUpdate, ''Cluster'')]) (start pause_world) t \<and> IsMutatingTool ''capi_pause_cluster''"
    by (auto simp: offered_pause(3,4) footprints_def)
  then have "list_all (allows [(VGet, ''Cluster''), (VUpdate, ''Cluster'')]) (requests t)"
      "IsMutatingTool ''capi_pause_cluster''"
    by (auto simp: ran_def start_def)
  with run made show ?thesis by blast
qed

theorem secrets_unread_witness:
  "\<exists>sc t. tool_call example_env example_bearer (BuildAllTools open_policy)
       (NewServerContext (Some (memory_client open_policy)), start empty_world) (sc, t)
     \<and> ran (\<lambda>q. rq_kind q \<noteq> ''Secret'') (start empty_world) t"
proof -
  let ?sc = "NewServerContext (Some (memory_client open_policy))"
  let ?regs = "filter (\<lambda>r. \<not> List.member [''capi_kubectl'', ''capi_helm'', ''capi_create_cluster_resource_set''] (TR_Name r))
      (BuildAllTools open_policy)"
  obtain res sc' t where run: "run_handler example_bearer 0 example_ctx (returning CreateGetClusterHandler) []
      (?sc, start empty_world) = Some (res, sc', t)"
    by (rule get_runs)
  have "offered_get \<in> set ?regs" using offered_get(1) by (simp add: offered_get(3))
  then have "tool_call example_env example_bearer ?regs (?sc, start empty_world) (sc', t)"
    using offered_get(2) run by (rule tool_call.call)
  then have "(tool_call example_env example_bearer ?regs)\<^sup>*\<^sup>* (?sc, start empty_world) (sc', t)"
    by (rule r_into_rtranclp)
  moreover have "\<not> ExposeKubeconfig open_policy" by (simp add: open_policy_def)
  ultimately have "ran (\<lambda>q. rq_kind q \<noteq> ''Secret'') (start empty_world) t"
    using secrets_unread [of open_policy example_env example_bearer] by blast
  with tool_call.call [OF offered_get(1,2) run] show ?thesis by blast
qed

end
