(* ===== verification/Capi_HTTP.thy ===== *)
theory Capi_HTTP
  imports Capi_Server
begin

section \<open>From an HTTP request to an MCP handler (pkg/mcp/transport.go)\<close>

text \<open>
  What happens to one request of the HTTP transports: \<open>http.MaxBytesHandler\<close> bounds its body, the
  ServeMux of the transport picks a route by its path, and a protected route runs the OAuth
  middleware before the MCP handler.  The rules of \<open>net/http\<close> for literal patterns are written out
  (a mounted pattern with a method, a host or a wildcard is taken as a literal here);
  the validation of a bearer is the parameter of \<open>Protect\<close>.
\<close>

subsection \<open>Routing\<close>

text \<open>A pattern that ends in a slash matches a subtree, any other one path; the longest match wins.\<close>

definition pattern_matches :: "string \<Rightarrow> string \<Rightarrow> bool" where
  "pattern_matches pattern path = (if ends_in_slash pattern then prefix pattern path else pattern = path)"

fun longest_match :: "mux \<Rightarrow> string \<Rightarrow> (string \<times> served) option" where
  "longest_match [] path = None"
| "longest_match ((pattern, h) # routes) path =
     (case longest_match routes path of
        None \<Rightarrow> if pattern_matches pattern path then Some (pattern, h) else None
      | Some (pattern', h') \<Rightarrow>
          if pattern_matches pattern path \<and> length pattern' \<le> length pattern then Some (pattern, h)
          else Some (pattern', h'))"

text \<open>
  \<open>findHandler\<close>: a path without its final slash is redirected to a pattern that has it, unless a
  route matches the path exactly; then a path that is not clean is redirected to the clean one.
\<close>

datatype routed = RedirectTo string | NoRoute | RouteTo served

definition exact_match :: "mux \<Rightarrow> string \<Rightarrow> bool" where
  "exact_match routes path = (case longest_match routes path of None \<Rightarrow> False | Some (pattern, h) \<Rightarrow> pattern = path)"

definition findHandler :: "mux \<Rightarrow> string \<Rightarrow> routed" where
  "findHandler routes given =
     (let path = cleanPath given in
      if \<not> exact_match routes path \<and> \<not> ends_in_slash path \<and> exact_match routes (path @ ''/'')
      then RedirectTo (path @ ''/'')
      else if path \<noteq> given then RedirectTo path
      else (case longest_match routes path of None \<Rightarrow> NoRoute | Some (pattern, h) \<Rightarrow> RouteTo h))"

subsection \<open>One request\<close>

record incoming =
  in_path :: string
  in_body :: string
  in_request :: http_request

text \<open>What a handler behind \<open>MaxBytesHandler\<close> can read of a body, and whether the read then fails.\<close>

definition max_bytes :: "int \<Rightarrow> string \<Rightarrow> string \<times> bool" where
  "max_bytes n body = (take (nat n) body, n < int (length body))"

datatype reply =
    Moved string
  | NotFound404
  | OAuthAnswer
  | Refused nat string
  | Handled endpoint request_ctx "string \<times> bool"

text \<open>
  The handler of \<open>serveWithShutdown\<close>: the bound, the mux, and for a protected endpoint the
  middleware.  \<open>tool_context\<close> is the context function the MCP server was given.
\<close>

definition serve_http :: "(http_request \<Rightarrow> nat \<times> string + http_request) \<Rightarrow> token_store option
    \<Rightarrow> ('w, 's, 'o) Server \<Rightarrow> mux \<Rightarrow> request_ctx \<Rightarrow> incoming \<Rightarrow> reply" where
  "serve_http validate store sv routes base q =
     (case findHandler routes (in_path q) of
        RedirectTo p \<Rightarrow> Moved p
      | NoRoute \<Rightarrow> NotFound404
      | RouteTo h \<Rightarrow> (case h of
            OAuthRoute \<Rightarrow> OAuthAnswer
          | Unprotected ep \<Rightarrow> Handled ep (tool_context sv base (in_request q)) (max_bytes maxBodyBytes (in_body q))
          | Protected ep \<Rightarrow> (case Protect validate store (in_request q) of
                HttpError code msg \<Rightarrow> Refused code msg
              | ServeNext ctx \<Rightarrow> Handled ep (tool_context sv base ((in_request q)\<lparr>hr_ctx := ctx\<rparr>))
                  (max_bytes maxBodyBytes (in_body q)))))"

subsection \<open>Facts about routing\<close>

text \<open>The route picked is mounted, matches, and no mounted pattern that matches is longer.\<close>

lemma longest_match_None: "longest_match routes path = None \<longleftrightarrow> list_all (\<lambda>(p, h). \<not> pattern_matches p path) routes"
  by (induction routes path rule: longest_match.induct) (auto split: option.splits)

lemma longest_match_Some:
  "longest_match routes path = Some (p, h) \<Longrightarrow> (p, h) \<in> set routes \<and> pattern_matches p path
     \<and> (\<forall>(p', h') \<in> set routes. pattern_matches p' path \<longrightarrow> length p' \<le> length p)"
proof (induction routes path arbitrary: p h rule: longest_match.induct)
  case (2 pattern h0 routes path)
  show ?case
  proof (cases "longest_match routes path")
    case None
    then have "\<forall>(p', h') \<in> set routes. \<not> pattern_matches p' path"
      by (auto simp: longest_match_None list_all_iff)
    with 2 None show ?thesis by (auto split: if_splits)
  next
    case (Some r)
    obtain p1 h1 where r: "r = (p1, h1)" by fastforce
    from 2(1) [of p1 h1] Some r 2(2) show ?thesis by (fastforce split: if_splits)
  qed
qed simp

lemma findHandler_route: "findHandler routes path = RouteTo h \<Longrightarrow> \<exists>p. (p, h) \<in> set routes"
  using longest_match_Some by (fastforce simp: findHandler_def Let_def split: if_splits option.splits)

lemma max_bytes_bound: "int (length (fst (max_bytes n body))) \<le> max 0 n"
  by (simp add: max_bytes_def)

text \<open>With OAuth an MCP handler is reached through the middleware only.\<close>

lemma served_guarded:
  assumes "sv_oauth sv \<noteq> None" and "server_mux pats sv = Some routes"
    and "serve_http validate store sv routes base q = Handled ep ctx body"
  obtains ctx' where "Protect validate store (in_request q) = ServeNext ctx'"
    and "ctx = tool_context sv base ((in_request q)\<lparr>hr_ctx := ctx'\<rparr>)" and "body = max_bytes maxBodyBytes (in_body q)"
proof -
  have guard: "list_all (\<lambda>(p, h). route_guarded h) routes"
    using server_mux_guarded [OF assms(1), of pats] assms(2) by (simp add: guarded_def)
  from assms(3) obtain h where h: "findHandler routes (in_path q) = RouteTo h"
    by (auto simp: serve_http_def split: routed.splits)
  then obtain p where "(p, h) \<in> set routes" using findHandler_route by blast
  with guard have "route_guarded h" by (auto simp: list_all_iff)
  with assms(3) h that show ?thesis
    by (auto simp: serve_http_def split: served.splits middleware_outcome.splits)
qed

subsection \<open>Properties\<close>

text \<open>
  C6. A server started in caller-identity mode answers an HTTP request from an MCP handler, whatever
  the path and whatever was called before, only if the OAuth middleware let it through; then the
  handler reads at most one mebibyte of the body, and a tool it calls gets, if a client at all, one that
  was built from a token of the same digest as that of the caller the middleware resolved, under
  the policy of the options.
\<close>

theorem http_requests_act_as_caller:
  assumes "NewServer pe ol opts tr = (Inr sv, tr')" and "so_CallerIdentity opts"
    and "(tool_call e b (sv_tools sv))\<^sup>*\<^sup>* (sv_context sv, s) (sc, t)"
    and "server_mux pats sv = Some routes" and "serve_http validate store sv routes base q = Handled ep ctx body"
    and "ctx_idToken base = None" and "\<And>r. validate (in_request q) = Inr r \<Longrightarrow> ctx_idToken (hr_ctx r) = None"
  shows "length (fst body) \<le> 2 ^ 20
     \<and> (\<exists>f r. sc_factory sc = Some f \<and> validate (in_request q) = Inr r
         \<and> (case fst (sc_Client b now ctx sc) of
              Inl err \<Rightarrow> True
            | Inr c \<Rightarrow> as_caller b store r f c \<and> policy c = so_WritePolicy opts))"
proof -
  have "sv_oauth sv \<noteq> None"
    using NewServer_built(1,5) [OF assms(1)] assms(2) by (auto simp: validateOptions_def split: if_splits)
  then obtain ctx' where protect: "Protect validate store (in_request q) = ServeNext ctx'"
    and ctx: "ctx = tool_context sv base ((in_request q)\<lparr>hr_ctx := ctx'\<rparr>)"
    and body: "body = max_bytes maxBodyBytes (in_body q)"
    using served_guarded assms(4,5) by blast
  obtain r where r: "validate (in_request q) = Inr r"
    using protect by (auto simp: Protect_def split: sum.splits)
  from server_acts_as_caller [where q = "in_request q" and validate = validate and pats = pats and store = store
      and now = now, OF assms(1-3) r assms(7) [OF r] assms(6)] protect ctx
  obtain f where "sc_factory sc = Some f" and "case fst (sc_Client b now ctx sc) of
      Inl err \<Rightarrow> True | Inr c \<Rightarrow> as_caller b store r f c \<and> policy c = so_WritePolicy opts"
    by auto
  with r show ?thesis by (auto simp: body max_bytes_def maxBodyBytes_def)
qed

text \<open>
  The route that serves a request is mounted, matches its path and is the most specific one that
  does; a request to a path no pattern matches, with or without a final slash, reaches nothing.
\<close>

theorem routes_most_specific:
  "case findHandler routes path of
     RouteTo h \<Rightarrow> path = cleanPath path \<and> (\<exists>p. (p, h) \<in> set routes \<and> pattern_matches p path
       \<and> (\<forall>(p', h') \<in> set routes. length p < length p' \<longrightarrow> \<not> pattern_matches p' path))
   | RedirectTo p \<Rightarrow> p = cleanPath path \<or> (p = cleanPath path @ ''/'' \<and> p \<in> fst ` set routes)
   | NoRoute \<Rightarrow> list_all (\<lambda>(p, h). \<not> pattern_matches p path) routes"
proof (cases "findHandler routes path")
  case (RedirectTo p)
  have "exact_match routes p \<Longrightarrow> p \<in> fst ` set routes" for p
    by (auto simp: exact_match_def split: option.splits dest!: longest_match_Some intro: rev_image_eqI)
  with RedirectTo show ?thesis by (auto simp: findHandler_def Let_def split: if_splits option.splits)
next
  case NoRoute
  then have "longest_match routes path = None"
    by (auto simp: findHandler_def Let_def split: if_splits option.splits)
  with NoRoute show ?thesis by (simp add: longest_match_None)
next
  case (RouteTo h)
  then obtain p where p: "path = cleanPath path" "longest_match routes path = Some (p, h)"
    by (auto simp: findHandler_def Let_def split: if_splits option.splits)
  from longest_match_Some [OF p(2)] have "(p, h) \<in> set routes \<and> pattern_matches p path
      \<and> (\<forall>(p', h') \<in> set routes. length p < length p' \<longrightarrow> \<not> pattern_matches p' path)"
    by fastforce
  with RouteTo p(1) show ?thesis by auto
qed

subsection \<open>Examples\<close>

definition example_incoming :: incoming where
  "example_incoming = \<lparr>in_path = ''/mcp'', in_body = ''{}'', in_request = example_request\<rparr>"

lemma example_clean_paths:
  "cleanPath ''/mcp'' = ''/mcp''" "cleanPath ''//a/./b/../c/'' = ''/a/c/''" "cleanPath ''..'' = ''/''" "cleanPath '''' = ''/''"
  by (simp_all add: cleanPath_def ends_in_slash_def prefix_def Let_def)

lemma example_mountable: "mountable [] ''/oauth/token''" "mountable [''/oauth/token''] ''/mcp''"
  by code_simp+

theorem http_requests_act_as_caller_witness:
  "\<exists>sv tr routes ctx body. NewServer example_process example_oauth_libs caller_options [] = (Inr sv, tr)
     \<and> server_mux (\<lambda>_. [''/oauth/token'']) sv = Some routes
     \<and> serve_http Inr None sv routes (hr_ctx example_request) example_incoming
         = Handled StreamableHTTPHandler ctx body \<and> length (fst body) \<le> 2 ^ 20"
proof -
  obtain sv tr where sv: "NewServer example_process example_oauth_libs caller_options [] = (Inr sv, tr)"
    using caller_server_built by blast
  then have opts: "sv_options sv = caller_options" "sv_oauth sv \<noteq> None"
    using NewServer_built(3,5) [OF sv] by (simp_all add: caller_options_def)
  have mux: "server_mux (\<lambda>_. [''/oauth/token'']) sv
      = Some [(''/oauth/token'', OAuthRoute), (''/mcp'', Protected StreamableHTTPHandler)]"
    using opts by (simp add: server_mux_def http_mux_def RegisterRoutes_def mux_Handle_def example_mountable caller_options_def
        DefaultServerOptions_def TransportSSE_def TransportStreamableHTTP_def)
  have route: "findHandler [(''/oauth/token'', OAuthRoute), (''/mcp'', Protected StreamableHTTPHandler)] ''/mcp''
      = RouteTo (Protected StreamableHTTPHandler)"
    by (simp add: findHandler_def exact_match_def pattern_matches_def ends_in_slash_def example_clean_paths)
  have "\<exists>ctx. Protect Inr None example_request = ServeNext ctx"
    using example_identity by (simp add: Protect_def)
  with route obtain ctx body where served: "serve_http Inr None sv
      [(''/oauth/token'', OAuthRoute), (''/mcp'', Protected StreamableHTTPHandler)] (hr_ctx example_request) example_incoming
      = Handled StreamableHTTPHandler ctx body"
    by (cases "max_bytes maxBodyBytes ''{}''") (auto simp: serve_http_def example_incoming_def)
  have "so_CallerIdentity caller_options" by (simp add: caller_options_def)
  from http_requests_act_as_caller [OF sv this rtranclp.rtrancl_refl [of "tool_call example_env example_bearer (sv_tools sv)"]
      mux served, of 0]
  have "length (fst body) \<le> 2 ^ 20" by (simp add: example_request_def example_incoming_def)
  with sv mux served show ?thesis by blast
qed

end
