(* ===== verification/Capi_Placeholders.thy ===== *)
theory Capi_Placeholders
  imports Capi_Dispatch
begin

section \<open>Handlers that no tool is bound to (pkg/mcp/handlers)\<close>

text \<open>
  The placeholder handlers of the provider files answer with a fixed text, and so does the test
  resource.  The registry names none of them: what is here is that nothing reaches them.
\<close>

subsection \<open>The provider placeholders (provider_aws.go, provider_azure_gcp.go, provider_vsphere.go)\<close>

definition CreateAWSCreateClusterHandler :: "('w, CallToolResult) io" where
  "CreateAWSCreateClusterHandler = retE (TextContent [
     WriteString (''AWS Cluster Creation (Placeholder)'' @ nl @ nl),
     WriteString (''This tool would create AWS-specific cluster resources including:'' @ nl),
     WriteString (''- AWSCluster resource with VPC, subnet, and security group configuration'' @ nl),
     WriteString (''- IAM roles and policies for cluster components'' @ nl),
     WriteString (''- S3 buckets for OIDC discovery (if using IRSA)'' @ nl),
     WriteString (''- Load balancers for API server access'' @ nl @ nl),
     WriteString (''Required parameters would include:'' @ nl),
     WriteString (''- Region'' @ nl),
     WriteString (''- VPC CIDR'' @ nl),
     WriteString (''- Availability zones'' @ nl),
     WriteString (''- Instance types'' @ nl),
     WriteString (''- SSH key name'' @ nl)])"

definition CreateAWSUpdateVPCHandler :: "('w, CallToolResult) io" where
  "CreateAWSUpdateVPCHandler = retE (TextContent [
     WriteString (''AWS VPC Update (Placeholder)'' @ nl @ nl),
     WriteString (''This tool would update AWS VPC configuration for CAPI clusters.'' @ nl),
     WriteString (''Operations would include:'' @ nl),
     WriteString (''- Adding/removing subnets'' @ nl),
     WriteString (''- Updating route tables'' @ nl),
     WriteString (''- Modifying security group rules'' @ nl),
     WriteString (''- Configuring VPC peering'' @ nl @ nl),
     WriteString (''Note: VPC updates must be done carefully to avoid disrupting running clusters.'' @ nl)])"

definition CreateAWSManageSecurityGroupsHandler :: "('w, CallToolResult) io" where
  "CreateAWSManageSecurityGroupsHandler = retE (TextContent [
     WriteString (''AWS Security Groups Management (Placeholder)'' @ nl @ nl),
     WriteString (''This tool would manage security groups for CAPI AWS clusters.'' @ nl),
     WriteString (''Operations would include:'' @ nl),
     WriteString (''- Adding/removing ingress rules'' @ nl),
     WriteString (''- Adding/removing egress rules'' @ nl),
     WriteString (''- Creating new security groups'' @ nl),
     WriteString (''- Attaching security groups to instances'' @ nl @ nl),
     WriteString (''Common use cases:'' @ nl),
     WriteString (''- Opening ports for additional services'' @ nl),
     WriteString (''- Restricting access to specific IP ranges'' @ nl),
     WriteString (''- Enabling inter-cluster communication'' @ nl)])"

definition CreateAzureManageResourceGroupHandler :: "('w, CallToolResult) io" where
  "CreateAzureManageResourceGroupHandler = retE (TextContent [
     WriteString (''Azure Resource Group Management (Placeholder)'' @ nl @ nl),
     WriteString (''This tool would manage Azure resource groups for CAPI clusters.'' @ nl),
     WriteString (''Operations would include:'' @ nl),
     WriteString (''- Creating resource groups'' @ nl),
     WriteString (''- Setting resource group tags'' @ nl),
     WriteString (''- Managing resource group policies'' @ nl),
     WriteString (''- Listing resources in a group'' @ nl @ nl),
     WriteString (''Note: CAPI typically creates its own resource groups,'' @ nl),
     WriteString (''but this tool would help with custom configurations.'' @ nl)])"

definition CreateAzureNetworkConfigHandler :: "('w, CallToolResult) io" where
  "CreateAzureNetworkConfigHandler = retE (TextContent [
     WriteString (''Azure Network Configuration (Placeholder)'' @ nl @ nl),
     WriteString (''This tool would configure Azure networking for CAPI clusters.'' @ nl),
     WriteString (''Operations would include:'' @ nl),
     WriteString (''- Creating/updating VNets'' @ nl),
     WriteString (''- Managing subnets'' @ nl),
     WriteString (''- Configuring Network Security Groups'' @ nl),
     WriteString (''- Setting up VNet peering'' @ nl),
     WriteString (''- Managing load balancers'' @ nl @ nl),
     WriteString (''Common configurations:'' @ nl),
     WriteString (''- Custom subnet layouts'' @ nl),
     WriteString (''- Private cluster endpoints'' @ nl),
     WriteString (''- Multi-region networking'' @ nl)])"

definition CreateGCPManageNetworkHandler :: "('w, CallToolResult) io" where
  "CreateGCPManageNetworkHandler = retE (TextContent [
     WriteString (''GCP Network Management (Placeholder)'' @ nl @ nl),
     WriteString (''This tool would manage GCP networks for CAPI clusters.'' @ nl),
     WriteString (''Operations would include:'' @ nl),
     WriteString (''- Creating/updating VPC networks'' @ nl),
     WriteString (''- Managing subnets'' @ nl),
     WriteString (''- Configuring firewall rules'' @ nl),
     WriteString (''- Setting up Cloud NAT'' @ nl),
     WriteString (''- Managing load balancers'' @ nl @ nl),
     WriteString (''GCP-specific features:'' @ nl),
     WriteString (''- Shared VPC support'' @ nl),
     WriteString (''- Private Google Access'' @ nl),
     WriteString (''- Cloud Interconnect integration'' @ nl)])"

definition CreateVSphereManageVMsHandler :: "('w, CallToolResult) io" where
  "CreateVSphereManageVMsHandler = retE (TextContent [
     WriteString (''vSphere VM Management (Placeholder)'' @ nl @ nl),
     WriteString (''This tool would manage vSphere VMs for CAPI clusters.'' @ nl),
     WriteString (''Operations would include:'' @ nl),
     WriteString (''- Listing VMs in a cluster'' @ nl),
     WriteString (''- Power operations (on/off/restart)'' @ nl),
     WriteString (''- VM cloning from templates'' @ nl),
     WriteString (''- Resource allocation changes'' @ nl),
     WriteString (''- Snapshot management'' @ nl @ nl),
     WriteString (''vSphere-specific features:'' @ nl),
     WriteString (''- DRS rules configuration'' @ nl),
     WriteString (''- Storage vMotion'' @ nl),
     WriteString (''- VM folder organization'' @ nl)])"

definition placeholders :: "(string \<times> 'w tool_handler) list" where
  "placeholders = [
     (''CreateAWSCreateClusterHandler'', WithoutClient (\<lambda>_. CreateAWSCreateClusterHandler)),
     (''CreateAWSUpdateVPCHandler'', WithoutClient (\<lambda>_. CreateAWSUpdateVPCHandler)),
     (''CreateAWSManageSecurityGroupsHandler'', WithoutClient (\<lambda>_. CreateAWSManageSecurityGroupsHandler)),
     (''CreateAzureManageResourceGroupHandler'', WithoutClient (\<lambda>_. CreateAzureManageResourceGroupHandler)),
     (''CreateAzureNetworkConfigHandler'', WithoutClient (\<lambda>_. CreateAzureNetworkConfigHandler)),
     (''CreateGCPManageNetworkHandler'', WithoutClient (\<lambda>_. CreateGCPManageNetworkHandler)),
     (''CreateVSphereManageVMsHandler'', WithoutClient (\<lambda>_. CreateVSphereManageVMsHandler))]"

subsection \<open>The test resource (resources.go)\<close>

record TextResourceContents =
  TRC_URI :: string
  TRC_MIMEType :: string
  TRC_Text :: string

definition TestResourceHandler :: "string \<Rightarrow> TextResourceContents list" where
  "TestResourceHandler uri = [\<lparr>TRC_URI = uri, TRC_MIMEType = ''text/plain'',
     TRC_Text = ''This is a test resource from the CAPI MCP server.''\<rparr>]"

subsection \<open>Nothing reaches them\<close>

lemma placeholder_names:
  "map fst (placeholders :: (string \<times> unit tool_handler) list) = [
     ''CreateAWSCreateClusterHandler'',
     ''CreateAWSUpdateVPCHandler'',
     ''CreateAWSManageSecurityGroupsHandler'',
     ''CreateAzureManageResourceGroupHandler'',
     ''CreateAzureNetworkConfigHandler'',
     ''CreateGCPManageNetworkHandler'',
     ''CreateVSphereManageVMsHandler'']"
  by (simp add: placeholders_def)

text \<open>No tool of the registry has one as its handler, and the handler table has none of their names.\<close>

lemma placeholders_unregistered:
  "list_all (\<lambda>(n, h). \<not> List.member (map TR_Handler buildTools) n) (placeholders :: (string \<times> 'w tool_handler) list)"
proof -
  have "list_all (\<lambda>n. \<not> List.member (map TR_Handler buildTools) n) [''CreateAWSCreateClusterHandler'', ''CreateAWSUpdateVPCHandler'', ''CreateAWSManageSecurityGroupsHandler'', ''CreateAzureManageResourceGroupHandler'', ''CreateAzureNetworkConfigHandler'', ''CreateGCPManageNetworkHandler'', ''CreateVSphereManageVMsHandler'']"
    by code_simp
  then show ?thesis by (simp add: placeholders_def)
qed

text \<open>Called all the same, one makes no request, leaves the host alone and returns a text.\<close>

lemma placeholders_inert: "list_all (\<lambda>(n, h). needs_client h \<and> is_static h) placeholders"
  by (simp add: placeholders_def needs_client_def silent_intros emits CreateAWSCreateClusterHandler_def
      CreateAWSUpdateVPCHandler_def
      CreateAWSManageSecurityGroupsHandler_def
      CreateAzureManageResourceGroupHandler_def
      CreateAzureNetworkConfigHandler_def
      CreateGCPManageNetworkHandler_def
      CreateVSphereManageVMsHandler_def)

end
