(* ===== verification/Capi_Main.thy ===== *)
theory Capi_Main
  imports Capi_Command
begin

section \<open>The process (main.go, cmd/root.go, cmd/version.go)\<close>

text \<open>
  From the arguments of the process to its exit status.  What cobra makes of an argument list - the
  command it selects with its flags set, a text it prints itself, or an error - is the parameter
  \<open>cobra\<close>; the commands are those of the other theories.
\<close>

datatype command =
    ServeCommand serve_flags
  | VersionCommand
  | SelfUpdateCommand
  | CobraPrints piece
  | VersionFlag

record ('k, 'c, 'w, 'r, 'p, 'e, 's, 'o, 'rel) main_env =
  mn_serve :: "('k, 'c, 'w, 'r, 'p, 'e, 's, 'o) serve_env"
  mn_update :: "'rel update_libs"
  mn_cobra :: "string list \<Rightarrow> goerr + command"
  mn_version :: string
  mn_gitSHA :: string
  mn_buildInfo :: "string option"

record ('e, 's, 'rel) process =
  pr_stores :: "('e, 's) store_event list"
  pr_update :: "'rel update_state"

datatype process_end = Exited nat | Crashed

definition exit_status :: "goerr option \<Rightarrow> process_end" where
  "exit_status err = (case err of None \<Rightarrow> Exited 0 | Some e \<Rightarrow> Exited 1)"

definition write_out :: "piece \<Rightarrow> ('e, 's, 'rel) process \<Rightarrow> ('e, 's, 'rel) process" where
  "write_out p ps = ps\<lparr>pr_update := (pr_update ps)\<lparr>us_out := us_out (pr_update ps) @ [p]\<rparr>\<rparr>"

text \<open>
  What \<open>rootCmd.Execute\<close> runs, with \<open>rootCmd.Version\<close> as \<open>SetVersion\<close> left it.  The version flag
  prints the template that \<open>Execute\<close> sets, the same text as the version command.
\<close>

definition run_command :: "('k, 'c, 'w, 'r, 'p, 'e, 's, 'o, 'rel) main_env \<Rightarrow> string \<Rightarrow> command
    \<Rightarrow> ('e, 's, 'rel) process \<Rightarrow> process_end \<times> ('e, 's, 'rel) process" where
  "run_command mn version cmd ps = (case cmd of
       ServeCommand f \<Rightarrow>
         (case serve_RunE ((mn_serve mn)\<lparr>sn_version := version\<rparr>) f (pr_stores ps) of
            (Inl err, tr) \<Rightarrow> (exit_status (Some err), ps\<lparr>pr_stores := tr\<rparr>)
          | (Inr (RunReturned err), tr) \<Rightarrow> (exit_status err, ps\<lparr>pr_stores := tr\<rparr>)
          | (Inr RunPanic, tr) \<Rightarrow> (Crashed, ps\<lparr>pr_stores := tr\<rparr>))
     | VersionCommand \<Rightarrow> (exit_status None, write_out (version_text version) ps)
     | SelfUpdateCommand \<Rightarrow>
         (case runSelfUpdate (mn_update mn) version (pr_update ps) of
            (Inl err, st) \<Rightarrow> (exit_status (Some err), ps\<lparr>pr_update := st\<rparr>)
          | (Inr _, st) \<Rightarrow> (exit_status None, ps\<lparr>pr_update := st\<rparr>))
     | CobraPrints p \<Rightarrow> (exit_status None, write_out p ps)
     | VersionFlag \<Rightarrow> (exit_status None, write_out (version_text version) ps))"

definition Execute :: "('k, 'c, 'w, 'r, 'p, 'e, 's, 'o, 'rel) main_env \<Rightarrow> string \<Rightarrow> string list
    \<Rightarrow> ('e, 's, 'rel) process \<Rightarrow> process_end \<times> ('e, 's, 'rel) process" where
  "Execute mn version args ps = (case mn_cobra mn (Execute_args args) of
       Inl err \<Rightarrow> (exit_status (Some err), ps)
     | Inr cmd \<Rightarrow> run_command mn version cmd ps)"

definition main :: "('k, 'c, 'w, 'r, 'p, 'e, 's, 'o, 'rel) main_env \<Rightarrow> string list
    \<Rightarrow> ('e, 's, 'rel) process \<Rightarrow> process_end \<times> ('e, 's, 'rel) process" where
  "main mn args ps =
     Execute mn (project_Version (mn_version mn) (mn_gitSHA mn) (mn_buildInfo mn)) args ps"

lemma default_flags_valid:
  assumes "\<And>eps. mset (range_map eps) = mset eps"
  shows "validateServeFlags range_map (fl_transport default_flags) (fl_httpAddr default_flags)
      (fl_sseEndpoint default_flags) (fl_messageEndpoint default_flags) (fl_httpEndpoint default_flags) = None"
proof -
  have "set (range_map eps) = set eps" for eps using arg_cong [OF assms, of set_mset] by simp
  then show ?thesis
    using example_paths by (simp add: validateServeFlags_def validTransports_def default_flags_def validate_endpoints_None)
qed

subsection \<open>Properties\<close>

text \<open>
  C36. However the program is called and however it ends, it does no more than its command: serve opens
  at most one token store, only with OAuth enabled, and has released it again, a crash included; only
  the self-update can replace the binary; and every other call - a version, a help text, a wrong
  flag - ends with status 0 or 1 and neither opens a store nor replaces the binary.
\<close>

theorem process_effects:
  "case main mn args ps of (result, ps') \<Rightarrow>
    (case mn_cobra mn (Execute_args args) of
       Inr (ServeCommand f) \<Rightarrow> pr_update ps' = pr_update ps
         \<and> released (sn_oauth (mn_serve mn))
             (if fl_enableOAuth f then Some (configFromLookup (sn_vars (mn_serve mn))) else None)
             (pr_stores ps) (pr_stores ps')
     | Inr SelfUpdateCommand \<Rightarrow> pr_stores ps' = pr_stores ps
     | _ \<Rightarrow> result \<in> {Exited 0, Exited 1} \<and> pr_stores ps' = pr_stores ps
         \<and> us_installed (pr_update ps') = us_installed (pr_update ps))"
proof (cases "mn_cobra mn (Execute_args args)")
  case (Inl err)
  then show ?thesis by (simp add: main_def Execute_def exit_status_def)
next
  case (Inr cmd)
  show ?thesis
  proof (cases cmd)
    case (ServeCommand f)
    let ?sn = "\<lambda>v. (mn_serve mn)\<lparr>sn_version := v\<rparr>"
    have "released (sn_oauth (mn_serve mn))
        (if fl_enableOAuth f then Some (configFromLookup (sn_vars (mn_serve mn))) else None) tr
        (snd (serve_RunE (?sn v) f tr))" for v tr
      using serve_releases_token_store [of "?sn v" f tr] by (simp cong: if_cong)
    with Inr ServeCommand show ?thesis
      by (auto simp: main_def Execute_def run_command_def split: prod.split sum.split run_result.split)
        (metis snd_conv)+
  qed (use Inr in \<open>auto simp: main_def Execute_def run_command_def exit_status_def write_out_def
      split: prod.split sum.split\<close>)
qed

text \<open>Over any sequence of calls to its tools a server only reads, and touches nothing of its host.\<close>

definition only_reads :: "'w handler_env \<Rightarrow> ('k, 'c, 'w) bearer_env \<Rightarrow> ('w, 's, 'o) Server \<Rightarrow> bool" where
  "only_reads e b sv \<longleftrightarrow> (\<forall>s sc t. (tool_call e b (sv_tools sv))\<^sup>*\<^sup>* (sv_context sv, s) (sc, t) \<longrightarrow>
     ran is_read s t \<and> local_events t = local_events s)"

text \<open>
  C4. Started without any argument the program serves on stdio, without OAuth, read-only, under the
  GitOps guard and without handing out kubeconfigs: over any sequence of tool calls it only reads the
  management cluster and touches neither files nor processes of its host.  It ends with status 1 when
  the server cannot be built, and else with the status of the stdio loop.
\<close>

theorem unattended_start_reads_only:
  assumes cobra: "mn_cobra mn [prog, ''serve''] = Inr (ServeCommand default_flags)"
    and range: "\<And>eps. mset (sn_range (mn_serve mn) eps) = mset eps"
  shows "let opts = serve_options (project_Version (mn_version mn) (mn_gitSHA mn) (mn_buildInfo mn))
         (serve_config (sn_vars (mn_serve mn)) default_flags)
     in so_Transport opts = TransportStdio
     \<and> so_WritePolicy opts = \<lparr>ReadOnly = True, GitOpsGuard = True, ExposeKubeconfig = False\<rparr>
     \<and> (case NewServer (sn_process (mn_serve mn)) (sn_oauth (mn_serve mn)) opts (pr_stores ps) of
          (Inl err, tr) \<Rightarrow> main mn [prog] ps = (Exited 1, ps)
        | (Inr sv, tr) \<Rightarrow>
            main mn [prog] ps = (if stdio_Listen (sn_network (mn_serve mn)) = None then Exited 0 else Exited 1, ps)
            \<and> only_reads e b sv)"
proof -
  let ?sn = "mn_serve mn" and ?v = "project_Version (mn_version mn) (mn_gitSHA mn) (mn_buildInfo mn)"
  let ?cfg = "serve_config (sn_vars ?sn) default_flags"
  let ?opts = "serve_options ?v ?cfg"
  have opts: "so_Transport ?opts = TransportStdio" "so_OAuth ?opts = None" "so_ReadOnly ?opts"
    by (simp_all add: serve_options_def serve_config_def default_flags_def TransportStdio_def)
  have cfg: "cf_OAuth ?cfg = None" "\<not> cf_DownstreamOAuth ?cfg"
    by (simp_all add: serve_config_def default_flags_def)
  have flags: "validateServeFlags (sn_range ?sn) (fl_transport default_flags) (fl_httpAddr default_flags)
      (fl_sseEndpoint default_flags) (fl_messageEndpoint default_flags) (fl_httpEndpoint default_flags) = None"
    using default_flags_valid [OF range] .
  have start: "main mn [prog] ps = run_command mn ?v (ServeCommand default_flags) ps"
    using cobra by (simp add: main_def Execute_def Execute_args_def)
  obtain q tr where ns: "NewServer (sn_process ?sn) (sn_oauth ?sn) ?opts (pr_stores ps) = (q, tr)" by fastforce
  note released = NewServer_released [OF ns, unfolded opts(2) released_def, simplified]
  show ?thesis
  proof (cases q)
    case (Inl err)
    with released start flags cfg ns show ?thesis
      by (simp add: run_command_def serve_RunE_def RunServe_def default_options opts(1)
          exit_status_def go_simps Let_def)
  next
    case (Inr sv)
    with released obtain sv' where down: "Shutdown sv tr = (Inr sv', pr_stores ps)" by auto
    have "sv_options sv = ?opts" using NewServer_built(3) [OF ns [unfolded Inr]] .
    then have "run_transport (sn_patterns ?sn) (sn_network ?sn) sv = RunStdioServer (sn_network ?sn)"
      using opts(1) by (simp add: run_transport_def)
    with Inr start flags cfg ns Run_releases [OF down] have
      "main mn [prog] ps = (if stdio_Listen (sn_network ?sn) = None then Exited 0 else Exited 1, ps)"
      by (auto simp: run_command_def serve_RunE_def RunServe_def RunStdioServer_def exit_status_def go_simps
          split: option.split)
    moreover have "only_reads e b sv"
      unfolding only_reads_def using server_reads [OF ns [unfolded Inr] opts(3)] by blast
    ultimately show ?thesis
      using ns Inr opts(1) by (simp add: default_options Let_def)
  qed
qed

subsection \<open>Examples\<close>

definition example_main :: "(unit, unit, world, unit, unit, unit, nat, unit, string) main_env" where
  "example_main = \<lparr>mn_serve = \<lparr>sn_process = example_process, sn_oauth = example_oauth_libs, sn_patterns = (\<lambda>_. []),
       sn_network = \<lparr>net_Listen = (\<lambda>_. None), net_end = CtxDone None, stdio_Listen = None\<rparr>,
       sn_version = '''', sn_vars = (\<lambda>_. None), sn_range = rev\<rparr>,
     mn_update = \<lparr>ul_NewUpdater = None, ul_DetectLatest = (\<lambda>_. Inr None), ul_missing_bundle = (\<lambda>_. False),
       ul_GreaterThan = (\<lambda>_ _. False), ul_Version = (\<lambda>v. v), ul_PublishedAt = (\<lambda>_. ''''),
       ul_ReleaseNotes = (\<lambda>_. ''''), ul_Executable = Inr ''mcp-capi'', ul_Install = (\<lambda>_ _. None)\<rparr>,
     mn_cobra = (\<lambda>args. case args of
         [prog, name] \<Rightarrow> if name = ''serve'' then Inr (ServeCommand default_flags)
           else if name = ''version'' then Inr VersionCommand
           else Inl (Errorf ''unknown command %s'' [Fs name])
       | _ \<Rightarrow> Inl (Errorf ''unexpected arguments'' [])),
     mn_version = ''v1.2.3'', mn_gitSHA = dev, mn_buildInfo = None\<rparr>"

definition example_start :: "(unit, nat, string) process" where
  "example_start = \<lparr>pr_stores = [], pr_update = \<lparr>us_out = [], us_installed = []\<rparr>\<rparr>"

lemma default_server_built:
  obtains sv tr where "NewServer example_process example_oauth_libs
      (serve_options v (serve_config vars default_flags)) [] = (Inr sv, tr)"
  by (fastforce simp: NewServer_def serve_options_def serve_config_def default_flags_def validateOptions_def
      newServerContext_def NewClient_def loadConfig_def example_process_def NewClientFromConfig_def
      example_libs_def newScheme_def RegisterTools_def go_simps Let_def split: option.split)

theorem unattended_start_reads_only_witness:
  "main example_main [''mcp-capi''] example_start = (Exited 0, example_start)"
proof -
  have cobra: "mn_cobra example_main [''mcp-capi'', ''serve''] = Inr (ServeCommand default_flags)"
    and range: "\<And>eps. mset (sn_range (mn_serve example_main) eps) = mset eps"
    by (simp_all add: example_main_def)
  have env: "sn_process (mn_serve example_main) = example_process" "pr_stores example_start = []"
    "sn_oauth (mn_serve example_main) = example_oauth_libs" "stdio_Listen (sn_network (mn_serve example_main)) = None"
    by (simp_all add: example_main_def example_start_def)
  obtain sv tr where "NewServer example_process example_oauth_libs (serve_options
      (project_Version (mn_version example_main) (mn_gitSHA example_main) (mn_buildInfo example_main))
      (serve_config (sn_vars (mn_serve example_main)) default_flags)) [] = (Inr sv, tr)"
    by (rule default_server_built)
  with unattended_start_reads_only [OF cobra range, of example_start example_env example_bearer]
  show ?thesis by (simp add: env Let_def)
qed

end
