(* ===== verification/Spec2Isabelle.thy ===== *)
theory Spec2Isabelle
  imports Capi_Prelude Capi_Policy Capi_Kube Capi_Memory Capi_KeyStore Capi_Machine Capi_Cluster Capi_Provider
    Capi_Status Capi_Exec Capi_Node Capi_ResourceSet Capi_Bearer Capi_Tools Capi_OAuth Capi_Context
    Capi_Results Capi_ClusterTools Capi_MachineTools Capi_ProviderTools Capi_ResourceSetTools
    Capi_Dispatch Capi_Schema Capi_OAuthServer Capi_Mux Capi_Server Capi_Net Capi_Command Capi_Store Capi_Shield
    Capi_Footprint Capi_HTTP Capi_Placeholders Capi_Main
begin

text \<open>
  mcp-capi is a server of the Model Context Protocol that lets an agent inspect and change the
  workload clusters of a Kubernetes Cluster API (CAPI) management cluster.  The serve command
  (cmd) builds a server from its flags (pkg/mcp).  A request passes the OAuth middleware
  (pkg/oauth), reaches a tool of the registry, whose handler (pkg/mcp/handlers) decodes the
  arguments, takes a client from the server context and calls one of the client's operations
  (pkg/capi).  Each mutating operation reads the object it is about, asks the write policy, and
  then writes to the API server of the management cluster; the kubectl and helm tools instead
  resolve a workload cluster's kubeconfig and run a subprocess against that cluster.

  \<^bold>\<open>Theories and sources.\<close>  The client, pkg/capi:
  \<^item> \<open>Capi_Prelude\<close>: Go errors as values (\<open>goerr\<close>, with \<open>%w\<close> wrapping and \<open>errors.Is\<close>), maps as
    association lists, the fallible state-passing computations \<open>go\<close> with their laws, strings, JSON.
  \<^item> \<open>Capi_Policy\<close> (policy.go): \<open>WritePolicy\<close>, \<open>ManagedBy\<close>, the four checks; the abstract policy
    \<open>spec_update\<close>, \<open>spec_delete\<close>, \<open>spec_create\<close>, \<open>spec_export\<close> that they refine; the locale
    \<open>write_gate\<close> of what the operations rely on.
  \<^item> \<open>Capi_Kube\<close> (the Client of client.go): the objects with the fields the code touches, the API
    server as a record of operations (a parameter, nothing is assumed of it), the trace of
    requests, and locale \<open>gated_write\<close>, the contract of read, check and write that most mutating
    operations share; each is an interpretation of it in its own theory.
  \<^item> \<open>Capi_Memory\<close>: one concrete API server, on which witnesses run.
  \<^item> \<open>Capi_KeyStore\<close>: \<open>api_store\<close>, the contract of an API server that keeps objects by key and that
    nobody else writes to, under which scaling a cluster and creating a resource set are functions of
    the objects kept; \<open>tables\<close> is a server that meets it.
  \<^item> \<open>Capi_Machine\<close>, \<open>Capi_Cluster\<close> (client.go), \<open>Capi_Provider\<close> (providers.go), \<open>Capi_Status\<close>
    (utils.go and GetClusterHealth), \<open>Capi_ResourceSet\<close> (resourceset.go): one definition per method.
  \<^item> \<open>Capi_Exec\<close> (client.go): reading a kubeconfig, the flag guard, the temporary file, kubectl and
    helm.  The host is a parameter; what is done on it is part of the trace.
  \<^item> \<open>Capi_Node\<close> (client.go, drain.go): cordon, node status and the drain, whose two polling loops
    are partial functions into \<open>option\<close>: not returning is \<open>None\<close>.
  \<^item> \<open>Capi_Bearer\<close> (bearer.go): the cache of clients by token.  \<open>ClientFor\<close> takes the mutex twice,
    so it is also given as a step relation in which requests interleave between the sections.
  \<^item> \<open>Capi_Store\<close>: a Hoare logic over the state behind the API server.  A \<open>shield\<close> is what a server
    promises about the objects it hands out, takes and gives up; the locale \<open>shielded\<close> is the
    contract between a shield and the write policy under which every operation keeps an invariant.

  The tools, pkg/mcp/handlers:
  \<^item> \<open>Capi_Tools\<close> (registry.go, readonly.go): all tools, their classes and the filter by policy.
  \<^item> \<open>Capi_Context\<close> (types.go): the server context, and the way of a request to a client.
  \<^item> \<open>Capi_Results\<close> (results.go): result documents, the digests of objects, argument decoding.
  \<^item> \<open>Capi_ClusterTools\<close> (cluster.go), \<open>Capi_MachineTools\<close> (machine.go), \<open>Capi_ResourceSetTools\<close>
    (resourceset.go), \<open>Capi_ProviderTools\<close> (provider_*.go): one definition per handler.
  \<^item> \<open>Capi_Dispatch\<close>: the handler each tool is bound to, one call, and sequences of calls as the
    step relation \<open>tool_call\<close>; \<open>Capi_Schema\<close>: arguments against the registered parameters.
  \<^item> \<open>Capi_Placeholders\<close> (provider_*.go, resources.go): the handlers no tool is bound to, the test
    resource.

  The server, pkg/oauth, pkg/mcp and cmd:
  \<^item> \<open>Capi_OAuth\<close> (config.go, identity.go, key decoding): configuration from the environment and the
    identity middleware; \<open>Capi_OAuthServer\<close> (server.go): providers, the token store, the server.
  \<^item> \<open>Capi_Mux\<close>: the patterns of net/http's ServeMux, their syntax and when two of them conflict.
  \<^item> \<open>Capi_Server\<close> (types.go, server.go, transport.go): options, construction, transports, shutdown;
    \<open>Capi_HTTP\<close> (transport.go): one HTTP request through the body bound, the ServeMux and the
    middleware to an MCP handler.
  \<^item> \<open>Capi_Shield\<close>: every tool of the registry over the contract of \<open>Capi_Store\<close>, which is interpreted
    on the model's policy for the deletion label and for the GitOps guard; \<open>Capi_Footprint\<close>: the
    table of the verbs and kinds each tool may request.
  \<^item> \<open>Capi_Net\<close>: the address functions of the standard library; \<open>Capi_Command\<close> (serve.go,
    selfupdate.go, version.go, project.go): flags, the run of serve, the self-update;
    \<open>Capi_Main\<close> (main.go, root.go): the process, from its arguments to its exit status.

  \<^bold>\<open>State and operations.\<close> A method of the Go client is a function of the client record and its
  arguments into \<open>('w, 'a) io\<close>: from a session (the environment \<open>'w\<close> and the events so far) to an
  error or a result and the new session.  Early returns are \<open>Inl\<close> values.  An operation returns
  the error text the code builds, as a format string and its arguments; a tool result is the
  document that is marshalled, or the formatted text.  A handler gets the answer of
  \<open>serverCtx.Client\<close> and the decoded arguments; \<open>run_handler\<close> adds the server context, whose cache
  a call may change.  The OAuth server's state is the trace of token stores opened and released.
  Replica counts are 32-bit words; Go's \<open>int\<close> is a 64-bit word in ScaleCluster; conversions of a
  float out of range are left open, as the language does (\<open>float_impl\<close>).

  \<^bold>\<open>What the lemmas show.\<close> Refinement of the policy by its checks; that a read-only client makes no
  request that writes and that owned objects are left alone (this theory), and so that a server
  started read-only only reads over any sequence of calls; that a server acting as the caller
  serves a request only with a client of that caller's token, and nobody's request at all; that
  every handler enforces the required parameters of its tool; per operation, what is sent in each
  branch; for the drain, that only the plan's pods are evicted, that in the run of a successful drain
  each of them was granted its eviction and later read as gone, that it returns when the context's deadline bounds the number of polls,
  and that it succeeds when the deadline outlasts the refusals; for the cache, its bound and the
  isolation of callers under every interleaving; over any sequence of tool calls on a server that was
  started from given options, that what the GitOps guard owns is left alone, that what carries the
  deletion label survives (a Cluster as long as its labels are not updated, since UpdateCluster may
  remove it), that no Secret is read by a tool that has no business with it, and that every call
  returns; for every tool, the requests it can make; for exec, that the kubeconfig goes only to a
  private file whose removal is called for (\<open>os.Remove\<close> may fail, and the code ignores that), and to
  no process if its server shares the host name of the management cluster - which the code cannot
  tell of an address that does not parse as a URL; for scaling and resource sets, the objects that
  result; for serve, which flags are accepted, and which endpoints make the ServeMux panic; for the process, that a
  token store is released however it ends, that only the self-update replaces the binary, and that a
  start without arguments serves on stdio and only reads.

  \<^bold>\<open>Parameters.\<close> The API server (\<open>kube\<close>), the host's files and processes and the URL and
  kubeconfig parsers (\<open>tools\<close>), client-go and the environment (\<open>libs\<close>, \<open>process_env\<close>), SHA-256 and
  the JSON decoding of a token (\<open>bearer_env\<close>), the marshalling of a JSON value and the formatting
  of a time (\<open>handler_env\<close>), the mcp-oauth and crypto libraries with their token stores
  (\<open>oauth_libs\<close>), the network (\<open>network\<close>), the update libraries (\<open>update_libs\<close>), what cobra makes of
  an argument list (\<open>main_env\<close>).  Hypotheses about
  them are stated where they are used and hold for a concrete instance in the property's witness.

  \<^bold>\<open>Not modelled.\<close> The descriptions and help texts; parsing of the command line by cobra; logging;
  signals and goroutines, but for the ways serving may end; the message loops of mcp-go and the
  accept loop of net/http.  Mounting a pattern follows the full rules of the ServeMux (\<open>Capi_Mux\<close>;
  wildcard names are ASCII there), but routing a request (\<open>Capi_HTTP\<close>) takes the mounted patterns as literal
  paths, without methods, hosts and wildcards.  The properties over the state behind the API server take it that kubectl and
  helm, which talk to a workload cluster's own API server, leave that state alone
  (\<open>host_upholds\<close>), and speak of what this program does: other writers are not steps of
  \<open>tool_call\<close>, and a call runs without another one between its requests, so what a writer changes
  between the read and the write of one call is not covered.  Maps that Go ranges over in a random order are ranged over in the
  order of an association list; where a result depends on it the order is a parameter.
\<close>

section \<open>Properties across the components\<close>

text \<open>
  What a mutating call of the client may do after it has read the object it is about: nothing, with
  the error of the managed resource.
\<close>

definition left_alone :: "('w, 'a) io \<Rightarrow> 'w session \<Rightarrow> 'w session \<Rightarrow> bool" where
  "left_alone m s t \<longleftrightarrow> (\<exists>e. m s = (Inl e, t) \<and> refusal (Some e) = Some ErrManagedResource)"

lemma left_aloneI:
  "\<exists>e. m s = (Inl e, t) \<and> refusal (Some e) = Some ErrManagedResource \<Longrightarrow> left_alone m s t"
  by (simp add: left_alone_def)

text \<open>
  C24. A client with a read-only policy makes no request that writes, whatever its API server
  answers, in any of the mutating operations on clusters, machines, machine groups and nodes, the
  drain included, which then fails, nor in the operations that read kubeconfigs, run kubectl or helm,
  move or back up.
\<close>

theorem read_only_client_reads_only:
  assumes "ReadOnly (policy c)"
  shows "emits is_read (PauseCluster c ns n) \<and> emits is_read (ResumeCluster c ns n)
     \<and> emits is_read (DeleteCluster c ns n) \<and> emits is_read (UpdateCluster c upd)
     \<and> emits is_read (UpgradeCluster c upg) \<and> emits is_read (CreateCluster marshal c cco)
     \<and> emits is_read (ScaleCluster c ns n target replicas md)
     \<and> emits is_read (ScaleControlPlane c ns n r) \<and> emits is_read (ScaleMachineDeployment c ns n r)
     \<and> emits is_read (DeleteMachine c dmo) \<and> emits is_read (RemediateMachine c ns n)
     \<and> emits is_read (CreateMachineDeployment c cmo) \<and> emits is_read (UpdateMachineDeployment c umo)
     \<and> emits is_read (RolloutMachineDeployment c ns n why) \<and> emits is_read (CordonNode c no)
     \<and> emits is_read (MoveCluster c mvo) \<and> emits is_read (BackupCluster c bko)
     \<and> emits is_read (GetKubeconfig c ns n) \<and> emits is_read (ExecKubectl h c ns n args imp stdin)
     \<and> emits is_read (ExecHelm h c ns n args)
     \<and> (\<exists>e t. DrainNode c no s = Some ((None, Some e), t) \<and> ran is_read s t)"
  by (intro conjI pause_cluster.read_only_reads resume_cluster.read_only_reads
      delete_cluster.read_only_reads update_cluster.read_only_reads upgrade_cluster.read_only_reads
      CreateCluster_read_only ScaleCluster_read_only scale_control_plane.read_only_reads
      scale_machine_deployment.read_only_reads delete_machine.read_only_reads
      remediate_machine.read_only_reads CreateMachineDeployment_read_only
      update_machine_deployment.read_only_reads rollout_machine_deployment.read_only_reads
      CordonNode_read_only cluster_reads exec_reads exec_writes_nothing drain_only_reads assms)

theorem read_only_client_reads_only_witness:
  "emits is_read (DeleteCluster (memory_client read_only_policy) ''org'' ''demo'')
   \<and> emits is_read (ScaleCluster (memory_client read_only_policy) ''org'' ''demo'' ''controlplane'' 3 '''')
   \<and> (\<exists>e t. DrainNode (memory_client read_only_policy) drain_options (start drain_example) = Some ((None, Some e), t)
       \<and> ran is_read (start drain_example) t)"
  using read_only_client_reads_only [of "memory_client read_only_policy" "''org''" "''demo''" _ _ _ _ "''controlplane''" 3 "''''"
      _ _ _ _ _ drain_options _ _ _ _ _ _ "start drain_example"]
  by (simp add: client_run read_only_policy_def)


text \<open>
  Under the GitOps guard the same holds of an owned Machine that is deleted or remediated, of
  an owned MachineDeployment that is scaled, updated or rolled out, of an owned
  KubeadmControlPlane that is scaled, and of an owned Node that is cordoned or uncordoned.
\<close>

theorem managed_machines_left_alone:
  assumes "\<not> ReadOnly (policy c)" and "GitOpsGuard (policy c)"
    and "rget (k_machines (Kube c)) ''Machine'' ns n s = (Inr m, t1)" and "managed (M_Meta m)"
    and "GetMachineDeployment c ns n s = (Inr d, t2)" and "managed (MD_Meta d)"
    and "GetKubeadmControlPlane c ns n s = (Inr k, t3)" and "managed (KCP_Meta k)"
    and "get_node c n s = (Inr nd, t4)" and "managed (N_Meta nd)"
  shows "left_alone (DeleteMachine c \<lparr>DMO_Namespace = ns, DMO_Name = n, DMO_Force = force\<rparr>) s t1
     \<and> left_alone (RemediateMachine c ns n) s t1
     \<and> left_alone (ScaleMachineDeployment c ns n r) s t2
     \<and> left_alone (UpdateMachineDeployment c (umo\<lparr>UMO_Namespace := ns, UMO_Name := n\<rparr>)) s t2
     \<and> left_alone (RolloutMachineDeployment c ns n why) s t2
     \<and> left_alone (ScaleControlPlane c ns n r) s t3
     \<and> left_alone (setUnschedulable c n b) s t4"
  using assms
  by (intro conjI left_aloneI delete_machine.managed_refused remediate_machine.managed_refused
      scale_machine_deployment.managed_refused update_machine_deployment.managed_refused
      rollout_machine_deployment.managed_refused scale_control_plane.managed_refused
      cordon.managed_refused) (simp_all add: wrapE_def)

text \<open>
  C20. DeleteCluster sends its delete request exactly for a Cluster that was read and that is
  neither protected against deletion nor, under the guard, owned, with a policy that is not
  read-only; otherwise nothing follows the read.
\<close>

theorem delete_cluster_guarded:
  "case fetch_cluster c ns n s of
     (Inl e, t) \<Rightarrow> DeleteCluster c ns n s = (Inl e, t)
   | (Inr cl, t) \<Rightarrow> if spec_delete (policy c) (C_Meta cl) = None
       then requests (snd (DeleteCluster c ns n s)) =
         requests t @ [Request VDelete ''Cluster'' (Namespace (C_Meta cl)) (Name (C_Meta cl))]
       else (\<exists>e. DeleteCluster c ns n s = (Inl e, t) \<and> refusal (Some e) = spec_delete (policy c) (C_Meta cl))"
proof (cases "fetch_cluster c ns n s")
  case (Pair q t)
  show ?thesis
  proof (cases q)
    case (Inl e)
    with Pair show ?thesis by (simp add: delete_cluster.fetch_failed)
  next
    case (Inr cl)
    note fetch = Pair [unfolded Inr]
    show ?thesis
    proof (cases "CheckDelete (policy c) ''Cluster'' (C_Meta cl)")
      case None
      then have "spec_delete (policy c) (C_Meta cl) = None"
        by (simp add: CheckDelete_None_iff spec_delete_def spec_update_def)
      with fetch delete_cluster.permitted [OF fetch None] show ?thesis by (simp add: request_simps)
    next
      case (Some e)
      then have "refusal (Some e) = spec_delete (policy c) (C_Meta cl)"
        using refusal_delete [of "policy c" "''Cluster''" "C_Meta cl"] by simp
      moreover have "spec_delete (policy c) (C_Meta cl) \<noteq> None"
        using Some CheckDelete_None_iff [of "policy c" "''Cluster''" "C_Meta cl"]
        by (auto simp: spec_delete_def spec_update_def split: if_splits)
      ultimately show ?thesis using fetch delete_cluster.refused [OF fetch Some] by auto
    qed
  qed
qed

subsection \<open>Examples\<close>

definition flux_labels :: smap where
  "flux_labels = [(fluxKustomizationNameLabel, ''apps'')]"

definition managed_world :: world where
  "managed_world = empty_world\<lparr>w_clusters := [example_cluster ''x'' flux_labels],
     w_machines := [example_machine ''x'' flux_labels],
     w_machinedeployments := [(new_machine_deployment \<lparr>CMO_Namespace = ''org'', CMO_Name = ''x'',
        CMO_ClusterName = ''demo'', CMO_Replicas = 1, CMO_InfrastructureRef = no_ref,
        CMO_BootstrapConfigRef = no_ref, CMO_Version = ''v1'', CMO_Labels = flux_labels,
        CMO_NodeDrainTimeout = None, CMO_MinReadySeconds = 0\<rparr>)],
     w_controlplanes := [\<lparr>KCP_Meta = meta ''org'' ''x'' flux_labels, KCP_Replicas = Some 1, KCP_Version = ''v1'',
        KCP_Ready = True, KCP_StatusReplicas = 1, KCP_UnavailableReplicas = 0\<rparr>],
     w_nodes := [(example_node ''x'')\<lparr>N_Meta := meta '''' ''x'' flux_labels\<rparr>]\<rparr>"

lemma flux_managed: "Labels m = flux_labels \<Longrightarrow> managed m"
  by (simp add: managed_iff ManagedBy_def flux_labels_def mget_def)

lemma managed_world_runs:
  "\<exists>cl t. fetch_cluster (memory_client open_policy) ''org'' ''x'' (start managed_world) = (Inr cl, t)
     \<and> managed (C_Meta cl)"
  "\<exists>m t. rget (k_machines (Kube (memory_client open_policy))) ''Machine'' ''org'' ''x'' (start managed_world) = (Inr m, t)
     \<and> managed (M_Meta m)"
  "\<exists>d t. GetMachineDeployment (memory_client open_policy) ''org'' ''x'' (start managed_world) = (Inr d, t)
     \<and> managed (MD_Meta d)"
  "\<exists>k t. GetKubeadmControlPlane (memory_client open_policy) ''org'' ''x'' (start managed_world) = (Inr k, t)
     \<and> managed (KCP_Meta k)"
  "\<exists>nd t. get_node (memory_client open_policy) ''x'' (start
       (managed_world\<lparr>w_nodes := [(example_node ''x'')\<lparr>N_Meta := meta '''' ''x'' flux_labels\<rparr>]\<rparr>))
     = (Inr nd, t) \<and> managed (N_Meta nd)"
  by (simp_all add: managed_world_def fetch_cluster_def GetMachineDeployment_def GetKubeadmControlPlane_def
      get_node_def new_machine_deployment_def example_simps flux_managed)

lemma managed_world_nodes:
  "managed_world\<lparr>w_nodes := [(example_node ''x'')\<lparr>N_Meta := meta '''' ''x'' flux_labels\<rparr>]\<rparr>
     = managed_world"
  by (simp add: managed_world_def)

lemma open_policy_guards: "\<not> ReadOnly (policy (memory_client open_policy))"
  "GitOpsGuard (policy (memory_client open_policy))"
  by (simp_all add: client_run open_policy_def)


theorem managed_machines_left_alone_witness:
  "\<exists>t1 t2 t3 t4. left_alone (RemediateMachine (memory_client open_policy) ''org'' ''x'') (start managed_world) t1
     \<and> left_alone (ScaleMachineDeployment (memory_client open_policy) ''org'' ''x'' 3) (start managed_world) t2
     \<and> left_alone (ScaleControlPlane (memory_client open_policy) ''org'' ''x'' 3) (start managed_world) t3
     \<and> left_alone (setUnschedulable (memory_client open_policy) ''x'' True) (start managed_world) t4"
proof -
  let ?c = "memory_client open_policy" and ?s = "start managed_world"
  obtain m t1 where 1: "rget (k_machines (Kube ?c)) ''Machine'' ''org'' ''x'' ?s = (Inr m, t1)" "managed (M_Meta m)"
    using managed_world_runs(2) by blast
  obtain d t2 where 2: "GetMachineDeployment ?c ''org'' ''x'' ?s = (Inr d, t2)" "managed (MD_Meta d)"
    using managed_world_runs(3) by blast
  obtain k t3 where 3: "GetKubeadmControlPlane ?c ''org'' ''x'' ?s = (Inr k, t3)" "managed (KCP_Meta k)"
    using managed_world_runs(4) by blast
  obtain nd t4 where 4: "get_node ?c ''x'' ?s = (Inr nd, t4)" "managed (N_Meta nd)"
    using managed_world_runs(5) unfolding managed_world_nodes by blast
  from managed_machines_left_alone [OF open_policy_guards 1 2 3 4] show ?thesis by blast
qed


end
